(* ===== verification/Embive_Prelude.thy ===== *)
theory Embive_Prelude
  imports "HOL-Library.Word" "HOL-Library.Signed_Division"
begin

text \<open>
  Shared vocabulary of the development: the machine integer types of the Rust code, the
  combinator for the question-mark operator, the little-endian byte conversions of the Rust
  standard library, the bit-range predicates used in the well-formedness conditions of the
  instruction formats, and the collections of rewrite rules that the component theories extend.

  \<^item> \<open>u8\<close>, \<open>u16\<close>, \<open>u32\<close> are words; \<open>i32\<close> is the same 32-bit word, read with \<open>sint\<close> where the
    code compares or shifts a signed value. A Rust cast between \<open>u32\<close> and \<open>i32\<close> keeps the bits
    and is therefore the identity of the model.
  \<^item> A Rust shift by a constant is \<open>push_bit\<close>, \<open>drop_bit\<close> (unsigned right shift) or
    \<open>signed_drop_bit\<close> (signed right shift); a narrowing cast is \<open>ucast\<close>, a widening cast
    of a signed value is \<open>scast\<close>.
  \<^item> A method that takes \<open>&mut self\<close> and returns a \<open>Result\<close> is a function to a pair of the
    result and the new state, so that what an error leaves behind in the state is modelled too.
\<close>

unbundle bit_operations_syntax

section \<open>Types\<close>

type_synonym u8 = "8 word"
type_synonym u16 = "16 word"
type_synonym u32 = "32 word"
type_synonym i32 = "32 word"
type_synonym ('e, 'a, 's) outcome = "('e + 'a) \<times> 's"

named_theorems format_defs \<open>definitions of the instruction formats\<close>
named_theorems exec_defs \<open>definitions of the instruction executors\<close>
named_theorems convert_defs \<open>definitions of the instruction converters\<close>

section \<open>The question-mark operator\<close>

text \<open>
  \<open>question r s k\<close> is \<open>let v = r?; k\<close> in a method whose state is \<open>s\<close> at that point: an error
  returns at once and leaves the state as it is, a value is passed on. \<open>question_state\<close> is the
  same for a call that itself returns a new state.
\<close>

definition question :: "'e + 'a \<Rightarrow> 's \<Rightarrow> ('a \<Rightarrow> ('e, 'b, 's) outcome) \<Rightarrow> ('e, 'b, 's) outcome" where
  "question r s k = (case r of Inl e \<Rightarrow> (Inl e, s) | Inr v \<Rightarrow> k v)"

lemma question_simps [simp]:
  "question (Inl e) s k = (Inl e, s)"
  "question (Inr v) s k = k v"
  by (simp_all add: question_def)

lemma question_split:
  "P (question r s k) \<longleftrightarrow> (\<forall>e. r = Inl e \<longrightarrow> P (Inl e, s)) \<and> (\<forall>v. r = Inr v \<longrightarrow> P (k v))"
  by (simp add: question_def split: sum.split)

lemma question_split_asm:
  "P (question r s k) \<longleftrightarrow>
     \<not> ((\<exists>e. r = Inl e \<and> \<not> P (Inl e, s)) \<or> (\<exists>v. r = Inr v \<and> \<not> P (k v)))"
  by (simp add: question_def split: sum.split)

lemmas question_splits = question_split question_split_asm

lemma question_eq_Inr:
  "question r s k = (Inr b, s') \<longleftrightarrow> (\<exists>v. r = Inr v \<and> k v = (Inr b, s'))"
  by (auto split: question_splits)

section \<open>Bit ranges\<close>

text \<open>
  \<open>fits_unsigned k w\<close>: the value uses the low \<open>k\<close> bits only. \<open>fits_signed k w\<close>: the value is
  the sign extension of its low \<open>k + 1\<close> bits. \<open>aligned_to k w\<close>: the low \<open>k\<close> bits are zero.
\<close>

definition fits_unsigned :: "nat \<Rightarrow> 'a::len word \<Rightarrow> bool" where
  "fits_unsigned k w \<longleftrightarrow> take_bit k w = w"

definition fits_signed :: "nat \<Rightarrow> 'a::len word \<Rightarrow> bool" where
  "fits_signed k w \<longleftrightarrow> signed_take_bit k w = w"

definition aligned_to :: "nat \<Rightarrow> 'a::len word \<Rightarrow> bool" where
  "aligned_to k w \<longleftrightarrow> (\<forall>n<k. \<not> bit w n)"

lemma fits_unsigned_bits:
  "fits_unsigned k w \<longleftrightarrow> (\<forall>n<LENGTH('a). k \<le> n \<longrightarrow> \<not> bit w n)" for w :: "'a::len word"
  by (auto simp: fits_unsigned_def bit_eq_iff bit_simps not_less dest: bit_imp_le_length)

lemma fits_signed_bits:
  "fits_signed k w \<longleftrightarrow> (\<forall>n<LENGTH('a). k < n \<longrightarrow> bit w n = bit w k)" for w :: "'a::len word"
proof -
  have "fits_signed k w \<longleftrightarrow> (\<forall>n<LENGTH('a). bit w (min k n) = bit w n)"
    by (simp add: fits_signed_def bit_eq_iff bit_simps)
  also have "\<dots> \<longleftrightarrow> (\<forall>n<LENGTH('a). k < n \<longrightarrow> bit w n = bit w k)"
    by (metis less_imp_le min.absorb1 min.absorb2 not_le)
  finally show ?thesis .
qed

lemmas fits_bits = fits_unsigned_bits fits_signed_bits aligned_to_def

text \<open>
  Equality of words as equality of their bits at the numeral positions: with \<open>bit_simps\<close> the
  simplifier evaluates every shift, mask and cast at every position, which decides the equations
  between encoders and decoders of this development.
\<close>

lemma all_less_numeral:
  "(\<forall>n<numeral k. P n) \<longleftrightarrow> (\<forall>n<pred_numeral k. P n) \<and> P (pred_numeral k)"
  by (auto simp: numeral_eq_Suc less_Suc_eq)

lemma word_eq_bits: "x = y \<longleftrightarrow> (\<forall>n<LENGTH('a). bit x n = bit y n)"
  for x y :: "'a::len word"
  by (auto intro: bit_word_eqI)

lemma word8_eq_bits: "x = y \<longleftrightarrow> (\<forall>n<8. bit x n = bit y n)" for x y :: u8
  by (simp add: word_eq_bits)

lemma word16_eq_bits: "x = y \<longleftrightarrow> (\<forall>n<16. bit x n = bit y n)" for x y :: u16
  by (simp add: word_eq_bits)

lemma word32_eq_bits: "x = y \<longleftrightarrow> (\<forall>n<32. bit x n = bit y n)" for x y :: u32
  by (simp add: word_eq_bits)

text \<open>A three-bit register number and the offset of the compressed registers do not overlap.\<close>

lemma bit_compressed_register:
  "bit (ucast (v AND 7) + 8 :: u8) n \<longleftrightarrow> bit (ucast (v AND 7) OR 8 :: u8) n" for v :: u32
proof -
  have "ucast (v AND 7) AND (8 :: u8) = 0"
    by (simp add: word8_eq_bits all_less_numeral bit_simps)
  then show ?thesis by (simp add: disjunctive_add_eq_or)
qed

lemma fits_unsigned_less:
  "k < LENGTH('a) \<Longrightarrow> fits_unsigned k (w :: 'a::len word) \<longleftrightarrow> unat w < 2 ^ k"
  unfolding fits_unsigned_def
  by (metis take_bit_nat_eq_self_iff unsigned_take_bit_eq word_unat_eq_iff)

lemma add_offset_eq_iff: "a + 8 = c \<longleftrightarrow> a = c - 8" for a c :: u8
  by (simp add: eq_diff_eq)

lemma position_3: "Suc (Suc (Suc 0)) = 3"
  by simp

lemma bit_times_2: "bit (w * 2) n \<longleftrightarrow> n < 32 \<and> 0 < n \<and> bit w (n - 1)" for w :: u32
proof -
  have "w * 2 = push_bit 1 w" by (simp add: push_bit_eq_mult)
  then show ?thesis by (simp only: bit_push_bit_iff) (auto dest: bit_imp_le_length)
qed

lemma bit_above_width:
  "8 \<le> n \<Longrightarrow> bit (a :: u8) n = False"
  "16 \<le> n \<Longrightarrow> bit (b :: u16) n = False"
  "32 \<le> n \<Longrightarrow> bit (c :: u32) n = False"
  by (auto dest: bit_imp_le_length)

lemmas bit_blast =
  word8_eq_bits word16_eq_bits word32_eq_bits all_less_numeral bit_above_width
  bit_compressed_register bit_times_2 position_3 bit_simps

lemma low5_of_or:
  "take_bit 5 w = 0 \<Longrightarrow> fits_unsigned 5 op \<Longrightarrow> (w OR op) AND 0b11111 = op" for w op :: u32
  by (simp add: bit_blast fits_bits)

section \<open>Wrapping arithmetic\<close>

text \<open>
  The methods \<open>wrapping_shl\<close>, \<open>wrapping_shr\<close> and \<open>wrapping_div\<close> of the Rust integers: the
  shift distance is taken modulo the width, and the one division that overflows
  (\<open>i32::MIN / -1\<close>) wraps. Callers check for a zero divisor first, as the code does.
\<close>

definition wrapping_shl :: "u32 \<Rightarrow> u32 \<Rightarrow> u32" where
  "wrapping_shl x n = push_bit (unat (n AND 31)) x"

definition wrapping_shr_u :: "u32 \<Rightarrow> u32 \<Rightarrow> u32" where
  "wrapping_shr_u x n = drop_bit (unat (n AND 31)) x"

definition wrapping_shr_s :: "i32 \<Rightarrow> u32 \<Rightarrow> i32" where
  "wrapping_shr_s x n = signed_drop_bit (unat (n AND 31)) x"

definition wrapping_div_s :: "i32 \<Rightarrow> i32 \<Rightarrow> i32" where
  "wrapping_div_s a b = word_of_int (sint a sdiv sint b)"

definition wrapping_rem_s :: "i32 \<Rightarrow> i32 \<Rightarrow> i32" where
  "wrapping_rem_s a b = word_of_int (sint a smod sint b)"

lemma wrapping_div_rem_s: "wrapping_div_s a b * b + wrapping_rem_s a b = a"
proof -
  have "word_of_int (sint a sdiv sint b * sint b + sint a smod sint b) = a"
    by (simp add: sdiv_mult_smod_eq)
  then show ?thesis
    by (simp add: wrapping_div_s_def wrapping_rem_s_def)
qed

section \<open>Little-endian bytes\<close>

definition to_le_bytes :: "'a::len word \<Rightarrow> u8 list" where
  "to_le_bytes w = map (\<lambda>i. ucast (drop_bit (8 * i) w)) [0..<LENGTH('a) div 8]"

fun from_le_bytes :: "u8 list \<Rightarrow> 'a::len word" where
  "from_le_bytes [] = 0"
| "from_le_bytes (b # bs) = ucast b OR push_bit 8 (from_le_bytes bs)"

lemma length_to_le_bytes [simp]: "length (to_le_bytes (w :: 'a::len word)) = LENGTH('a) div 8"
  by (simp add: to_le_bytes_def)

lemma bit_from_le_bytes:
  "bit (from_le_bytes bs :: 'a::len word) n \<longleftrightarrow>
     n < LENGTH('a) \<and> n div 8 < length bs \<and> bit (bs ! (n div 8)) (n mod 8)"
proof (induction bs arbitrary: n)
  case Nil
  then show ?case by simp
next
  case (Cons b bs)
  show ?case
  proof (cases "n < 8")
    case True
    then show ?thesis by (auto simp: bit_simps)
  next
    case False
    then obtain m where n: "n = m + 8" by (metis add.commute le_add_diff_inverse not_less)
    have "\<not> bit b n" using False by (auto dest: bit_imp_le_length)
    moreover have "n div 8 = Suc (m div 8)" "n mod 8 = m mod 8" using n by auto
    ultimately show ?thesis using Cons.IH[of m] n by (auto simp: bit_simps)
  qed
qed

lemma from_to_le_bytes: "8 dvd LENGTH('a) \<Longrightarrow> from_le_bytes (to_le_bytes w) = w"
  for w :: "'a::len word"
proof (rule bit_word_eqI)
  fix n assume d: "8 dvd LENGTH('a)" and n: "n < LENGTH('a)"
  then have "n div 8 < LENGTH('a) div 8" by (metis dvd_mult_div_cancel less_mult_imp_div_less mult.commute)
  then show "bit (from_le_bytes (to_le_bytes w) :: 'a word) n = bit w n"
    using n by (simp add: bit_from_le_bytes to_le_bytes_def bit_simps)
qed

section \<open>Slices\<close>

text \<open>The bytes \<open>xs[i..j]\<close>, and \<open>xs[i..i + ys.len()].copy_from_slice(ys)\<close>, within bounds.\<close>

definition slice_get :: "'a list \<Rightarrow> nat \<Rightarrow> nat \<Rightarrow> 'a list" where
  "slice_get xs i j = take (j - i) (drop i xs)"

definition slice_put :: "'a list \<Rightarrow> nat \<Rightarrow> 'a list \<Rightarrow> 'a list" where
  "slice_put xs i ys = take i xs @ ys @ drop (i + length ys) xs"

lemma length_slice_get [simp]: "i \<le> j \<Longrightarrow> j \<le> length xs \<Longrightarrow> length (slice_get xs i j) = j - i"
  by (simp add: slice_get_def)

lemma length_slice_put [simp]:
  "i + length ys \<le> length xs \<Longrightarrow> length (slice_put xs i ys) = length xs"
  by (simp add: slice_put_def)

lemma slice_get_put [simp]:
  "i + length ys \<le> length xs \<Longrightarrow> slice_get (slice_put xs i ys) i (i + length ys) = ys"
  by (simp add: slice_get_def slice_put_def)

lemma slice_put_empty: "slice_put xs i [] = xs"
  by (simp add: slice_put_def)

lemma slice_get_empty: "slice_get xs i i = []"
  by (simp add: slice_get_def)

lemma nth_slice_get: "i + k < j \<Longrightarrow> j \<le> length xs \<Longrightarrow> slice_get xs i j ! k = xs ! (i + k)"
  by (simp add: slice_get_def)

lemma nth_slice_put:
  "i + length ys \<le> length xs \<Longrightarrow> k < length xs \<Longrightarrow>
   slice_put xs i ys ! k = (if i \<le> k \<and> k < i + length ys then ys ! (k - i) else xs ! k)"
  by (auto simp: slice_put_def nth_append min_def)

lemma slice_get_put_disjoint:
  assumes "i + length ys \<le> length xs" "a \<le> b" "b \<le> length xs" "b \<le> i \<or> i + length ys \<le> a"
  shows "slice_get (slice_put xs i ys) a b = slice_get xs a b"
proof (rule nth_equalityI)
  show "length (slice_get (slice_put xs i ys) a b) = length (slice_get xs a b)"
    using assms by simp
  fix k assume "k < length (slice_get (slice_put xs i ys) a b)"
  then show "slice_get (slice_put xs i ys) a b ! k = slice_get xs a b ! k"
    using assms by (auto simp: nth_slice_get nth_slice_put)
qed

section \<open>Branch prediction hints\<close>

text \<open>
  The hints of \<^verbatim>\<open>interpreter/utils.rs\<close>: \<open>cold\<close> does nothing, and the hints return their argument. The
  theories of the interpreter therefore write the conditions without them.
\<close>

definition cold :: unit where
  "cold = ()"

definition likely :: "bool \<Rightarrow> bool" where
  "likely b = (let _ = (if \<not> b then cold else ()) in b)"

definition unlikely :: "bool \<Rightarrow> bool" where
  "unlikely b = (let _ = (if b then cold else ()) in b)"

lemma likely_id [simp]: "likely b = b" "unlikely b = b"
  by (simp_all add: likely_def unlikely_def)

end
