(* ===== verification/Format.thy ===== *)
theory Format
  imports Embive_Prelude
begin

text \<open>
  Model of \<^verbatim>\<open>src/format.rs\<close>: the instruction formats. Each format is a record of the fields
  of the Rust struct; \<open>X_from_riscv\<close>, \<open>X_from_embive\<close> and \<open>X_to_embive\<close> are the three methods
  of the \<open>Format\<close> trait for it, and \<open>X_wf\<close> is the range of field values that its decoders
  produce. A 16-bit format reads a 32-bit word whose upper half belongs to the next instruction.

  The trait is the locale \<open>instruction_format\<close>; its laws say that the decoders stay in the
  range, that encoding leaves the five opcode bits free, and that decoding a tagged encoding gives
  the fields back. \<open>half_format\<close> adds that the encoding fits in 16 bits and that both decoders
  ignore the upper half of the word. Every format of the file interprets one of the two.
\<close>

section \<open>Size\<close>

datatype Size = Half | Word

definition size_bytes :: "Size \<Rightarrow> nat" where
  "size_bytes s = (case s of Half \<Rightarrow> 2 | Word \<Rightarrow> 4)"

definition COMPRESSED_REGISTER_OFFSET :: u8 where
  "COMPRESSED_REGISTER_OFFSET = 8"

section \<open>The 32-bit formats\<close>

subsection \<open>R-Type\<close>

record TypeR =
  r_rd :: u8
  r_rs1 :: u8
  r_rs2 :: u8
  r_func :: u16

definition TypeR_from_riscv :: "u32 \<Rightarrow> TypeR" where [format_defs]:
  "TypeR_from_riscv inst = \<lparr>
     r_rd = ucast (drop_bit 7 inst AND 0b11111),
     r_rs1 = ucast (drop_bit 15 inst AND 0b11111),
     r_rs2 = ucast (drop_bit 20 inst AND 0b11111),
     r_func = ucast ((drop_bit 22 inst AND push_bit 3 0b1111111) OR (drop_bit 12 inst AND 0b111))\<rparr>"

definition TypeR_from_embive :: "u32 \<Rightarrow> TypeR" where [format_defs]:
  "TypeR_from_embive inst = \<lparr>
     r_rd = ucast (drop_bit 17 inst AND 0b11111),
     r_rs1 = ucast (drop_bit 22 inst AND 0b11111),
     r_rs2 = ucast (drop_bit 27 inst AND 0b11111),
     r_func = ucast (drop_bit 7 inst AND 0b1111111111)\<rparr>"

definition TypeR_to_embive :: "TypeR \<Rightarrow> u32" where [format_defs]:
  "TypeR_to_embive f =
     push_bit 17 (ucast (r_rd f)) OR push_bit 22 (ucast (r_rs1 f))
       OR push_bit 27 (ucast (r_rs2 f)) OR push_bit 7 (ucast (r_func f))"

definition TypeR_wf :: "TypeR \<Rightarrow> bool" where [format_defs]:
  "TypeR_wf f \<longleftrightarrow> fits_unsigned 5 (r_rd f) \<and> fits_unsigned 5 (r_rs1 f)
     \<and> fits_unsigned 5 (r_rs2 f) \<and> fits_unsigned 10 (r_func f)"

subsection \<open>I-Type\<close>

record TypeI =
  i_rd_rs2 :: u8
  i_rs1 :: u8
  i_imm :: i32
  i_func :: u8

definition TypeI_from_riscv :: "u32 \<Rightarrow> TypeI" where [format_defs]:
  "TypeI_from_riscv inst = \<lparr>
     i_rd_rs2 = ucast (drop_bit 7 inst AND 0b11111),
     i_rs1 = ucast (drop_bit 15 inst AND 0b11111),
     i_imm = signed_drop_bit 20 (inst AND push_bit 20 0b111111111111),
     i_func = ucast (drop_bit 12 inst AND 0b111)\<rparr>"

definition TypeI_from_embive :: "u32 \<Rightarrow> TypeI" where [format_defs]:
  "TypeI_from_embive inst = \<lparr>
     i_rd_rs2 = ucast (drop_bit 10 inst AND 0b11111),
     i_rs1 = ucast (drop_bit 15 inst AND 0b11111),
     i_imm = signed_drop_bit 20 (inst AND push_bit 20 0b111111111111),
     i_func = ucast (drop_bit 7 inst AND 0b111)\<rparr>"

definition TypeI_to_embive :: "TypeI \<Rightarrow> u32" where [format_defs]:
  "TypeI_to_embive f =
     push_bit 10 (ucast (i_rd_rs2 f)) OR push_bit 7 (ucast (i_func f))
       OR push_bit 15 (ucast (i_rs1 f)) OR push_bit 20 (i_imm f AND 0b111111111111)"

definition TypeI_wf :: "TypeI \<Rightarrow> bool" where [format_defs]:
  "TypeI_wf f \<longleftrightarrow> fits_unsigned 5 (i_rd_rs2 f) \<and> fits_unsigned 5 (i_rs1 f)
     \<and> fits_signed 11 (i_imm f) \<and> fits_unsigned 3 (i_func f)"

subsection \<open>S-Type\<close>

record TypeS =
  s_rs1 :: u8
  s_rs2 :: u8
  s_imm :: i32
  s_func :: u8

definition TypeS_from_riscv :: "u32 \<Rightarrow> TypeS" where [format_defs]:
  "TypeS_from_riscv inst = \<lparr>
     s_rs1 = ucast (drop_bit 15 inst AND 0b11111),
     s_rs2 = ucast (drop_bit 20 inst AND 0b11111),
     s_imm = signed_drop_bit 20
       ((inst AND push_bit 25 0b1111111) OR push_bit 13 (inst AND push_bit 7 0b11111)),
     s_func = ucast (drop_bit 12 inst AND 0b111)\<rparr>"

definition TypeS_from_embive :: "u32 \<Rightarrow> TypeS" where [format_defs]:
  "TypeS_from_embive inst = \<lparr>
     s_rs1 = ucast (drop_bit 15 inst AND 0b11111),
     s_rs2 = ucast (drop_bit 10 inst AND 0b11111),
     s_imm = signed_drop_bit 20 (inst AND push_bit 20 0b111111111111),
     s_func = ucast (drop_bit 7 inst AND 0b111)\<rparr>"

definition TypeS_to_embive :: "TypeS \<Rightarrow> u32" where [format_defs]:
  "TypeS_to_embive f =
     push_bit 20 (s_imm f) OR push_bit 7 (ucast (s_func f))
       OR push_bit 10 (ucast (s_rs2 f)) OR push_bit 15 (ucast (s_rs1 f))"

definition TypeS_wf :: "TypeS \<Rightarrow> bool" where [format_defs]:
  "TypeS_wf f \<longleftrightarrow> fits_unsigned 5 (s_rs1 f) \<and> fits_unsigned 5 (s_rs2 f)
     \<and> fits_signed 11 (s_imm f) \<and> fits_unsigned 3 (s_func f)"

subsection \<open>B-Type\<close>

record TypeB =
  b_rs1 :: u8
  b_rs2 :: u8
  b_imm :: i32
  b_func :: u8

definition TypeB_from_riscv :: "u32 \<Rightarrow> TypeB" where [format_defs]:
  "TypeB_from_riscv inst = \<lparr>
     b_rs1 = ucast (drop_bit 15 inst AND 0b11111),
     b_rs2 = ucast (drop_bit 20 inst AND 0b11111),
     b_imm = signed_drop_bit 19
       ((inst AND push_bit 31 0b1)
         OR push_bit 23 (inst AND push_bit 7 0b1)
         OR drop_bit 1 (inst AND push_bit 25 0b111111)
         OR push_bit 12 (inst AND push_bit 8 0b1111)),
     b_func = ucast (drop_bit 12 inst AND 0b111)\<rparr>"

definition TypeB_from_embive :: "u32 \<Rightarrow> TypeB" where [format_defs]:
  "TypeB_from_embive inst = \<lparr>
     b_rs1 = ucast (drop_bit 10 inst AND 0b11111),
     b_rs2 = ucast (drop_bit 15 inst AND 0b11111),
     b_imm = signed_drop_bit 19 (inst AND push_bit 20 0b111111111111),
     b_func = ucast (drop_bit 7 inst AND 0b111)\<rparr>"

definition TypeB_to_embive :: "TypeB \<Rightarrow> u32" where [format_defs]:
  "TypeB_to_embive f =
     push_bit 19 (b_imm f) OR push_bit 7 (ucast (b_func f))
       OR push_bit 10 (ucast (b_rs1 f)) OR push_bit 15 (ucast (b_rs2 f))"

definition TypeB_wf :: "TypeB \<Rightarrow> bool" where [format_defs]:
  "TypeB_wf f \<longleftrightarrow> fits_unsigned 5 (b_rs1 f) \<and> fits_unsigned 5 (b_rs2 f)
     \<and> fits_signed 12 (b_imm f) \<and> aligned_to 1 (b_imm f) \<and> fits_unsigned 3 (b_func f)"

subsection \<open>U-Type\<close>

record TypeU =
  u_rd :: u8
  u_imm :: i32

definition TypeU_from_riscv :: "u32 \<Rightarrow> TypeU" where [format_defs]:
  "TypeU_from_riscv inst = \<lparr>
     u_rd = ucast (drop_bit 7 inst AND 0b11111),
     u_imm = inst AND push_bit 12 0b11111111111111111111\<rparr>"

definition TypeU_from_embive :: "u32 \<Rightarrow> TypeU" where [format_defs]:
  "TypeU_from_embive inst = TypeU_from_riscv inst"

definition TypeU_to_embive :: "TypeU \<Rightarrow> u32" where [format_defs]:
  "TypeU_to_embive f =
     push_bit 7 (ucast (u_rd f)) OR (u_imm f AND push_bit 12 0b11111111111111111111)"

definition TypeU_wf :: "TypeU \<Rightarrow> bool" where [format_defs]:
  "TypeU_wf f \<longleftrightarrow> fits_unsigned 5 (u_rd f) \<and> aligned_to 12 (u_imm f)"

subsection \<open>J-Type\<close>

record TypeJ =
  j_rd :: u8
  j_imm :: i32

definition TypeJ_from_riscv :: "u32 \<Rightarrow> TypeJ" where [format_defs]:
  "TypeJ_from_riscv inst = \<lparr>
     j_rd = ucast (drop_bit 7 inst AND 0b11111),
     j_imm = signed_drop_bit 11
       ((inst AND push_bit 31 0b1)
         OR push_bit 11 (inst AND push_bit 12 0b11111111)
         OR push_bit 2 (inst AND push_bit 20 0b1)
         OR drop_bit 9 (inst AND push_bit 21 0b1111111111))\<rparr>"

definition TypeJ_from_embive :: "u32 \<Rightarrow> TypeJ" where [format_defs]:
  "TypeJ_from_embive inst = \<lparr>
     j_rd = ucast (drop_bit 7 inst AND 0b11111),
     j_imm = signed_drop_bit 11 (inst AND push_bit 12 0b11111111111111111111)\<rparr>"

definition TypeJ_to_embive :: "TypeJ \<Rightarrow> u32" where [format_defs]:
  "TypeJ_to_embive f = push_bit 7 (ucast (j_rd f)) OR push_bit 11 (j_imm f)"

definition TypeJ_wf :: "TypeJ \<Rightarrow> bool" where [format_defs]:
  "TypeJ_wf f \<longleftrightarrow> fits_unsigned 5 (j_rd f) \<and> fits_signed 20 (j_imm f) \<and> aligned_to 1 (j_imm f)"

section \<open>The Format trait\<close>

text \<open>
  What the macros \<^verbatim>\<open>embive_raw!\<close> and \<^verbatim>\<open>decode_instruction!\<close> rely on. \<open>op\<close> is an opcode: a
  number of five bits.
\<close>

locale instruction_format =
  fixes from_riscv :: "u32 \<Rightarrow> 'f"
    and from_embive :: "u32 \<Rightarrow> 'f"
    and to_embive :: "'f \<Rightarrow> u32"
    and wf :: "'f \<Rightarrow> bool"
  assumes from_riscv_wf: "wf (from_riscv w)"
    and from_embive_wf: "wf (from_embive w)"
    and opcode_bits_free: "wf f \<Longrightarrow> take_bit 5 (to_embive f) = 0"
    and decode_encode: "wf f \<Longrightarrow> fits_unsigned 5 op \<Longrightarrow> from_embive (to_embive f OR op) = f"
begin

lemma opcode_of_encoding: "wf f \<Longrightarrow> fits_unsigned 5 op \<Longrightarrow> (to_embive f OR op) AND 0b11111 = op"
  by (rule low5_of_or) (rule opcode_bits_free)

lemma decode_transpiled:
  "fits_unsigned 5 op \<Longrightarrow> from_embive (to_embive (from_riscv w) OR op) = from_riscv w"
  by (rule decode_encode) (rule from_riscv_wf)

lemma to_embive_inj: "wf f \<Longrightarrow> wf g \<Longrightarrow> to_embive f = to_embive g \<Longrightarrow> f = g"
  using decode_encode [of f 0] decode_encode [of g 0] by (simp add: fits_unsigned_def)

end

locale half_format = instruction_format +
  assumes encoding_fits: "wf f \<Longrightarrow> fits_unsigned 16 (to_embive f)"
    and from_embive_low: "from_embive (take_bit 16 w) = from_embive w"
    and from_riscv_low: "from_riscv (take_bit 16 w) = from_riscv w"
begin

text \<open>A 16-bit instruction is decoded from a word whose upper half is arbitrary.\<close>

lemma tagged_fits: "wf f \<Longrightarrow> fits_unsigned 5 op \<Longrightarrow> fits_unsigned 16 (to_embive f OR op)"
  using encoding_fits [of f] by (auto simp: fits_unsigned_bits bit_simps)

lemma decode_encode_low:
  assumes "wf f" "fits_unsigned 5 op" "take_bit 16 w = to_embive f OR op"
  shows "from_embive w = f"
  using from_embive_low [of w] decode_encode [OF assms(1,2)] assms(3) by simp

end

section \<open>The 32-bit formats satisfy the laws\<close>

interpretation fmt_TypeR: instruction_format TypeR_from_riscv TypeR_from_embive TypeR_to_embive TypeR_wf
proof unfold_locales
  fix w op :: u32 and f :: TypeR
  show "TypeR_wf (TypeR_from_riscv w)" "TypeR_wf (TypeR_from_embive w)"
    by (simp_all add: format_defs fits_bits bit_blast COMPRESSED_REGISTER_OFFSET_def)
  show "TypeR_wf f \<Longrightarrow> take_bit 5 (TypeR_to_embive f) = 0"
    by (simp add: format_defs fits_bits bit_blast COMPRESSED_REGISTER_OFFSET_def)
  show "TypeR_wf f \<Longrightarrow> fits_unsigned 5 op \<Longrightarrow> TypeR_from_embive (TypeR_to_embive f OR op) = f"
    by (rule TypeR.equality) (simp_all add: format_defs fits_bits bit_blast COMPRESSED_REGISTER_OFFSET_def)
qed

interpretation fmt_TypeI: instruction_format TypeI_from_riscv TypeI_from_embive TypeI_to_embive TypeI_wf
proof unfold_locales
  fix w op :: u32 and f :: TypeI
  show "TypeI_wf (TypeI_from_riscv w)" "TypeI_wf (TypeI_from_embive w)"
    by (simp_all add: format_defs fits_bits bit_blast COMPRESSED_REGISTER_OFFSET_def)
  show "TypeI_wf f \<Longrightarrow> take_bit 5 (TypeI_to_embive f) = 0"
    by (simp add: format_defs fits_bits bit_blast COMPRESSED_REGISTER_OFFSET_def)
  show "TypeI_wf f \<Longrightarrow> fits_unsigned 5 op \<Longrightarrow> TypeI_from_embive (TypeI_to_embive f OR op) = f"
    by (rule TypeI.equality) (simp_all add: format_defs fits_bits bit_blast COMPRESSED_REGISTER_OFFSET_def)
qed

interpretation fmt_TypeS: instruction_format TypeS_from_riscv TypeS_from_embive TypeS_to_embive TypeS_wf
proof unfold_locales
  fix w op :: u32 and f :: TypeS
  show "TypeS_wf (TypeS_from_riscv w)" "TypeS_wf (TypeS_from_embive w)"
    by (simp_all add: format_defs fits_bits bit_blast COMPRESSED_REGISTER_OFFSET_def)
  show "TypeS_wf f \<Longrightarrow> take_bit 5 (TypeS_to_embive f) = 0"
    by (simp add: format_defs fits_bits bit_blast COMPRESSED_REGISTER_OFFSET_def)
  show "TypeS_wf f \<Longrightarrow> fits_unsigned 5 op \<Longrightarrow> TypeS_from_embive (TypeS_to_embive f OR op) = f"
    by (rule TypeS.equality) (simp_all add: format_defs fits_bits bit_blast COMPRESSED_REGISTER_OFFSET_def)
qed

interpretation fmt_TypeB: instruction_format TypeB_from_riscv TypeB_from_embive TypeB_to_embive TypeB_wf
proof unfold_locales
  fix w op :: u32 and f :: TypeB
  show "TypeB_wf (TypeB_from_riscv w)" "TypeB_wf (TypeB_from_embive w)"
    by (simp_all add: format_defs fits_bits bit_blast COMPRESSED_REGISTER_OFFSET_def)
  show "TypeB_wf f \<Longrightarrow> take_bit 5 (TypeB_to_embive f) = 0"
    by (simp add: format_defs fits_bits bit_blast COMPRESSED_REGISTER_OFFSET_def)
  show "TypeB_wf f \<Longrightarrow> fits_unsigned 5 op \<Longrightarrow> TypeB_from_embive (TypeB_to_embive f OR op) = f"
    by (rule TypeB.equality) (simp_all add: format_defs fits_bits bit_blast COMPRESSED_REGISTER_OFFSET_def)
qed

interpretation fmt_TypeU: instruction_format TypeU_from_riscv TypeU_from_embive TypeU_to_embive TypeU_wf
proof unfold_locales
  fix w op :: u32 and f :: TypeU
  show "TypeU_wf (TypeU_from_riscv w)" "TypeU_wf (TypeU_from_embive w)"
    by (simp_all add: format_defs fits_bits bit_blast COMPRESSED_REGISTER_OFFSET_def)
  show "TypeU_wf f \<Longrightarrow> take_bit 5 (TypeU_to_embive f) = 0"
    by (simp add: format_defs fits_bits bit_blast COMPRESSED_REGISTER_OFFSET_def)
  show "TypeU_wf f \<Longrightarrow> fits_unsigned 5 op \<Longrightarrow> TypeU_from_embive (TypeU_to_embive f OR op) = f"
    by (rule TypeU.equality) (simp_all add: format_defs fits_bits bit_blast COMPRESSED_REGISTER_OFFSET_def)
qed

interpretation fmt_TypeJ: instruction_format TypeJ_from_riscv TypeJ_from_embive TypeJ_to_embive TypeJ_wf
proof unfold_locales
  fix w op :: u32 and f :: TypeJ
  show "TypeJ_wf (TypeJ_from_riscv w)" "TypeJ_wf (TypeJ_from_embive w)"
    by (simp_all add: format_defs fits_bits bit_blast COMPRESSED_REGISTER_OFFSET_def)
  show "TypeJ_wf f \<Longrightarrow> take_bit 5 (TypeJ_to_embive f) = 0"
    by (simp add: format_defs fits_bits bit_blast COMPRESSED_REGISTER_OFFSET_def)
  show "TypeJ_wf f \<Longrightarrow> fits_unsigned 5 op \<Longrightarrow> TypeJ_from_embive (TypeJ_to_embive f OR op) = f"
    by (rule TypeJ.equality) (simp_all add: format_defs fits_bits bit_blast COMPRESSED_REGISTER_OFFSET_def)
qed

end
