(* ===== verification/Format_Compressed.thy ===== *)
theory Format_Compressed
  imports Format
begin

text \<open>
  Model of the 16-bit formats of \<^verbatim>\<open>src/format.rs\<close> (the RISC-V C extension). The decoders take
  the 32-bit word that was fetched, of which only the lower half is the instruction. A cast to
  \<open>i8\<close> or \<open>i16\<close> in the code is the sign extension of the immediate.
\<close>

section \<open>CIW and CL\<close>

record TypeCIW =
  ciw_rd :: u8
  ciw_imm :: i32

definition TypeCIW_from_riscv :: "u32 \<Rightarrow> TypeCIW" where [format_defs]:
  "TypeCIW_from_riscv inst = \<lparr>
     ciw_rd = ucast (drop_bit 2 inst AND 0b111) + COMPRESSED_REGISTER_OFFSET,
     ciw_imm = drop_bit 4 (inst AND push_bit 6 0b1)
       OR drop_bit 2 (inst AND push_bit 5 0b1)
       OR drop_bit 7 (inst AND push_bit 11 0b11)
       OR drop_bit 1 (inst AND push_bit 7 0b1111)\<rparr>"

definition TypeCIW_from_embive :: "u32 \<Rightarrow> TypeCIW" where [format_defs]:
  "TypeCIW_from_embive inst = \<lparr>
     ciw_rd = ucast (drop_bit 5 inst AND 0b111) + COMPRESSED_REGISTER_OFFSET,
     ciw_imm = drop_bit 6 (inst AND push_bit 8 0b11111111)\<rparr>"

definition TypeCIW_to_embive :: "TypeCIW \<Rightarrow> u32" where [format_defs]:
  "TypeCIW_to_embive f =
     push_bit 5 (ucast (ciw_rd f - COMPRESSED_REGISTER_OFFSET))
       OR (push_bit 6 (ciw_imm f) AND push_bit 8 0b11111111)"

definition TypeCIW_wf :: "TypeCIW \<Rightarrow> bool" where [format_defs]:
  "TypeCIW_wf f \<longleftrightarrow> fits_unsigned 3 (ciw_rd f - COMPRESSED_REGISTER_OFFSET)
     \<and> fits_unsigned 10 (ciw_imm f) \<and> aligned_to 2 (ciw_imm f)"

record TypeCL =
  cl_rd_rs2 :: u8
  cl_rs1 :: u8
  cl_imm :: i32

definition TypeCL_from_riscv :: "u32 \<Rightarrow> TypeCL" where [format_defs]:
  "TypeCL_from_riscv inst = \<lparr>
     cl_rd_rs2 = ucast (drop_bit 2 inst AND 0b111) + COMPRESSED_REGISTER_OFFSET,
     cl_rs1 = ucast (drop_bit 7 inst AND 0b111) + COMPRESSED_REGISTER_OFFSET,
     cl_imm = push_bit 1 (inst AND push_bit 5 0b1)
       OR drop_bit 7 (inst AND push_bit 10 0b111)
       OR drop_bit 4 (inst AND push_bit 6 0b1)\<rparr>"

definition TypeCL_from_embive :: "u32 \<Rightarrow> TypeCL" where [format_defs]:
  "TypeCL_from_embive inst = \<lparr>
     cl_rd_rs2 = ucast (drop_bit 5 inst AND 0b111) + COMPRESSED_REGISTER_OFFSET,
     cl_rs1 = ucast (drop_bit 8 inst AND 0b111) + COMPRESSED_REGISTER_OFFSET,
     cl_imm = drop_bit 9 (inst AND push_bit 11 0b11111)\<rparr>"

definition TypeCL_to_embive :: "TypeCL \<Rightarrow> u32" where [format_defs]:
  "TypeCL_to_embive f =
     push_bit 5 (ucast (cl_rd_rs2 f - COMPRESSED_REGISTER_OFFSET))
       OR push_bit 8 (ucast (cl_rs1 f - COMPRESSED_REGISTER_OFFSET))
       OR push_bit 9 (cl_imm f)"

definition TypeCL_wf :: "TypeCL \<Rightarrow> bool" where [format_defs]:
  "TypeCL_wf f \<longleftrightarrow> fits_unsigned 3 (cl_rd_rs2 f - COMPRESSED_REGISTER_OFFSET)
     \<and> fits_unsigned 3 (cl_rs1 f - COMPRESSED_REGISTER_OFFSET)
     \<and> fits_unsigned 7 (cl_imm f) \<and> aligned_to 2 (cl_imm f)"

section \<open>CI, in its five immediate layouts\<close>

record TypeCI1 =
  ci1_rd_rs1 :: u8
  ci1_imm :: i32

definition TypeCI1_from_riscv :: "u32 \<Rightarrow> TypeCI1" where [format_defs]:
  "TypeCI1_from_riscv inst = \<lparr>
     ci1_rd_rs1 = ucast (drop_bit 7 inst AND 0b11111),
     ci1_imm = scast (signed_drop_bit 2
       (ucast ((inst AND push_bit 2 0b11111) OR drop_bit 5 (inst AND push_bit 12 0b1)) :: u8))\<rparr>"

definition TypeCI1_from_embive :: "u32 \<Rightarrow> TypeCI1" where [format_defs]:
  "TypeCI1_from_embive inst = \<lparr>
     ci1_rd_rs1 = ucast (drop_bit 5 inst AND 0b11111),
     ci1_imm = scast (signed_drop_bit 10 (ucast (inst AND push_bit 10 0b111111) :: u16))\<rparr>"

definition TypeCI1_to_embive :: "TypeCI1 \<Rightarrow> u32" where [format_defs]:
  "TypeCI1_to_embive f =
     push_bit 5 (ucast (ci1_rd_rs1 f)) OR (push_bit 10 (ci1_imm f) AND push_bit 10 0b111111)"

definition TypeCI1_wf :: "TypeCI1 \<Rightarrow> bool" where [format_defs]:
  "TypeCI1_wf f \<longleftrightarrow> fits_unsigned 5 (ci1_rd_rs1 f) \<and> fits_signed 5 (ci1_imm f)"

record TypeCI2 =
  ci2_rd_rs1 :: u8
  ci2_imm :: i32

definition TypeCI2_from_riscv :: "u32 \<Rightarrow> TypeCI2" where [format_defs]:
  "TypeCI2_from_riscv inst = \<lparr>
     ci2_rd_rs1 = ucast (drop_bit 7 inst AND 0b11111),
     ci2_imm = push_bit 2 (scast
       (ucast (drop_bit 5 (inst AND push_bit 12 0b1)
         OR push_bit 2 (inst AND push_bit 3 0b11)
         OR drop_bit 1 (inst AND push_bit 5 0b1)
         OR push_bit 1 (inst AND push_bit 2 0b1)
         OR drop_bit 4 (inst AND push_bit 6 0b1)) :: u8))\<rparr>"

definition TypeCI2_from_embive :: "u32 \<Rightarrow> TypeCI2" where [format_defs]:
  "TypeCI2_from_embive inst = \<lparr>
     ci2_rd_rs1 = ucast (drop_bit 5 inst AND 0b11111),
     ci2_imm = scast (signed_drop_bit 6 (ucast (inst AND push_bit 10 0b111111) :: u16))\<rparr>"

definition TypeCI2_to_embive :: "TypeCI2 \<Rightarrow> u32" where [format_defs]:
  "TypeCI2_to_embive f =
     push_bit 5 (ucast (ci2_rd_rs1 f)) OR (push_bit 6 (ci2_imm f) AND push_bit 10 0b111111)"

definition TypeCI2_wf :: "TypeCI2 \<Rightarrow> bool" where [format_defs]:
  "TypeCI2_wf f \<longleftrightarrow> fits_unsigned 5 (ci2_rd_rs1 f)
     \<and> fits_signed 9 (ci2_imm f) \<and> aligned_to 4 (ci2_imm f)"

record TypeCI3 =
  ci3_rd_rs1 :: u8
  ci3_imm :: i32

definition TypeCI3_from_riscv :: "u32 \<Rightarrow> TypeCI3" where [format_defs]:
  "TypeCI3_from_riscv inst = \<lparr>
     ci3_rd_rs1 = ucast (drop_bit 7 inst AND 0b11111),
     ci3_imm = push_bit 10 (scast
       (ucast ((inst AND push_bit 2 0b11111) OR drop_bit 5 (inst AND push_bit 12 0b1)) :: u8))\<rparr>"

definition TypeCI3_from_embive :: "u32 \<Rightarrow> TypeCI3" where [format_defs]:
  "TypeCI3_from_embive inst = \<lparr>
     ci3_rd_rs1 = ucast (drop_bit 5 inst AND 0b11111),
     ci3_imm = push_bit 2 (scast (ucast (inst AND push_bit 10 0b111111) :: u16))\<rparr>"

definition TypeCI3_to_embive :: "TypeCI3 \<Rightarrow> u32" where [format_defs]:
  "TypeCI3_to_embive f =
     push_bit 5 (ucast (ci3_rd_rs1 f)) OR (drop_bit 2 (ci3_imm f) AND push_bit 10 0b111111)"

definition TypeCI3_wf :: "TypeCI3 \<Rightarrow> bool" where [format_defs]:
  "TypeCI3_wf f \<longleftrightarrow> fits_unsigned 5 (ci3_rd_rs1 f)
     \<and> fits_signed 17 (ci3_imm f) \<and> aligned_to 12 (ci3_imm f)"

record TypeCI4 =
  ci4_rd_rs1 :: u8
  ci4_imm :: i32

definition TypeCI4_from_riscv :: "u32 \<Rightarrow> TypeCI4" where [format_defs]:
  "TypeCI4_from_riscv inst = \<lparr>
     ci4_rd_rs1 = ucast (drop_bit 7 inst AND 0b11111),
     ci4_imm = drop_bit 2
       ((inst AND push_bit 2 0b11111) OR drop_bit 5 (inst AND push_bit 12 0b1))\<rparr>"

definition TypeCI4_from_embive :: "u32 \<Rightarrow> TypeCI4" where [format_defs]:
  "TypeCI4_from_embive inst = \<lparr>
     ci4_rd_rs1 = ucast (drop_bit 5 inst AND 0b11111),
     ci4_imm = drop_bit 10 (inst AND push_bit 10 0b111111)\<rparr>"

definition TypeCI4_to_embive :: "TypeCI4 \<Rightarrow> u32" where [format_defs]:
  "TypeCI4_to_embive f = push_bit 5 (ucast (ci4_rd_rs1 f)) OR push_bit 10 (ci4_imm f)"

definition TypeCI4_wf :: "TypeCI4 \<Rightarrow> bool" where [format_defs]:
  "TypeCI4_wf f \<longleftrightarrow> fits_unsigned 5 (ci4_rd_rs1 f) \<and> fits_unsigned 6 (ci4_imm f)"

record TypeCI5 =
  ci5_rd_rs1 :: u8
  ci5_imm :: i32

definition TypeCI5_from_riscv :: "u32 \<Rightarrow> TypeCI5" where [format_defs]:
  "TypeCI5_from_riscv inst = \<lparr>
     ci5_rd_rs1 = ucast (drop_bit 7 inst AND 0b11111),
     ci5_imm = signed_drop_bit 7
       (push_bit 11 (inst AND push_bit 2 0b11)
         OR (inst AND push_bit 12 0b1)
         OR push_bit 5 (inst AND push_bit 4 0b111))\<rparr>"

definition TypeCI5_from_embive :: "u32 \<Rightarrow> TypeCI5" where [format_defs]:
  "TypeCI5_from_embive inst = \<lparr>
     ci5_rd_rs1 = ucast (drop_bit 5 inst AND 0b11111),
     ci5_imm = drop_bit 8 (inst AND push_bit 10 0b111111)\<rparr>"

definition TypeCI5_to_embive :: "TypeCI5 \<Rightarrow> u32" where [format_defs]:
  "TypeCI5_to_embive f = push_bit 5 (ucast (ci5_rd_rs1 f)) OR push_bit 8 (ci5_imm f)"

definition TypeCI5_wf :: "TypeCI5 \<Rightarrow> bool" where [format_defs]:
  "TypeCI5_wf f \<longleftrightarrow> fits_unsigned 5 (ci5_rd_rs1 f)
     \<and> fits_unsigned 8 (ci5_imm f) \<and> aligned_to 2 (ci5_imm f)"

section \<open>CB, in its three immediate layouts\<close>

record TypeCB1 =
  cb1_rd_rs1 :: u8
  cb1_imm :: i32

definition TypeCB1_from_riscv :: "u32 \<Rightarrow> TypeCB1" where [format_defs]:
  "TypeCB1_from_riscv inst = \<lparr>
     cb1_rd_rs1 = ucast (drop_bit 7 inst AND 0b111) + COMPRESSED_REGISTER_OFFSET,
     cb1_imm = drop_bit 2
       ((inst AND push_bit 2 0b11111) OR drop_bit 5 (inst AND push_bit 12 0b1))\<rparr>"

definition TypeCB1_from_embive :: "u32 \<Rightarrow> TypeCB1" where [format_defs]:
  "TypeCB1_from_embive inst = \<lparr>
     cb1_rd_rs1 = ucast (drop_bit 5 inst AND 0b11111),
     cb1_imm = drop_bit 10 (inst AND push_bit 10 0b111111)\<rparr>"

definition TypeCB1_to_embive :: "TypeCB1 \<Rightarrow> u32" where [format_defs]:
  "TypeCB1_to_embive f = push_bit 5 (ucast (cb1_rd_rs1 f)) OR push_bit 10 (cb1_imm f)"

definition TypeCB1_wf :: "TypeCB1 \<Rightarrow> bool" where [format_defs]:
  "TypeCB1_wf f \<longleftrightarrow> fits_unsigned 5 (cb1_rd_rs1 f) \<and> fits_unsigned 6 (cb1_imm f)"

record TypeCB2 =
  cb2_rd_rs1 :: u8
  cb2_imm :: i32

definition TypeCB2_from_riscv :: "u32 \<Rightarrow> TypeCB2" where [format_defs]:
  "TypeCB2_from_riscv inst = \<lparr>
     cb2_rd_rs1 = ucast (drop_bit 7 inst AND 0b111) + COMPRESSED_REGISTER_OFFSET,
     cb2_imm = scast (signed_drop_bit 2
       (ucast ((inst AND push_bit 2 0b11111) OR drop_bit 5 (inst AND push_bit 12 0b1)) :: u8))\<rparr>"

definition TypeCB2_from_embive :: "u32 \<Rightarrow> TypeCB2" where [format_defs]:
  "TypeCB2_from_embive inst = \<lparr>
     cb2_rd_rs1 = ucast (drop_bit 5 inst AND 0b11111),
     cb2_imm = scast (signed_drop_bit 10 (ucast (inst AND push_bit 10 0b111111) :: u16))\<rparr>"

definition TypeCB2_to_embive :: "TypeCB2 \<Rightarrow> u32" where [format_defs]:
  "TypeCB2_to_embive f =
     push_bit 5 (ucast (cb2_rd_rs1 f)) OR (push_bit 10 (cb2_imm f) AND push_bit 10 0b111111)"

definition TypeCB2_wf :: "TypeCB2 \<Rightarrow> bool" where [format_defs]:
  "TypeCB2_wf f \<longleftrightarrow> fits_unsigned 5 (cb2_rd_rs1 f) \<and> fits_signed 5 (cb2_imm f)"

record TypeCB4 =
  cb4_rs1 :: u8
  cb4_imm :: i32

definition TypeCB4_from_riscv :: "u32 \<Rightarrow> TypeCB4" where [format_defs]:
  "TypeCB4_from_riscv inst = \<lparr>
     cb4_rs1 = ucast (drop_bit 7 inst AND 0b111) + COMPRESSED_REGISTER_OFFSET,
     cb4_imm = push_bit 1 (scast
       (ucast (drop_bit 5 (inst AND push_bit 12 0b1)
         OR (inst AND push_bit 5 0b11)
         OR push_bit 2 (inst AND push_bit 2 0b1)
         OR drop_bit 8 (inst AND push_bit 10 0b11)
         OR drop_bit 3 (inst AND push_bit 3 0b11)) :: u8))\<rparr>"

definition TypeCB4_from_embive :: "u32 \<Rightarrow> TypeCB4" where [format_defs]:
  "TypeCB4_from_embive inst = \<lparr>
     cb4_rs1 = ucast (drop_bit 5 inst AND 0b111) + COMPRESSED_REGISTER_OFFSET,
     cb4_imm = scast (signed_drop_bit 7 (ucast (inst AND push_bit 8 0b11111111) :: u16))\<rparr>"

definition TypeCB4_to_embive :: "TypeCB4 \<Rightarrow> u32" where [format_defs]:
  "TypeCB4_to_embive f =
     push_bit 5 (ucast (cb4_rs1 f - COMPRESSED_REGISTER_OFFSET))
       OR (push_bit 7 (cb4_imm f) AND push_bit 8 0b11111111)"

definition TypeCB4_wf :: "TypeCB4 \<Rightarrow> bool" where [format_defs]:
  "TypeCB4_wf f \<longleftrightarrow> fits_unsigned 3 (cb4_rs1 f - COMPRESSED_REGISTER_OFFSET)
     \<and> fits_signed 8 (cb4_imm f) \<and> aligned_to 1 (cb4_imm f)"

section \<open>CR, CS, CSS and CJ\<close>

record TypeCR =
  cr_rd_rs1 :: u8
  cr_rs2 :: u8

definition TypeCR_from_riscv :: "u32 \<Rightarrow> TypeCR" where [format_defs]:
  "TypeCR_from_riscv inst = \<lparr>
     cr_rd_rs1 = ucast (drop_bit 7 inst AND 0b11111),
     cr_rs2 = ucast (drop_bit 2 inst AND 0b11111)\<rparr>"

definition TypeCR_from_embive :: "u32 \<Rightarrow> TypeCR" where [format_defs]:
  "TypeCR_from_embive inst = \<lparr>
     cr_rd_rs1 = ucast (drop_bit 5 inst AND 0b11111),
     cr_rs2 = ucast (drop_bit 10 inst AND 0b11111)\<rparr>"

definition TypeCR_to_embive :: "TypeCR \<Rightarrow> u32" where [format_defs]:
  "TypeCR_to_embive f = push_bit 5 (ucast (cr_rd_rs1 f)) OR push_bit 10 (ucast (cr_rs2 f))"

definition TypeCR_wf :: "TypeCR \<Rightarrow> bool" where [format_defs]:
  "TypeCR_wf f \<longleftrightarrow> fits_unsigned 5 (cr_rd_rs1 f) \<and> fits_unsigned 5 (cr_rs2 f)"

record TypeCS =
  cs_rd_rs1 :: u8
  cs_rs2 :: u8

definition TypeCS_from_riscv :: "u32 \<Rightarrow> TypeCS" where [format_defs]:
  "TypeCS_from_riscv inst = \<lparr>
     cs_rd_rs1 = ucast (drop_bit 7 inst AND 0b111) + COMPRESSED_REGISTER_OFFSET,
     cs_rs2 = ucast (drop_bit 2 inst AND 0b111) + COMPRESSED_REGISTER_OFFSET\<rparr>"

definition TypeCS_from_embive :: "u32 \<Rightarrow> TypeCS" where [format_defs]:
  "TypeCS_from_embive inst = \<lparr>
     cs_rd_rs1 = ucast (drop_bit 5 inst AND 0b11111),
     cs_rs2 = ucast (drop_bit 10 inst AND 0b11111)\<rparr>"

definition TypeCS_to_embive :: "TypeCS \<Rightarrow> u32" where [format_defs]:
  "TypeCS_to_embive f = push_bit 5 (ucast (cs_rd_rs1 f)) OR push_bit 10 (ucast (cs_rs2 f))"

definition TypeCS_wf :: "TypeCS \<Rightarrow> bool" where [format_defs]:
  "TypeCS_wf f \<longleftrightarrow> fits_unsigned 5 (cs_rd_rs1 f) \<and> fits_unsigned 5 (cs_rs2 f)"

record TypeCSS =
  css_rs2 :: u8
  css_imm :: i32

definition TypeCSS_from_riscv :: "u32 \<Rightarrow> TypeCSS" where [format_defs]:
  "TypeCSS_from_riscv inst = \<lparr>
     css_rs2 = ucast (drop_bit 2 inst AND 0b11111),
     css_imm = drop_bit 1
       ((inst AND push_bit 7 0b11) OR drop_bit 6 (inst AND push_bit 9 0b1111))\<rparr>"

definition TypeCSS_from_embive :: "u32 \<Rightarrow> TypeCSS" where [format_defs]:
  "TypeCSS_from_embive inst = \<lparr>
     css_rs2 = ucast (drop_bit 5 inst AND 0b11111),
     css_imm = drop_bit 8 (inst AND push_bit 10 0b111111)\<rparr>"

definition TypeCSS_to_embive :: "TypeCSS \<Rightarrow> u32" where [format_defs]:
  "TypeCSS_to_embive f = push_bit 5 (ucast (css_rs2 f)) OR push_bit 8 (css_imm f)"

definition TypeCSS_wf :: "TypeCSS \<Rightarrow> bool" where [format_defs]:
  "TypeCSS_wf f \<longleftrightarrow> fits_unsigned 5 (css_rs2 f)
     \<and> fits_unsigned 8 (css_imm f) \<and> aligned_to 2 (css_imm f)"

record TypeCJ =
  cj_imm :: i32

definition TypeCJ_from_riscv :: "u32 \<Rightarrow> TypeCJ" where [format_defs]:
  "TypeCJ_from_riscv inst = \<lparr>
     cj_imm = signed_drop_bit 4 (scast
       (ucast (push_bit 3 (inst AND push_bit 12 0b1)
         OR push_bit 6 (inst AND push_bit 8 0b1)
         OR push_bit 3 (inst AND push_bit 9 0b11)
         OR push_bit 5 (inst AND push_bit 6 0b1)
         OR push_bit 3 (inst AND push_bit 7 0b1)
         OR push_bit 7 (inst AND push_bit 2 0b1)
         OR drop_bit 3 (inst AND push_bit 11 0b1)
         OR push_bit 2 (inst AND push_bit 3 0b111)) :: u16))\<rparr>"

definition TypeCJ_from_embive :: "u32 \<Rightarrow> TypeCJ" where [format_defs]:
  "TypeCJ_from_embive inst = \<lparr>
     cj_imm = scast (signed_drop_bit 4 (ucast (inst AND push_bit 5 0b11111111111) :: u16))\<rparr>"

definition TypeCJ_to_embive :: "TypeCJ \<Rightarrow> u32" where [format_defs]:
  "TypeCJ_to_embive f = push_bit 4 (cj_imm f) AND push_bit 5 0b11111111111"

definition TypeCJ_wf :: "TypeCJ \<Rightarrow> bool" where [format_defs]:
  "TypeCJ_wf f \<longleftrightarrow> fits_signed 11 (cj_imm f) \<and> aligned_to 1 (cj_imm f)"

section \<open>The 16-bit formats satisfy the laws\<close>

interpretation fmt_TypeCIW: half_format TypeCIW_from_riscv TypeCIW_from_embive TypeCIW_to_embive TypeCIW_wf
proof unfold_locales
  fix w op :: u32 and f :: TypeCIW
  show "TypeCIW_wf (TypeCIW_from_riscv w)" "TypeCIW_wf (TypeCIW_from_embive w)"
    by (simp_all add: format_defs fits_bits bit_blast COMPRESSED_REGISTER_OFFSET_def)
  show "TypeCIW_wf f \<Longrightarrow> take_bit 5 (TypeCIW_to_embive f) = 0"
    by (simp add: format_defs fits_bits bit_blast COMPRESSED_REGISTER_OFFSET_def)
  show "TypeCIW_wf f \<Longrightarrow> fits_unsigned 5 op \<Longrightarrow> TypeCIW_from_embive (TypeCIW_to_embive f OR op) = f"
    by (rule TypeCIW.equality;
        simp add: format_defs COMPRESSED_REGISTER_OFFSET_def add_offset_eq_iff;
        simp add: fits_bits bit_blast)
  show "TypeCIW_wf f \<Longrightarrow> fits_unsigned 16 (TypeCIW_to_embive f)"
    by (simp add: format_defs fits_bits bit_blast COMPRESSED_REGISTER_OFFSET_def)
  show "TypeCIW_from_embive (take_bit 16 w) = TypeCIW_from_embive w"
    "TypeCIW_from_riscv (take_bit 16 w) = TypeCIW_from_riscv w"
    by (rule TypeCIW.equality; simp add: format_defs bit_blast COMPRESSED_REGISTER_OFFSET_def)+
qed

interpretation fmt_TypeCL: half_format TypeCL_from_riscv TypeCL_from_embive TypeCL_to_embive TypeCL_wf
proof unfold_locales
  fix w op :: u32 and f :: TypeCL
  show "TypeCL_wf (TypeCL_from_riscv w)" "TypeCL_wf (TypeCL_from_embive w)"
    by (simp_all add: format_defs fits_bits bit_blast COMPRESSED_REGISTER_OFFSET_def)
  show "TypeCL_wf f \<Longrightarrow> take_bit 5 (TypeCL_to_embive f) = 0"
    by (simp add: format_defs fits_bits bit_blast COMPRESSED_REGISTER_OFFSET_def)
  show "TypeCL_wf f \<Longrightarrow> fits_unsigned 5 op \<Longrightarrow> TypeCL_from_embive (TypeCL_to_embive f OR op) = f"
    by (rule TypeCL.equality;
        simp add: format_defs COMPRESSED_REGISTER_OFFSET_def add_offset_eq_iff;
        simp add: fits_bits bit_blast)
  show "TypeCL_wf f \<Longrightarrow> fits_unsigned 16 (TypeCL_to_embive f)"
    by (simp add: format_defs fits_bits bit_blast COMPRESSED_REGISTER_OFFSET_def)
  show "TypeCL_from_embive (take_bit 16 w) = TypeCL_from_embive w"
    "TypeCL_from_riscv (take_bit 16 w) = TypeCL_from_riscv w"
    by (rule TypeCL.equality; simp add: format_defs bit_blast COMPRESSED_REGISTER_OFFSET_def)+
qed

interpretation fmt_TypeCI1: half_format TypeCI1_from_riscv TypeCI1_from_embive TypeCI1_to_embive TypeCI1_wf
proof unfold_locales
  fix w op :: u32 and f :: TypeCI1
  show "TypeCI1_wf (TypeCI1_from_riscv w)" "TypeCI1_wf (TypeCI1_from_embive w)"
    by (simp_all add: format_defs fits_bits bit_blast COMPRESSED_REGISTER_OFFSET_def)
  show "TypeCI1_wf f \<Longrightarrow> take_bit 5 (TypeCI1_to_embive f) = 0"
    by (simp add: format_defs fits_bits bit_blast COMPRESSED_REGISTER_OFFSET_def)
  show "TypeCI1_wf f \<Longrightarrow> fits_unsigned 5 op \<Longrightarrow> TypeCI1_from_embive (TypeCI1_to_embive f OR op) = f"
    by (rule TypeCI1.equality) (simp_all add: format_defs fits_bits bit_blast COMPRESSED_REGISTER_OFFSET_def)
  show "TypeCI1_wf f \<Longrightarrow> fits_unsigned 16 (TypeCI1_to_embive f)"
    by (simp add: format_defs fits_bits bit_blast COMPRESSED_REGISTER_OFFSET_def)
  show "TypeCI1_from_embive (take_bit 16 w) = TypeCI1_from_embive w"
    "TypeCI1_from_riscv (take_bit 16 w) = TypeCI1_from_riscv w"
    by (rule TypeCI1.equality; simp add: format_defs bit_blast COMPRESSED_REGISTER_OFFSET_def)+
qed

interpretation fmt_TypeCI2: half_format TypeCI2_from_riscv TypeCI2_from_embive TypeCI2_to_embive TypeCI2_wf
proof unfold_locales
  fix w op :: u32 and f :: TypeCI2
  show "TypeCI2_wf (TypeCI2_from_riscv w)" "TypeCI2_wf (TypeCI2_from_embive w)"
    by (simp_all add: format_defs fits_bits bit_blast COMPRESSED_REGISTER_OFFSET_def)
  show "TypeCI2_wf f \<Longrightarrow> take_bit 5 (TypeCI2_to_embive f) = 0"
    by (simp add: format_defs fits_bits bit_blast COMPRESSED_REGISTER_OFFSET_def)
  show "TypeCI2_wf f \<Longrightarrow> fits_unsigned 5 op \<Longrightarrow> TypeCI2_from_embive (TypeCI2_to_embive f OR op) = f"
    by (rule TypeCI2.equality) (simp_all add: format_defs fits_bits bit_blast COMPRESSED_REGISTER_OFFSET_def)
  show "TypeCI2_wf f \<Longrightarrow> fits_unsigned 16 (TypeCI2_to_embive f)"
    by (simp add: format_defs fits_bits bit_blast COMPRESSED_REGISTER_OFFSET_def)
  show "TypeCI2_from_embive (take_bit 16 w) = TypeCI2_from_embive w"
    "TypeCI2_from_riscv (take_bit 16 w) = TypeCI2_from_riscv w"
    by (rule TypeCI2.equality; simp add: format_defs bit_blast COMPRESSED_REGISTER_OFFSET_def)+
qed

interpretation fmt_TypeCI3: half_format TypeCI3_from_riscv TypeCI3_from_embive TypeCI3_to_embive TypeCI3_wf
proof unfold_locales
  fix w op :: u32 and f :: TypeCI3
  show "TypeCI3_wf (TypeCI3_from_riscv w)" "TypeCI3_wf (TypeCI3_from_embive w)"
    by (simp_all add: format_defs fits_bits bit_blast COMPRESSED_REGISTER_OFFSET_def)
  show "TypeCI3_wf f \<Longrightarrow> take_bit 5 (TypeCI3_to_embive f) = 0"
    by (simp add: format_defs fits_bits bit_blast COMPRESSED_REGISTER_OFFSET_def)
  show "TypeCI3_wf f \<Longrightarrow> fits_unsigned 5 op \<Longrightarrow> TypeCI3_from_embive (TypeCI3_to_embive f OR op) = f"
    by (rule TypeCI3.equality) (simp_all add: format_defs fits_bits bit_blast COMPRESSED_REGISTER_OFFSET_def)
  show "TypeCI3_wf f \<Longrightarrow> fits_unsigned 16 (TypeCI3_to_embive f)"
    by (simp add: format_defs fits_bits bit_blast COMPRESSED_REGISTER_OFFSET_def)
  show "TypeCI3_from_embive (take_bit 16 w) = TypeCI3_from_embive w"
    "TypeCI3_from_riscv (take_bit 16 w) = TypeCI3_from_riscv w"
    by (rule TypeCI3.equality; simp add: format_defs bit_blast COMPRESSED_REGISTER_OFFSET_def)+
qed

interpretation fmt_TypeCI4: half_format TypeCI4_from_riscv TypeCI4_from_embive TypeCI4_to_embive TypeCI4_wf
proof unfold_locales
  fix w op :: u32 and f :: TypeCI4
  show "TypeCI4_wf (TypeCI4_from_riscv w)" "TypeCI4_wf (TypeCI4_from_embive w)"
    by (simp_all add: format_defs fits_bits bit_blast COMPRESSED_REGISTER_OFFSET_def)
  show "TypeCI4_wf f \<Longrightarrow> take_bit 5 (TypeCI4_to_embive f) = 0"
    by (simp add: format_defs fits_bits bit_blast COMPRESSED_REGISTER_OFFSET_def)
  show "TypeCI4_wf f \<Longrightarrow> fits_unsigned 5 op \<Longrightarrow> TypeCI4_from_embive (TypeCI4_to_embive f OR op) = f"
    by (rule TypeCI4.equality) (simp_all add: format_defs fits_bits bit_blast COMPRESSED_REGISTER_OFFSET_def)
  show "TypeCI4_wf f \<Longrightarrow> fits_unsigned 16 (TypeCI4_to_embive f)"
    by (simp add: format_defs fits_bits bit_blast COMPRESSED_REGISTER_OFFSET_def)
  show "TypeCI4_from_embive (take_bit 16 w) = TypeCI4_from_embive w"
    "TypeCI4_from_riscv (take_bit 16 w) = TypeCI4_from_riscv w"
    by (rule TypeCI4.equality; simp add: format_defs bit_blast COMPRESSED_REGISTER_OFFSET_def)+
qed

interpretation fmt_TypeCI5: half_format TypeCI5_from_riscv TypeCI5_from_embive TypeCI5_to_embive TypeCI5_wf
proof unfold_locales
  fix w op :: u32 and f :: TypeCI5
  show "TypeCI5_wf (TypeCI5_from_riscv w)" "TypeCI5_wf (TypeCI5_from_embive w)"
    by (simp_all add: format_defs fits_bits bit_blast COMPRESSED_REGISTER_OFFSET_def)
  show "TypeCI5_wf f \<Longrightarrow> take_bit 5 (TypeCI5_to_embive f) = 0"
    by (simp add: format_defs fits_bits bit_blast COMPRESSED_REGISTER_OFFSET_def)
  show "TypeCI5_wf f \<Longrightarrow> fits_unsigned 5 op \<Longrightarrow> TypeCI5_from_embive (TypeCI5_to_embive f OR op) = f"
    by (rule TypeCI5.equality) (simp_all add: format_defs fits_bits bit_blast COMPRESSED_REGISTER_OFFSET_def)
  show "TypeCI5_wf f \<Longrightarrow> fits_unsigned 16 (TypeCI5_to_embive f)"
    by (simp add: format_defs fits_bits bit_blast COMPRESSED_REGISTER_OFFSET_def)
  show "TypeCI5_from_embive (take_bit 16 w) = TypeCI5_from_embive w"
    "TypeCI5_from_riscv (take_bit 16 w) = TypeCI5_from_riscv w"
    by (rule TypeCI5.equality; simp add: format_defs bit_blast COMPRESSED_REGISTER_OFFSET_def)+
qed

interpretation fmt_TypeCB1: half_format TypeCB1_from_riscv TypeCB1_from_embive TypeCB1_to_embive TypeCB1_wf
proof unfold_locales
  fix w op :: u32 and f :: TypeCB1
  show "TypeCB1_wf (TypeCB1_from_riscv w)" "TypeCB1_wf (TypeCB1_from_embive w)"
    by (simp_all add: format_defs fits_bits bit_blast COMPRESSED_REGISTER_OFFSET_def)
  show "TypeCB1_wf f \<Longrightarrow> take_bit 5 (TypeCB1_to_embive f) = 0"
    by (simp add: format_defs fits_bits bit_blast COMPRESSED_REGISTER_OFFSET_def)
  show "TypeCB1_wf f \<Longrightarrow> fits_unsigned 5 op \<Longrightarrow> TypeCB1_from_embive (TypeCB1_to_embive f OR op) = f"
    by (rule TypeCB1.equality) (simp_all add: format_defs fits_bits bit_blast COMPRESSED_REGISTER_OFFSET_def)
  show "TypeCB1_wf f \<Longrightarrow> fits_unsigned 16 (TypeCB1_to_embive f)"
    by (simp add: format_defs fits_bits bit_blast COMPRESSED_REGISTER_OFFSET_def)
  show "TypeCB1_from_embive (take_bit 16 w) = TypeCB1_from_embive w"
    "TypeCB1_from_riscv (take_bit 16 w) = TypeCB1_from_riscv w"
    by (rule TypeCB1.equality; simp add: format_defs bit_blast COMPRESSED_REGISTER_OFFSET_def)+
qed

interpretation fmt_TypeCB2: half_format TypeCB2_from_riscv TypeCB2_from_embive TypeCB2_to_embive TypeCB2_wf
proof unfold_locales
  fix w op :: u32 and f :: TypeCB2
  show "TypeCB2_wf (TypeCB2_from_riscv w)" "TypeCB2_wf (TypeCB2_from_embive w)"
    by (simp_all add: format_defs fits_bits bit_blast COMPRESSED_REGISTER_OFFSET_def)
  show "TypeCB2_wf f \<Longrightarrow> take_bit 5 (TypeCB2_to_embive f) = 0"
    by (simp add: format_defs fits_bits bit_blast COMPRESSED_REGISTER_OFFSET_def)
  show "TypeCB2_wf f \<Longrightarrow> fits_unsigned 5 op \<Longrightarrow> TypeCB2_from_embive (TypeCB2_to_embive f OR op) = f"
    by (rule TypeCB2.equality) (simp_all add: format_defs fits_bits bit_blast COMPRESSED_REGISTER_OFFSET_def)
  show "TypeCB2_wf f \<Longrightarrow> fits_unsigned 16 (TypeCB2_to_embive f)"
    by (simp add: format_defs fits_bits bit_blast COMPRESSED_REGISTER_OFFSET_def)
  show "TypeCB2_from_embive (take_bit 16 w) = TypeCB2_from_embive w"
    "TypeCB2_from_riscv (take_bit 16 w) = TypeCB2_from_riscv w"
    by (rule TypeCB2.equality; simp add: format_defs bit_blast COMPRESSED_REGISTER_OFFSET_def)+
qed

interpretation fmt_TypeCB4: half_format TypeCB4_from_riscv TypeCB4_from_embive TypeCB4_to_embive TypeCB4_wf
proof unfold_locales
  fix w op :: u32 and f :: TypeCB4
  show "TypeCB4_wf (TypeCB4_from_riscv w)" "TypeCB4_wf (TypeCB4_from_embive w)"
    by (simp_all add: format_defs fits_bits bit_blast COMPRESSED_REGISTER_OFFSET_def)
  show "TypeCB4_wf f \<Longrightarrow> take_bit 5 (TypeCB4_to_embive f) = 0"
    by (simp add: format_defs fits_bits bit_blast COMPRESSED_REGISTER_OFFSET_def)
  show "TypeCB4_wf f \<Longrightarrow> fits_unsigned 5 op \<Longrightarrow> TypeCB4_from_embive (TypeCB4_to_embive f OR op) = f"
    by (rule TypeCB4.equality,
        simp add: format_defs COMPRESSED_REGISTER_OFFSET_def add_offset_eq_iff,
        simp add: fits_bits bit_blast,
        simp_all add: format_defs COMPRESSED_REGISTER_OFFSET_def fits_bits bit_blast)
  show "TypeCB4_wf f \<Longrightarrow> fits_unsigned 16 (TypeCB4_to_embive f)"
    by (simp add: format_defs fits_bits bit_blast COMPRESSED_REGISTER_OFFSET_def)
  show "TypeCB4_from_embive (take_bit 16 w) = TypeCB4_from_embive w"
    "TypeCB4_from_riscv (take_bit 16 w) = TypeCB4_from_riscv w"
    by (rule TypeCB4.equality; simp add: format_defs bit_blast COMPRESSED_REGISTER_OFFSET_def)+
qed

interpretation fmt_TypeCR: half_format TypeCR_from_riscv TypeCR_from_embive TypeCR_to_embive TypeCR_wf
proof unfold_locales
  fix w op :: u32 and f :: TypeCR
  show "TypeCR_wf (TypeCR_from_riscv w)" "TypeCR_wf (TypeCR_from_embive w)"
    by (simp_all add: format_defs fits_bits bit_blast COMPRESSED_REGISTER_OFFSET_def)
  show "TypeCR_wf f \<Longrightarrow> take_bit 5 (TypeCR_to_embive f) = 0"
    by (simp add: format_defs fits_bits bit_blast COMPRESSED_REGISTER_OFFSET_def)
  show "TypeCR_wf f \<Longrightarrow> fits_unsigned 5 op \<Longrightarrow> TypeCR_from_embive (TypeCR_to_embive f OR op) = f"
    by (rule TypeCR.equality) (simp_all add: format_defs fits_bits bit_blast COMPRESSED_REGISTER_OFFSET_def)
  show "TypeCR_wf f \<Longrightarrow> fits_unsigned 16 (TypeCR_to_embive f)"
    by (simp add: format_defs fits_bits bit_blast COMPRESSED_REGISTER_OFFSET_def)
  show "TypeCR_from_embive (take_bit 16 w) = TypeCR_from_embive w"
    "TypeCR_from_riscv (take_bit 16 w) = TypeCR_from_riscv w"
    by (rule TypeCR.equality; simp add: format_defs bit_blast COMPRESSED_REGISTER_OFFSET_def)+
qed

interpretation fmt_TypeCS: half_format TypeCS_from_riscv TypeCS_from_embive TypeCS_to_embive TypeCS_wf
proof unfold_locales
  fix w op :: u32 and f :: TypeCS
  show "TypeCS_wf (TypeCS_from_riscv w)" "TypeCS_wf (TypeCS_from_embive w)"
    by (simp_all add: format_defs fits_bits bit_blast COMPRESSED_REGISTER_OFFSET_def)
  show "TypeCS_wf f \<Longrightarrow> take_bit 5 (TypeCS_to_embive f) = 0"
    by (simp add: format_defs fits_bits bit_blast COMPRESSED_REGISTER_OFFSET_def)
  show "TypeCS_wf f \<Longrightarrow> fits_unsigned 5 op \<Longrightarrow> TypeCS_from_embive (TypeCS_to_embive f OR op) = f"
    by (rule TypeCS.equality) (simp_all add: format_defs fits_bits bit_blast COMPRESSED_REGISTER_OFFSET_def)
  show "TypeCS_wf f \<Longrightarrow> fits_unsigned 16 (TypeCS_to_embive f)"
    by (simp add: format_defs fits_bits bit_blast COMPRESSED_REGISTER_OFFSET_def)
  show "TypeCS_from_embive (take_bit 16 w) = TypeCS_from_embive w"
    "TypeCS_from_riscv (take_bit 16 w) = TypeCS_from_riscv w"
    by (rule TypeCS.equality; simp add: format_defs bit_blast COMPRESSED_REGISTER_OFFSET_def)+
qed

interpretation fmt_TypeCSS: half_format TypeCSS_from_riscv TypeCSS_from_embive TypeCSS_to_embive TypeCSS_wf
proof unfold_locales
  fix w op :: u32 and f :: TypeCSS
  show "TypeCSS_wf (TypeCSS_from_riscv w)" "TypeCSS_wf (TypeCSS_from_embive w)"
    by (simp_all add: format_defs fits_bits bit_blast COMPRESSED_REGISTER_OFFSET_def)
  show "TypeCSS_wf f \<Longrightarrow> take_bit 5 (TypeCSS_to_embive f) = 0"
    by (simp add: format_defs fits_bits bit_blast COMPRESSED_REGISTER_OFFSET_def)
  show "TypeCSS_wf f \<Longrightarrow> fits_unsigned 5 op \<Longrightarrow> TypeCSS_from_embive (TypeCSS_to_embive f OR op) = f"
    by (rule TypeCSS.equality) (simp_all add: format_defs fits_bits bit_blast COMPRESSED_REGISTER_OFFSET_def)
  show "TypeCSS_wf f \<Longrightarrow> fits_unsigned 16 (TypeCSS_to_embive f)"
    by (simp add: format_defs fits_bits bit_blast COMPRESSED_REGISTER_OFFSET_def)
  show "TypeCSS_from_embive (take_bit 16 w) = TypeCSS_from_embive w"
    "TypeCSS_from_riscv (take_bit 16 w) = TypeCSS_from_riscv w"
    by (rule TypeCSS.equality; simp add: format_defs bit_blast COMPRESSED_REGISTER_OFFSET_def)+
qed

interpretation fmt_TypeCJ: half_format TypeCJ_from_riscv TypeCJ_from_embive TypeCJ_to_embive TypeCJ_wf
proof unfold_locales
  fix w op :: u32 and f :: TypeCJ
  show "TypeCJ_wf (TypeCJ_from_riscv w)" "TypeCJ_wf (TypeCJ_from_embive w)"
    by (simp_all add: format_defs fits_bits bit_blast COMPRESSED_REGISTER_OFFSET_def)
  show "TypeCJ_wf f \<Longrightarrow> take_bit 5 (TypeCJ_to_embive f) = 0"
    by (simp add: format_defs fits_bits bit_blast COMPRESSED_REGISTER_OFFSET_def)
  show "TypeCJ_wf f \<Longrightarrow> fits_unsigned 5 op \<Longrightarrow> TypeCJ_from_embive (TypeCJ_to_embive f OR op) = f"
    by (rule TypeCJ.equality) (simp_all add: format_defs fits_bits bit_blast COMPRESSED_REGISTER_OFFSET_def)
  show "TypeCJ_wf f \<Longrightarrow> fits_unsigned 16 (TypeCJ_to_embive f)"
    by (simp add: format_defs fits_bits bit_blast COMPRESSED_REGISTER_OFFSET_def)
  show "TypeCJ_from_embive (take_bit 16 w) = TypeCJ_from_embive w"
    "TypeCJ_from_riscv (take_bit 16 w) = TypeCJ_from_riscv w"
    by (rule TypeCJ.equality; simp add: format_defs bit_blast COMPRESSED_REGISTER_OFFSET_def)+
qed

end
