(* ===== verification/Instruction.thy ===== *)
theory Instruction
  imports Format_Compressed
begin

text \<open>
  Model of \<^verbatim>\<open>src/instruction.rs\<close> and of the macros of \<^verbatim>\<open>src/instruction/embive_macro.rs\<close>: the 32
  instructions of the Embive bytecode, with the format each one carries. The macro
  \<^verbatim>\<open>instructions!\<close> generates a struct per line with the methods \<open>opcode\<close>, \<open>size\<close>, \<open>encode\<close> and
  \<open>decode\<close>, and the macro \<^verbatim>\<open>decode_instruction!\<close>, which matches the low five bits of a word. The
  structs are the constructors of one datatype here, and the methods are functions of it. The
  function codes are abbreviations named after the instruction they belong to.
\<close>

section \<open>Instructions\<close>

datatype Instruction =
  CAddi4spn TypeCIW
| CLw TypeCL
| CSw TypeCL
| CAddi TypeCI1
| CJal TypeCJ
| CLi TypeCI1
| CAddi16sp TypeCI2
| CLui TypeCI3
| CSrli TypeCB1
| CSrai TypeCB1
| CAndi TypeCB2
| CSub TypeCS
| CXor TypeCS
| COr TypeCS
| CAnd TypeCS
| CJ TypeCJ
| CBeqz TypeCB4
| CBnez TypeCB4
| CSlli TypeCI4
| CLwsp TypeCI5
| CJrMv TypeCR
| CEbreakJalrAdd TypeCR
| CSwsp TypeCSS
| Auipc TypeU
| Branch TypeB
| Jal TypeJ
| Jalr TypeI
| LoadStore TypeI
| Lui TypeU
| OpImm TypeI
| OpAmo TypeR
| SystemMiscMem TypeI

section \<open>Function codes\<close>

abbreviation (input) Branch_BEQ_FUNC :: u8 where "Branch_BEQ_FUNC \<equiv> 0"
abbreviation (input) Branch_BNE_FUNC :: u8 where "Branch_BNE_FUNC \<equiv> 1"
abbreviation (input) Branch_BLT_FUNC :: u8 where "Branch_BLT_FUNC \<equiv> 2"
abbreviation (input) Branch_BGE_FUNC :: u8 where "Branch_BGE_FUNC \<equiv> 3"
abbreviation (input) Branch_BLTU_FUNC :: u8 where "Branch_BLTU_FUNC \<equiv> 4"
abbreviation (input) Branch_BGEU_FUNC :: u8 where "Branch_BGEU_FUNC \<equiv> 5"

abbreviation (input) LoadStore_LB_FUNC :: u8 where "LoadStore_LB_FUNC \<equiv> 0"
abbreviation (input) LoadStore_LH_FUNC :: u8 where "LoadStore_LH_FUNC \<equiv> 1"
abbreviation (input) LoadStore_LW_FUNC :: u8 where "LoadStore_LW_FUNC \<equiv> 2"
abbreviation (input) LoadStore_LBU_FUNC :: u8 where "LoadStore_LBU_FUNC \<equiv> 3"
abbreviation (input) LoadStore_LHU_FUNC :: u8 where "LoadStore_LHU_FUNC \<equiv> 4"
abbreviation (input) LoadStore_SB_FUNC :: u8 where "LoadStore_SB_FUNC \<equiv> 5"
abbreviation (input) LoadStore_SH_FUNC :: u8 where "LoadStore_SH_FUNC \<equiv> 6"
abbreviation (input) LoadStore_SW_FUNC :: u8 where "LoadStore_SW_FUNC \<equiv> 7"

abbreviation (input) OpImm_ADDI_FUNC :: u8 where "OpImm_ADDI_FUNC \<equiv> 0"
abbreviation (input) OpImm_SLLI_FUNC :: u8 where "OpImm_SLLI_FUNC \<equiv> 1"
abbreviation (input) OpImm_SLTI_FUNC :: u8 where "OpImm_SLTI_FUNC \<equiv> 2"
abbreviation (input) OpImm_SLTIU_FUNC :: u8 where "OpImm_SLTIU_FUNC \<equiv> 3"
abbreviation (input) OpImm_XORI_FUNC :: u8 where "OpImm_XORI_FUNC \<equiv> 4"
abbreviation (input) OpImm_SRLI_SRAI_FUNC :: u8 where "OpImm_SRLI_SRAI_FUNC \<equiv> 5"
abbreviation (input) OpImm_ORI_FUNC :: u8 where "OpImm_ORI_FUNC \<equiv> 6"
abbreviation (input) OpImm_ANDI_FUNC :: u8 where "OpImm_ANDI_FUNC \<equiv> 7"

abbreviation (input) OpAmo_ADD_FUNC :: u16 where "OpAmo_ADD_FUNC \<equiv> 0"
abbreviation (input) OpAmo_SUB_FUNC :: u16 where "OpAmo_SUB_FUNC \<equiv> 1"
abbreviation (input) OpAmo_SLL_FUNC :: u16 where "OpAmo_SLL_FUNC \<equiv> 2"
abbreviation (input) OpAmo_SLT_FUNC :: u16 where "OpAmo_SLT_FUNC \<equiv> 3"
abbreviation (input) OpAmo_SLTU_FUNC :: u16 where "OpAmo_SLTU_FUNC \<equiv> 4"
abbreviation (input) OpAmo_XOR_FUNC :: u16 where "OpAmo_XOR_FUNC \<equiv> 5"
abbreviation (input) OpAmo_SRL_FUNC :: u16 where "OpAmo_SRL_FUNC \<equiv> 6"
abbreviation (input) OpAmo_SRA_FUNC :: u16 where "OpAmo_SRA_FUNC \<equiv> 7"
abbreviation (input) OpAmo_OR_FUNC :: u16 where "OpAmo_OR_FUNC \<equiv> 8"
abbreviation (input) OpAmo_AND_FUNC :: u16 where "OpAmo_AND_FUNC \<equiv> 9"
abbreviation (input) OpAmo_MUL_FUNC :: u16 where "OpAmo_MUL_FUNC \<equiv> 10"
abbreviation (input) OpAmo_MULH_FUNC :: u16 where "OpAmo_MULH_FUNC \<equiv> 11"
abbreviation (input) OpAmo_MULHSU_FUNC :: u16 where "OpAmo_MULHSU_FUNC \<equiv> 12"
abbreviation (input) OpAmo_MULHU_FUNC :: u16 where "OpAmo_MULHU_FUNC \<equiv> 13"
abbreviation (input) OpAmo_DIV_FUNC :: u16 where "OpAmo_DIV_FUNC \<equiv> 14"
abbreviation (input) OpAmo_DIVU_FUNC :: u16 where "OpAmo_DIVU_FUNC \<equiv> 15"
abbreviation (input) OpAmo_REM_FUNC :: u16 where "OpAmo_REM_FUNC \<equiv> 16"
abbreviation (input) OpAmo_REMU_FUNC :: u16 where "OpAmo_REMU_FUNC \<equiv> 17"
abbreviation (input) OpAmo_LR_FUNC :: u16 where "OpAmo_LR_FUNC \<equiv> 18"
abbreviation (input) OpAmo_SC_FUNC :: u16 where "OpAmo_SC_FUNC \<equiv> 19"
abbreviation (input) OpAmo_AMOSWAP_FUNC :: u16 where "OpAmo_AMOSWAP_FUNC \<equiv> 20"
abbreviation (input) OpAmo_AMOADD_FUNC :: u16 where "OpAmo_AMOADD_FUNC \<equiv> 21"
abbreviation (input) OpAmo_AMOXOR_FUNC :: u16 where "OpAmo_AMOXOR_FUNC \<equiv> 22"
abbreviation (input) OpAmo_AMOAND_FUNC :: u16 where "OpAmo_AMOAND_FUNC \<equiv> 23"
abbreviation (input) OpAmo_AMOOR_FUNC :: u16 where "OpAmo_AMOOR_FUNC \<equiv> 24"
abbreviation (input) OpAmo_AMOMIN_FUNC :: u16 where "OpAmo_AMOMIN_FUNC \<equiv> 25"
abbreviation (input) OpAmo_AMOMAX_FUNC :: u16 where "OpAmo_AMOMAX_FUNC \<equiv> 26"
abbreviation (input) OpAmo_AMOMINU_FUNC :: u16 where "OpAmo_AMOMINU_FUNC \<equiv> 27"
abbreviation (input) OpAmo_AMOMAXU_FUNC :: u16 where "OpAmo_AMOMAXU_FUNC \<equiv> 28"

abbreviation (input) SystemMiscMem_MISC_FUNC :: u8 where "SystemMiscMem_MISC_FUNC \<equiv> 0"
abbreviation (input) SystemMiscMem_CSRRW_FUNC :: u8 where "SystemMiscMem_CSRRW_FUNC \<equiv> 1"
abbreviation (input) SystemMiscMem_CSRRS_FUNC :: u8 where "SystemMiscMem_CSRRS_FUNC \<equiv> 2"
abbreviation (input) SystemMiscMem_CSRRC_FUNC :: u8 where "SystemMiscMem_CSRRC_FUNC \<equiv> 3"
abbreviation (input) SystemMiscMem_CSRRWI_FUNC :: u8 where "SystemMiscMem_CSRRWI_FUNC \<equiv> 4"
abbreviation (input) SystemMiscMem_CSRRSI_FUNC :: u8 where "SystemMiscMem_CSRRSI_FUNC \<equiv> 5"
abbreviation (input) SystemMiscMem_CSRRCI_FUNC :: u8 where "SystemMiscMem_CSRRCI_FUNC \<equiv> 6"
abbreviation (input) SystemMiscMem_ECALL_IMM :: i32 where "SystemMiscMem_ECALL_IMM \<equiv> 0"
abbreviation (input) SystemMiscMem_EBREAK_IMM :: i32 where "SystemMiscMem_EBREAK_IMM \<equiv> 1"
abbreviation (input) SystemMiscMem_FENCEI_IMM :: i32 where "SystemMiscMem_FENCEI_IMM \<equiv> 2"
abbreviation (input) SystemMiscMem_WFI_IMM :: i32 where "SystemMiscMem_WFI_IMM \<equiv> 3"
abbreviation (input) SystemMiscMem_MRET_IMM :: i32 where "SystemMiscMem_MRET_IMM \<equiv> 4"

section \<open>Opcode, size, encoding and decoding\<close>

fun opcode :: "Instruction \<Rightarrow> u8" where
  "opcode (CAddi4spn f) = 0"
| "opcode (CLw f) = 1"
| "opcode (CSw f) = 2"
| "opcode (CAddi f) = 3"
| "opcode (CJal f) = 4"
| "opcode (CLi f) = 5"
| "opcode (CAddi16sp f) = 6"
| "opcode (CLui f) = 7"
| "opcode (CSrli f) = 8"
| "opcode (CSrai f) = 9"
| "opcode (CAndi f) = 10"
| "opcode (CSub f) = 11"
| "opcode (CXor f) = 12"
| "opcode (COr f) = 13"
| "opcode (CAnd f) = 14"
| "opcode (CJ f) = 15"
| "opcode (CBeqz f) = 16"
| "opcode (CBnez f) = 17"
| "opcode (CSlli f) = 18"
| "opcode (CLwsp f) = 19"
| "opcode (CJrMv f) = 20"
| "opcode (CEbreakJalrAdd f) = 21"
| "opcode (CSwsp f) = 22"
| "opcode (Auipc f) = 23"
| "opcode (Branch f) = 24"
| "opcode (Jal f) = 25"
| "opcode (Jalr f) = 26"
| "opcode (LoadStore f) = 27"
| "opcode (Lui f) = 28"
| "opcode (OpImm f) = 29"
| "opcode (OpAmo f) = 30"
| "opcode (SystemMiscMem f) = 31"

fun inst_size :: "Instruction \<Rightarrow> Size" where
  "inst_size (CAddi4spn f) = Half"
| "inst_size (CLw f) = Half"
| "inst_size (CSw f) = Half"
| "inst_size (CAddi f) = Half"
| "inst_size (CJal f) = Half"
| "inst_size (CLi f) = Half"
| "inst_size (CAddi16sp f) = Half"
| "inst_size (CLui f) = Half"
| "inst_size (CSrli f) = Half"
| "inst_size (CSrai f) = Half"
| "inst_size (CAndi f) = Half"
| "inst_size (CSub f) = Half"
| "inst_size (CXor f) = Half"
| "inst_size (COr f) = Half"
| "inst_size (CAnd f) = Half"
| "inst_size (CJ f) = Half"
| "inst_size (CBeqz f) = Half"
| "inst_size (CBnez f) = Half"
| "inst_size (CSlli f) = Half"
| "inst_size (CLwsp f) = Half"
| "inst_size (CJrMv f) = Half"
| "inst_size (CEbreakJalrAdd f) = Half"
| "inst_size (CSwsp f) = Half"
| "inst_size (Auipc f) = Word"
| "inst_size (Branch f) = Word"
| "inst_size (Jal f) = Word"
| "inst_size (Jalr f) = Word"
| "inst_size (LoadStore f) = Word"
| "inst_size (Lui f) = Word"
| "inst_size (OpImm f) = Word"
| "inst_size (OpAmo f) = Word"
| "inst_size (SystemMiscMem f) = Word"

fun encode :: "Instruction \<Rightarrow> u32" where
  "encode (CAddi4spn f) = TypeCIW_to_embive f"
| "encode (CLw f) = TypeCL_to_embive f"
| "encode (CSw f) = TypeCL_to_embive f"
| "encode (CAddi f) = TypeCI1_to_embive f"
| "encode (CJal f) = TypeCJ_to_embive f"
| "encode (CLi f) = TypeCI1_to_embive f"
| "encode (CAddi16sp f) = TypeCI2_to_embive f"
| "encode (CLui f) = TypeCI3_to_embive f"
| "encode (CSrli f) = TypeCB1_to_embive f"
| "encode (CSrai f) = TypeCB1_to_embive f"
| "encode (CAndi f) = TypeCB2_to_embive f"
| "encode (CSub f) = TypeCS_to_embive f"
| "encode (CXor f) = TypeCS_to_embive f"
| "encode (COr f) = TypeCS_to_embive f"
| "encode (CAnd f) = TypeCS_to_embive f"
| "encode (CJ f) = TypeCJ_to_embive f"
| "encode (CBeqz f) = TypeCB4_to_embive f"
| "encode (CBnez f) = TypeCB4_to_embive f"
| "encode (CSlli f) = TypeCI4_to_embive f"
| "encode (CLwsp f) = TypeCI5_to_embive f"
| "encode (CJrMv f) = TypeCR_to_embive f"
| "encode (CEbreakJalrAdd f) = TypeCR_to_embive f"
| "encode (CSwsp f) = TypeCSS_to_embive f"
| "encode (Auipc f) = TypeU_to_embive f"
| "encode (Branch f) = TypeB_to_embive f"
| "encode (Jal f) = TypeJ_to_embive f"
| "encode (Jalr f) = TypeI_to_embive f"
| "encode (LoadStore f) = TypeI_to_embive f"
| "encode (Lui f) = TypeU_to_embive f"
| "encode (OpImm f) = TypeI_to_embive f"
| "encode (OpAmo f) = TypeR_to_embive f"
| "encode (SystemMiscMem f) = TypeI_to_embive f"

fun inst_wf :: "Instruction \<Rightarrow> bool" where
  "inst_wf (CAddi4spn f) = TypeCIW_wf f"
| "inst_wf (CLw f) = TypeCL_wf f"
| "inst_wf (CSw f) = TypeCL_wf f"
| "inst_wf (CAddi f) = TypeCI1_wf f"
| "inst_wf (CJal f) = TypeCJ_wf f"
| "inst_wf (CLi f) = TypeCI1_wf f"
| "inst_wf (CAddi16sp f) = TypeCI2_wf f"
| "inst_wf (CLui f) = TypeCI3_wf f"
| "inst_wf (CSrli f) = TypeCB1_wf f"
| "inst_wf (CSrai f) = TypeCB1_wf f"
| "inst_wf (CAndi f) = TypeCB2_wf f"
| "inst_wf (CSub f) = TypeCS_wf f"
| "inst_wf (CXor f) = TypeCS_wf f"
| "inst_wf (COr f) = TypeCS_wf f"
| "inst_wf (CAnd f) = TypeCS_wf f"
| "inst_wf (CJ f) = TypeCJ_wf f"
| "inst_wf (CBeqz f) = TypeCB4_wf f"
| "inst_wf (CBnez f) = TypeCB4_wf f"
| "inst_wf (CSlli f) = TypeCI4_wf f"
| "inst_wf (CLwsp f) = TypeCI5_wf f"
| "inst_wf (CJrMv f) = TypeCR_wf f"
| "inst_wf (CEbreakJalrAdd f) = TypeCR_wf f"
| "inst_wf (CSwsp f) = TypeCSS_wf f"
| "inst_wf (Auipc f) = TypeU_wf f"
| "inst_wf (Branch f) = TypeB_wf f"
| "inst_wf (Jal f) = TypeJ_wf f"
| "inst_wf (Jalr f) = TypeI_wf f"
| "inst_wf (LoadStore f) = TypeI_wf f"
| "inst_wf (Lui f) = TypeU_wf f"
| "inst_wf (OpImm f) = TypeI_wf f"
| "inst_wf (OpAmo f) = TypeR_wf f"
| "inst_wf (SystemMiscMem f) = TypeI_wf f"

definition decode_instruction :: "u32 \<Rightarrow> Instruction option" where
  "decode_instruction inst = (let op = inst AND 0x1F in
     if op = 0 then Some (CAddi4spn (TypeCIW_from_embive inst))
     else if op = 1 then Some (CLw (TypeCL_from_embive inst))
     else if op = 2 then Some (CSw (TypeCL_from_embive inst))
     else if op = 3 then Some (CAddi (TypeCI1_from_embive inst))
     else if op = 4 then Some (CJal (TypeCJ_from_embive inst))
     else if op = 5 then Some (CLi (TypeCI1_from_embive inst))
     else if op = 6 then Some (CAddi16sp (TypeCI2_from_embive inst))
     else if op = 7 then Some (CLui (TypeCI3_from_embive inst))
     else if op = 8 then Some (CSrli (TypeCB1_from_embive inst))
     else if op = 9 then Some (CSrai (TypeCB1_from_embive inst))
     else if op = 10 then Some (CAndi (TypeCB2_from_embive inst))
     else if op = 11 then Some (CSub (TypeCS_from_embive inst))
     else if op = 12 then Some (CXor (TypeCS_from_embive inst))
     else if op = 13 then Some (COr (TypeCS_from_embive inst))
     else if op = 14 then Some (CAnd (TypeCS_from_embive inst))
     else if op = 15 then Some (CJ (TypeCJ_from_embive inst))
     else if op = 16 then Some (CBeqz (TypeCB4_from_embive inst))
     else if op = 17 then Some (CBnez (TypeCB4_from_embive inst))
     else if op = 18 then Some (CSlli (TypeCI4_from_embive inst))
     else if op = 19 then Some (CLwsp (TypeCI5_from_embive inst))
     else if op = 20 then Some (CJrMv (TypeCR_from_embive inst))
     else if op = 21 then Some (CEbreakJalrAdd (TypeCR_from_embive inst))
     else if op = 22 then Some (CSwsp (TypeCSS_from_embive inst))
     else if op = 23 then Some (Auipc (TypeU_from_embive inst))
     else if op = 24 then Some (Branch (TypeB_from_embive inst))
     else if op = 25 then Some (Jal (TypeJ_from_embive inst))
     else if op = 26 then Some (Jalr (TypeI_from_embive inst))
     else if op = 27 then Some (LoadStore (TypeI_from_embive inst))
     else if op = 28 then Some (Lui (TypeU_from_embive inst))
     else if op = 29 then Some (OpImm (TypeI_from_embive inst))
     else if op = 30 then Some (OpAmo (TypeR_from_embive inst))
     else if op = 31 then Some (SystemMiscMem (TypeI_from_embive inst))
     else None)"

section \<open>Tagged encodings\<close>

text \<open>What \<^verbatim>\<open>embive_raw!\<close> writes: the encoding with the opcode in the free low bits.\<close>

definition encode_raw :: "Instruction \<Rightarrow> u32" where
  "encode_raw i = encode i OR ucast (opcode i)"

text \<open>The laws of the formats, collected over the formats.\<close>

lemmas fmt_opcode_bits_free =
  fmt_TypeCIW.opcode_bits_free
  fmt_TypeCL.opcode_bits_free
  fmt_TypeCI1.opcode_bits_free
  fmt_TypeCI2.opcode_bits_free
  fmt_TypeCI3.opcode_bits_free
  fmt_TypeCI4.opcode_bits_free
  fmt_TypeCI5.opcode_bits_free
  fmt_TypeCB1.opcode_bits_free
  fmt_TypeCB2.opcode_bits_free
  fmt_TypeCB4.opcode_bits_free
  fmt_TypeCR.opcode_bits_free
  fmt_TypeCS.opcode_bits_free
  fmt_TypeCSS.opcode_bits_free
  fmt_TypeCJ.opcode_bits_free
  fmt_TypeR.opcode_bits_free
  fmt_TypeI.opcode_bits_free
  fmt_TypeB.opcode_bits_free
  fmt_TypeU.opcode_bits_free
  fmt_TypeJ.opcode_bits_free

lemmas fmt_decode_encode =
  fmt_TypeCIW.decode_encode
  fmt_TypeCL.decode_encode
  fmt_TypeCI1.decode_encode
  fmt_TypeCI2.decode_encode
  fmt_TypeCI3.decode_encode
  fmt_TypeCI4.decode_encode
  fmt_TypeCI5.decode_encode
  fmt_TypeCB1.decode_encode
  fmt_TypeCB2.decode_encode
  fmt_TypeCB4.decode_encode
  fmt_TypeCR.decode_encode
  fmt_TypeCS.decode_encode
  fmt_TypeCSS.decode_encode
  fmt_TypeCJ.decode_encode
  fmt_TypeR.decode_encode
  fmt_TypeI.decode_encode
  fmt_TypeB.decode_encode
  fmt_TypeU.decode_encode
  fmt_TypeJ.decode_encode

lemmas fmt_from_embive_wf =
  fmt_TypeCIW.from_embive_wf
  fmt_TypeCL.from_embive_wf
  fmt_TypeCI1.from_embive_wf
  fmt_TypeCI2.from_embive_wf
  fmt_TypeCI3.from_embive_wf
  fmt_TypeCI4.from_embive_wf
  fmt_TypeCI5.from_embive_wf
  fmt_TypeCB1.from_embive_wf
  fmt_TypeCB2.from_embive_wf
  fmt_TypeCB4.from_embive_wf
  fmt_TypeCR.from_embive_wf
  fmt_TypeCS.from_embive_wf
  fmt_TypeCSS.from_embive_wf
  fmt_TypeCJ.from_embive_wf
  fmt_TypeR.from_embive_wf
  fmt_TypeI.from_embive_wf
  fmt_TypeB.from_embive_wf
  fmt_TypeU.from_embive_wf
  fmt_TypeJ.from_embive_wf

lemmas fmt_from_riscv_wf =
  fmt_TypeCIW.from_riscv_wf
  fmt_TypeCL.from_riscv_wf
  fmt_TypeCI1.from_riscv_wf
  fmt_TypeCI2.from_riscv_wf
  fmt_TypeCI3.from_riscv_wf
  fmt_TypeCI4.from_riscv_wf
  fmt_TypeCI5.from_riscv_wf
  fmt_TypeCB1.from_riscv_wf
  fmt_TypeCB2.from_riscv_wf
  fmt_TypeCB4.from_riscv_wf
  fmt_TypeCR.from_riscv_wf
  fmt_TypeCS.from_riscv_wf
  fmt_TypeCSS.from_riscv_wf
  fmt_TypeCJ.from_riscv_wf
  fmt_TypeR.from_riscv_wf
  fmt_TypeI.from_riscv_wf
  fmt_TypeB.from_riscv_wf
  fmt_TypeU.from_riscv_wf
  fmt_TypeJ.from_riscv_wf

lemmas fmt_from_embive_low =
  fmt_TypeCIW.from_embive_low
  fmt_TypeCL.from_embive_low
  fmt_TypeCI1.from_embive_low
  fmt_TypeCI2.from_embive_low
  fmt_TypeCI3.from_embive_low
  fmt_TypeCI4.from_embive_low
  fmt_TypeCI5.from_embive_low
  fmt_TypeCB1.from_embive_low
  fmt_TypeCB2.from_embive_low
  fmt_TypeCB4.from_embive_low
  fmt_TypeCR.from_embive_low
  fmt_TypeCS.from_embive_low
  fmt_TypeCSS.from_embive_low
  fmt_TypeCJ.from_embive_low

lemmas fmt_from_riscv_low =
  fmt_TypeCIW.from_riscv_low
  fmt_TypeCL.from_riscv_low
  fmt_TypeCI1.from_riscv_low
  fmt_TypeCI2.from_riscv_low
  fmt_TypeCI3.from_riscv_low
  fmt_TypeCI4.from_riscv_low
  fmt_TypeCI5.from_riscv_low
  fmt_TypeCB1.from_riscv_low
  fmt_TypeCB2.from_riscv_low
  fmt_TypeCB4.from_riscv_low
  fmt_TypeCR.from_riscv_low
  fmt_TypeCS.from_riscv_low
  fmt_TypeCSS.from_riscv_low
  fmt_TypeCJ.from_riscv_low

lemmas fmt_encoding_fits =
  fmt_TypeCIW.encoding_fits
  fmt_TypeCL.encoding_fits
  fmt_TypeCI1.encoding_fits
  fmt_TypeCI2.encoding_fits
  fmt_TypeCI3.encoding_fits
  fmt_TypeCI4.encoding_fits
  fmt_TypeCI5.encoding_fits
  fmt_TypeCB1.encoding_fits
  fmt_TypeCB2.encoding_fits
  fmt_TypeCB4.encoding_fits
  fmt_TypeCR.encoding_fits
  fmt_TypeCS.encoding_fits
  fmt_TypeCSS.encoding_fits
  fmt_TypeCJ.encoding_fits

lemma opcode_fits: "fits_unsigned 5 (ucast (opcode i) :: u32)"
  by (cases i) (simp_all add: fits_unsigned_def)

lemma encode_opcode_bits_free: "inst_wf i \<Longrightarrow> take_bit 5 (encode i) = 0"
  by (cases i) (simp_all add: fmt_opcode_bits_free)

lemma opcode_of_raw: "inst_wf i \<Longrightarrow> encode_raw i AND 0x1F = ucast (opcode i)"
  unfolding encode_raw_def
  using low5_of_or [OF encode_opcode_bits_free opcode_fits] by simp

lemma raw_half_fits:
  assumes "inst_wf i" "inst_size i = Half"
  shows "fits_unsigned 16 (encode_raw i)"
proof -
  have "fits_unsigned 16 (encode i)"
    using assms by (cases i) (simp_all add: fmt_encoding_fits)
  then show ?thesis
    using opcode_fits [of i] unfolding encode_raw_def fits_unsigned_bits
    by (auto simp: bit_simps)
qed

section \<open>Decoding\<close>

text \<open>The 32 opcodes are the 32 values of five bits, so the last arm of the match is dead code.\<close>

lemma low5_cases: "w AND 0x1F \<in> set (map of_nat [0..<32])" for w :: u32
proof -
  have "w AND 0x1F \<le> 31" by (rule word_and_le1)
  then have "unat (w AND 0x1F) < 32" by (simp add: word_le_nat_alt)
  then have "w AND 0x1F = of_nat (unat (w AND 0x1F)) \<and> unat (w AND 0x1F) \<in> set [0..<32]"
    by simp
  then show ?thesis by (metis image_eqI set_map)
qed

lemma decode_total: "decode_instruction w \<noteq> None"
  using low5_cases [of w] unfolding decode_instruction_def Let_def
  by (auto simp: upt_conv_Cons split: if_splits)

lemma decode_wf: "decode_instruction w = Some i \<Longrightarrow> inst_wf i"
  unfolding decode_instruction_def Let_def
  by (simp add: fmt_from_embive_wf split: if_splits) (auto simp: fmt_from_embive_wf)

lemma decode_encode_raw: "inst_wf i \<Longrightarrow> decode_instruction (encode_raw i) = Some i"
  using opcode_of_raw [of i]
  by (cases i) (simp_all add: decode_instruction_def encode_raw_def fmt_decode_encode
      fmt_decode_encode [of _ 0, simplified] fits_unsigned_def)

lemma and_31_take_bit: "take_bit 16 w AND 31 = w AND 31" for w :: u32
  by (simp add: bit_blast)

text \<open>A half instruction is decoded from its own 16 bits, whatever the bytes after it are.\<close>

lemma decode_low:
  "decode_instruction (take_bit 16 w) = Some i \<Longrightarrow> inst_size i = Half \<Longrightarrow> decode_instruction w = Some i"
  unfolding decode_instruction_def Let_def and_31_take_bit
  by (auto simp: fmt_from_embive_low split: if_splits)

text \<open>
  The fetched word determines the instruction through its first \<open>size\<close> bytes: decoding it gives
  back the instruction that was encoded, whatever follows it in memory.
\<close>

lemma decode_fetched:
  assumes wf: "inst_wf i" and w: "take_bit (8 * size_bytes (inst_size i)) w = encode_raw i"
  shows "decode_instruction w = Some i"
proof (cases "inst_size i")
  case Half
  with w have "take_bit 16 w = encode_raw i" by (simp add: size_bytes_def)
  with decode_low [of w i] decode_encode_raw [OF wf] Half show ?thesis by simp
next
  case Word
  with w have "take_bit LENGTH(32) w = encode_raw i" by (simp add: size_bytes_def)
  then have "w = encode_raw i" by (simp only: take_bit_length_eq)
  with decode_encode_raw [OF wf] show ?thesis by simp
qed

end
