(* ===== verification/Memory.thy ===== *)
theory Memory
  imports Embive_Prelude
begin

text \<open>
  Model of \<^verbatim>\<open>src/interpreter/error.rs\<close>, \<^verbatim>\<open>src/interpreter/memory.rs\<close> and
  \<^verbatim>\<open>src/interpreter/memory/memory_type.rs\<close>.

  The interpreter is generic over the trait \<open>Memory\<close>. Its dictionary is the record
  \<open>memory_ops\<close>, a parameter of every definition that touches memory; a method of the trait takes
  \<open>&mut self\<close>, so each operation returns the memory after it. \<open>slice_memory_ops\<close> is the
  implementation \<open>SliceMemory\<close> of the crate. The width of \<open>usize\<close> in bits is its parameter
  \<open>W\<close>, so the model covers the 16-, 32- and 64-bit hosts alike.

  The locale \<open>memory_trait\<close> states what the guest relies on: a load does not change the memory, it
  returns as many bytes as asked for, a stored value is read back, a store touches no other byte,
  and a failed store changes nothing. \<open>SliceMemory\<close> interprets it for every width from 32 bits on.
\<close>

section \<open>Errors\<close>

datatype Error =
  InvalidMemoryAddress u32
| InvalidMemoryAccessLength nat
| InvalidProgramCounter u32
| InvalidInstruction u32
| InvalidCSRegister u16
| InvalidCPURegister u8
| IllegalInstruction u32
| InterruptNotEnabled
| NoSyscallFunction

section \<open>The Memory trait\<close>

record 'm memory_ops =
  load_bytes :: "'m \<Rightarrow> u32 \<Rightarrow> nat \<Rightarrow> (Error, u8 list, 'm) outcome"
  mut_bytes :: "'m \<Rightarrow> u32 \<Rightarrow> nat \<Rightarrow> Error + u8 list \<times> (u8 list \<Rightarrow> 'm)"
  store_bytes :: "'m \<Rightarrow> u32 \<Rightarrow> u8 list \<Rightarrow> (Error, unit, 'm) outcome"

text \<open>
  \<open>mut_bytes\<close> hands out a mutable slice: its bytes, and what the memory becomes when the caller
  has overwritten them.
\<close>

section \<open>SliceMemory\<close>

definition RAM_OFFSET :: u32 where
  "RAM_OFFSET = 0x80000000"

record SliceMemory =
  code :: "u8 list"
  ram :: "u8 list"

definition usize_of_u32 :: "nat \<Rightarrow> u32 \<Rightarrow> nat" where
  "usize_of_u32 W a = unat a mod 2 ^ W"

definition checked_slice_range :: "nat \<Rightarrow> u8 list \<Rightarrow> nat \<Rightarrow> nat \<Rightarrow> Error + nat \<times> nat" where
  "checked_slice_range W xs start len =
     (if start + len \<ge> 2 ^ W then Inl (InvalidMemoryAccessLength len)
      else let stop = start + len in
        if stop > length xs then Inl (InvalidMemoryAddress (of_nat stop))
        else Inr (start, stop))"

definition slice_load_bytes ::
  "nat \<Rightarrow> SliceMemory \<Rightarrow> u32 \<Rightarrow> nat \<Rightarrow> (Error, u8 list, SliceMemory) outcome" where
  "slice_load_bytes W m address len =
     (if address \<ge> RAM_OFFSET then
        let ram_address = usize_of_u32 W (address - RAM_OFFSET) in
        question (checked_slice_range W (ram m) ram_address len) m
          (\<lambda>(i, j). (Inr (slice_get (ram m) i j), m))
      else
        let code_address = usize_of_u32 W address in
        question (checked_slice_range W (code m) code_address len) m
          (\<lambda>(i, j). (Inr (slice_get (code m) i j), m)))"

definition slice_mut_bytes ::
  "nat \<Rightarrow> SliceMemory \<Rightarrow> u32 \<Rightarrow> nat \<Rightarrow> Error + u8 list \<times> (u8 list \<Rightarrow> SliceMemory)" where
  "slice_mut_bytes W m address len =
     (let ram_address = usize_of_u32 W (address - RAM_OFFSET) in
      case checked_slice_range W (ram m) ram_address len of
        Inl e \<Rightarrow> Inl e
      | Inr (i, j) \<Rightarrow>
          Inr (slice_get (ram m) i j, \<lambda>bs. m\<lparr>ram := slice_put (ram m) i bs\<rparr>))"

definition slice_store_bytes ::
  "nat \<Rightarrow> SliceMemory \<Rightarrow> u32 \<Rightarrow> u8 list \<Rightarrow> (Error, unit, SliceMemory) outcome" where
  "slice_store_bytes W m address data =
     (let ram_address = usize_of_u32 W (address - RAM_OFFSET) in
      question (checked_slice_range W (ram m) ram_address (length data)) m
        (\<lambda>(i, j). (Inr (), m\<lparr>ram := slice_put (ram m) i data\<rparr>)))"

definition slice_memory_ops :: "nat \<Rightarrow> SliceMemory memory_ops" where
  "slice_memory_ops W = \<lparr>
     load_bytes = slice_load_bytes W,
     mut_bytes = slice_mut_bytes W,
     store_bytes = slice_store_bytes W\<rparr>"

section \<open>Memory types\<close>

text \<open>
  The macro \<^verbatim>\<open>impl_memory_type_for_number!\<close>, for a number type of \<open>LENGTH('a) div 8\<close> bytes. The
  signed types and the floats are the words of their bits. The conversion of the loaded slice to
  an array fails when the memory returned another length than asked for.
\<close>

definition num_size :: "'a::len itself \<Rightarrow> nat" where
  "num_size _ = LENGTH('a) div 8"

definition load_num :: "'m memory_ops \<Rightarrow> 'm \<Rightarrow> u32 \<Rightarrow> (Error, 'a::len word, 'm) outcome" where
  "load_num M m address =
     (case load_bytes M m address (num_size TYPE('a)) of
        (Inl e, m') \<Rightarrow> (Inl e, m')
      | (Inr bytes, m') \<Rightarrow>
          if length bytes = num_size TYPE('a) then (Inr (from_le_bytes bytes), m')
          else (Inl (InvalidMemoryAccessLength (num_size TYPE('a))), m'))"

definition store_num :: "'m memory_ops \<Rightarrow> 'm \<Rightarrow> u32 \<Rightarrow> 'a::len word \<Rightarrow> (Error, unit, 'm) outcome" where
  "store_num M m address v = store_bytes M m address (to_le_bytes v)"

definition load_bool :: "'m memory_ops \<Rightarrow> 'm \<Rightarrow> u32 \<Rightarrow> (Error, bool, 'm) outcome" where
  "load_bool M m address =
     (case load_num M m address of
        (Inl e, m') \<Rightarrow> (Inl e, m')
      | (Inr (byte :: u8), m') \<Rightarrow> (Inr (byte \<noteq> 0), m'))"

definition store_bool :: "'m memory_ops \<Rightarrow> 'm \<Rightarrow> u32 \<Rightarrow> bool \<Rightarrow> (Error, unit, 'm) outcome" where
  "store_bool M m address b = store_num M m address (of_bool b :: u8)"

section \<open>The contract of the trait\<close>

text \<open>
  \<open>access_range a n\<close> is the set of addresses that an access of \<open>n\<close> bytes at \<open>a\<close> touches.
\<close>

definition access_range :: "u32 \<Rightarrow> nat \<Rightarrow> nat set" where
  "access_range a n = {unat a..<unat a + n}"

locale memory_trait =
  fixes M :: "'m memory_ops"
  assumes load_pure: "snd (load_bytes M m a n) = m"
    and load_length: "load_bytes M m a n = (Inr bs, m') \<Longrightarrow> length bs = n"
    and store_error: "store_bytes M m a bs = (Inl e, m') \<Longrightarrow> m' = m"
    and store_load: "store_bytes M m a bs = (Inr u, m') \<Longrightarrow>
          RAM_OFFSET \<le> a \<Longrightarrow> fst (load_bytes M m' a (length bs)) = Inr bs"
    and store_frame: "store_bytes M m a bs = (Inr u, m') \<Longrightarrow> RAM_OFFSET \<le> a \<Longrightarrow>
          access_range a (length bs) \<inter> access_range b n = {} \<Longrightarrow>
          fst (load_bytes M m' b n) = fst (load_bytes M m b n)"
begin

lemma load_num_pure: "load_num M m a = (r :: Error + 'a::len word, m') \<Longrightarrow> m' = m"
  using load_pure [of m a "num_size TYPE('a)"]
  by (auto simp: load_num_def split: prod.splits sum.splits if_splits)

lemma store_num_error: "store_num M m a v = (Inl e, m') \<Longrightarrow> m' = m"
  by (simp add: store_num_def store_error)

lemma store_load_num:
  fixes v :: "'a::len word"
  assumes "8 dvd LENGTH('a)" "store_num M m a v = (Inr u, m')" "RAM_OFFSET \<le> a"
  shows "load_num M m' a = (Inr v, m')"
proof -
  have "fst (load_bytes M m' a (num_size TYPE('a))) = Inr (to_le_bytes v)"
    using store_load [of m a "to_le_bytes v" u m'] assms by (simp add: store_num_def num_size_def)
  moreover have "snd (load_bytes M m' a (num_size TYPE('a))) = m'" by (rule load_pure)
  ultimately have "load_bytes M m' a (num_size TYPE('a)) = (Inr (to_le_bytes v), m')"
    by (simp add: prod_eq_iff)
  then show ?thesis
    using from_to_le_bytes [OF assms(1), of v] by (simp add: load_num_def num_size_def)
qed

lemma store_num_frame:
  fixes v :: "'a::len word"
  assumes "store_num M m a v = (Inr u, m')" "RAM_OFFSET \<le> a"
    and "access_range a (num_size TYPE('a)) \<inter> access_range b (num_size TYPE('b)) = {}"
  shows "fst (load_num M m' b :: (Error, 'b::len word, 'm) outcome) = fst (load_num M m b)"
proof -
  have "fst (load_bytes M m' b (num_size TYPE('b))) = fst (load_bytes M m b (num_size TYPE('b)))"
    using store_frame [of m a "to_le_bytes v" u m' b "num_size TYPE('b)"] assms
    by (simp add: store_num_def num_size_def)
  then show ?thesis by (auto simp: load_num_def split: prod.splits sum.splits)
qed

end

section \<open>SliceMemory keeps the contract\<close>

lemmas slice_defs =
  slice_load_bytes_def slice_mut_bytes_def slice_store_bytes_def checked_slice_range_def

lemma slice_ops_sel [simp]:
  "load_bytes (slice_memory_ops W) = slice_load_bytes W"
  "mut_bytes (slice_memory_ops W) = slice_mut_bytes W"
  "store_bytes (slice_memory_ops W) = slice_store_bytes W"
  by (simp_all add: slice_memory_ops_def)

lemma usize_of_u32_wide: "32 \<le> W \<Longrightarrow> usize_of_u32 W a = unat a"
proof -
  assume "32 \<le> W"
  then have "(2::nat) ^ 32 \<le> 2 ^ W" by (rule power_increasing) simp
  moreover have "unat a < 2 ^ 32" using unsigned_less [of a] by simp
  ultimately show ?thesis by (simp add: usize_of_u32_def)
qed

lemma unat_ram_address: "RAM_OFFSET \<le> a \<Longrightarrow> unat (a - RAM_OFFSET) = unat a - 2 ^ 31"
  by (simp add: unat_sub RAM_OFFSET_def)

lemma unat_ram_lower: "RAM_OFFSET \<le> a \<Longrightarrow> 2 ^ 31 \<le> unat a"
  by (simp add: RAM_OFFSET_def word_le_nat_alt)

lemma checked_slice_range_Inr:
  "checked_slice_range W xs i n = Inr (a, b) \<longleftrightarrow>
     a = i \<and> b = i + n \<and> i + n < 2 ^ W \<and> i + n \<le> length xs"
  by (auto simp: checked_slice_range_def Let_def not_le)

lemma slice_load_pure [simp]: "snd (slice_load_bytes W m a n) = m"
  by (auto simp: slice_load_bytes_def Let_def split: question_splits)

lemma slice_load_length: "slice_load_bytes W m a n = (Inr bs, m') \<Longrightarrow> length bs = n"
  by (auto simp: slice_load_bytes_def Let_def checked_slice_range_Inr question_eq_Inr split: if_splits)

lemma slice_store_Inr:
  "slice_store_bytes W m a bs = (Inr u, m') \<longleftrightarrow>
     (let i = usize_of_u32 W (a - RAM_OFFSET) in
      i + length bs < 2 ^ W \<and> i + length bs \<le> length (ram m) \<and>
      m' = m\<lparr>ram := slice_put (ram m) i bs\<rparr>)"
  by (auto simp: slice_store_bytes_def Let_def question_eq_Inr checked_slice_range_Inr)

lemma slice_store_error: "slice_store_bytes W m a bs = (Inl e, m') \<Longrightarrow> m' = m"
  by (auto simp: slice_store_bytes_def Let_def split: question_splits)

lemma slice_store_load:
  assumes "slice_store_bytes W m a bs = (Inr u, m')" "RAM_OFFSET \<le> a"
  shows "fst (slice_load_bytes W m' a (length bs)) = Inr bs"
  using assms by (auto simp: slice_store_Inr slice_load_bytes_def checked_slice_range_def Let_def)

lemma slice_store_frame:
  assumes W: "32 \<le> W" and st: "slice_store_bytes W m a bs = (Inr u, m')" and a: "RAM_OFFSET \<le> a"
    and dis: "access_range a (length bs) \<inter> access_range b n = {}"
  shows "fst (slice_load_bytes W m' b n) = fst (slice_load_bytes W m b n)"
proof (cases "RAM_OFFSET \<le> b")
  case False
  with st show ?thesis by (auto simp: slice_store_Inr slice_load_bytes_def Let_def split: question_splits)
next
  case True
  define i where "i = unat a - 2 ^ 31"
  define j where "j = unat b - 2 ^ 31"
  have m': "i + length bs \<le> length (ram m)" "m' = m\<lparr>ram := slice_put (ram m) i bs\<rparr>"
    using st a W by (simp_all add: slice_store_Inr Let_def usize_of_u32_wide unat_ram_address i_def)
  have "{i..<i + length bs} \<inter> {j..<j + n} = {}"
  proof -
    have "unat a = i + 2 ^ 31" "unat b = j + 2 ^ 31"
      using unat_ram_lower [OF a] unat_ram_lower [OF True] by (simp_all add: i_def j_def)
    then have "x \<in> {i..<i + length bs} \<inter> {j..<j + n} \<Longrightarrow>
        x + 2 ^ 31 \<in> access_range a (length bs) \<inter> access_range b n" for x
      by (auto simp: access_range_def)
    with dis show ?thesis by blast
  qed
  then have "n = 0 \<or> length bs = 0 \<or> j + n \<le> i \<or> i + length bs \<le> j"
    by (auto simp: ivl_disj_int not_less dest!: spec)
  then have "slice_get (slice_put (ram m) i bs) j (j + n) = slice_get (ram m) j (j + n)"
    if "j + n \<le> length (ram m)"
    using that m'(1) slice_get_put_disjoint [of i bs "ram m" j "j + n"]
    by (auto simp: slice_get_empty slice_put_empty)
  moreover have "usize_of_u32 W (b - RAM_OFFSET) = j"
    using True W by (simp add: usize_of_u32_wide unat_ram_address j_def)
  ultimately show ?thesis
    using True m' by (auto simp: slice_load_bytes_def checked_slice_range_def Let_def)
qed

interpretation slice: memory_trait "slice_memory_ops (32 + k)" for k
proof unfold_locales
  fix m m' :: SliceMemory and a b :: u32 and n :: nat and bs :: "u8 list" and e :: Error and u :: unit
  show "snd (load_bytes (slice_memory_ops (32 + k)) m a n) = m" by simp
  show "load_bytes (slice_memory_ops (32 + k)) m a n = (Inr bs, m') \<Longrightarrow> length bs = n"
    by (simp add: slice_load_length)
  show "store_bytes (slice_memory_ops (32 + k)) m a bs = (Inl e, m') \<Longrightarrow> m' = m"
    by (simp add: slice_store_error)
  show "store_bytes (slice_memory_ops (32 + k)) m a bs = (Inr u, m') \<Longrightarrow> RAM_OFFSET \<le> a \<Longrightarrow>
      fst (load_bytes (slice_memory_ops (32 + k)) m' a (length bs)) = Inr bs"
    by (simp add: slice_store_load)
  show "store_bytes (slice_memory_ops (32 + k)) m a bs = (Inr u, m') \<Longrightarrow> RAM_OFFSET \<le> a \<Longrightarrow>
      access_range a (length bs) \<inter> access_range b n = {} \<Longrightarrow>
      fst (load_bytes (slice_memory_ops (32 + k)) m' b n) = fst (load_bytes (slice_memory_ops (32 + k)) m b n)"
    using slice_store_frame [of "32 + k" m a bs u m' b n] by simp
qed

end
