(* ===== verification/Registers.thy ===== *)
theory Registers
  imports Memory
begin

text \<open>
  Model of \<^verbatim>\<open>src/interpreter/registers.rs\<close>, \<^verbatim>\<open>registers/cpu.rs\<close> and
  \<^verbatim>\<open>registers/control_status.rs\<close>: the 32 CPU registers, the control and status registers, and
  trap entry and return. The abstract view of the control and status registers at the end is the
  contract of \<open>operation\<close>: a file of registers, each with a mask of writable bits and fixed values
  in the others.
\<close>

section \<open>CPU registers\<close>

datatype CPURegister =
  Zero | RA | SP | GP | TP | T0 | T1 | T2 | S0 | S1 | A0 | A1 | A2 | A3 | A4 | A5 | A6 | A7
| S2 | S3 | S4 | S5 | S6 | S7 | S8 | S9 | S10 | S11 | T3 | T4 | T5 | T6

fun reg_index :: "CPURegister \<Rightarrow> u8" where
  "reg_index Zero = 0" | "reg_index RA = 1" | "reg_index SP = 2" | "reg_index GP = 3"
| "reg_index TP = 4" | "reg_index T0 = 5" | "reg_index T1 = 6" | "reg_index T2 = 7"
| "reg_index S0 = 8" | "reg_index S1 = 9" | "reg_index A0 = 10" | "reg_index A1 = 11"
| "reg_index A2 = 12" | "reg_index A3 = 13" | "reg_index A4 = 14" | "reg_index A5 = 15"
| "reg_index A6 = 16" | "reg_index A7 = 17" | "reg_index S2 = 18" | "reg_index S3 = 19"
| "reg_index S4 = 20" | "reg_index S5 = 21" | "reg_index S6 = 22" | "reg_index S7 = 23"
| "reg_index S8 = 24" | "reg_index S9 = 25" | "reg_index S10 = 26" | "reg_index S11 = 27"
| "reg_index T3 = 28" | "reg_index T4 = 29" | "reg_index T5 = 30" | "reg_index T6 = 31"

definition CPU_REGISTER_COUNT :: u8 where
  "CPU_REGISTER_COUNT = 32"

record CPURegisters =
  inner :: "i32 list"

definition cpu_default :: CPURegisters where
  "cpu_default = \<lparr>inner = replicate 32 0\<rparr>"

definition cpu_get :: "CPURegisters \<Rightarrow> u8 \<Rightarrow> Error + i32" where
  "cpu_get r index =
     (if index \<ge> CPU_REGISTER_COUNT then Inl (InvalidCPURegister index)
      else Inr (inner r ! unat index))"

text \<open>A mutable reference is the value it points to and the registers after a write through it.\<close>

definition cpu_get_mut :: "CPURegisters \<Rightarrow> u8 \<Rightarrow> Error + i32 \<times> (i32 \<Rightarrow> CPURegisters)" where
  "cpu_get_mut r index =
     (if index \<ge> CPU_REGISTER_COUNT then Inl (InvalidCPURegister index)
      else Inr (inner r ! unat index, \<lambda>v. r\<lparr>inner := (inner r)[unat index := v]\<rparr>))"

definition cpu_wf :: "CPURegisters \<Rightarrow> bool" where
  "cpu_wf r \<longleftrightarrow> length (inner r) = 32"

lemma reg_index_less: "reg_index r < CPU_REGISTER_COUNT"
  by (cases r) (simp_all add: CPU_REGISTER_COUNT_def)

lemma cpu_get_Inr: "cpu_get r i = Inr v \<longleftrightarrow> i < 32 \<and> v = inner r ! unat i"
  by (auto simp: cpu_get_def CPU_REGISTER_COUNT_def not_le)

lemma cpu_get_mut_Inr:
  "cpu_get_mut r i = Inr (v, wr) \<longleftrightarrow>
     i < 32 \<and> v = inner r ! unat i \<and> wr = (\<lambda>v. r\<lparr>inner := (inner r)[unat i := v]\<rparr>)"
  by (auto simp: cpu_get_mut_def CPU_REGISTER_COUNT_def not_le)

lemma cpu_default_wf: "cpu_wf cpu_default"
  by (simp add: cpu_wf_def cpu_default_def)

section \<open>Control and status registers\<close>

definition EMBIVE_INTERRUPT_CODE :: nat where
  "EMBIVE_INTERRUPT_CODE = 16"

abbreviation (input) MSTATUS_ADDR :: u16 where "MSTATUS_ADDR \<equiv> 0x300"
abbreviation (input) MISA_ADDR :: u16 where "MISA_ADDR \<equiv> 0x301"
abbreviation (input) MIE_ADDR :: u16 where "MIE_ADDR \<equiv> 0x304"
abbreviation (input) MTVEC_ADDR :: u16 where "MTVEC_ADDR \<equiv> 0x305"
abbreviation (input) MSTATUSH_ADDR :: u16 where "MSTATUSH_ADDR \<equiv> 0x310"
abbreviation (input) MCOUNTINHIBIT_ADDR :: u16 where "MCOUNTINHIBIT_ADDR \<equiv> 0x320"
abbreviation (input) MHPMEVENT31H_ADDR :: u16 where "MHPMEVENT31H_ADDR \<equiv> 0x33F"
abbreviation (input) MSCRATCH_ADDR :: u16 where "MSCRATCH_ADDR \<equiv> 0x340"
abbreviation (input) MEPC_ADDR :: u16 where "MEPC_ADDR \<equiv> 0x341"
abbreviation (input) MCAUSE_ADDR :: u16 where "MCAUSE_ADDR \<equiv> 0x342"
abbreviation (input) MTVAL_ADDR :: u16 where "MTVAL_ADDR \<equiv> 0x343"
abbreviation (input) MIP_ADDR :: u16 where "MIP_ADDR \<equiv> 0x344"
abbreviation (input) MCYCLE_ADDR :: u16 where "MCYCLE_ADDR \<equiv> 0xB00"
abbreviation (input) MHPMCOUNTER31H_ADDR :: u16 where "MHPMCOUNTER31H_ADDR \<equiv> 0xB9F"
abbreviation (input) MVENDORID_ADDR :: u16 where "MVENDORID_ADDR \<equiv> 0xF11"
abbreviation (input) MCONFIGPTR_ADDR :: u16 where "MCONFIGPTR_ADDR \<equiv> 0xF15"

definition MTVEC_MODE :: u32 where "MTVEC_MODE = 0b11"
definition MEPC_BIT0 :: u32 where "MEPC_BIT0 = 0b1"
definition MSTATUS_MIE :: u8 where "MSTATUS_MIE = push_bit 3 0b1"
definition MSTATUS_MPIE :: u8 where "MSTATUS_MPIE = push_bit 7 0b1"
definition MSTATUS_MASK :: u8 where "MSTATUS_MASK = MSTATUS_MIE OR MSTATUS_MPIE"
definition MCAUSE_MEI_CODE :: u32 where "MCAUSE_MEI_CODE = of_nat EMBIVE_INTERRUPT_CODE"
definition MCAUSE_INTERRUPT :: u32 where "MCAUSE_INTERRUPT = push_bit 31 0b1"
definition MI_E_P_MASK :: u32 where "MI_E_P_MASK = push_bit EMBIVE_INTERRUPT_CODE 0b1"

text \<open>\<open>MXL_32\<close>, \<open>MXLEN\<close> and the extension bits of \<open>misa\<close>.\<close>

definition get_misa :: u32 where
  "get_misa = push_bit (32 - 2) 0b01 OR push_bit 8 1 OR push_bit 12 1 OR push_bit 0 1"

datatype CSOperation = CsWrite u32 | CsSet u32 | CsClear u32

record CSRegisters =
  mtvec :: u32
  mscratch :: u32
  mepc :: u32
  mcause :: u32
  mtval :: i32
  mie_embive :: bool
  mip_embive :: bool
  mstatus :: u8

definition cs_default :: CSRegisters where
  "cs_default = \<lparr>mtvec = 0, mscratch = 0, mepc = 0, mcause = 0, mtval = 0,
     mie_embive = False, mip_embive = False, mstatus = 0\<rparr>"

definition execute_operation :: "CSOperation option \<Rightarrow> u32 \<Rightarrow> u32" where
  "execute_operation op v =
     (case op of
        Some (CsWrite val) \<Rightarrow> val
      | Some (CsSet val) \<Rightarrow> v OR val
      | Some (CsClear val) \<Rightarrow> v AND NOT val
      | None \<Rightarrow> v)"

definition cs_operation ::
  "CSRegisters \<Rightarrow> CSOperation option \<Rightarrow> u16 \<Rightarrow> (Error, u32, CSRegisters) outcome" where
  "cs_operation cs op addr =
     (if addr = MSTATUS_ADDR then
        let ret = ucast (mstatus cs) in
        (Inr ret, cs\<lparr>mstatus := ucast (execute_operation op ret) AND MSTATUS_MASK\<rparr>)
      else if addr = MISA_ADDR then (Inr get_misa, cs)
      else if addr = MIE_ADDR then
        let ret = push_bit EMBIVE_INTERRUPT_CODE (of_bool (mie_embive cs)) in
        (Inr ret, cs\<lparr>mie_embive := (execute_operation op ret AND MI_E_P_MASK) \<noteq> 0\<rparr>)
      else if addr = MTVEC_ADDR then
        let ret = mtvec cs in
        (Inr ret, cs\<lparr>mtvec := execute_operation op ret AND NOT MTVEC_MODE\<rparr>)
      else if addr = MSTATUSH_ADDR then (Inr 0, cs)
      else if MCOUNTINHIBIT_ADDR \<le> addr \<and> addr \<le> MHPMEVENT31H_ADDR then (Inr 0, cs)
      else if addr = MSCRATCH_ADDR then
        let ret = mscratch cs in
        (Inr ret, cs\<lparr>mscratch := execute_operation op ret\<rparr>)
      else if addr = MEPC_ADDR then
        let ret = mepc cs in
        (Inr ret, cs\<lparr>mepc := execute_operation op ret AND NOT MEPC_BIT0\<rparr>)
      else if addr = MCAUSE_ADDR then
        let ret = mcause cs in
        (Inr ret, cs\<lparr>mcause := execute_operation op ret\<rparr>)
      else if addr = MTVAL_ADDR then
        let ret = mtval cs in
        (Inr ret, cs\<lparr>mtval := execute_operation op ret\<rparr>)
      else if addr = MIP_ADDR then
        let ret = push_bit EMBIVE_INTERRUPT_CODE (of_bool (mip_embive cs)) in
        (Inr ret, cs\<lparr>mip_embive := (execute_operation op ret AND MI_E_P_MASK) \<noteq> 0\<rparr>)
      else if MCYCLE_ADDR \<le> addr \<and> addr \<le> MHPMCOUNTER31H_ADDR then (Inr 0, cs)
      else if MVENDORID_ADDR \<le> addr \<and> addr \<le> MCONFIGPTR_ADDR then (Inr 0, cs)
      else (Inl (InvalidCSRegister addr), cs))"

definition set_interrupt :: "CSRegisters \<Rightarrow> CSRegisters" where
  "set_interrupt cs = cs\<lparr>mip_embive := True\<rparr>"

definition interrupt_enabled :: "CSRegisters \<Rightarrow> bool" where
  "interrupt_enabled cs \<longleftrightarrow> mie_embive cs \<and> (mstatus cs AND MSTATUS_MIE) \<noteq> 0"

text \<open>The program counter is passed by mutable reference: the second component of the result.\<close>

definition trap_entry :: "CSRegisters \<Rightarrow> u32 \<Rightarrow> i32 \<Rightarrow> CSRegisters \<times> u32" where
  "trap_entry cs pc value =
     (let cs = (if (mstatus cs AND MSTATUS_MIE) \<noteq> 0
                then cs\<lparr>mstatus := mstatus cs OR MSTATUS_MPIE\<rparr>
                else cs\<lparr>mstatus := mstatus cs AND NOT MSTATUS_MPIE\<rparr>);
          cs = cs\<lparr>mstatus := mstatus cs AND NOT MSTATUS_MIE\<rparr>;
          cs = cs\<lparr>mcause := MCAUSE_INTERRUPT OR MCAUSE_MEI_CODE\<rparr>;
          cs = cs\<lparr>mepc := pc\<rparr>;
          cs = cs\<lparr>mtval := value\<rparr>
      in (cs, mtvec cs AND NOT MTVEC_MODE))"

definition trap_return :: "CSRegisters \<Rightarrow> u32 \<times> CSRegisters" where
  "trap_return cs =
     (let cs = (if (mstatus cs AND MSTATUS_MPIE) \<noteq> 0
                then cs\<lparr>mstatus := mstatus cs OR MSTATUS_MIE\<rparr>
                else cs\<lparr>mstatus := mstatus cs AND NOT MSTATUS_MIE\<rparr>)
      in (mepc cs, cs))"

section \<open>Registers\<close>

record Registers =
  cpu :: CPURegisters
  control_status :: CSRegisters

definition registers_default :: Registers where
  "registers_default = \<lparr>cpu = cpu_default, control_status = cs_default\<rparr>"

section \<open>The contract of the control and status registers\<close>

text \<open>
  An implemented register has a value, of which an operation can change the bits in
  \<open>csr_writable\<close>; the identification registers and the ignored counters have no writable bit.
\<close>

definition csr_exists :: "u16 \<Rightarrow> bool" where
  "csr_exists a \<longleftrightarrow>
     a \<in> {MSTATUS_ADDR, MISA_ADDR, MIE_ADDR, MTVEC_ADDR, MSTATUSH_ADDR, MSCRATCH_ADDR, MEPC_ADDR,
           MCAUSE_ADDR, MTVAL_ADDR, MIP_ADDR}
     \<or> (MCOUNTINHIBIT_ADDR \<le> a \<and> a \<le> MHPMEVENT31H_ADDR)
     \<or> (MCYCLE_ADDR \<le> a \<and> a \<le> MHPMCOUNTER31H_ADDR)
     \<or> (MVENDORID_ADDR \<le> a \<and> a \<le> MCONFIGPTR_ADDR)"

definition csr_writable :: "u16 \<Rightarrow> u32" where
  "csr_writable a =
     (if a = MSTATUS_ADDR then 0x88
      else if a = MIE_ADDR \<or> a = MIP_ADDR then 0x10000
      else if a = MTVEC_ADDR then NOT 0b11
      else if a = MEPC_ADDR then NOT 0b1
      else if a = MSCRATCH_ADDR \<or> a = MCAUSE_ADDR \<or> a = MTVAL_ADDR then NOT 0
      else 0)"

definition csr_view :: "CSRegisters \<Rightarrow> u16 \<Rightarrow> u32" where
  "csr_view cs a =
     (if a = MSTATUS_ADDR then ucast (mstatus cs)
      else if a = MISA_ADDR then get_misa
      else if a = MIE_ADDR then (if mie_embive cs then 0x10000 else 0)
      else if a = MTVEC_ADDR then mtvec cs
      else if a = MSCRATCH_ADDR then mscratch cs
      else if a = MEPC_ADDR then mepc cs
      else if a = MCAUSE_ADDR then mcause cs
      else if a = MTVAL_ADDR then mtval cs
      else if a = MIP_ADDR then (if mip_embive cs then 0x10000 else 0)
      else 0)"

text \<open>The fields hold writable bits only: what the write masks of \<open>operation\<close> maintain.\<close>

definition cs_wf :: "CSRegisters \<Rightarrow> bool" where
  "cs_wf cs \<longleftrightarrow> mstatus cs AND MSTATUS_MASK = mstatus cs
     \<and> mtvec cs AND NOT MTVEC_MODE = mtvec cs \<and> mepc cs AND NOT MEPC_BIT0 = mepc cs"

lemmas mask_defs =
  MTVEC_MODE_def MEPC_BIT0_def MSTATUS_MIE_def MSTATUS_MPIE_def MSTATUS_MASK_def MI_E_P_MASK_def
  EMBIVE_INTERRUPT_CODE_def

lemma interrupt_bit: "(w AND push_bit 16 1 \<noteq> 0) \<longleftrightarrow> bit w 16" for w :: u32
  by (simp add: bit_blast)

lemma interrupt_bit_value: "w AND 0x10000 = (if bit w 16 then 0x10000 else 0)" for w :: u32
  by (simp add: bit_blast)

lemma cs_default_wf: "cs_wf cs_default"
  by (simp add: cs_wf_def cs_default_def)

lemma cs_operation_error_iff:
  "fst (cs_operation cs op a) = Inl e \<longleftrightarrow> \<not> csr_exists a \<and> e = InvalidCSRegister a"
  by (auto simp: cs_operation_def csr_exists_def Let_def)

lemma cs_operation_error_state: "cs_operation cs op a = (Inl e, cs') \<Longrightarrow> cs' = cs"
  by (auto simp: cs_operation_def Let_def split: if_splits)

lemma cs_operation_wf: "cs_wf cs \<Longrightarrow> cs_wf (snd (cs_operation cs op a))"
  by (auto simp: cs_operation_def Let_def cs_wf_def and.assoc)

lemma cs_operation_value: "cs_operation cs op a = (Inr v, cs') \<Longrightarrow> v = csr_view cs a"
  by (auto simp: cs_operation_def csr_view_def Let_def mask_defs split: if_splits)

lemma cs_operation_frame: "cs_operation cs op a = (Inr v, cs') \<Longrightarrow> b \<noteq> a \<Longrightarrow> csr_view cs' b = csr_view cs b"
  by (auto simp: cs_operation_def csr_view_def Let_def split: if_splits)

lemma ucast_mstatus: "ucast (ucast w AND 0x88 :: u8) = w AND 0x88" for w :: u32
  by (simp add: bit_blast)

lemma cs_wf_low_bits:
  assumes "cs_wf cs"
  shows "ucast (mstatus cs) AND NOT 0x88 = (0 :: u32)" "mtvec cs AND 0b11 = 0" "mepc cs AND 0b1 = 0"
proof -
  have "mtvec cs AND 0b11 = (mtvec cs AND NOT MTVEC_MODE) AND 0b11"
    "mepc cs AND 0b1 = (mepc cs AND NOT MEPC_BIT0) AND 0b1"
    using assms by (simp_all add: cs_wf_def)
  then show "mtvec cs AND 0b11 = 0" "mepc cs AND 0b1 = 0"
    by (simp_all add: mask_defs and.assoc)
  have "ucast (mstatus cs) AND NOT 0x88 = (ucast (mstatus cs AND MSTATUS_MASK) AND NOT 0x88 :: u32)"
    using assms by (simp add: cs_wf_def)
  also have "\<dots> = 0" by (simp add: mask_defs bit_blast)
  finally show "ucast (mstatus cs) AND NOT 0x88 = (0 :: u32)" .
qed

lemma cs_operation_update:
  assumes "cs_wf cs" "cs_operation cs op a = (Inr v, cs')"
  shows "csr_view cs' a = (execute_operation op v AND csr_writable a) OR (v AND NOT (csr_writable a))"
  using assms(2) cs_wf_low_bits [OF assms(1)]
  by (auto simp: cs_operation_def csr_view_def csr_writable_def Let_def mask_defs ucast_mstatus
      interrupt_bit interrupt_bit_value split: if_splits)

section \<open>Traps\<close>

lemma mstatus_bits:
  "(m AND MSTATUS_MIE \<noteq> 0) \<longleftrightarrow> bit m 3" "(m AND MSTATUS_MPIE \<noteq> 0) \<longleftrightarrow> bit m 7"
  by (simp_all add: mask_defs bit_blast)

lemma trap_entry_disables: "\<not> interrupt_enabled (fst (trap_entry cs pc v))"
  by (simp add: trap_entry_def interrupt_enabled_def Let_def and.assoc)

lemma trap_entry_target: "snd (trap_entry cs pc v) = mtvec cs AND NOT MTVEC_MODE"
  by (simp add: trap_entry_def Let_def)

lemma bit_mstatus_masks: "bit MSTATUS_MIE n \<longleftrightarrow> n = 3" "bit MSTATUS_MPIE n \<longleftrightarrow> n = 7"
proof -
  have "bit (2 ^ 3 :: u8) n \<longleftrightarrow> n = 3"
    by (subst bit_exp_iff) auto
  moreover have "bit (2 ^ 7 :: u8) n \<longleftrightarrow> n = 7"
    by (subst bit_exp_iff) auto
  ultimately show "bit MSTATUS_MIE n \<longleftrightarrow> n = 3" "bit MSTATUS_MPIE n \<longleftrightarrow> n = 7"
    by (simp_all add: MSTATUS_MIE_def MSTATUS_MPIE_def)
qed

lemma bit_not_mstatus_masks:
  "bit (NOT MSTATUS_MIE) n \<longleftrightarrow> n < 8 \<and> n \<noteq> 3" "bit (NOT MSTATUS_MPIE) n \<longleftrightarrow> n < 8 \<and> n \<noteq> 7"
  by (auto simp: bit_not_iff_eq bit_mstatus_masks)

lemma mstatus_trap_entry:
  "bit (mstatus (fst (trap_entry cs pc v))) n \<longleftrightarrow>
     (if n = 3 then False else if n = 7 then bit (mstatus cs) 3 else bit (mstatus cs) n)"
  by (auto simp: trap_entry_def Let_def mstatus_bits bit_and_iff bit_or_iff bit_mstatus_masks
      bit_not_mstatus_masks dest: bit_imp_le_length)

lemma mstatus_trap_return:
  "bit (mstatus (snd (trap_return cs))) n \<longleftrightarrow>
     (if n = 3 then bit (mstatus cs) 7 else bit (mstatus cs) n)"
  by (auto simp: trap_return_def Let_def mstatus_bits bit_and_iff bit_or_iff bit_mstatus_masks
      bit_not_mstatus_masks dest: bit_imp_le_length)

lemma trap_entry_fields:
  "mepc (fst (trap_entry cs pc v)) = pc" "mtval (fst (trap_entry cs pc v)) = v"
  "mcause (fst (trap_entry cs pc v)) = 0x80000010" "mtvec (fst (trap_entry cs pc v)) = mtvec cs"
  "mie_embive (fst (trap_entry cs pc v)) = mie_embive cs"
  "mip_embive (fst (trap_entry cs pc v)) = mip_embive cs"
  "mscratch (fst (trap_entry cs pc v)) = mscratch cs"
  by (simp_all add: trap_entry_def Let_def MCAUSE_INTERRUPT_def MCAUSE_MEI_CODE_def EMBIVE_INTERRUPT_CODE_def)

lemma trap_return_fields:
  "fst (trap_return cs) = mepc cs" "mie_embive (snd (trap_return cs)) = mie_embive cs"
  "mtvec (snd (trap_return cs)) = mtvec cs" "mepc (snd (trap_return cs)) = mepc cs"
  by (simp_all add: trap_return_def Let_def)

text \<open>The machine status is masked exactly when no bit but the two of the mask is set.\<close>

lemma mstatus_masked: "m AND MSTATUS_MASK = m \<longleftrightarrow> (\<forall>n. bit m n \<longrightarrow> n = 3 \<or> n = 7)"
proof -
  have "m AND MSTATUS_MASK = m \<longleftrightarrow> (\<forall>n<8. bit (m AND MSTATUS_MASK) n = bit m n)"
    by (rule word8_eq_bits)
  also have "\<dots> \<longleftrightarrow> (\<forall>n<8. bit m n \<longrightarrow> n = 3 \<or> n = 7)"
    by (auto simp: bit_and_iff bit_or_iff MSTATUS_MASK_def bit_mstatus_masks)
  also have "\<dots> \<longleftrightarrow> (\<forall>n. bit m n \<longrightarrow> n = 3 \<or> n = 7)"
    using bit_imp_le_length [of m] by auto
  finally show ?thesis .
qed

lemma mepc_masked: "w AND NOT MEPC_BIT0 = w \<longleftrightarrow> aligned_to 1 w" for w :: u32
  by (simp add: MEPC_BIT0_def aligned_to_def bit_blast)

lemma trap_entry_wf: "cs_wf cs \<Longrightarrow> aligned_to 1 pc \<Longrightarrow> cs_wf (fst (trap_entry cs pc v))"
  by (auto simp: cs_wf_def mepc_masked mstatus_masked mstatus_trap_entry trap_entry_fields)

lemma trap_return_wf: "cs_wf cs \<Longrightarrow> cs_wf (snd (trap_return cs))"
  by (auto simp: cs_wf_def mstatus_masked mstatus_trap_return trap_return_fields)

lemma trap_return_entry:
  "fst (trap_return (fst (trap_entry cs pc v))) = pc"
  "interrupt_enabled (snd (trap_return (fst (trap_entry cs pc v)))) = interrupt_enabled cs"
  by (simp_all add: trap_return_fields trap_entry_fields interrupt_enabled_def mstatus_bits
      mstatus_trap_return mstatus_trap_entry)

end
