(* ===== verification/Interpreter_State.thy ===== *)
theory Interpreter_State
  imports Instruction Registers
begin

text \<open>
  The struct \<open>Interpreter\<close> of \<^verbatim>\<open>src/interpreter.rs\<close> and the enum \<open>State\<close> of
  \<^verbatim>\<open>src/interpreter/state.rs\<close>, with the constructor and the reset, and the small updates that
  the executors share. The memory of the interpreter is a type parameter, as it is in the code.
\<close>

datatype State = Running | Called | Waiting | Halted

record 'm Interpreter =
  program_counter :: u32
  registers :: Registers
  memory :: 'm
  instruction_limit :: u32
  memory_reservation :: "(u32 \<times> i32) option"

type_synonym 'm step_result = "(Error, State, 'm Interpreter) outcome"

definition interpreter_new :: "'m \<Rightarrow> u32 \<Rightarrow> 'm Interpreter" where
  "interpreter_new m limit = \<lparr>
     program_counter = 0,
     registers = registers_default,
     memory = m,
     instruction_limit = limit,
     memory_reservation = None\<rparr>"

definition interpreter_reset :: "'m Interpreter \<Rightarrow> 'm Interpreter" where
  "interpreter_reset s = s\<lparr>
     program_counter := 0,
     registers := registers_default,
     memory_reservation := None\<rparr>"

section \<open>Shared updates\<close>

definition set_cpu :: "CPURegisters \<Rightarrow> 'm Interpreter \<Rightarrow> 'm Interpreter" where
  "set_cpu c s = s\<lparr>registers := (registers s)\<lparr>cpu := c\<rparr>\<rparr>"

definition set_cs :: "CSRegisters \<Rightarrow> 'm Interpreter \<Rightarrow> 'm Interpreter" where
  "set_cs c s = s\<lparr>registers := (registers s)\<lparr>control_status := c\<rparr>\<rparr>"

abbreviation get_reg :: "'m Interpreter \<Rightarrow> u8 \<Rightarrow> Error + i32" where
  "get_reg s i \<equiv> cpu_get (cpu (registers s)) i"

abbreviation get_reg_mut :: "'m Interpreter \<Rightarrow> u8 \<Rightarrow> Error + i32 \<times> (i32 \<Rightarrow> CPURegisters)" where
  "get_reg_mut s i \<equiv> cpu_get_mut (cpu (registers s)) i"

text \<open>\<open>let r = get_mut(i)?; *r = f(*r);\<close> followed by \<open>k\<close>.\<close>

definition write_reg ::
  "'m Interpreter \<Rightarrow> u8 \<Rightarrow> (i32 \<Rightarrow> i32) \<Rightarrow> ('m Interpreter \<Rightarrow> 'm step_result) \<Rightarrow> 'm step_result" where
  "write_reg s i f k =
     question (get_reg_mut s i) s (\<lambda>(old, write). k (set_cpu (write (f old)) s))"

text \<open>\<open>T::load(memory, address)?\<close> and \<open>v.store(memory, address)?\<close> followed by \<open>k\<close>.\<close>

definition load_mem ::
  "'m memory_ops \<Rightarrow> 'm Interpreter \<Rightarrow> u32 \<Rightarrow> ('a::len word \<Rightarrow> 'm Interpreter \<Rightarrow> 'm step_result)
     \<Rightarrow> 'm step_result" where
  "load_mem M s a k =
     (case load_num M (memory s) a of
        (Inl e, m) \<Rightarrow> (Inl e, s\<lparr>memory := m\<rparr>)
      | (Inr v, m) \<Rightarrow> k v (s\<lparr>memory := m\<rparr>))"

definition store_mem ::
  "'m memory_ops \<Rightarrow> 'm Interpreter \<Rightarrow> u32 \<Rightarrow> 'a::len word \<Rightarrow> ('m Interpreter \<Rightarrow> 'm step_result)
     \<Rightarrow> 'm step_result" where
  "store_mem M s a v k =
     (case store_num M (memory s) a v of
        (Inl e, m) \<Rightarrow> (Inl e, s\<lparr>memory := m\<rparr>)
      | (Inr _, m) \<Rightarrow> k (s\<lparr>memory := m\<rparr>))"

text \<open>\<open>program_counter = program_counter.wrapping_add(Self::size() as u32); Ok(state)\<close>.\<close>

definition next_instruction :: "Size \<Rightarrow> State \<Rightarrow> 'm Interpreter \<Rightarrow> 'm step_result" where
  "next_instruction sz st s =
     (Inr st, s\<lparr>program_counter := program_counter s + of_nat (size_bytes sz)\<rparr>)"

definition jump_relative :: "i32 \<Rightarrow> 'm Interpreter \<Rightarrow> 'm step_result" where
  "jump_relative imm s = (Inr Running, s\<lparr>program_counter := program_counter s + imm\<rparr>)"

definition invalid_instruction :: "'m Interpreter \<Rightarrow> 'm step_result" where
  "invalid_instruction s = (Inl (InvalidInstruction (program_counter s)), s)"

end
