(* ===== verification/Execute_Base.thy ===== *)
theory Execute_Base
  imports Interpreter_State
begin

text \<open>
  The executors of the 32-bit instructions: the files \<^verbatim>\<open>auipc.rs\<close>, \<^verbatim>\<open>branch.rs\<close>, \<^verbatim>\<open>jal.rs\<close>,
  \<^verbatim>\<open>jalr.rs\<close>, \<^verbatim>\<open>load_store.rs\<close>, \<^verbatim>\<open>lui.rs\<close>, \<^verbatim>\<open>op_imm.rs\<close>, \<^verbatim>\<open>op_amo.rs\<close> and
  \<^verbatim>\<open>system_misc_mem.rs\<close> of \<^verbatim>\<open>src/interpreter/decode_execute\<close>. Each is the method \<open>execute\<close> of the
  trait \<open>Execute\<close>: it returns the state or the error, and the interpreter as the method leaves it.
\<close>

section \<open>Upper immediates and jumps\<close>

definition execute_Auipc :: "TypeU \<Rightarrow> 'm Interpreter \<Rightarrow> 'm step_result" where [exec_defs]:
  "execute_Auipc f s =
     (if u_rd f \<noteq> 0
      then write_reg s (u_rd f) (\<lambda>_. program_counter s + u_imm f)
             (next_instruction (inst_size (Auipc f)) Running)
      else next_instruction (inst_size (Auipc f)) Running s)"

definition execute_Lui :: "TypeU \<Rightarrow> 'm Interpreter \<Rightarrow> 'm step_result" where [exec_defs]:
  "execute_Lui f s =
     (if u_rd f \<noteq> 0
      then write_reg s (u_rd f) (\<lambda>_. u_imm f) (next_instruction (inst_size (Lui f)) Running)
      else next_instruction (inst_size (Lui f)) Running s)"

definition execute_Jal :: "TypeJ \<Rightarrow> 'm Interpreter \<Rightarrow> 'm step_result" where [exec_defs]:
  "execute_Jal f s =
     (if j_rd f \<noteq> 0
      then write_reg s (j_rd f) (\<lambda>_. program_counter s + of_nat (size_bytes (inst_size (Jal f))))
             (jump_relative (j_imm f))
      else jump_relative (j_imm f) s)"

definition execute_Jalr :: "TypeI \<Rightarrow> 'm Interpreter \<Rightarrow> 'm step_result" where [exec_defs]:
  "execute_Jalr f s =
     question (get_reg s (i_rs1 f)) s (\<lambda>rs1.
       let jump = (\<lambda>s. (Inr Running, s\<lparr>program_counter := rs1 + i_imm f\<rparr>)) in
       if i_rd_rs2 f \<noteq> 0
       then write_reg s (i_rd_rs2 f)
              (\<lambda>_. program_counter s + of_nat (size_bytes (inst_size (Jalr f)))) jump
       else jump s)"

section \<open>Branches\<close>

definition branch_condition :: "u8 \<Rightarrow> i32 \<Rightarrow> i32 \<Rightarrow> bool option" where
  "branch_condition func rs1 rs2 =
     (if func = Branch_BEQ_FUNC then Some (rs1 = rs2)
      else if func = Branch_BNE_FUNC then Some (rs1 \<noteq> rs2)
      else if func = Branch_BLT_FUNC then Some (rs1 <s rs2)
      else if func = Branch_BGE_FUNC then Some (rs2 \<le>s rs1)
      else if func = Branch_BLTU_FUNC then Some (rs1 < rs2)
      else if func = Branch_BGEU_FUNC then Some (rs1 \<ge> rs2)
      else None)"

definition execute_Branch :: "TypeB \<Rightarrow> 'm Interpreter \<Rightarrow> 'm step_result" where [exec_defs]:
  "execute_Branch f s =
     question (get_reg s (b_rs1 f)) s (\<lambda>rs1.
     question (get_reg s (b_rs2 f)) s (\<lambda>rs2.
       case branch_condition (b_func f) rs1 rs2 of
         None \<Rightarrow> invalid_instruction s
       | Some branch \<Rightarrow>
           if branch then jump_relative (b_imm f) s
           else next_instruction (inst_size (Branch f)) Running s))"

section \<open>Loads and stores\<close>

definition execute_LoadStore :: "'m memory_ops \<Rightarrow> TypeI \<Rightarrow> 'm Interpreter \<Rightarrow> 'm step_result" where [exec_defs]:
  "execute_LoadStore M f s =
     question (get_reg s (i_rs1 f)) s (\<lambda>rs1.
       let address = rs1 + i_imm f;
           next = next_instruction (inst_size (LoadStore f)) Running in
       if i_func f = LoadStore_LB_FUNC then
         load_mem M s address (\<lambda>(v :: u8) s. write_reg s (i_rd_rs2 f) (\<lambda>_. scast v) next)
       else if i_func f = LoadStore_LH_FUNC then
         load_mem M s address (\<lambda>(v :: u16) s. write_reg s (i_rd_rs2 f) (\<lambda>_. scast v) next)
       else if i_func f = LoadStore_LW_FUNC then
         load_mem M s address (\<lambda>(v :: i32) s. write_reg s (i_rd_rs2 f) (\<lambda>_. v) next)
       else if i_func f = LoadStore_LBU_FUNC then
         load_mem M s address (\<lambda>(v :: u8) s. write_reg s (i_rd_rs2 f) (\<lambda>_. ucast v) next)
       else if i_func f = LoadStore_LHU_FUNC then
         load_mem M s address (\<lambda>(v :: u16) s. write_reg s (i_rd_rs2 f) (\<lambda>_. ucast v) next)
       else if i_func f = LoadStore_SB_FUNC then
         question (get_reg s (i_rd_rs2 f)) s (\<lambda>rs2. store_mem M s address (ucast rs2 :: u8) next)
       else if i_func f = LoadStore_SH_FUNC then
         question (get_reg s (i_rd_rs2 f)) s (\<lambda>rs2. store_mem M s address (ucast rs2 :: u16) next)
       else if i_func f = LoadStore_SW_FUNC then
         question (get_reg s (i_rd_rs2 f)) s (\<lambda>rs2. store_mem M s address rs2 next)
       else invalid_instruction s)"

section \<open>Immediate arithmetic\<close>

definition op_imm_result :: "u8 \<Rightarrow> i32 \<Rightarrow> i32 \<Rightarrow> i32 option" where
  "op_imm_result func rs1 imm =
     (if func = OpImm_ADDI_FUNC then Some (rs1 + imm)
      else if func = OpImm_SLLI_FUNC then Some (wrapping_shl rs1 (imm AND 0b11111))
      else if func = OpImm_SLTI_FUNC then Some (of_bool (rs1 <s imm))
      else if func = OpImm_SLTIU_FUNC then Some (of_bool (rs1 < imm))
      else if func = OpImm_XORI_FUNC then Some (rs1 XOR imm)
      else if func = OpImm_SRLI_SRAI_FUNC then
        Some (if (imm AND push_bit 10 0b1) \<noteq> 0
              then wrapping_shr_s rs1 (imm AND 0b11111)
              else wrapping_shr_u rs1 (imm AND 0b11111))
      else if func = OpImm_ORI_FUNC then Some (rs1 OR imm)
      else if func = OpImm_ANDI_FUNC then Some (rs1 AND imm)
      else None)"

definition execute_OpImm :: "TypeI \<Rightarrow> 'm Interpreter \<Rightarrow> 'm step_result" where [exec_defs]:
  "execute_OpImm f s =
     question (get_reg s (i_rs1 f)) s (\<lambda>rs1.
       if i_rd_rs2 f \<noteq> 0 then
         question (get_reg_mut s (i_rd_rs2 f)) s (\<lambda>(_, write).
           case op_imm_result (i_func f) rs1 (i_imm f) of
             None \<Rightarrow> invalid_instruction s
           | Some v \<Rightarrow> next_instruction (inst_size (OpImm f)) Running (set_cpu (write v) s))
       else next_instruction (inst_size (OpImm f)) Running s)"

section \<open>Register arithmetic and atomics\<close>

definition op_result :: "u16 \<Rightarrow> i32 \<Rightarrow> i32 \<Rightarrow> i32 option" where
  "op_result func rs1 rs2 =
     (if func = OpAmo_ADD_FUNC then Some (rs1 + rs2)
      else if func = OpAmo_SUB_FUNC then Some (rs1 - rs2)
      else if func = OpAmo_SLL_FUNC then Some (wrapping_shl rs1 rs2)
      else if func = OpAmo_SLT_FUNC then Some (of_bool (rs1 <s rs2))
      else if func = OpAmo_SLTU_FUNC then Some (of_bool (rs1 < rs2))
      else if func = OpAmo_XOR_FUNC then Some (rs1 XOR rs2)
      else if func = OpAmo_SRL_FUNC then Some (wrapping_shr_u rs1 rs2)
      else if func = OpAmo_SRA_FUNC then Some (wrapping_shr_s rs1 rs2)
      else if func = OpAmo_OR_FUNC then Some (rs1 OR rs2)
      else if func = OpAmo_AND_FUNC then Some (rs1 AND rs2)
      else if func = OpAmo_MUL_FUNC then Some (rs1 * rs2)
      else if func = OpAmo_MULH_FUNC then
        Some (ucast (signed_drop_bit 32 (scast rs1 * scast rs2 :: 64 word)))
      else if func = OpAmo_MULHSU_FUNC then
        Some (ucast (signed_drop_bit 32 (scast rs1 * ucast rs2 :: 64 word)))
      else if func = OpAmo_MULHU_FUNC then
        Some (ucast (drop_bit 32 (ucast rs1 * ucast rs2 :: 64 word)))
      else if func = OpAmo_DIV_FUNC then Some (if rs2 = 0 then - 1 else wrapping_div_s rs1 rs2)
      else if func = OpAmo_DIVU_FUNC then Some (if rs2 = 0 then - 1 else rs1 div rs2)
      else if func = OpAmo_REM_FUNC then Some (if rs2 = 0 then rs1 else wrapping_rem_s rs1 rs2)
      else if func = OpAmo_REMU_FUNC then Some (if rs2 = 0 then rs1 else rs1 mod rs2)
      else None)"

text \<open>The value an AMO writes back to memory, from the value it loaded.\<close>

definition amo_result :: "u16 \<Rightarrow> i32 \<Rightarrow> i32 \<Rightarrow> i32 option" where
  "amo_result func value rs2 =
     (if func = OpAmo_AMOSWAP_FUNC then Some rs2
      else if func = OpAmo_AMOADD_FUNC then Some (value + rs2)
      else if func = OpAmo_AMOXOR_FUNC then Some (value XOR rs2)
      else if func = OpAmo_AMOAND_FUNC then Some (value AND rs2)
      else if func = OpAmo_AMOOR_FUNC then Some (value OR rs2)
      else if func = OpAmo_AMOMIN_FUNC then Some (if value \<le>s rs2 then value else rs2)
      else if func = OpAmo_AMOMAX_FUNC then Some (if value \<le>s rs2 then rs2 else value)
      else if func = OpAmo_AMOMINU_FUNC then Some (min value rs2)
      else if func = OpAmo_AMOMAXU_FUNC then Some (max value rs2)
      else None)"

text \<open>
  The inner match of the executor, with the value loaded from the address \<open>rs1\<close> and the rest of
  the method as the continuation \<open>k\<close>.
\<close>

definition execute_atomic ::
  "'m memory_ops \<Rightarrow> u16 \<Rightarrow> i32 \<Rightarrow> i32 \<Rightarrow> i32 \<Rightarrow> 'm Interpreter
     \<Rightarrow> (i32 \<Rightarrow> 'm Interpreter \<Rightarrow> 'm step_result) \<Rightarrow> 'm step_result" where
  "execute_atomic M func rs1 rs2 value s k =
     (if func = OpAmo_LR_FUNC then
        k value (s\<lparr>memory_reservation := Some (rs1, value)\<rparr>)
      else if func = OpAmo_SC_FUNC then
        let s' = s\<lparr>memory_reservation := None\<rparr> in
        case memory_reservation s of
          Some (addr, old_value) \<Rightarrow>
            if addr = rs1 \<and> value = old_value then store_mem M s' addr rs2 (k 0) else k 1 s'
        | None \<Rightarrow> k 1 s'
      else case amo_result func value rs2 of
          Some v \<Rightarrow> store_mem M s rs1 v (k value)
        | None \<Rightarrow> invalid_instruction s)"

definition finish_OpAmo :: "TypeR \<Rightarrow> i32 \<Rightarrow> 'm Interpreter \<Rightarrow> 'm step_result" where
  "finish_OpAmo f result s =
     (if r_rd f \<noteq> 0
      then write_reg s (r_rd f) (\<lambda>_. result) (next_instruction (inst_size (OpAmo f)) Running)
      else next_instruction (inst_size (OpAmo f)) Running s)"

definition execute_OpAmo :: "'m memory_ops \<Rightarrow> TypeR \<Rightarrow> 'm Interpreter \<Rightarrow> 'm step_result" where [exec_defs]:
  "execute_OpAmo M f s =
     question (get_reg s (r_rs1 f)) s (\<lambda>rs1.
     question (get_reg s (r_rs2 f)) s (\<lambda>rs2.
       case op_result (r_func f) rs1 rs2 of
         Some result \<Rightarrow> finish_OpAmo f result s
       | None \<Rightarrow>
           load_mem M s rs1 (\<lambda>(value :: i32) s.
             execute_atomic M (r_func f) rs1 rs2 value s (finish_OpAmo f))))"

section \<open>System and fences\<close>

definition csr_op_of :: "TypeI \<Rightarrow> 'm Interpreter \<Rightarrow> Error + CSOperation option" where
  "csr_op_of f s =
     (if i_func f = SystemMiscMem_CSRRW_FUNC then
        (case get_reg s (i_rs1 f) of Inl e \<Rightarrow> Inl e | Inr v \<Rightarrow> Inr (Some (CsWrite v)))
      else if i_func f = SystemMiscMem_CSRRS_FUNC then
        (if i_rs1 f \<noteq> 0
         then (case get_reg s (i_rs1 f) of Inl e \<Rightarrow> Inl e | Inr v \<Rightarrow> Inr (Some (CsSet v)))
         else Inr None)
      else if i_func f = SystemMiscMem_CSRRC_FUNC then
        (if i_rs1 f \<noteq> 0
         then (case get_reg s (i_rs1 f) of Inl e \<Rightarrow> Inl e | Inr v \<Rightarrow> Inr (Some (CsClear v)))
         else Inr None)
      else if i_func f = SystemMiscMem_CSRRWI_FUNC then Inr (Some (CsWrite (ucast (i_rs1 f))))
      else if i_func f = SystemMiscMem_CSRRSI_FUNC then
        Inr (if i_rs1 f \<noteq> 0 then Some (CsSet (ucast (i_rs1 f))) else None)
      else if i_func f = SystemMiscMem_CSRRCI_FUNC then
        Inr (if i_rs1 f \<noteq> 0 then Some (CsClear (ucast (i_rs1 f))) else None)
      else Inl (InvalidInstruction (program_counter s)))"

definition execute_SystemMiscMem :: "TypeI \<Rightarrow> 'm Interpreter \<Rightarrow> 'm step_result" where [exec_defs]:
  "execute_SystemMiscMem f s =
     (let next = next_instruction (inst_size (SystemMiscMem f)) in
      if i_func f = SystemMiscMem_MISC_FUNC then
        if i_imm f = SystemMiscMem_ECALL_IMM then next Called s
        else if i_imm f = SystemMiscMem_EBREAK_IMM then next Halted s
        else if i_imm f = SystemMiscMem_FENCEI_IMM then next Running s
        else if i_imm f = SystemMiscMem_WFI_IMM then next Waiting s
        else if i_imm f = SystemMiscMem_MRET_IMM then
          (case trap_return (control_status (registers s)) of
             (pc, cs) \<Rightarrow> (Inr Running, (set_cs cs s)\<lparr>program_counter := pc\<rparr>))
        else invalid_instruction s
      else
        question (csr_op_of f s) s (\<lambda>op.
          case cs_operation (control_status (registers s)) op (ucast (i_imm f AND 0b111111111111)) of
            (Inl e, cs) \<Rightarrow> (Inl e, set_cs cs s)
          | (Inr res, cs) \<Rightarrow>
              let s = set_cs cs s in
              if i_rd_rs2 f \<noteq> 0 then write_reg s (i_rd_rs2 f) (\<lambda>_. res) (next Running)
              else next Running s))"

end
