(* ===== verification/Execute_Compressed.thy ===== *)
theory Execute_Compressed
  imports Interpreter_State
begin

text \<open>
  The executors of the 16-bit instructions: the files of
  \<^verbatim>\<open>src/interpreter/decode_execute/compressed\<close>.
\<close>

section \<open>Immediates\<close>

definition execute_CAddi4spn :: "TypeCIW \<Rightarrow> 'm Interpreter \<Rightarrow> 'm step_result" where [exec_defs]:
  "execute_CAddi4spn f s =
     (if ciw_imm f = 0 then (Inl (IllegalInstruction (program_counter s)), s)
      else question (get_reg s (reg_index SP)) s (\<lambda>sp.
        write_reg s (ciw_rd f) (\<lambda>_. sp + ciw_imm f)
          (next_instruction (inst_size (CAddi4spn f)) Running)))"

definition execute_CAddi :: "TypeCI1 \<Rightarrow> 'm Interpreter \<Rightarrow> 'm step_result" where [exec_defs]:
  "execute_CAddi f s =
     (let next = next_instruction (inst_size (CAddi f)) Running in
      if ci1_rd_rs1 f \<noteq> 0 then write_reg s (ci1_rd_rs1 f) (\<lambda>rs1. rs1 + ci1_imm f) next
      else next s)"

definition execute_CLi :: "TypeCI1 \<Rightarrow> 'm Interpreter \<Rightarrow> 'm step_result" where [exec_defs]:
  "execute_CLi f s =
     (let next = next_instruction (inst_size (CLi f)) Running in
      if ci1_rd_rs1 f \<noteq> 0 then write_reg s (ci1_rd_rs1 f) (\<lambda>_. ci1_imm f) next
      else next s)"

definition execute_CAddi16sp :: "TypeCI2 \<Rightarrow> 'm Interpreter \<Rightarrow> 'm step_result" where [exec_defs]:
  "execute_CAddi16sp f s =
     write_reg s (reg_index SP) (\<lambda>sp. sp + ci2_imm f)
       (next_instruction (inst_size (CAddi16sp f)) Running)"

definition execute_CLui :: "TypeCI3 \<Rightarrow> 'm Interpreter \<Rightarrow> 'm step_result" where [exec_defs]:
  "execute_CLui f s =
     (let next = next_instruction (inst_size (CLui f)) Running in
      if ci3_rd_rs1 f \<noteq> 0 then write_reg s (ci3_rd_rs1 f) (\<lambda>_. ci3_imm f) next
      else next s)"

definition execute_CSrli :: "TypeCB1 \<Rightarrow> 'm Interpreter \<Rightarrow> 'm step_result" where [exec_defs]:
  "execute_CSrli f s =
     (let next = next_instruction (inst_size (CSrli f)) Running in
      if cb1_rd_rs1 f \<noteq> 0
      then write_reg s (cb1_rd_rs1 f) (\<lambda>rs1. wrapping_shr_u rs1 (cb1_imm f)) next
      else next s)"

definition execute_CSrai :: "TypeCB1 \<Rightarrow> 'm Interpreter \<Rightarrow> 'm step_result" where [exec_defs]:
  "execute_CSrai f s =
     (let next = next_instruction (inst_size (CSrai f)) Running in
      if cb1_rd_rs1 f \<noteq> 0
      then write_reg s (cb1_rd_rs1 f) (\<lambda>rs1. wrapping_shr_s rs1 (cb1_imm f)) next
      else next s)"

definition execute_CSlli :: "TypeCI4 \<Rightarrow> 'm Interpreter \<Rightarrow> 'm step_result" where [exec_defs]:
  "execute_CSlli f s =
     (let next = next_instruction (inst_size (CSlli f)) Running in
      if ci4_rd_rs1 f \<noteq> 0
      then write_reg s (ci4_rd_rs1 f) (\<lambda>rs1. wrapping_shl rs1 (ci4_imm f)) next
      else next s)"

definition execute_CAndi :: "TypeCB2 \<Rightarrow> 'm Interpreter \<Rightarrow> 'm step_result" where [exec_defs]:
  "execute_CAndi f s =
     (let next = next_instruction (inst_size (CAndi f)) Running in
      if cb2_rd_rs1 f \<noteq> 0 then write_reg s (cb2_rd_rs1 f) (\<lambda>rs1. rs1 AND cb2_imm f) next
      else next s)"

section \<open>Register arithmetic\<close>

definition execute_CSub :: "TypeCS \<Rightarrow> 'm Interpreter \<Rightarrow> 'm step_result" where [exec_defs]:
  "execute_CSub f s =
     (let next = next_instruction (inst_size (CSub f)) Running in
      if cs_rd_rs1 f \<noteq> 0 then
        question (get_reg s (cs_rs2 f)) s (\<lambda>rs2.
          write_reg s (cs_rd_rs1 f) (\<lambda>rs1. rs1 - rs2) next)
      else next s)"

definition execute_CXor :: "TypeCS \<Rightarrow> 'm Interpreter \<Rightarrow> 'm step_result" where [exec_defs]:
  "execute_CXor f s =
     (let next = next_instruction (inst_size (CXor f)) Running in
      if cs_rd_rs1 f \<noteq> 0 then
        question (get_reg s (cs_rs2 f)) s (\<lambda>rs2.
          write_reg s (cs_rd_rs1 f) (\<lambda>rs1. rs1 XOR rs2) next)
      else next s)"

definition execute_COr :: "TypeCS \<Rightarrow> 'm Interpreter \<Rightarrow> 'm step_result" where [exec_defs]:
  "execute_COr f s =
     (let next = next_instruction (inst_size (COr f)) Running in
      if cs_rd_rs1 f \<noteq> 0 then
        question (get_reg s (cs_rs2 f)) s (\<lambda>rs2.
          write_reg s (cs_rd_rs1 f) (\<lambda>rs1. rs1 OR rs2) next)
      else next s)"

definition execute_CAnd :: "TypeCS \<Rightarrow> 'm Interpreter \<Rightarrow> 'm step_result" where [exec_defs]:
  "execute_CAnd f s =
     (let next = next_instruction (inst_size (CAnd f)) Running in
      if cs_rd_rs1 f \<noteq> 0 then
        question (get_reg s (cs_rs2 f)) s (\<lambda>rs2.
          write_reg s (cs_rd_rs1 f) (\<lambda>rs1. rs1 AND rs2) next)
      else next s)"

section \<open>Jumps and branches\<close>

definition execute_CJ :: "TypeCJ \<Rightarrow> 'm Interpreter \<Rightarrow> 'm step_result" where [exec_defs]:
  "execute_CJ f s = jump_relative (cj_imm f) s"

definition execute_CJal :: "TypeCJ \<Rightarrow> 'm Interpreter \<Rightarrow> 'm step_result" where [exec_defs]:
  "execute_CJal f s =
     write_reg s (reg_index RA)
       (\<lambda>_. program_counter s + of_nat (size_bytes (inst_size (CJal f))))
       (jump_relative (cj_imm f))"

definition execute_CBeqz :: "TypeCB4 \<Rightarrow> 'm Interpreter \<Rightarrow> 'm step_result" where [exec_defs]:
  "execute_CBeqz f s =
     question (get_reg s (cb4_rs1 f)) s (\<lambda>rs1.
       if rs1 = 0 then jump_relative (cb4_imm f) s
       else next_instruction (inst_size (CBeqz f)) Running s)"

definition execute_CBnez :: "TypeCB4 \<Rightarrow> 'm Interpreter \<Rightarrow> 'm step_result" where [exec_defs]:
  "execute_CBnez f s =
     question (get_reg s (cb4_rs1 f)) s (\<lambda>rs1.
       if rs1 \<noteq> 0 then jump_relative (cb4_imm f) s
       else next_instruction (inst_size (CBnez f)) Running s)"

definition execute_CJrMv :: "TypeCR \<Rightarrow> 'm Interpreter \<Rightarrow> 'm step_result" where [exec_defs]:
  "execute_CJrMv f s =
     (if cr_rs2 f = 0 then
        question (get_reg s (cr_rd_rs1 f)) s (\<lambda>rd_rs1.
          (Inr Running, s\<lparr>program_counter := rd_rs1\<rparr>))
      else
        question (get_reg s (cr_rs2 f)) s (\<lambda>rs2.
          write_reg s (cr_rd_rs1 f) (\<lambda>_. rs2) (next_instruction (inst_size (CJrMv f)) Running)))"

definition execute_CEbreakJalrAdd :: "TypeCR \<Rightarrow> 'm Interpreter \<Rightarrow> 'm step_result" where [exec_defs]:
  "execute_CEbreakJalrAdd f s =
     (if cr_rs2 f = 0 then
        if cr_rd_rs1 f = 0 then next_instruction (inst_size (CEbreakJalrAdd f)) Halted s
        else
          question (get_reg s (cr_rd_rs1 f)) s (\<lambda>rs1.
            write_reg s (reg_index RA)
              (\<lambda>_. program_counter s + of_nat (size_bytes (inst_size (CEbreakJalrAdd f))))
              (\<lambda>s. (Inr Running, s\<lparr>program_counter := rs1\<rparr>)))
      else
        question (get_reg s (cr_rs2 f)) s (\<lambda>rs2.
          write_reg s (cr_rd_rs1 f) (\<lambda>rd. rd + rs2)
            (next_instruction (inst_size (CEbreakJalrAdd f)) Running)))"

section \<open>Loads and stores\<close>

definition execute_CLw :: "'m memory_ops \<Rightarrow> TypeCL \<Rightarrow> 'm Interpreter \<Rightarrow> 'm step_result" where [exec_defs]:
  "execute_CLw M f s =
     question (get_reg s (cl_rs1 f)) s (\<lambda>rs1.
       load_mem M s (rs1 + cl_imm f) (\<lambda>(result :: i32) s.
         write_reg s (cl_rd_rs2 f) (\<lambda>_. result) (next_instruction (inst_size (CLw f)) Running)))"

definition execute_CSw :: "'m memory_ops \<Rightarrow> TypeCL \<Rightarrow> 'm Interpreter \<Rightarrow> 'm step_result" where [exec_defs]:
  "execute_CSw M f s =
     question (get_reg s (cl_rs1 f)) s (\<lambda>rs1.
     question (get_reg s (cl_rd_rs2 f)) s (\<lambda>rs2.
       store_mem M s (rs1 + cl_imm f) rs2 (next_instruction (inst_size (CSw f)) Running)))"

definition execute_CLwsp :: "'m memory_ops \<Rightarrow> TypeCI5 \<Rightarrow> 'm Interpreter \<Rightarrow> 'm step_result" where [exec_defs]:
  "execute_CLwsp M f s =
     question (get_reg s (reg_index SP)) s (\<lambda>sp.
       load_mem M s (sp + ci5_imm f) (\<lambda>(result :: i32) s.
         write_reg s (ci5_rd_rs1 f) (\<lambda>_. result) (next_instruction (inst_size (CLwsp f)) Running)))"

definition execute_CSwsp :: "'m memory_ops \<Rightarrow> TypeCSS \<Rightarrow> 'm Interpreter \<Rightarrow> 'm step_result" where [exec_defs]:
  "execute_CSwsp M f s =
     question (get_reg s (reg_index SP)) s (\<lambda>sp.
     question (get_reg s (css_rs2 f)) s (\<lambda>rs2.
       store_mem M s (sp + css_imm f) rs2 (next_instruction (inst_size (CSwsp f)) Running)))"

end
