(* ===== verification/Decode_Execute.thy ===== *)
theory Decode_Execute
  imports Execute_Base Execute_Compressed
begin

text \<open>
  Model of \<^verbatim>\<open>src/interpreter/decode_execute.rs\<close>: an instruction word is decoded and dispatched to
  its executor. The locale \<open>guest_relation\<close> is the proof principle of the interpreter: a relation
  between interpreter states that holds over every primitive update an executor makes (a register
  write, a new program counter, a new reservation, an operation on the control and status
  registers, a call of the memory trait) holds over the execution of every instruction. It extends
  the locale \<open>register_relation\<close>, which restricts the register writes to a set of registers and gives the frame
  property that an instruction changes none but its destination registers.
\<close>

fun execute :: "'m memory_ops \<Rightarrow> Instruction \<Rightarrow> 'm Interpreter \<Rightarrow> 'm step_result" where
  "execute M (CAddi4spn f) s = execute_CAddi4spn f s"
| "execute M (CLw f) s = execute_CLw M f s"
| "execute M (CSw f) s = execute_CSw M f s"
| "execute M (CAddi f) s = execute_CAddi f s"
| "execute M (CJal f) s = execute_CJal f s"
| "execute M (CLi f) s = execute_CLi f s"
| "execute M (CAddi16sp f) s = execute_CAddi16sp f s"
| "execute M (CLui f) s = execute_CLui f s"
| "execute M (CSrli f) s = execute_CSrli f s"
| "execute M (CSrai f) s = execute_CSrai f s"
| "execute M (CAndi f) s = execute_CAndi f s"
| "execute M (CSub f) s = execute_CSub f s"
| "execute M (CXor f) s = execute_CXor f s"
| "execute M (COr f) s = execute_COr f s"
| "execute M (CAnd f) s = execute_CAnd f s"
| "execute M (CJ f) s = execute_CJ f s"
| "execute M (CBeqz f) s = execute_CBeqz f s"
| "execute M (CBnez f) s = execute_CBnez f s"
| "execute M (CSlli f) s = execute_CSlli f s"
| "execute M (CLwsp f) s = execute_CLwsp M f s"
| "execute M (CJrMv f) s = execute_CJrMv f s"
| "execute M (CEbreakJalrAdd f) s = execute_CEbreakJalrAdd f s"
| "execute M (CSwsp f) s = execute_CSwsp M f s"
| "execute M (Auipc f) s = execute_Auipc f s"
| "execute M (Branch f) s = execute_Branch f s"
| "execute M (Jal f) s = execute_Jal f s"
| "execute M (Jalr f) s = execute_Jalr f s"
| "execute M (LoadStore f) s = execute_LoadStore M f s"
| "execute M (Lui f) s = execute_Lui f s"
| "execute M (OpImm f) s = execute_OpImm f s"
| "execute M (OpAmo f) s = execute_OpAmo M f s"
| "execute M (SystemMiscMem f) s = execute_SystemMiscMem f s"

definition decode_execute :: "'m memory_ops \<Rightarrow> 'm Interpreter \<Rightarrow> u32 \<Rightarrow> 'm step_result" where
  "decode_execute M s data =
     (case decode_instruction data of
        Some i \<Rightarrow> execute M i s
      | None \<Rightarrow> (Inl (InvalidInstruction (program_counter s)), s))"

section \<open>Destination registers\<close>

text \<open>
  The registers an instruction may write. The instructions without the set difference do not test
  their destination for zero.
\<close>

fun dest_regs :: "Instruction \<Rightarrow> u8 set" where
  "dest_regs (CAddi4spn f) = {ciw_rd f}"
| "dest_regs (CLw f) = {cl_rd_rs2 f}"
| "dest_regs (CSw f) = {}"
| "dest_regs (CAddi f) = {ci1_rd_rs1 f} - {0}"
| "dest_regs (CJal f) = {reg_index RA}"
| "dest_regs (CLi f) = {ci1_rd_rs1 f} - {0}"
| "dest_regs (CAddi16sp f) = {reg_index SP}"
| "dest_regs (CLui f) = {ci3_rd_rs1 f} - {0}"
| "dest_regs (CSrli f) = {cb1_rd_rs1 f} - {0}"
| "dest_regs (CSrai f) = {cb1_rd_rs1 f} - {0}"
| "dest_regs (CAndi f) = {cb2_rd_rs1 f} - {0}"
| "dest_regs (CSub f) = {cs_rd_rs1 f} - {0}"
| "dest_regs (CXor f) = {cs_rd_rs1 f} - {0}"
| "dest_regs (COr f) = {cs_rd_rs1 f} - {0}"
| "dest_regs (CAnd f) = {cs_rd_rs1 f} - {0}"
| "dest_regs (CJ f) = {}"
| "dest_regs (CBeqz f) = {}"
| "dest_regs (CBnez f) = {}"
| "dest_regs (CSlli f) = {ci4_rd_rs1 f} - {0}"
| "dest_regs (CLwsp f) = {ci5_rd_rs1 f}"
| "dest_regs (CJrMv f) = (if cr_rs2 f = 0 then {} else {cr_rd_rs1 f})"
| "dest_regs (CEbreakJalrAdd f) =
     (if cr_rs2 f = 0 then (if cr_rd_rs1 f = 0 then {} else {reg_index RA}) else {cr_rd_rs1 f})"
| "dest_regs (CSwsp f) = {}"
| "dest_regs (Auipc f) = {u_rd f} - {0}"
| "dest_regs (Branch f) = {}"
| "dest_regs (Jal f) = {j_rd f} - {0}"
| "dest_regs (Jalr f) = {i_rd_rs2 f} - {0}"
| "dest_regs (LoadStore f) = (if i_func f \<le> LoadStore_LHU_FUNC then {i_rd_rs2 f} else {})"
| "dest_regs (Lui f) = {u_rd f} - {0}"
| "dest_regs (OpImm f) = {i_rd_rs2 f} - {0}"
| "dest_regs (OpAmo f) = {r_rd f} - {0}"
| "dest_regs (SystemMiscMem f) = {i_rd_rs2 f} - {0}"

section \<open>Relations kept by every instruction\<close>

text \<open>
  \<open>W\<close> is the set of registers whose update keeps the relation: an instruction keeps it when its
  destination registers are in \<open>W\<close>.
\<close>

locale register_relation =
  fixes M :: "'m memory_ops"
    and R :: "'m Interpreter \<Rightarrow> 'm Interpreter \<Rightarrow> bool"
    and W :: "u8 set"
  assumes R_refl: "R s s"
    and R_trans: "R s t \<Longrightarrow> R t u \<Longrightarrow> R s u"
    and R_reg: "i \<in> W \<Longrightarrow> get_reg_mut s i = Inr (old, wr) \<Longrightarrow> R s (set_cpu (wr v) s)"
    and R_pc: "R s (s\<lparr>program_counter := pc\<rparr>)"
    and R_reservation: "R s (s\<lparr>memory_reservation := r\<rparr>)"
    and R_csr: "R s (set_cs (snd (cs_operation (control_status (registers s)) op csr)) s)"
    and R_trap_return: "R s (set_cs (snd (trap_return (control_status (registers s)))) s)"
    and R_load: "R s (s\<lparr>memory := snd (load_bytes M (memory s) a n)\<rparr>)"
    and R_store: "R s (s\<lparr>memory := snd (store_bytes M (memory s) a bs)\<rparr>)"
begin

text \<open>Everything an executor leaves behind when it is started in a state related to \<open>s0\<close>.\<close>

lemma rel_question:
  "R s0 s \<Longrightarrow> (\<And>v. r = Inr v \<Longrightarrow> R s0 (snd (k v))) \<Longrightarrow> R s0 (snd (question r s k))"
  by (simp split: question_splits)

lemma rel_reg: "i \<in> W \<Longrightarrow> get_reg_mut s i = Inr (old, wr) \<Longrightarrow> R s0 s \<Longrightarrow> R s0 (set_cpu (wr v) s)"
  using R_reg R_trans by blast

lemma rel_write_reg:
  assumes "R s0 s" "i \<in> W" "\<And>s'. R s0 s' \<Longrightarrow> R s0 (snd (k s'))"
  shows "R s0 (snd (write_reg s i f k))"
  unfolding write_reg_def
proof (rule rel_question [OF assms(1)])
  fix v
  assume "get_reg_mut s i = Inr v"
  then show "R s0 (snd ((\<lambda>(old, write). k (set_cpu (write (f old)) s)) v))"
    by (cases v) (simp add: assms rel_reg [OF assms(2)])
qed

lemma rel_load_mem:
  fixes k :: "'b::len word \<Rightarrow> 'm Interpreter \<Rightarrow> 'm step_result"
  assumes "R s0 s" "\<And>v s'. R s0 s' \<Longrightarrow> R s0 (snd (k v s'))"
  shows "R s0 (snd (load_mem M s a k))"
proof -
  obtain r m where m: "load_num M (memory s) a = (r :: Error + 'b word, m)" by fastforce
  then have "m = snd (load_bytes M (memory s) a (num_size TYPE('b)))"
    by (auto simp: load_num_def split: prod.splits sum.splits if_splits)
  then have "R s0 (s\<lparr>memory := m\<rparr>)" using assms(1) R_load R_trans by blast
  with m assms(2) show ?thesis by (cases r) (simp_all add: load_mem_def)
qed

lemma rel_store_mem:
  assumes "R s0 s" "\<And>s'. R s0 s' \<Longrightarrow> R s0 (snd (k s'))"
  shows "R s0 (snd (store_mem M s a v k))"
proof -
  obtain r m where m: "store_num M (memory s) a v = (r, m)" by fastforce
  then have "m = snd (store_bytes M (memory s) a (to_le_bytes v))"
    by (simp add: store_num_def)
  then have "R s0 (s\<lparr>memory := m\<rparr>)" using assms(1) R_store R_trans by blast
  with m assms(2) show ?thesis by (cases r) (simp_all add: store_mem_def)
qed

lemma rel_next: "R s0 s \<Longrightarrow> R s0 (snd (next_instruction sz st s))"
  unfolding next_instruction_def using R_trans R_pc by auto

lemma rel_jump: "R s0 s \<Longrightarrow> R s0 (snd (jump_relative imm s))"
  unfolding jump_relative_def using R_trans R_pc by auto

lemma rel_pc: "R s0 s \<Longrightarrow> R s0 (s\<lparr>program_counter := pc\<rparr>)"
  using R_trans R_pc by blast

lemma rel_reservation: "R s0 s \<Longrightarrow> R s0 (s\<lparr>memory_reservation := r\<rparr>)"
  using R_trans R_reservation by blast

lemma rel_invalid: "R s0 s \<Longrightarrow> R s0 (snd (invalid_instruction s))"
  by (simp add: invalid_instruction_def)

lemmas rel_intros =
  rel_question rel_write_reg rel_load_mem rel_store_mem rel_next rel_jump rel_pc rel_reservation
  rel_invalid

lemma rel_atomic:
  assumes "R s0 s" "\<And>v s'. R s0 s' \<Longrightarrow> R s0 (snd (k v s'))"
  shows "R s0 (snd (execute_atomic M func rs1 rs2 value s k))"
  unfolding execute_atomic_def Let_def
  using assms by (auto intro!: rel_intros split: option.splits)

lemma rel_csr:
  assumes "R s0 s" "cs_operation (control_status (registers s)) op csr = (r, cs)"
  shows "R s0 (set_cs cs s)"
  using R_csr [of s op csr] assms R_trans [of s0 s] by auto

lemma rel_OpAmo: "{r_rd f} - {0} \<subseteq> W \<Longrightarrow> R s (snd (execute_OpAmo M f s))"
  unfolding exec_defs finish_OpAmo_def
  by (intro rel_question R_refl)
     (auto intro!: rel_intros rel_atomic R_refl split: option.splits)

lemma rel_OpImm: "{i_rd_rs2 f} - {0} \<subseteq> W \<Longrightarrow> R s (snd (execute_OpImm f s))"
  unfolding exec_defs
  by (auto intro!: rel_intros R_refl rel_reg split: option.splits simp: split_beta)

lemma rel_return: "trap_return (control_status (registers s)) = (pc, cs) \<Longrightarrow> R s (set_cs cs s)"
  using R_trap_return [of s] by simp

lemma rel_System:
  assumes "{i_rd_rs2 f} - {0} \<subseteq> W"
  shows "R s (snd (execute_SystemMiscMem f s))"
proof (cases "i_func f = SystemMiscMem_MISC_FUNC")
  case True
  then show ?thesis
    unfolding exec_defs Let_def
    by (auto intro!: rel_intros R_refl rel_return split: prod.splits)
next
  case False
  with assms show ?thesis
    unfolding exec_defs Let_def
    by (auto intro!: rel_intros R_refl rel_csr [OF R_refl] split: prod.splits sum.splits)
qed

lemma rel_LoadStore:
  "dest_regs (LoadStore f) \<subseteq> W \<Longrightarrow> R s (snd (execute_LoadStore M f s))"
  by (auto simp: exec_defs Let_def intro!: rel_intros R_refl split: if_splits)

theorem rel_execute:
  assumes "dest_regs i \<subseteq> W"
  shows "R s (snd (execute M i s))"
proof (cases i)
  case (OpAmo f)
  with assms show ?thesis by (simp add: rel_OpAmo)
next
  case (SystemMiscMem f)
  with assms show ?thesis by (simp add: rel_System)
next
  case (OpImm f)
  with assms show ?thesis by (simp add: rel_OpImm)
next
  case (LoadStore f)
  with assms show ?thesis using rel_LoadStore by simp
qed (use assms in \<open>auto simp: exec_defs Let_def intro!: rel_intros R_refl
    split: option.splits if_splits\<close>)

end

text \<open>A relation that every update keeps is kept by every instruction word.\<close>

locale guest_relation = register_relation M R UNIV
  for M :: "'m memory_ops" and R :: "'m Interpreter \<Rightarrow> 'm Interpreter \<Rightarrow> bool"
begin

theorem rel_decode_execute: "R s (snd (decode_execute M s data))"
  by (simp add: decode_execute_def rel_execute R_refl split: option.split)

end

section \<open>Only the destination registers change\<close>

definition same_registers :: "u8 set \<Rightarrow> 'm Interpreter \<Rightarrow> 'm Interpreter \<Rightarrow> bool" where
  "same_registers W s t \<longleftrightarrow>
     (\<forall>r. r \<notin> W \<longrightarrow> r < 32 \<longrightarrow> inner (cpu (registers t)) ! unat r = inner (cpu (registers s)) ! unat r)"

interpretation dest_frame: register_relation M "same_registers W" W for M :: "'m memory_ops" and W
proof unfold_locales
  fix i :: u8 and s :: "'m Interpreter" and old wr v
  assume "i \<in> W" "get_reg_mut s i = Inr (old, wr)"
  moreover from \<open>i \<in> W\<close> have "unat i \<noteq> unat r" if "r \<notin> W" for r
    using that by (metis word_unat_eq_iff)
  ultimately show "same_registers W s (set_cpu (wr v) s)"
    by (auto simp: same_registers_def cpu_get_mut_Inr set_cpu_def)
qed (auto simp: same_registers_def set_cs_def)

end
