(* ===== verification/Interpreter.thy ===== *)
theory Interpreter
  imports Decode_Execute
begin

text \<open>
  Model of the methods of the struct \<open>Interpreter\<close> in \<^verbatim>\<open>src/interpreter.rs\<close>: \<open>fetch\<close>, \<open>step\<close>,
  \<open>run\<close>, \<open>interrupt\<close> and \<open>syscall\<close>. A run with an instruction limit is a recursion on the number of
  instructions left; a run without one is a loop that may not end, so its result is an option and
  \<open>None\<close> stands for a run that does not return.

  The theory then instantiates the proof principle \<open>guest_relation\<close>: with the well-formedness of
  the registers, with the instruction limit, and, for \<open>SliceMemory\<close>, with the code region, which no
  instruction changes.
\<close>

section \<open>Fetch, step and run\<close>

definition fetch :: "'m memory_ops \<Rightarrow> 'm Interpreter \<Rightarrow> (Error, u32, 'm Interpreter) outcome" where
  "fetch M s =
     (case load_num M (memory s) (program_counter s) of (r, m) \<Rightarrow> (r, s\<lparr>memory := m\<rparr>))"

definition step :: "'m memory_ops \<Rightarrow> 'm Interpreter \<Rightarrow> 'm step_result" where
  "step M s =
     (case fetch M s of
        (Inl e, s') \<Rightarrow> (Inl e, s')
      | (Inr data, s') \<Rightarrow> decode_execute M s' data)"

fun run_limited :: "'m memory_ops \<Rightarrow> nat \<Rightarrow> 'm Interpreter \<Rightarrow> 'm step_result" where
  "run_limited M 0 s = (Inr Running, s)"
| "run_limited M (Suc n) s =
     (case step M s of
        (Inl e, s') \<Rightarrow> (Inl e, s')
      | (Inr state, s') \<Rightarrow> if state \<noteq> Running then (Inr state, s') else run_limited M n s')"

partial_function (option) run_unlimited ::
  "'m memory_ops \<Rightarrow> 'm Interpreter \<Rightarrow> 'm step_result option" where
  "run_unlimited M s =
     (case step M s of
        (Inl e, s') \<Rightarrow> Some (Inl e, s')
      | (Inr state, s') \<Rightarrow> if state \<noteq> Running then Some (Inr state, s') else run_unlimited M s')"

definition run :: "'m memory_ops \<Rightarrow> 'm Interpreter \<Rightarrow> 'm step_result option" where
  "run M s =
     (if instruction_limit s > 0 then Some (run_limited M (unat (instruction_limit s)) s)
      else run_unlimited M s)"

section \<open>Interrupts\<close>

definition interrupt :: "i32 \<Rightarrow> 'm Interpreter \<Rightarrow> (Error, unit, 'm Interpreter) outcome" where
  "interrupt value s =
     (if \<not> interrupt_enabled (control_status (registers s)) then (Inl InterruptNotEnabled, s)
      else
        let cs = set_interrupt (control_status (registers s)) in
        case trap_entry cs (program_counter s) value of
          (cs, pc) \<Rightarrow> (Inr (), (set_cs cs s)\<lparr>program_counter := pc\<rparr>))"

section \<open>System calls\<close>

text \<open>
  The type \<open>NonZeroI32\<close> of the Rust standard library, and the handler: a closure that may change
  what it captures (\<open>'c\<close>) and the memory, so both are threaded through the call.
\<close>

typedef NonZeroI32 = "{w :: i32. w \<noteq> 0}" morphisms nonzero_get nonzero_new
  by (rule exI [of _ 1]) simp

definition SYSCALL_ARGS :: nat where
  "SYSCALL_ARGS = 7"

type_synonym ('m, 'c, 'e) syscall_fn =
  "i32 \<Rightarrow> i32 list \<Rightarrow> 'm \<Rightarrow> 'c \<Rightarrow> ('e + (NonZeroI32 + i32)) \<times> 'm \<times> 'c"

definition syscall_arguments :: "'m Interpreter \<Rightarrow> i32 \<times> i32 list \<times> 'm" where
  "syscall_arguments s =
     (let regs = inner (cpu (registers s)) in
      (regs ! unat (reg_index A7), take SYSCALL_ARGS (drop (unat (reg_index A0)) regs), memory s))"

definition syscall_result :: "NonZeroI32 + i32 \<Rightarrow> 'm Interpreter \<Rightarrow> 'm Interpreter" where
  "syscall_result result s =
     (let write = (\<lambda>r v s. set_cpu
        (cpu (registers s)\<lparr>inner := (inner (cpu (registers s)))[unat (reg_index r) := v]\<rparr>) s) in
      case result of
        Inr value \<Rightarrow> write A1 value (write A0 0 s)
      | Inl error \<Rightarrow> write A1 0 (write A0 (nonzero_get error) s))"

definition syscall ::
  "('m, 'c, 'e) syscall_fn \<Rightarrow> 'm Interpreter \<Rightarrow> 'c \<Rightarrow> ('e, unit, 'm Interpreter \<times> 'c) outcome" where
  "syscall f s c =
     (case syscall_arguments s of
        (nr, args, m) \<Rightarrow>
          (case f nr args m c of
             (Inl e, m', c') \<Rightarrow> (Inl e, s\<lparr>memory := m'\<rparr>, c')
           | (Inr result, m', c') \<Rightarrow> (Inr (), syscall_result result (s\<lparr>memory := m'\<rparr>), c')))"

section \<open>Runs as iterated steps\<close>

lemma run_limited_split:
  "run_limited M (n + m) s =
     (case run_limited M n s of
        (Inr Running, s') \<Rightarrow> run_limited M m s'
      | r \<Rightarrow> r)"
proof (induction n arbitrary: s)
  case 0
  then show ?case by simp
next
  case (Suc n)
  then show ?case by (auto split: prod.split sum.split State.split)
qed

lemma run_limited_stopped:
  "fst (run_limited M n s) \<noteq> Inr Running \<Longrightarrow> n \<le> k \<Longrightarrow> run_limited M k s = run_limited M n s"
  using run_limited_split [of M n "k - n" s] by (auto split: prod.splits sum.splits State.splits)

lemma run_limited_unlimited:
  "fst (run_limited M n s) \<noteq> Inr Running \<Longrightarrow> run_unlimited M s = Some (run_limited M n s)"
proof (induction n arbitrary: s)
  case 0
  then show ?case by simp
next
  case (Suc n)
  then show ?case
    by (subst run_unlimited.simps) (auto split: prod.splits sum.splits)
qed

lemma run_unlimited_limited:
  assumes "run_unlimited M s = Some r"
  shows "\<exists>n. run_limited M n s = r \<and> fst r \<noteq> Inr Running"
proof (rule run_unlimited.raw_induct
    [where P = "\<lambda>M s r. \<exists>n. run_limited M n s = r \<and> fst r \<noteq> Inr Running", OF _ assms])
  fix run :: "'b memory_ops \<Rightarrow> 'b Interpreter \<Rightarrow> 'b step_result option" and M s r
  assume IH: "\<And>M s r. run M s = Some r \<Longrightarrow> \<exists>n. run_limited M n s = r \<and> fst r \<noteq> Inr Running"
    and r: "(case step M s of
        (Inl e, s') \<Rightarrow> Some (Inl e, s')
      | (Inr state, s') \<Rightarrow> if state \<noteq> Running then Some (Inr state, s') else run M s') = Some r"
  show "\<exists>n. run_limited M n s = r \<and> fst r \<noteq> Inr Running"
  proof (cases "step M s")
    case (Pair x s')
    show ?thesis
    proof (cases "x = Inr Running")
      case True
      then have "run M s' = Some r" using r Pair by simp
      then obtain n where "run_limited M n s' = r" "fst r \<noteq> Inr Running" using IH by blast
      with Pair True have "run_limited M (Suc n) s = r \<and> fst r \<noteq> Inr Running" by simp
      then show ?thesis by blast
    next
      case False
      with r Pair have "run_limited M (Suc 0) s = r \<and> fst r \<noteq> Inr Running"
        by (cases x) (auto split: if_splits)
      then show ?thesis by blast
    qed
  qed
qed

section \<open>Relations kept by a step and a run\<close>

context register_relation
begin

lemma rel_fetch: "R s (snd (fetch M s))"
proof -
  obtain r m where m: "load_num M (memory s) (program_counter s) = (r :: Error + u32, m)" by fastforce
  then have "m = snd (load_bytes M (memory s) (program_counter s) (num_size TYPE(32)))"
    by (auto simp: load_num_def split: prod.splits sum.splits if_splits)
  with m show ?thesis by (simp add: fetch_def R_load)
qed

end

context guest_relation
begin

theorem rel_step: "R s (snd (step M s))"
  using rel_fetch [of s] rel_decode_execute R_trans
  by (auto simp: step_def split: prod.split sum.split)

theorem rel_run_limited: "R s (snd (run_limited M n s))"
proof (induction n arbitrary: s)
  case 0
  then show ?case by (simp add: R_refl)
next
  case (Suc n)
  then show ?case
    using rel_step [of s] by (auto split: prod.split sum.split intro: R_trans)
qed

theorem rel_run: "run M s = Some (r, s') \<Longrightarrow> R s s'"
  unfolding run_def
  by (metis option.inject rel_run_limited run_unlimited_limited snd_conv)

end

section \<open>Interpretations on the model\<close>

text \<open>
  \<open>cs_safe\<close> is the part of \<open>cs_wf\<close> that also the host calls keep: \<open>mepc\<close> may be odd once an
  interrupt has been taken at an odd program counter.
\<close>

definition cs_safe :: "CSRegisters \<Rightarrow> bool" where
  "cs_safe cs \<longleftrightarrow> mstatus cs AND MSTATUS_MASK = mstatus cs \<and> mtvec cs AND NOT MTVEC_MODE = mtvec cs"

definition registers_wf :: "Registers \<Rightarrow> bool" where
  "registers_wf r \<longleftrightarrow> cpu_wf (cpu r) \<and> cs_safe (control_status r)"

lemma cs_operation_safe: "cs_safe cs \<Longrightarrow> cs_safe (snd (cs_operation cs op a))"
  by (auto simp: cs_operation_def Let_def cs_safe_def and.assoc)

lemma trap_return_safe: "cs_safe cs \<Longrightarrow> cs_safe (snd (trap_return cs))"
  by (auto simp: cs_safe_def mstatus_masked mstatus_trap_return trap_return_fields)

lemma trap_entry_safe: "cs_safe cs \<Longrightarrow> cs_safe (fst (trap_entry cs pc v))"
  by (auto simp: cs_safe_def mstatus_masked mstatus_trap_entry trap_entry_fields)

lemma set_interrupt_safe: "cs_safe (set_interrupt cs) = cs_safe cs"
  by (simp add: cs_safe_def set_interrupt_def)

lemma registers_default_wf: "registers_wf registers_default"
  by (simp add: registers_wf_def registers_default_def cpu_default_wf cs_safe_def cs_default_def)

lemma cpu_get_mut_wf: "cpu_get_mut r i = Inr (old, wr) \<Longrightarrow> cpu_wf (wr v) = cpu_wf r"
  by (auto simp: cpu_get_mut_Inr cpu_wf_def)

lemmas set_reg_simps [simp] = set_cpu_def set_cs_def

interpretation guest_wf: guest_relation M
    "\<lambda>s t. instruction_limit t = instruction_limit s \<and>
       (registers_wf (registers s) \<longrightarrow> registers_wf (registers t))" for M :: "'m memory_ops"
  by unfold_locales
     (auto simp: registers_wf_def cpu_get_mut_wf cs_operation_safe trap_return_safe)

lemma slice_store_code:
  "code (snd (slice_store_bytes W m a bs)) = code m"
  "length (ram (snd (slice_store_bytes W m a bs))) = length (ram m)"
  by (auto simp: slice_store_bytes_def Let_def checked_slice_range_Inr split: question_splits)

interpretation guest_code: guest_relation "slice_memory_ops W"
    "\<lambda>s t. code (memory t) = code (memory s) \<and> length (ram (memory t)) = length (ram (memory s))"
    for W
  by unfold_locales (auto simp: slice_store_code)

section \<open>Host and guest together\<close>

text \<open>
  Everything that can happen to an interpreter: the guest executes an instruction, or the host
  triggers an interrupt, answers a system call, changes the memory or resets the interpreter.
\<close>

inductive host_step :: "'m memory_ops \<Rightarrow> 'm Interpreter \<Rightarrow> 'm Interpreter \<Rightarrow> bool"
  for M :: "'m memory_ops" where
  guest_step: "step M s = (r, s') \<Longrightarrow> host_step M s s'"
| host_interrupt: "interrupt v s = (r, s') \<Longrightarrow> host_step M s s'"
| host_syscall: "host_step M s (syscall_result result (s\<lparr>memory := m\<rparr>))"
| host_memory: "host_step M s (s\<lparr>memory := m\<rparr>)"
| host_reset: "host_step M s (interpreter_reset s)"

inductive reachable :: "'m memory_ops \<Rightarrow> u32 \<Rightarrow> 'm Interpreter \<Rightarrow> bool"
  for M :: "'m memory_ops" and limit :: u32 where
  reachable_new: "reachable M limit (interpreter_new m limit)"
| reachable_step: "reachable M limit s \<Longrightarrow> host_step M s s' \<Longrightarrow> reachable M limit s'"

inductive_cases host_stepE: "host_step M s s'"

lemma syscall_host_step:
  assumes "syscall f s c = (r, s', c')"
  shows "host_step M s s'"
  using assms
  by (auto simp: syscall_def syscall_arguments_def Let_def split: prod.splits sum.splits
      intro: host_syscall host_memory)

lemma interrupt_wf:
  "interrupt v s = (r, s') \<Longrightarrow> registers_wf (registers s) \<Longrightarrow>
     registers_wf (registers s') \<and> instruction_limit s' = instruction_limit s"
  using trap_entry_safe [of "set_interrupt (control_status (registers s))" "program_counter s" v]
  by (auto simp: interrupt_def Let_def registers_wf_def set_interrupt_safe
      split: if_splits prod.splits)

lemma syscall_result_wf:
  "registers_wf (registers s) \<Longrightarrow> registers_wf (registers (syscall_result result s))"
  "instruction_limit (syscall_result result s) = instruction_limit s"
  by (auto simp: syscall_result_def registers_wf_def cpu_wf_def Let_def split: sum.split)

lemma host_step_wf:
  assumes "host_step M s s'" "registers_wf (registers s)"
  shows "registers_wf (registers s') \<and> instruction_limit s' = instruction_limit s"
  using assms guest_wf.rel_step [of M s]
  by (auto elim!: host_stepE
      simp: syscall_result_wf interpreter_reset_def registers_default_wf interrupt_wf)

lemma reachable_registers_wf:
  "reachable M limit s \<Longrightarrow> registers_wf (registers s) \<and> instruction_limit s = limit"
proof (induction rule: reachable.induct)
  case (reachable_new m)
  then show ?case by (simp add: interpreter_new_def registers_default_wf)
next
  case (reachable_step s s')
  then show ?case using host_step_wf by blast
qed

end
