(* ===== verification/Convert.thy ===== *)
theory Convert
  imports Instruction
begin

text \<open>
  Model of \<^verbatim>\<open>src/transpiler/error.rs\<close>, \<^verbatim>\<open>src/transpiler/convert.rs\<close> and of the converters in
  \<^verbatim>\<open>src/transpiler/convert/\<close>: a RISC-V instruction word is matched by its opcode and function
  codes, parsed in its RISC-V format and written in the Embive format. The constants of each file
  are abbreviations that carry the name of the instruction class they belong to.
\<close>

section \<open>Errors and raw instructions\<close>

text \<open>
  The two payloads that come from the ELF crate, \<open>ParseError\<close> and \<open>CompressionHeader\<close>, are type
  parameters. The constructor for invalid instructions has another name than the one of the
  interpreter's error.
\<close>

datatype ('p, 'c) TranspilerError =
  ErrorParsingELF 'p
| NoSegmentForSection nat
| InvalidRiscvInstruction u32
| InvalidInstructionSize nat
| InvalidPlatform
| NoSectionHeader
| NoProgramHeader
| BufferTooSmall
| UnsupportedCompression 'c

record RawInstruction =
  raw_data :: u32
  raw_size :: Size

definition embive_raw :: "Instruction \<Rightarrow> RawInstruction" where
  "embive_raw i = \<lparr>raw_data = encode_raw i, raw_size = inst_size i\<rparr>"

type_synonym ('p, 'c) converted = "('p, 'c) TranspilerError + RawInstruction"

section \<open>Fields of a compressed instruction\<close>

definition c_funct3 :: "u32 \<Rightarrow> u8" where [convert_defs]:
  "c_funct3 w = ucast (drop_bit 13 w AND 0b111)"

definition c_bit12 :: "u32 \<Rightarrow> u8" where [convert_defs]:
  "c_bit12 w = ucast (drop_bit 12 w AND 0b1)"

definition c_bits11_10 :: "u32 \<Rightarrow> u8" where [convert_defs]:
  "c_bits11_10 w = ucast (drop_bit 10 w AND 0b11)"

definition c_bits6_5 :: "u32 \<Rightarrow> u8" where [convert_defs]:
  "c_bits6_5 w = ucast (drop_bit 5 w AND 0b11)"

section \<open>Constants\<close>

abbreviation (input) C0_C_ADDI4SPN_FUNC :: u8 where "C0_C_ADDI4SPN_FUNC \<equiv> 0b000"
abbreviation (input) C0_C_LW_FUNC :: u8 where "C0_C_LW_FUNC \<equiv> 0b010"
abbreviation (input) C0_C_SW_FUNC :: u8 where "C0_C_SW_FUNC \<equiv> 0b110"

abbreviation (input) C1_C_ADDI_FUNC :: u8 where "C1_C_ADDI_FUNC \<equiv> 0b000"
abbreviation (input) C1_C_JAL_FUNC :: u8 where "C1_C_JAL_FUNC \<equiv> 0b001"
abbreviation (input) C1_C_LI_FUNC :: u8 where "C1_C_LI_FUNC \<equiv> 0b010"
abbreviation (input) C1_C_ADDI16SP_LUI_FUNC :: u8 where "C1_C_ADDI16SP_LUI_FUNC \<equiv> 0b011"
abbreviation (input) C1_C_SRLI_SRAI_ANDI_SUB_XOR_OR_AND_FUNC :: u8 where "C1_C_SRLI_SRAI_ANDI_SUB_XOR_OR_AND_FUNC \<equiv> 0b100"
abbreviation (input) C1_C_J_FUNC :: u8 where "C1_C_J_FUNC \<equiv> 0b101"
abbreviation (input) C1_C_BEQZ_FUNC :: u8 where "C1_C_BEQZ_FUNC \<equiv> 0b110"
abbreviation (input) C1_C_BNEZ_FUNC :: u8 where "C1_C_BNEZ_FUNC \<equiv> 0b111"
abbreviation (input) C1_C_SRLI_BITS11_10 :: u8 where "C1_C_SRLI_BITS11_10 \<equiv> 0b00"
abbreviation (input) C1_C_SRAI_BITS11_10 :: u8 where "C1_C_SRAI_BITS11_10 \<equiv> 0b01"
abbreviation (input) C1_C_ANDI_BITS11_10 :: u8 where "C1_C_ANDI_BITS11_10 \<equiv> 0b10"
abbreviation (input) C1_C_SUB_XOR_OR_AND_BIT12 :: u8 where "C1_C_SUB_XOR_OR_AND_BIT12 \<equiv> 0b0"
abbreviation (input) C1_C_SUB_XOR_OR_AND_BITS11_10 :: u8 where "C1_C_SUB_XOR_OR_AND_BITS11_10 \<equiv> 0b11"
abbreviation (input) C1_C_SUB_BITS6_5 :: u8 where "C1_C_SUB_BITS6_5 \<equiv> 0b00"
abbreviation (input) C1_C_XOR_BITS6_5 :: u8 where "C1_C_XOR_BITS6_5 \<equiv> 0b01"
abbreviation (input) C1_C_OR_BITS6_5 :: u8 where "C1_C_OR_BITS6_5 \<equiv> 0b10"
abbreviation (input) C1_C_AND_BITS6_5 :: u8 where "C1_C_AND_BITS6_5 \<equiv> 0b11"

abbreviation (input) C2_C_SLLI_FUNC :: u8 where "C2_C_SLLI_FUNC \<equiv> 0b000"
abbreviation (input) C2_C_LWSP_FUNC :: u8 where "C2_C_LWSP_FUNC \<equiv> 0b010"
abbreviation (input) C2_C_JR_MV_EBREAK_JALR_ADD_FUNC :: u8 where "C2_C_JR_MV_EBREAK_JALR_ADD_FUNC \<equiv> 0b100"
abbreviation (input) C2_C_SWSP_FUNC :: u8 where "C2_C_SWSP_FUNC \<equiv> 0b110"
abbreviation (input) C2_C_JR_MV_BIT12 :: u8 where "C2_C_JR_MV_BIT12 \<equiv> 0b0"

abbreviation (input) Load_LB_FUNC :: u8 where "Load_LB_FUNC \<equiv> 0b000"
abbreviation (input) Load_LH_FUNC :: u8 where "Load_LH_FUNC \<equiv> 0b001"
abbreviation (input) Load_LW_FUNC :: u8 where "Load_LW_FUNC \<equiv> 0b010"
abbreviation (input) Load_LBU_FUNC :: u8 where "Load_LBU_FUNC \<equiv> 0b100"
abbreviation (input) Load_LHU_FUNC :: u8 where "Load_LHU_FUNC \<equiv> 0b101"

abbreviation (input) rvOpImm_ADDI_FUNC :: u8 where "rvOpImm_ADDI_FUNC \<equiv> 0b000"
abbreviation (input) rvOpImm_SLLI_FUNC :: u8 where "rvOpImm_SLLI_FUNC \<equiv> 0b001"
abbreviation (input) rvOpImm_SLTI_FUNC :: u8 where "rvOpImm_SLTI_FUNC \<equiv> 0b010"
abbreviation (input) rvOpImm_SLTIU_FUNC :: u8 where "rvOpImm_SLTIU_FUNC \<equiv> 0b011"
abbreviation (input) rvOpImm_XORI_FUNC :: u8 where "rvOpImm_XORI_FUNC \<equiv> 0b100"
abbreviation (input) rvOpImm_SRLI_SRAI_FUNC :: u8 where "rvOpImm_SRLI_SRAI_FUNC \<equiv> 0b101"
abbreviation (input) rvOpImm_ORI_FUNC :: u8 where "rvOpImm_ORI_FUNC \<equiv> 0b110"
abbreviation (input) rvOpImm_ANDI_FUNC :: u8 where "rvOpImm_ANDI_FUNC \<equiv> 0b111"

abbreviation (input) Store_SB_FUNC :: u8 where "Store_SB_FUNC \<equiv> 0b000"
abbreviation (input) Store_SH_FUNC :: u8 where "Store_SH_FUNC \<equiv> 0b001"
abbreviation (input) Store_SW_FUNC :: u8 where "Store_SW_FUNC \<equiv> 0b010"

abbreviation (input) Amo_WORD_WIDTH :: u8 where "Amo_WORD_WIDTH \<equiv> 0b010"
abbreviation (input) Amo_LR_FUNCT5 :: u8 where "Amo_LR_FUNCT5 \<equiv> 0b00010"
abbreviation (input) Amo_SC_FUNCT5 :: u8 where "Amo_SC_FUNCT5 \<equiv> 0b00011"
abbreviation (input) Amo_AMOSWAP_FUNCT5 :: u8 where "Amo_AMOSWAP_FUNCT5 \<equiv> 0b00001"
abbreviation (input) Amo_AMOADD_FUNCT5 :: u8 where "Amo_AMOADD_FUNCT5 \<equiv> 0b00000"
abbreviation (input) Amo_AMOXOR_FUNCT5 :: u8 where "Amo_AMOXOR_FUNCT5 \<equiv> 0b00100"
abbreviation (input) Amo_AMOAND_FUNCT5 :: u8 where "Amo_AMOAND_FUNCT5 \<equiv> 0b01100"
abbreviation (input) Amo_AMOOR_FUNCT5 :: u8 where "Amo_AMOOR_FUNCT5 \<equiv> 0b01000"
abbreviation (input) Amo_AMOMIN_FUNCT5 :: u8 where "Amo_AMOMIN_FUNCT5 \<equiv> 0b10000"
abbreviation (input) Amo_AMOMAX_FUNCT5 :: u8 where "Amo_AMOMAX_FUNCT5 \<equiv> 0b10100"
abbreviation (input) Amo_AMOMINU_FUNCT5 :: u8 where "Amo_AMOMINU_FUNCT5 \<equiv> 0b11000"
abbreviation (input) Amo_AMOMAXU_FUNCT5 :: u8 where "Amo_AMOMAXU_FUNCT5 \<equiv> 0b11100"

abbreviation (input) rvOp_MUL_ADD_SUB_FUNC :: u8 where "rvOp_MUL_ADD_SUB_FUNC \<equiv> 0b000"
abbreviation (input) rvOp_DIV_XOR_FUNC :: u8 where "rvOp_DIV_XOR_FUNC \<equiv> 0b100"
abbreviation (input) rvOp_REM_OR_FUNC :: u8 where "rvOp_REM_OR_FUNC \<equiv> 0b110"
abbreviation (input) rvOp_REMU_AND_FUNC :: u8 where "rvOp_REMU_AND_FUNC \<equiv> 0b111"
abbreviation (input) rvOp_MULH_SLL_FUNC :: u8 where "rvOp_MULH_SLL_FUNC \<equiv> 0b001"
abbreviation (input) rvOp_DIVU_SRL_SRA_FUNC :: u8 where "rvOp_DIVU_SRL_SRA_FUNC \<equiv> 0b101"
abbreviation (input) rvOp_MULHSU_SLT_FUNC :: u8 where "rvOp_MULHSU_SLT_FUNC \<equiv> 0b010"
abbreviation (input) rvOp_MULHU_SLTU_FUNC :: u8 where "rvOp_MULHU_SLTU_FUNC \<equiv> 0b011"
abbreviation (input) rvOp_M_EXT_FUNCT7 :: u8 where "rvOp_M_EXT_FUNCT7 \<equiv> 0b0000001"
abbreviation (input) rvOp_SUB_SRA_FUNCT7 :: u8 where "rvOp_SUB_SRA_FUNCT7 \<equiv> 0b0100000"
abbreviation (input) rvOp_ADD_FUNC :: u16 where "rvOp_ADD_FUNC \<equiv> 0x0"
abbreviation (input) rvOp_SUB_FUNC :: u16 where "rvOp_SUB_FUNC \<equiv> 0x100"
abbreviation (input) rvOp_XOR_FUNC :: u16 where "rvOp_XOR_FUNC \<equiv> 0x4"
abbreviation (input) rvOp_OR_FUNC :: u16 where "rvOp_OR_FUNC \<equiv> 0x6"
abbreviation (input) rvOp_AND_FUNC :: u16 where "rvOp_AND_FUNC \<equiv> 0x7"
abbreviation (input) rvOp_SLL_FUNC :: u16 where "rvOp_SLL_FUNC \<equiv> 0x1"
abbreviation (input) rvOp_SRL_FUNC :: u16 where "rvOp_SRL_FUNC \<equiv> 0x5"
abbreviation (input) rvOp_SRA_FUNC :: u16 where "rvOp_SRA_FUNC \<equiv> 0x105"
abbreviation (input) rvOp_SLT_FUNC :: u16 where "rvOp_SLT_FUNC \<equiv> 0x2"
abbreviation (input) rvOp_SLTU_FUNC :: u16 where "rvOp_SLTU_FUNC \<equiv> 0x3"
abbreviation (input) rvOp_MUL_FUNC :: u16 where "rvOp_MUL_FUNC \<equiv> 0x8"
abbreviation (input) rvOp_DIV_FUNC :: u16 where "rvOp_DIV_FUNC \<equiv> 0xc"
abbreviation (input) rvOp_REM_FUNC :: u16 where "rvOp_REM_FUNC \<equiv> 0xe"
abbreviation (input) rvOp_REMU_FUNC :: u16 where "rvOp_REMU_FUNC \<equiv> 0xf"
abbreviation (input) rvOp_MULH_FUNC :: u16 where "rvOp_MULH_FUNC \<equiv> 0x9"
abbreviation (input) rvOp_DIVU_FUNC :: u16 where "rvOp_DIVU_FUNC \<equiv> 0xd"
abbreviation (input) rvOp_MULHSU_FUNC :: u16 where "rvOp_MULHSU_FUNC \<equiv> 0xa"
abbreviation (input) rvOp_MULHU_FUNC :: u16 where "rvOp_MULHU_FUNC \<equiv> 0xb"

abbreviation (input) rvBranch_BEQ_FUNC :: u8 where "rvBranch_BEQ_FUNC \<equiv> 0b000"
abbreviation (input) rvBranch_BNE_FUNC :: u8 where "rvBranch_BNE_FUNC \<equiv> 0b001"
abbreviation (input) rvBranch_BLT_FUNC :: u8 where "rvBranch_BLT_FUNC \<equiv> 0b100"
abbreviation (input) rvBranch_BGE_FUNC :: u8 where "rvBranch_BGE_FUNC \<equiv> 0b101"
abbreviation (input) rvBranch_BLTU_FUNC :: u8 where "rvBranch_BLTU_FUNC \<equiv> 0b110"
abbreviation (input) rvBranch_BGEU_FUNC :: u8 where "rvBranch_BGEU_FUNC \<equiv> 0b111"

abbreviation (input) System_ECALL_IMM :: i32 where "System_ECALL_IMM \<equiv> 0b0"
abbreviation (input) System_EBREAK_IMM :: i32 where "System_EBREAK_IMM \<equiv> 0b1"
abbreviation (input) System_WFI_IMM :: i32 where "System_WFI_IMM \<equiv> 0b100000101"
abbreviation (input) System_MRET_IMM :: i32 where "System_MRET_IMM \<equiv> 0b1100000010"
abbreviation (input) System_CSRRW_FUNC :: u8 where "System_CSRRW_FUNC \<equiv> 0b001"
abbreviation (input) System_CSRRS_FUNC :: u8 where "System_CSRRS_FUNC \<equiv> 0b010"
abbreviation (input) System_CSRRC_FUNC :: u8 where "System_CSRRC_FUNC \<equiv> 0b011"
abbreviation (input) System_CSRRWI_FUNC :: u8 where "System_CSRRWI_FUNC \<equiv> 0b101"
abbreviation (input) System_CSRRSI_FUNC :: u8 where "System_CSRRSI_FUNC \<equiv> 0b110"
abbreviation (input) System_CSRRCI_FUNC :: u8 where "System_CSRRCI_FUNC \<equiv> 0b111"

abbreviation (input) C0_OPCODE :: u8 where "C0_OPCODE \<equiv> 0b00"
abbreviation (input) C1_OPCODE :: u8 where "C1_OPCODE \<equiv> 0b01"
abbreviation (input) C2_OPCODE :: u8 where "C2_OPCODE \<equiv> 0b10"
abbreviation (input) Auipc_OPCODE :: u8 where "Auipc_OPCODE \<equiv> 0b0010111"
abbreviation (input) Amo_OPCODE :: u8 where "Amo_OPCODE \<equiv> 0b0101111"
abbreviation (input) Branch_OPCODE :: u8 where "Branch_OPCODE \<equiv> 0b1100011"
abbreviation (input) Jal_OPCODE :: u8 where "Jal_OPCODE \<equiv> 0b1101111"
abbreviation (input) Jalr_OPCODE :: u8 where "Jalr_OPCODE \<equiv> 0b1100111"
abbreviation (input) Load_OPCODE :: u8 where "Load_OPCODE \<equiv> 0b0000011"
abbreviation (input) Lui_OPCODE :: u8 where "Lui_OPCODE \<equiv> 0b0110111"
abbreviation (input) MiscMem_OPCODE :: u8 where "MiscMem_OPCODE \<equiv> 0b0001111"
abbreviation (input) OpImm_OPCODE :: u8 where "OpImm_OPCODE \<equiv> 0b0010011"
abbreviation (input) Op_OPCODE :: u8 where "Op_OPCODE \<equiv> 0b0110011"
abbreviation (input) Store_OPCODE :: u8 where "Store_OPCODE \<equiv> 0b0100011"
abbreviation (input) System_OPCODE :: u8 where "System_OPCODE \<equiv> 0b1110011"

section \<open>Converters of compressed instructions\<close>

definition convert_C0 :: "u32 \<Rightarrow> ('p, 'c) converted" where [convert_defs]:
  "convert_C0 w =
     (let funct3 = c_funct3 w in
      if funct3 = C0_C_ADDI4SPN_FUNC then Inr (embive_raw (CAddi4spn (TypeCIW_from_riscv w)))
      else if funct3 = C0_C_LW_FUNC then Inr (embive_raw (CLw (TypeCL_from_riscv w)))
      else if funct3 = C0_C_SW_FUNC then Inr (embive_raw (CSw (TypeCL_from_riscv w)))
      else Inl (InvalidRiscvInstruction (w AND 0xFFFF)))"

definition convert_C1_arith :: "u32 \<Rightarrow> ('p, 'c) converted" where [convert_defs]:
  "convert_C1_arith w =
     (let bits11_10 = c_bits11_10 w in
      if bits11_10 = C1_C_SRLI_BITS11_10 then Inr (embive_raw (CSrli (TypeCB1_from_riscv w)))
      else if bits11_10 = C1_C_SRAI_BITS11_10 then Inr (embive_raw (CSrai (TypeCB1_from_riscv w)))
      else if bits11_10 = C1_C_ANDI_BITS11_10 then Inr (embive_raw (CAndi (TypeCB2_from_riscv w)))
      else if bits11_10 = C1_C_SUB_XOR_OR_AND_BITS11_10 \<and> c_bit12 w = C1_C_SUB_XOR_OR_AND_BIT12 then
        let inst = TypeCS_from_riscv w; bits6_5 = c_bits6_5 w in
        if bits6_5 = C1_C_SUB_BITS6_5 then Inr (embive_raw (CSub inst))
        else if bits6_5 = C1_C_XOR_BITS6_5 then Inr (embive_raw (CXor inst))
        else if bits6_5 = C1_C_OR_BITS6_5 then Inr (embive_raw (COr inst))
        else if bits6_5 = C1_C_AND_BITS6_5 then Inr (embive_raw (CAnd inst))
        else Inl (InvalidRiscvInstruction (w AND 0xFFFF))
      else Inl (InvalidRiscvInstruction (w AND 0xFFFF)))"

definition convert_C1 :: "u32 \<Rightarrow> ('p, 'c) converted" where [convert_defs]:
  "convert_C1 w =
     (let funct3 = c_funct3 w in
      if funct3 = C1_C_ADDI_FUNC then Inr (embive_raw (CAddi (TypeCI1_from_riscv w)))
      else if funct3 = C1_C_JAL_FUNC then Inr (embive_raw (CJal (TypeCJ_from_riscv w)))
      else if funct3 = C1_C_LI_FUNC then Inr (embive_raw (CLi (TypeCI1_from_riscv w)))
      else if funct3 = C1_C_ADDI16SP_LUI_FUNC then
        let inst = TypeCI3_from_riscv w in
        if ci3_rd_rs1 inst = 2
        then let inst = TypeCI2_from_riscv w in Inr (embive_raw (CAddi16sp inst))
        else Inr (embive_raw (CLui inst))
      else if funct3 = C1_C_SRLI_SRAI_ANDI_SUB_XOR_OR_AND_FUNC then convert_C1_arith w
      else if funct3 = C1_C_J_FUNC then Inr (embive_raw (CJ (TypeCJ_from_riscv w)))
      else if funct3 = C1_C_BEQZ_FUNC then Inr (embive_raw (CBeqz (TypeCB4_from_riscv w)))
      else if funct3 = C1_C_BNEZ_FUNC then Inr (embive_raw (CBnez (TypeCB4_from_riscv w)))
      else Inl (InvalidRiscvInstruction (w AND 0xFFFF)))"

definition convert_C2 :: "u32 \<Rightarrow> ('p, 'c) converted" where [convert_defs]:
  "convert_C2 w =
     (let funct3 = c_funct3 w in
      if funct3 = C2_C_SLLI_FUNC then Inr (embive_raw (CSlli (TypeCI4_from_riscv w)))
      else if funct3 = C2_C_LWSP_FUNC then Inr (embive_raw (CLwsp (TypeCI5_from_riscv w)))
      else if funct3 = C2_C_JR_MV_EBREAK_JALR_ADD_FUNC then
        let inst = TypeCR_from_riscv w in
        if c_bit12 w = C2_C_JR_MV_BIT12 then Inr (embive_raw (CJrMv inst))
        else Inr (embive_raw (CEbreakJalrAdd inst))
      else if funct3 = C2_C_SWSP_FUNC then Inr (embive_raw (CSwsp (TypeCSS_from_riscv w)))
      else Inl (InvalidRiscvInstruction (w AND 0xFFFF)))"

section \<open>Converters of 32-bit instructions\<close>

definition convert_Load :: "u32 \<Rightarrow> ('p, 'c) converted" where [convert_defs]:
  "convert_Load w =
     (let inst = TypeI_from_riscv w; func = i_func inst in
      if func = Load_LB_FUNC then Inr (embive_raw (LoadStore (inst\<lparr>i_func := LoadStore_LB_FUNC\<rparr>)))
      else if func = Load_LH_FUNC then Inr (embive_raw (LoadStore (inst\<lparr>i_func := LoadStore_LH_FUNC\<rparr>)))
      else if func = Load_LW_FUNC then Inr (embive_raw (LoadStore (inst\<lparr>i_func := LoadStore_LW_FUNC\<rparr>)))
      else if func = Load_LBU_FUNC then Inr (embive_raw (LoadStore (inst\<lparr>i_func := LoadStore_LBU_FUNC\<rparr>)))
      else if func = Load_LHU_FUNC then Inr (embive_raw (LoadStore (inst\<lparr>i_func := LoadStore_LHU_FUNC\<rparr>)))
      else Inl (InvalidRiscvInstruction w))"

definition convert_MiscMem :: "u32 \<Rightarrow> ('p, 'c) converted" where [convert_defs]:
  "convert_MiscMem w =
     Inr (embive_raw (SystemMiscMem ((TypeI_from_riscv w)
       \<lparr>i_func := SystemMiscMem_MISC_FUNC, i_imm := SystemMiscMem_FENCEI_IMM\<rparr>)))"

definition convert_OpImm :: "u32 \<Rightarrow> ('p, 'c) converted" where [convert_defs]:
  "convert_OpImm w =
     (let inst = TypeI_from_riscv w; func = i_func inst in
      if func = rvOpImm_ADDI_FUNC then Inr (embive_raw (OpImm (inst\<lparr>i_func := OpImm_ADDI_FUNC\<rparr>)))
      else if func = rvOpImm_SLLI_FUNC then Inr (embive_raw (OpImm (inst\<lparr>i_func := OpImm_SLLI_FUNC\<rparr>)))
      else if func = rvOpImm_SLTI_FUNC then Inr (embive_raw (OpImm (inst\<lparr>i_func := OpImm_SLTI_FUNC\<rparr>)))
      else if func = rvOpImm_SLTIU_FUNC then Inr (embive_raw (OpImm (inst\<lparr>i_func := OpImm_SLTIU_FUNC\<rparr>)))
      else if func = rvOpImm_XORI_FUNC then Inr (embive_raw (OpImm (inst\<lparr>i_func := OpImm_XORI_FUNC\<rparr>)))
      else if func = rvOpImm_SRLI_SRAI_FUNC then Inr (embive_raw (OpImm (inst\<lparr>i_func := OpImm_SRLI_SRAI_FUNC\<rparr>)))
      else if func = rvOpImm_ORI_FUNC then Inr (embive_raw (OpImm (inst\<lparr>i_func := OpImm_ORI_FUNC\<rparr>)))
      else if func = rvOpImm_ANDI_FUNC then Inr (embive_raw (OpImm (inst\<lparr>i_func := OpImm_ANDI_FUNC\<rparr>)))
      else Inl (InvalidRiscvInstruction w))"

definition convert_Auipc :: "u32 \<Rightarrow> ('p, 'c) converted" where [convert_defs]:
  "convert_Auipc w = Inr (embive_raw (Auipc (TypeU_from_riscv w)))"

definition convert_Store :: "u32 \<Rightarrow> ('p, 'c) converted" where [convert_defs]:
  "convert_Store w =
     (let inst_s = TypeS_from_riscv w;
          inst = \<lparr>i_rd_rs2 = s_rs2 inst_s, i_rs1 = s_rs1 inst_s, i_imm = s_imm inst_s,
                  i_func = s_func inst_s\<rparr>;
          func = s_func inst_s in
      if func = Store_SB_FUNC then Inr (embive_raw (LoadStore (inst\<lparr>i_func := LoadStore_SB_FUNC\<rparr>)))
      else if func = Store_SH_FUNC then Inr (embive_raw (LoadStore (inst\<lparr>i_func := LoadStore_SH_FUNC\<rparr>)))
      else if func = Store_SW_FUNC then Inr (embive_raw (LoadStore (inst\<lparr>i_func := LoadStore_SW_FUNC\<rparr>)))
      else Inl (InvalidRiscvInstruction w))"

definition convert_Amo :: "u32 \<Rightarrow> ('p, 'c) converted" where [convert_defs]:
  "convert_Amo w =
     (let inst = TypeR_from_riscv w;
          func5 = (ucast (drop_bit 5 (r_func inst)) :: u8) in
      if (ucast (r_func inst AND 0b111) :: u8) \<noteq> Amo_WORD_WIDTH then Inl (InvalidRiscvInstruction w)
      else if func5 = Amo_LR_FUNCT5 then Inr (embive_raw (OpAmo (inst\<lparr>r_func := OpAmo_LR_FUNC\<rparr>)))
      else if func5 = Amo_SC_FUNCT5 then Inr (embive_raw (OpAmo (inst\<lparr>r_func := OpAmo_SC_FUNC\<rparr>)))
      else if func5 = Amo_AMOSWAP_FUNCT5 then Inr (embive_raw (OpAmo (inst\<lparr>r_func := OpAmo_AMOSWAP_FUNC\<rparr>)))
      else if func5 = Amo_AMOADD_FUNCT5 then Inr (embive_raw (OpAmo (inst\<lparr>r_func := OpAmo_AMOADD_FUNC\<rparr>)))
      else if func5 = Amo_AMOXOR_FUNCT5 then Inr (embive_raw (OpAmo (inst\<lparr>r_func := OpAmo_AMOXOR_FUNC\<rparr>)))
      else if func5 = Amo_AMOAND_FUNCT5 then Inr (embive_raw (OpAmo (inst\<lparr>r_func := OpAmo_AMOAND_FUNC\<rparr>)))
      else if func5 = Amo_AMOOR_FUNCT5 then Inr (embive_raw (OpAmo (inst\<lparr>r_func := OpAmo_AMOOR_FUNC\<rparr>)))
      else if func5 = Amo_AMOMIN_FUNCT5 then Inr (embive_raw (OpAmo (inst\<lparr>r_func := OpAmo_AMOMIN_FUNC\<rparr>)))
      else if func5 = Amo_AMOMAX_FUNCT5 then Inr (embive_raw (OpAmo (inst\<lparr>r_func := OpAmo_AMOMAX_FUNC\<rparr>)))
      else if func5 = Amo_AMOMINU_FUNCT5 then Inr (embive_raw (OpAmo (inst\<lparr>r_func := OpAmo_AMOMINU_FUNC\<rparr>)))
      else if func5 = Amo_AMOMAXU_FUNCT5 then Inr (embive_raw (OpAmo (inst\<lparr>r_func := OpAmo_AMOMAXU_FUNC\<rparr>)))
      else Inl (InvalidRiscvInstruction w))"

definition convert_Op :: "u32 \<Rightarrow> ('p, 'c) converted" where [convert_defs]:
  "convert_Op w =
     (let inst = TypeR_from_riscv w; func = r_func inst in
      if func = rvOp_ADD_FUNC then Inr (embive_raw (OpAmo (inst\<lparr>r_func := OpAmo_ADD_FUNC\<rparr>)))
      else if func = rvOp_SUB_FUNC then Inr (embive_raw (OpAmo (inst\<lparr>r_func := OpAmo_SUB_FUNC\<rparr>)))
      else if func = rvOp_SLL_FUNC then Inr (embive_raw (OpAmo (inst\<lparr>r_func := OpAmo_SLL_FUNC\<rparr>)))
      else if func = rvOp_SLT_FUNC then Inr (embive_raw (OpAmo (inst\<lparr>r_func := OpAmo_SLT_FUNC\<rparr>)))
      else if func = rvOp_SLTU_FUNC then Inr (embive_raw (OpAmo (inst\<lparr>r_func := OpAmo_SLTU_FUNC\<rparr>)))
      else if func = rvOp_XOR_FUNC then Inr (embive_raw (OpAmo (inst\<lparr>r_func := OpAmo_XOR_FUNC\<rparr>)))
      else if func = rvOp_SRL_FUNC then Inr (embive_raw (OpAmo (inst\<lparr>r_func := OpAmo_SRL_FUNC\<rparr>)))
      else if func = rvOp_SRA_FUNC then Inr (embive_raw (OpAmo (inst\<lparr>r_func := OpAmo_SRA_FUNC\<rparr>)))
      else if func = rvOp_OR_FUNC then Inr (embive_raw (OpAmo (inst\<lparr>r_func := OpAmo_OR_FUNC\<rparr>)))
      else if func = rvOp_AND_FUNC then Inr (embive_raw (OpAmo (inst\<lparr>r_func := OpAmo_AND_FUNC\<rparr>)))
      else if func = rvOp_MUL_FUNC then Inr (embive_raw (OpAmo (inst\<lparr>r_func := OpAmo_MUL_FUNC\<rparr>)))
      else if func = rvOp_MULH_FUNC then Inr (embive_raw (OpAmo (inst\<lparr>r_func := OpAmo_MULH_FUNC\<rparr>)))
      else if func = rvOp_MULHSU_FUNC then Inr (embive_raw (OpAmo (inst\<lparr>r_func := OpAmo_MULHSU_FUNC\<rparr>)))
      else if func = rvOp_MULHU_FUNC then Inr (embive_raw (OpAmo (inst\<lparr>r_func := OpAmo_MULHU_FUNC\<rparr>)))
      else if func = rvOp_DIV_FUNC then Inr (embive_raw (OpAmo (inst\<lparr>r_func := OpAmo_DIV_FUNC\<rparr>)))
      else if func = rvOp_DIVU_FUNC then Inr (embive_raw (OpAmo (inst\<lparr>r_func := OpAmo_DIVU_FUNC\<rparr>)))
      else if func = rvOp_REM_FUNC then Inr (embive_raw (OpAmo (inst\<lparr>r_func := OpAmo_REM_FUNC\<rparr>)))
      else if func = rvOp_REMU_FUNC then Inr (embive_raw (OpAmo (inst\<lparr>r_func := OpAmo_REMU_FUNC\<rparr>)))
      else Inl (InvalidRiscvInstruction w))"

definition convert_Lui :: "u32 \<Rightarrow> ('p, 'c) converted" where [convert_defs]:
  "convert_Lui w = Inr (embive_raw (Lui (TypeU_from_riscv w)))"

definition convert_Branch :: "u32 \<Rightarrow> ('p, 'c) converted" where [convert_defs]:
  "convert_Branch w =
     (let inst = TypeB_from_riscv w; func = b_func inst in
      if func = rvBranch_BEQ_FUNC then Inr (embive_raw (Branch (inst\<lparr>b_func := Branch_BEQ_FUNC\<rparr>)))
      else if func = rvBranch_BNE_FUNC then Inr (embive_raw (Branch (inst\<lparr>b_func := Branch_BNE_FUNC\<rparr>)))
      else if func = rvBranch_BLT_FUNC then Inr (embive_raw (Branch (inst\<lparr>b_func := Branch_BLT_FUNC\<rparr>)))
      else if func = rvBranch_BGE_FUNC then Inr (embive_raw (Branch (inst\<lparr>b_func := Branch_BGE_FUNC\<rparr>)))
      else if func = rvBranch_BLTU_FUNC then Inr (embive_raw (Branch (inst\<lparr>b_func := Branch_BLTU_FUNC\<rparr>)))
      else if func = rvBranch_BGEU_FUNC then Inr (embive_raw (Branch (inst\<lparr>b_func := Branch_BGEU_FUNC\<rparr>)))
      else Inl (InvalidRiscvInstruction w))"

definition convert_Jalr :: "u32 \<Rightarrow> ('p, 'c) converted" where [convert_defs]:
  "convert_Jalr w = Inr (embive_raw (Jalr (TypeI_from_riscv w)))"

definition convert_Jal :: "u32 \<Rightarrow> ('p, 'c) converted" where [convert_defs]:
  "convert_Jal w = Inr (embive_raw (Jal (TypeJ_from_riscv w)))"

definition system_imm :: "i32 \<Rightarrow> i32" where [convert_defs]:
  "system_imm imm =
     (if imm = System_ECALL_IMM then SystemMiscMem_ECALL_IMM
      else if imm = System_EBREAK_IMM then SystemMiscMem_EBREAK_IMM
      else if imm = System_WFI_IMM then SystemMiscMem_WFI_IMM
      else if imm = System_MRET_IMM then SystemMiscMem_MRET_IMM
      else imm)"

definition convert_System :: "u32 \<Rightarrow> ('p, 'c) converted" where [convert_defs]:
  "convert_System w =
     (let inst = TypeI_from_riscv w; func = i_func inst in
      if func = SystemMiscMem_MISC_FUNC then
        Inr (embive_raw (SystemMiscMem (inst\<lparr>i_imm := system_imm (i_imm inst)\<rparr>)))
      else if func = System_CSRRW_FUNC then Inr (embive_raw (SystemMiscMem (inst\<lparr>i_func := SystemMiscMem_CSRRW_FUNC\<rparr>)))
      else if func = System_CSRRS_FUNC then Inr (embive_raw (SystemMiscMem (inst\<lparr>i_func := SystemMiscMem_CSRRS_FUNC\<rparr>)))
      else if func = System_CSRRC_FUNC then Inr (embive_raw (SystemMiscMem (inst\<lparr>i_func := SystemMiscMem_CSRRC_FUNC\<rparr>)))
      else if func = System_CSRRWI_FUNC then Inr (embive_raw (SystemMiscMem (inst\<lparr>i_func := SystemMiscMem_CSRRWI_FUNC\<rparr>)))
      else if func = System_CSRRSI_FUNC then Inr (embive_raw (SystemMiscMem (inst\<lparr>i_func := SystemMiscMem_CSRRSI_FUNC\<rparr>)))
      else if func = System_CSRRCI_FUNC then Inr (embive_raw (SystemMiscMem (inst\<lparr>i_func := SystemMiscMem_CSRRCI_FUNC\<rparr>)))
      else Inl (InvalidRiscvInstruction w))"

section \<open>The dispatcher\<close>

definition convert :: "u32 \<Rightarrow> ('p, 'c) converted" where
  "convert w =
     (let low = (ucast (w AND 0b11) :: u8); op = (ucast (w AND 0b1111111) :: u8) in
      if low = C0_OPCODE then convert_C0 w
      else if low = C1_OPCODE then convert_C1 w
      else if low = C2_OPCODE then convert_C2 w
      else if op = Load_OPCODE then convert_Load w
      else if op = MiscMem_OPCODE then convert_MiscMem w
      else if op = OpImm_OPCODE then convert_OpImm w
      else if op = Auipc_OPCODE then convert_Auipc w
      else if op = Store_OPCODE then convert_Store w
      else if op = Amo_OPCODE then convert_Amo w
      else if op = Op_OPCODE then convert_Op w
      else if op = Lui_OPCODE then convert_Lui w
      else if op = Branch_OPCODE then convert_Branch w
      else if op = Jalr_OPCODE then convert_Jalr w
      else if op = Jal_OPCODE then convert_Jal w
      else if op = System_OPCODE then convert_System w
      else Inl (InvalidRiscvInstruction w))"

section \<open>Every converted word is a tagged encoding\<close>

lemma numeral_fits_unsigned [simp]:
  "fits_unsigned k (numeral m :: 'a::len word) \<longleftrightarrow> take_bit k (numeral m :: 'a word) = numeral m"
  "fits_unsigned k (0 :: 'a::len word)"
  "fits_unsigned k (1 :: 'a::len word) \<longleftrightarrow> take_bit k (1 :: 'a word) = 1"
  by (simp_all add: fits_unsigned_def)

lemma numeral_fits_signed [simp]:
  "fits_signed k (numeral m :: 'a::len word) \<longleftrightarrow> signed_take_bit k (numeral m :: 'a word) = numeral m"
  "fits_signed k (0 :: 'a::len word)"
  "fits_signed k (1 :: 'a::len word) \<longleftrightarrow> signed_take_bit k (1 :: 'a word) = 1"
  by (simp_all add: fits_signed_def)

lemma set_func_wf:
  "TypeI_wf f \<Longrightarrow> fits_unsigned 3 k \<Longrightarrow> TypeI_wf (f\<lparr>i_func := k\<rparr>)"
  "TypeI_wf f \<Longrightarrow> fits_signed 11 im \<Longrightarrow> TypeI_wf (f\<lparr>i_imm := im\<rparr>)"
  "TypeB_wf b \<Longrightarrow> fits_unsigned 3 k \<Longrightarrow> TypeB_wf (b\<lparr>b_func := k\<rparr>)"
  "TypeR_wf r \<Longrightarrow> fits_unsigned 10 l \<Longrightarrow> TypeR_wf (r\<lparr>r_func := l\<rparr>)"
  by (simp_all add: TypeI_wf_def TypeB_wf_def TypeR_wf_def)

lemma store_wf:
  "TypeS_wf f \<Longrightarrow> fits_unsigned 3 k \<Longrightarrow>
     TypeI_wf \<lparr>i_rd_rs2 = s_rs2 f, i_rs1 = s_rs1 f, i_imm = s_imm f, i_func = k\<rparr>"
  by (simp add: TypeI_wf_def TypeS_wf_def)

lemma system_imm_fits: "fits_signed 11 imm \<Longrightarrow> fits_signed 11 (system_imm imm)"
  by (simp add: system_imm_def)

text \<open>The instructions a converter may produce: well-formed, and of the given size.\<close>

definition converts_to :: "Size \<Rightarrow> ('p, 'c) converted \<Rightarrow> bool" where
  "converts_to sz r \<longleftrightarrow>
     (case r of Inl e \<Rightarrow> True | Inr raw \<Rightarrow> \<exists>i. inst_wf i \<and> inst_size i = sz \<and> raw = embive_raw i)"

lemma converts_to_Inl [simp]: "converts_to sz (Inl e)"
  by (simp add: converts_to_def)

lemma converts_to_Inr: "inst_wf i \<Longrightarrow> inst_size i = sz \<Longrightarrow> converts_to sz (Inr (embive_raw i))"
  by (auto simp: converts_to_def)

lemmas converter_wf =
  fmt_from_riscv_wf set_func_wf store_wf [OF fmt_TypeS.from_riscv_wf] system_imm_fits

lemma TypeI_imm: "TypeI_wf f \<Longrightarrow> fits_signed 11 (i_imm f)"
  by (simp add: TypeI_wf_def)

lemma converters_half:
  "converts_to Half (convert_C0 w)" "converts_to Half (convert_C1_arith w)"
  "converts_to Half (convert_C1 w)" "converts_to Half (convert_C2 w)"
  unfolding convert_C0_def convert_C1_arith_def convert_C1_def convert_C2_def Let_def
  by (simp_all add: converts_to_Inr converter_wf)

lemma converters_word:
  "converts_to Word (convert_Load w)" "converts_to Word (convert_MiscMem w)"
  "converts_to Word (convert_OpImm w)" "converts_to Word (convert_Auipc w)"
  "converts_to Word (convert_Store w)" "converts_to Word (convert_Lui w)"
  "converts_to Word (convert_Branch w)" "converts_to Word (convert_Jalr w)"
  "converts_to Word (convert_Jal w)" "converts_to Word (convert_System w)"
  unfolding convert_Load_def convert_MiscMem_def convert_OpImm_def convert_Auipc_def
    convert_Store_def convert_Lui_def convert_Branch_def convert_Jalr_def convert_Jal_def
    convert_System_def Let_def
  by (simp_all add: converts_to_Inr converter_wf TypeI_imm)

lemma converters_word_op:
  "converts_to Word (convert_Op w)" "converts_to Word (convert_Amo w)"
  unfolding convert_Op_def convert_Amo_def Let_def
  by (simp_all add: converts_to_Inr converter_wf)

lemma low_bits_cases: "w AND 3 = 0 \<or> w AND 3 = 1 \<or> w AND 3 = 2 \<or> w AND 3 = 3" for w :: u32
  by (simp add: bit_blast) blast

lemma convert_compressed:
  "w AND 3 = 0 \<Longrightarrow> convert w = convert_C0 w"
  "w AND 3 = 1 \<Longrightarrow> convert w = convert_C1 w"
  "w AND 3 = 2 \<Longrightarrow> convert w = convert_C2 w"
  by (simp_all add: convert_def)

lemma convert_word:
  assumes "w AND 3 = 3"
  shows "converts_to Word (convert w)"
  using assms by (simp add: convert_def Let_def converters_word converters_word_op)

lemma convert_converts_to: "converts_to (if w AND 3 = 3 then Word else Half) (convert w)"
proof -
  consider "w AND 3 = 0" | "w AND 3 = 1" | "w AND 3 = 2" | "w AND 3 = 3"
    using low_bits_cases by blast
  then show ?thesis
    by cases (simp_all add: convert_compressed converters_half convert_word)
qed

lemma convert_InrE:
  assumes "(convert w :: ('p, 'c) converted) = Inr raw"
  obtains i where "inst_wf i" "raw = embive_raw i" "inst_size i = (if w AND 3 = 3 then Word else Half)"
proof -
  have "converts_to (if w AND 3 = 3 then Word else Half) (convert w :: ('p, 'c) converted)"
    by (rule convert_converts_to)
  with assms show thesis using that by (auto simp: converts_to_def)
qed

text \<open>A compressed instruction is converted from its own 16 bits.\<close>

lemma c_fields_low:
  "c_funct3 (take_bit 16 w) = c_funct3 w" "c_bit12 (take_bit 16 w) = c_bit12 w"
  "c_bits11_10 (take_bit 16 w) = c_bits11_10 w" "c_bits6_5 (take_bit 16 w) = c_bits6_5 w"
  by (simp_all add: convert_defs bit_blast)

lemma and_masks_low: "take_bit 16 w AND 0xFFFF = w AND 0xFFFF" "take_bit 16 w AND 3 = w AND 3" for w :: u32
  by (simp_all add: bit_blast)

lemma converters_low:
  "convert_C0 (take_bit 16 w) = convert_C0 w" "convert_C1 (take_bit 16 w) = convert_C1 w"
  "convert_C2 (take_bit 16 w) = convert_C2 w"
  unfolding convert_C0_def convert_C1_def convert_C1_arith_def convert_C2_def Let_def
    c_fields_low and_masks_low fmt_from_riscv_low by (rule refl)+

lemma convert_low:
  assumes "w AND 3 \<noteq> 3"
  shows "convert (take_bit 16 w) = convert w"
proof -
  consider "w AND 3 = 0" | "w AND 3 = 1" | "w AND 3 = 2"
    using low_bits_cases assms by blast
  then show ?thesis
    by cases (simp_all only: convert_compressed and_masks_low converters_low)
qed

end
