(* ===== verification/Riscv_Spec.thy ===== *)
theory Riscv_Spec
  imports Interpreter_State
begin

text \<open>
  An abstract specification, after the RISC-V unprivileged specification: the instructions of
  RV32I, of the extensions M, A, C and Zicsr, and the instructions \<open>ecall\<close>, \<open>ebreak\<close>, \<open>wfi\<close> and \<open>mret\<close>.
  An instruction word is decoded by bit ranges into an abstract instruction, a 16-bit
  one into the instruction it expands to; the meaning of an abstract instruction is the same for
  both lengths, but for the address of the next instruction. The arithmetic is stated on integers,
  and the register x0 is hardwired to zero. Nothing here refers to the Embive encoding.

  What RISC-V leaves to the implementation is that of the interpreter: how an instruction leaves the
  guest, the error that stands for an exception, the reservation of \<open>lr.w\<close>, which holds an address and
  the value seen there, and which control and status registers exist, with their writable bits
  (\<open>csr_exists\<close>, \<open>csr_view\<close> and \<open>csr_writable\<close>, which are not the code of the operation on them).

  The code does not keep to the specification in the cases that \<open>conforms\<close> excludes: a load, \<open>c.mv\<close> or
  \<open>c.add\<close> whose destination is x0; an indirect jump to an odd address; an atomic instruction on a
  misaligned address, which shall raise an exception; a write to a read-only control and status
  register, which shall be illegal; an access to these registers when one of them holds an illegal
  value, like an odd \<open>mepc\<close>; and a return from a trap to an odd \<open>mepc\<close>, or when MPIE is not set: \<open>mret\<close>
  sets it to 1, and the code leaves it as it is.
\<close>

section \<open>Fields of an instruction word\<close>

definition field :: "u32 \<Rightarrow> nat \<Rightarrow> nat \<Rightarrow> u32" where
  "field w lo n = take_bit n (drop_bit lo w)"

definition rv_rd :: "u32 \<Rightarrow> u8" where "rv_rd w = ucast (field w 7 5)"
definition rv_rs1 :: "u32 \<Rightarrow> u8" where "rv_rs1 w = ucast (field w 15 5)"
definition rv_rs2 :: "u32 \<Rightarrow> u8" where "rv_rs2 w = ucast (field w 20 5)"

definition imm_I :: "u32 \<Rightarrow> i32" where
  "imm_I w = signed_take_bit 11 (field w 20 12)"

definition imm_S :: "u32 \<Rightarrow> i32" where
  "imm_S w = signed_take_bit 11 (push_bit 5 (field w 25 7) OR field w 7 5)"

definition imm_B :: "u32 \<Rightarrow> i32" where
  "imm_B w = signed_take_bit 12 (push_bit 12 (field w 31 1) OR push_bit 11 (field w 7 1)
     OR push_bit 5 (field w 25 6) OR push_bit 1 (field w 8 4))"

definition imm_U :: "u32 \<Rightarrow> i32" where
  "imm_U w = push_bit 12 (field w 12 20)"

definition imm_J :: "u32 \<Rightarrow> i32" where
  "imm_J w = signed_take_bit 20 (push_bit 20 (field w 31 1) OR push_bit 12 (field w 12 8)
     OR push_bit 11 (field w 20 1) OR push_bit 1 (field w 21 10))"

section \<open>Arithmetic and effects\<close>

definition rv_alu :: "u32 \<Rightarrow> u32 \<Rightarrow> i32 \<Rightarrow> i32 \<Rightarrow> i32 option" where
  "rv_alu funct7 funct3 a b =
     (if funct7 = 0 then
        (if funct3 = 0 then Some (word_of_int (sint a + sint b))
         else if funct3 = 1 then Some (word_of_int (uint a * 2 ^ (unat b mod 32)))
         else if funct3 = 2 then Some (of_bool (sint a < sint b))
         else if funct3 = 3 then Some (of_bool (uint a < uint b))
         else if funct3 = 4 then Some (a XOR b)
         else if funct3 = 5 then Some (word_of_int (uint a div 2 ^ (unat b mod 32)))
         else if funct3 = 6 then Some (a OR b)
         else if funct3 = 7 then Some (a AND b)
         else None)
      else if funct7 = 0x20 then
        (if funct3 = 0 then Some (word_of_int (sint a - sint b))
         else if funct3 = 5 then Some (word_of_int (sint a div 2 ^ (unat b mod 32)))
         else None)
      else if funct7 = 1 then
        (if funct3 = 0 then Some (word_of_int (sint a * sint b))
         else if funct3 = 1 then Some (word_of_int (sint a * sint b div 2 ^ 32))
         else if funct3 = 2 then Some (word_of_int (sint a * uint b div 2 ^ 32))
         else if funct3 = 3 then Some (word_of_int (uint a * uint b div 2 ^ 32))
         else if funct3 = 4 then Some (if b = 0 then - 1 else word_of_int (sint a sdiv sint b))
         else if funct3 = 5 then Some (if b = 0 then - 1 else word_of_int (uint a div uint b))
         else if funct3 = 6 then Some (if b = 0 then a else word_of_int (sint a smod sint b))
         else if funct3 = 7 then Some (if b = 0 then a else word_of_int (uint a mod uint b))
         else None)
      else None)"

text \<open>The shifts by an immediate take the distance from the low five bits of the immediate.\<close>

definition rv_alu_imm :: "u32 \<Rightarrow> u32 \<Rightarrow> i32 \<Rightarrow> i32 \<Rightarrow> i32 option" where
  "rv_alu_imm funct7 funct3 a imm =
     (if funct3 = 1 then (if funct7 = 0 then rv_alu 0 1 a imm else None)
      else if funct3 = 5 then (if funct7 = 0 \<or> funct7 = 0x20 then rv_alu funct7 5 a imm else None)
      else rv_alu 0 funct3 a imm)"

definition rv_branch :: "u32 \<Rightarrow> i32 \<Rightarrow> i32 \<Rightarrow> bool option" where
  "rv_branch funct3 a b =
     (if funct3 = 0 then Some (a = b)
      else if funct3 = 1 then Some (a \<noteq> b)
      else if funct3 = 4 then Some (sint a < sint b)
      else if funct3 = 5 then Some (sint a \<ge> sint b)
      else if funct3 = 6 then Some (uint a < uint b)
      else if funct3 = 7 then Some (uint a \<ge> uint b)
      else None)"

definition read_x :: "'m Interpreter \<Rightarrow> u8 \<Rightarrow> i32" where
  "read_x s i = inner (cpu (registers s)) ! unat i"

definition write_x :: "u8 \<Rightarrow> i32 \<Rightarrow> 'm Interpreter \<Rightarrow> 'm Interpreter" where
  "write_x i v s =
     (if i = 0 then s
      else set_cpu ((cpu (registers s))\<lparr>inner := (inner (cpu (registers s)))[unat i := v]\<rparr>) s)"

definition goto :: "u32 \<Rightarrow> 'm Interpreter \<Rightarrow> 'm step_result" where
  "goto target s = (Inr Running, s\<lparr>program_counter := target\<rparr>)"

text \<open>A read of a register: x0 is zero.\<close>

definition rv_read :: "'m Interpreter \<Rightarrow> u8 \<Rightarrow> i32" where
  "rv_read s i = (if i = 0 then 0 else read_x s i)"

text \<open>Loads and stores in an instruction of \<open>n\<close> bytes; \<open>ext\<close> extends the loaded value to a register.\<close>

definition rv_load ::
  "'m memory_ops \<Rightarrow> u32 \<Rightarrow> u8 \<Rightarrow> u32 \<Rightarrow> ('a::len word \<Rightarrow> i32) \<Rightarrow> 'm Interpreter \<Rightarrow> 'm step_result" where
  "rv_load M n rd addr ext s =
     load_mem M s addr (\<lambda>v s. goto (program_counter s + n) (write_x rd (ext v) s))"

definition rv_store ::
  "'m memory_ops \<Rightarrow> u32 \<Rightarrow> u32 \<Rightarrow> 'a::len word \<Rightarrow> 'm Interpreter \<Rightarrow> 'm step_result" where
  "rv_store M n addr v s = store_mem M s addr v (\<lambda>s. goto (program_counter s + n) s)"

definition rv_loads ::
  "'m memory_ops \<Rightarrow> u32 \<Rightarrow> u32 \<Rightarrow> u8 \<Rightarrow> u32 \<Rightarrow> 'm Interpreter \<Rightarrow> 'm step_result option" where
  "rv_loads M n funct3 rd addr s =
     (if funct3 = 0 then Some (rv_load M n rd addr (\<lambda>v :: u8. word_of_int (sint v)) s)
      else if funct3 = 1 then Some (rv_load M n rd addr (\<lambda>v :: u16. word_of_int (sint v)) s)
      else if funct3 = 2 then Some (rv_load M n rd addr (\<lambda>v :: u32. v) s)
      else if funct3 = 4 then Some (rv_load M n rd addr (\<lambda>v :: u8. word_of_int (uint v)) s)
      else if funct3 = 5 then Some (rv_load M n rd addr (\<lambda>v :: u16. word_of_int (uint v)) s)
      else None)"

definition rv_stores ::
  "'m memory_ops \<Rightarrow> u32 \<Rightarrow> u32 \<Rightarrow> u32 \<Rightarrow> i32 \<Rightarrow> 'm Interpreter \<Rightarrow> 'm step_result option" where
  "rv_stores M n funct3 addr v s =
     (if funct3 = 0 then Some (rv_store M n addr (word_of_int (uint v) :: u8) s)
      else if funct3 = 1 then Some (rv_store M n addr (word_of_int (uint v) :: u16) s)
      else if funct3 = 2 then Some (rv_store M n addr v s)
      else None)"

text \<open>The read-modify-write atomics, by \<open>funct5\<close>: the new value from the old one and the operand.\<close>

definition rv_amo :: "u32 \<Rightarrow> (i32 \<Rightarrow> i32 \<Rightarrow> i32) option" where
  "rv_amo funct5 =
     (if funct5 = 0 then Some (\<lambda>old b. word_of_int (sint old + sint b))
      else if funct5 = 1 then Some (\<lambda>old b. b)
      else if funct5 = 4 then Some (\<lambda>old b. old XOR b)
      else if funct5 = 8 then Some (\<lambda>old b. old OR b)
      else if funct5 = 12 then Some (\<lambda>old b. old AND b)
      else if funct5 = 16 then Some (\<lambda>old b. if sint old < sint b then old else b)
      else if funct5 = 20 then Some (\<lambda>old b. if sint old < sint b then b else old)
      else if funct5 = 24 then Some (\<lambda>old b. if uint old < uint b then old else b)
      else if funct5 = 28 then Some (\<lambda>old b. if uint old < uint b then b else old)
      else None)"

definition rv_atomic ::
  "'m memory_ops \<Rightarrow> u32 \<Rightarrow> u32 \<Rightarrow> u8 \<Rightarrow> u32 \<Rightarrow> i32 \<Rightarrow> 'm Interpreter \<Rightarrow> 'm step_result option" where
  "rv_atomic M n funct5 rd addr b s =
     (let result = (\<lambda>v s. goto (program_counter s + n) (write_x rd v s)) in
      if funct5 = 2 then
        Some (load_mem M s addr (\<lambda>old s. result old (s\<lparr>memory_reservation := Some (addr, old)\<rparr>)))
      else if funct5 = 3 then
        Some (load_mem M s addr (\<lambda>old s.
          let s' = s\<lparr>memory_reservation := None\<rparr> in
          if memory_reservation s = Some (addr, old) then store_mem M s' addr b (result 0)
          else result 1 s'))
      else
        map_option (\<lambda>f. load_mem M s addr (\<lambda>old s. store_mem M s addr (f old b) (result old)))
          (rv_amo funct5))"

text \<open>
  What a Zicsr instruction writes to a register that holds \<open>old\<close>: nothing for a set or clear from x0 or
  from the immediate 0. Only the writable bits change. The registers from \<open>0xC00\<close> on, by bits 10 and
  11 of their address, are read-only: writing them is illegal, like any access to one that does not exist.
\<close>

definition rv_csr_write :: "u32 \<Rightarrow> u8 \<Rightarrow> i32 \<Rightarrow> u32 \<Rightarrow> u32 option option" where
  "rv_csr_write funct3 rs1 a old =
     (if funct3 = 1 then Some (Some a)
      else if funct3 = 2 then Some (if rs1 = 0 then None else Some (old OR a))
      else if funct3 = 3 then Some (if rs1 = 0 then None else Some (old AND NOT a))
      else if funct3 = 5 then Some (Some (ucast rs1))
      else if funct3 = 6 then Some (if rs1 = 0 then None else Some (old OR ucast rs1))
      else if funct3 = 7 then Some (if rs1 = 0 then None else Some (old AND NOT (ucast rs1)))
      else None)"

definition rv_csr_read_only :: "u16 \<Rightarrow> bool" where
  "rv_csr_read_only csr \<longleftrightarrow> csr AND 0xC00 = 0xC00"

definition rv_csr_put :: "u16 \<Rightarrow> u32 \<Rightarrow> CSRegisters \<Rightarrow> CSRegisters" where
  "rv_csr_put csr v cs =
     (if csr = 0x300 then cs\<lparr>mstatus := ucast v\<rparr>
      else if csr = 0x304 then cs\<lparr>mie_embive := bit v 16\<rparr>
      else if csr = 0x305 then cs\<lparr>mtvec := v\<rparr>
      else if csr = 0x340 then cs\<lparr>mscratch := v\<rparr>
      else if csr = 0x341 then cs\<lparr>mepc := v\<rparr>
      else if csr = 0x342 then cs\<lparr>mcause := v\<rparr>
      else if csr = 0x343 then cs\<lparr>mtval := v\<rparr>
      else if csr = 0x344 then cs\<lparr>mip_embive := bit v 16\<rparr>
      else cs)"

definition rv_csr ::
  "u32 \<Rightarrow> u32 \<Rightarrow> u8 \<Rightarrow> u8 \<Rightarrow> u16 \<Rightarrow> 'm Interpreter \<Rightarrow> 'm step_result option" where
  "rv_csr n funct3 rd rs1 csr s =
     (let cs = control_status (registers s);
          old = csr_view cs csr;
          result = (\<lambda>cs. goto (program_counter s + n) (write_x rd old (set_cs cs s)));
          illegal = (Inl (InvalidCSRegister csr), s) in
      map_option (\<lambda>write.
          if \<not> csr_exists csr then illegal
          else
            (case write of
               None \<Rightarrow> result cs
             | Some v \<Rightarrow>
                 if rv_csr_read_only csr then illegal
                 else result (rv_csr_put csr ((v AND csr_writable csr) OR (old AND NOT (csr_writable csr))) cs)))
        (rv_csr_write funct3 rs1 (rv_read s rs1) old))"

text \<open>
  \<open>mret\<close>, with machine mode only: the interrupt enable MIE, bit 3 of \<open>mstatus\<close>, is restored from MPIE,
  bit 7, which is set to 1, and the guest goes on at \<open>mepc\<close>, whose bit 0 is always zero.
\<close>

definition rv_mret :: "'m Interpreter \<Rightarrow> 'm step_result" where
  "rv_mret s =
     (let cs = control_status (registers s);
          status = (if bit (mstatus cs) 7 then set_bit 3 (mstatus cs) else unset_bit 3 (mstatus cs))
      in goto (mepc cs AND NOT 1) (set_cs (cs\<lparr>mstatus := set_bit 7 status\<rparr>) s))"

section \<open>Abstract instructions\<close>

text \<open>
  The constructors keep the function codes of the instruction word; then come the destination,
  the sources and the immediate.
\<close>

datatype rv_inst =
  RvOp u32 u32 u8 u8 u8
| RvOpImm u32 u32 u8 u8 i32
| RvLui u8 i32
| RvAuipc u8 i32
| RvJal u8 i32
| RvJalr u8 u8 i32
| RvBranch u32 u8 u8 i32
| RvLoad u32 u8 u8 i32
| RvStore u32 u8 u8 i32
| RvAmo u32 u8 u8 u8
| RvCsr u32 u8 u8 u16
| RvFence
| RvEcall
| RvEbreak
| RvWfi
| RvMret

text \<open>The meaning of an instruction of \<open>n\<close> bytes.\<close>

fun rv_meaning :: "'m memory_ops \<Rightarrow> u32 \<Rightarrow> rv_inst \<Rightarrow> 'm Interpreter \<Rightarrow> 'm step_result option" where
  "rv_meaning M n (RvOp funct7 funct3 rd rs1 rs2) s =
     map_option (\<lambda>v. goto (program_counter s + n) (write_x rd v s))
       (rv_alu funct7 funct3 (rv_read s rs1) (rv_read s rs2))"
| "rv_meaning M n (RvOpImm funct7 funct3 rd rs1 imm) s =
     map_option (\<lambda>v. goto (program_counter s + n) (write_x rd v s))
       (rv_alu_imm funct7 funct3 (rv_read s rs1) imm)"
| "rv_meaning M n (RvLui rd imm) s = Some (goto (program_counter s + n) (write_x rd imm s))"
| "rv_meaning M n (RvAuipc rd imm) s =
     Some (goto (program_counter s + n) (write_x rd (program_counter s + imm) s))"
| "rv_meaning M n (RvJal rd imm) s =
     Some (goto (program_counter s + imm) (write_x rd (program_counter s + n) s))"
| "rv_meaning M n (RvJalr rd rs1 imm) s =
     Some (goto ((rv_read s rs1 + imm) AND NOT 1) (write_x rd (program_counter s + n) s))"
| "rv_meaning M n (RvBranch funct3 rs1 rs2 imm) s =
     map_option (\<lambda>taken. goto (if taken then program_counter s + imm else program_counter s + n) s)
       (rv_branch funct3 (rv_read s rs1) (rv_read s rs2))"
| "rv_meaning M n (RvLoad funct3 rd rs1 imm) s = rv_loads M n funct3 rd (rv_read s rs1 + imm) s"
| "rv_meaning M n (RvStore funct3 rs1 rs2 imm) s =
     rv_stores M n funct3 (rv_read s rs1 + imm) (rv_read s rs2) s"
| "rv_meaning M n (RvAmo funct5 rd rs1 rs2) s =
     map_option (\<lambda>r. if rv_read s rs1 AND 3 = 0 then r else (Inl (InvalidMemoryAddress (rv_read s rs1)), s))
       (rv_atomic M n funct5 rd (rv_read s rs1) (rv_read s rs2) s)"
| "rv_meaning M n (RvCsr funct3 rd rs1 csr) s = rv_csr n funct3 rd rs1 csr s"
| "rv_meaning M n RvFence s = Some (goto (program_counter s + n) s)"
| "rv_meaning M n RvEcall s = Some (Inr Called, s\<lparr>program_counter := program_counter s + n\<rparr>)"
| "rv_meaning M n RvEbreak s = Some (Inr Halted, s\<lparr>program_counter := program_counter s + n\<rparr>)"
| "rv_meaning M n RvWfi s = Some (Inr Waiting, s\<lparr>program_counter := program_counter s + n\<rparr>)"
| "rv_meaning M n RvMret s = Some (rv_mret s)"

section \<open>Decoding\<close>

definition rv_decode :: "u32 \<Rightarrow> rv_inst option" where
  "rv_decode w =
     (let op = field w 0 7; funct3 = field w 12 3; funct7 = field w 25 7;
          rd = rv_rd w; rs1 = rv_rs1 w; rs2 = rv_rs2 w in
      if op = 0x33 then Some (RvOp funct7 funct3 rd rs1 rs2)
      else if op = 0x13 then Some (RvOpImm funct7 funct3 rd rs1 (imm_I w))
      else if op = 0x37 then Some (RvLui rd (imm_U w))
      else if op = 0x17 then Some (RvAuipc rd (imm_U w))
      else if op = 0x6F then Some (RvJal rd (imm_J w))
      else if op = 0x67 then (if funct3 = 0 then Some (RvJalr rd rs1 (imm_I w)) else None)
      else if op = 0x63 then Some (RvBranch funct3 rs1 rs2 (imm_B w))
      else if op = 0x03 then Some (RvLoad funct3 rd rs1 (imm_I w))
      else if op = 0x23 then Some (RvStore funct3 rs1 rs2 (imm_S w))
      else if op = 0x2F then (if funct3 = 2 then Some (RvAmo (field w 27 5) rd rs1 rs2) else None)
      else if op = 0x0F then (if funct3 = 0 \<or> funct3 = 1 then Some RvFence else None)
      else if w = 0x00000073 then Some RvEcall
      else if w = 0x00100073 then Some RvEbreak
      else if w = 0x10500073 then Some RvWfi
      else if w = 0x30200073 then Some RvMret
      else if op = 0x73 then Some (RvCsr funct3 rd rs1 (ucast (field w 20 12)))
      else None)"

text \<open>The registers and immediates of the 16-bit formats.\<close>

definition rvc_rd :: "u32 \<Rightarrow> u8" where "rvc_rd w = ucast (field w 7 5)"
definition rvc_rs2 :: "u32 \<Rightarrow> u8" where "rvc_rs2 w = ucast (field w 2 5)"
definition rvc_rd1 :: "u32 \<Rightarrow> u8" where "rvc_rd1 w = 8 + ucast (field w 7 3)"
definition rvc_rd2 :: "u32 \<Rightarrow> u8" where "rvc_rd2 w = 8 + ucast (field w 2 3)"

definition rvc_shamt :: "u32 \<Rightarrow> i32" where
  "rvc_shamt w = push_bit 5 (field w 12 1) OR field w 2 5"

definition rvc_imm :: "u32 \<Rightarrow> i32" where
  "rvc_imm w = signed_take_bit 5 (push_bit 5 (field w 12 1) OR field w 2 5)"

definition rvc_imm_addi4spn :: "u32 \<Rightarrow> i32" where
  "rvc_imm_addi4spn w = push_bit 4 (field w 11 2) OR push_bit 6 (field w 7 4)
     OR push_bit 2 (field w 6 1) OR push_bit 3 (field w 5 1)"

definition rvc_imm_addi16sp :: "u32 \<Rightarrow> i32" where
  "rvc_imm_addi16sp w = signed_take_bit 9 (push_bit 9 (field w 12 1) OR push_bit 4 (field w 6 1)
     OR push_bit 6 (field w 5 1) OR push_bit 7 (field w 3 2) OR push_bit 5 (field w 2 1))"

definition rvc_imm_lui :: "u32 \<Rightarrow> i32" where
  "rvc_imm_lui w = signed_take_bit 17 (push_bit 17 (field w 12 1) OR push_bit 12 (field w 2 5))"

definition rvc_imm_lw :: "u32 \<Rightarrow> i32" where
  "rvc_imm_lw w = push_bit 3 (field w 10 3) OR push_bit 2 (field w 6 1) OR push_bit 6 (field w 5 1)"

definition rvc_imm_lwsp :: "u32 \<Rightarrow> i32" where
  "rvc_imm_lwsp w = push_bit 5 (field w 12 1) OR push_bit 2 (field w 4 3) OR push_bit 6 (field w 2 2)"

definition rvc_imm_swsp :: "u32 \<Rightarrow> i32" where
  "rvc_imm_swsp w = push_bit 2 (field w 9 4) OR push_bit 6 (field w 7 2)"

definition rvc_imm_branch :: "u32 \<Rightarrow> i32" where
  "rvc_imm_branch w = signed_take_bit 8 (push_bit 8 (field w 12 1) OR push_bit 3 (field w 10 2)
     OR push_bit 6 (field w 5 2) OR push_bit 1 (field w 3 2) OR push_bit 5 (field w 2 1))"

definition rvc_imm_jump :: "u32 \<Rightarrow> i32" where
  "rvc_imm_jump w = signed_take_bit 11 (push_bit 11 (field w 12 1) OR push_bit 4 (field w 11 1)
     OR push_bit 8 (field w 9 2) OR push_bit 10 (field w 8 1) OR push_bit 6 (field w 7 1)
     OR push_bit 7 (field w 6 1) OR push_bit 1 (field w 3 3) OR push_bit 5 (field w 2 1))"

text \<open>
  The expansion of a 16-bit instruction, by the quadrants of the C extension. Encodings that are
  illegal, reserved or meant for other extensions have none.
\<close>

definition rvc_quadrant0 :: "u32 \<Rightarrow> rv_inst option" where
  "rvc_quadrant0 w =
     (let funct3 = field w 13 3 in
      if funct3 = 0 then
        (if rvc_imm_addi4spn w = 0 then None
         else Some (RvOpImm 0 0 (rvc_rd2 w) 2 (rvc_imm_addi4spn w)))
      else if funct3 = 2 then Some (RvLoad 2 (rvc_rd2 w) (rvc_rd1 w) (rvc_imm_lw w))
      else if funct3 = 6 then Some (RvStore 2 (rvc_rd1 w) (rvc_rd2 w) (rvc_imm_lw w))
      else None)"

definition rvc_arith :: "u32 \<Rightarrow> rv_inst option" where
  "rvc_arith w =
     (let rd = rvc_rd1 w; funct2 = field w 10 2 in
      if funct2 = 0 then
        (if field w 12 1 = 0 then Some (RvOpImm 0 5 rd rd (rvc_shamt w)) else None)
      else if funct2 = 1 then
        (if field w 12 1 = 0 then Some (RvOpImm 0x20 5 rd rd (rvc_shamt w)) else None)
      else if funct2 = 2 then Some (RvOpImm 0 7 rd rd (rvc_imm w))
      else if field w 12 1 = 0 then
        (if field w 5 2 = 0 then Some (RvOp 0x20 0 rd rd (rvc_rd2 w))
         else if field w 5 2 = 1 then Some (RvOp 0 4 rd rd (rvc_rd2 w))
         else if field w 5 2 = 2 then Some (RvOp 0 6 rd rd (rvc_rd2 w))
         else Some (RvOp 0 7 rd rd (rvc_rd2 w)))
      else None)"

definition rvc_quadrant1 :: "u32 \<Rightarrow> rv_inst option" where
  "rvc_quadrant1 w =
     (let rd = rvc_rd w; funct3 = field w 13 3 in
      if funct3 = 0 then Some (RvOpImm 0 0 rd rd (rvc_imm w))
      else if funct3 = 1 then Some (RvJal 1 (rvc_imm_jump w))
      else if funct3 = 2 then Some (RvOpImm 0 0 rd 0 (rvc_imm w))
      else if funct3 = 3 then
        (if rvc_imm w = 0 then None
         else if rd = 2 then Some (RvOpImm 0 0 2 2 (rvc_imm_addi16sp w))
         else Some (RvLui rd (rvc_imm_lui w)))
      else if funct3 = 4 then rvc_arith w
      else if funct3 = 5 then Some (RvJal 0 (rvc_imm_jump w))
      else if funct3 = 6 then Some (RvBranch 0 (rvc_rd1 w) 0 (rvc_imm_branch w))
      else Some (RvBranch 1 (rvc_rd1 w) 0 (rvc_imm_branch w)))"

definition rvc_quadrant2 :: "u32 \<Rightarrow> rv_inst option" where
  "rvc_quadrant2 w =
     (let rd = rvc_rd w; rs2 = rvc_rs2 w; funct3 = field w 13 3 in
      if funct3 = 0 then
        (if field w 12 1 = 0 then Some (RvOpImm 0 1 rd rd (rvc_shamt w)) else None)
      else if funct3 = 2 then (if rd = 0 then None else Some (RvLoad 2 rd 2 (rvc_imm_lwsp w)))
      else if funct3 = 4 then
        (if field w 12 1 = 0 then
           (if rs2 \<noteq> 0 then Some (RvOp 0 0 rd 0 rs2)
            else if rd = 0 then None
            else Some (RvJalr 0 rd 0))
         else
           (if rs2 \<noteq> 0 then Some (RvOp 0 0 rd rd rs2)
            else if rd = 0 then Some RvEbreak
            else Some (RvJalr 1 rd 0)))
      else if funct3 = 6 then Some (RvStore 2 2 rs2 (rvc_imm_swsp w))
      else None)"

text \<open>The two low bits of a word tell its length, and the quadrant of a 16-bit instruction.\<close>

definition rv_length :: "u32 \<Rightarrow> u32" where
  "rv_length w = (if field w 0 2 = 3 then 4 else 2)"

definition rv_instruction :: "u32 \<Rightarrow> rv_inst option" where
  "rv_instruction w =
     (if field w 0 2 = 0 then rvc_quadrant0 w
      else if field w 0 2 = 1 then rvc_quadrant1 w
      else if field w 0 2 = 2 then rvc_quadrant2 w
      else rv_decode w)"

definition rv_exec :: "'m memory_ops \<Rightarrow> u32 \<Rightarrow> 'm Interpreter \<Rightarrow> 'm step_result option" where
  "rv_exec M w s =
     Option.bind (rv_instruction w) (\<lambda>i. rv_meaning M (rv_length w) i s)"

text \<open>
  The instructions for which the code keeps to the specification: no load has the destination x0,
  nor has a 16-bit register operation, an indirect jump has an even target, the address of an atomic
  instruction is a multiple of four, a read-only control and status register is not written, these
  registers hold legal values when they are accessed, and a return from a trap finds an even \<open>mepc\<close> and
  MPIE set, as the entry of a trap leaves them for a guest that had interrupts enabled.
\<close>

definition conforms :: "u32 \<Rightarrow> 'm Interpreter \<Rightarrow> bool" where
  "conforms w s \<longleftrightarrow>
     (case rv_instruction w of
          Some (RvLoad funct3 rd rs1 imm) \<Rightarrow> rd \<noteq> 0
        | Some (RvOp funct7 funct3 rd rs1 rs2) \<Rightarrow> rd \<noteq> 0 \<or> field w 0 2 = 3
        | Some (RvJalr rd rs1 imm) \<Rightarrow> (rv_read s rs1 + imm) AND 1 = 0
        | Some (RvAmo funct5 rd rs1 rs2) \<Rightarrow> rv_read s rs1 AND 3 = 0
        | Some (RvCsr funct3 rd rs1 csr) \<Rightarrow>
            cs_wf (control_status (registers s))
            \<and> (rv_csr_read_only csr \<longrightarrow>
                rv_csr_write funct3 rs1 (rv_read s rs1) (csr_view (control_status (registers s)) csr) = Some None)
        | Some RvMret \<Rightarrow>
            bit (mstatus (control_status (registers s))) 7 \<and> mepc (control_status (registers s)) AND 1 = 0
        | _ \<Rightarrow> True)"

lemma rv_read_x: "read_x s 0 = 0 \<Longrightarrow> rv_read s i = read_x s i"
  by (simp add: rv_read_def)

text \<open>No instruction of the specification changes what the register file holds for x0.\<close>

lemma write_x_x0 [simp]: "read_x (write_x i v s) 0 = read_x s 0"
  by (simp add: read_x_def write_x_def set_cpu_def nth_list_update word_unat_eq_iff)

lemma read_x_frame [simp]:
  "read_x (s\<lparr>program_counter := pc\<rparr>) i = read_x s i" "read_x (s\<lparr>memory := m\<rparr>) i = read_x s i"
  "read_x (s\<lparr>memory_reservation := r\<rparr>) i = read_x s i" "read_x (set_cs cs s) i = read_x s i"
  by (simp_all add: read_x_def set_cs_def)

lemma goto_x0: "read_x (snd (goto pc s)) i = read_x s i"
  by (simp add: goto_def)

lemma load_mem_x0:
  assumes "\<And>v s. read_x (snd (k v s)) 0 = read_x s 0"
  shows "read_x (snd (load_mem M s a k)) 0 = read_x s 0"
  using assms by (simp add: load_mem_def split: prod.split sum.split)

lemma store_mem_x0:
  assumes "\<And>s. read_x (snd (k s)) 0 = read_x s 0"
  shows "read_x (snd (store_mem M s a v k)) 0 = read_x s 0"
  using assms by (simp add: store_mem_def split: prod.split sum.split)

lemma csr_x0: "rv_csr n funct3 rd rs1 csr s = Some r \<Longrightarrow> read_x (snd r) 0 = read_x s 0"
  by (auto simp: rv_csr_def Let_def goto_def split: option.splits)

lemma atomic_x0: "rv_atomic M n f rd addr b s = Some r \<Longrightarrow> read_x (snd r) 0 = read_x s 0"
  by (auto simp: rv_atomic_def Let_def goto_x0 load_mem_x0 store_mem_x0 split: if_splits)

lemma rv_meaning_x0:
  "rv_meaning M n i s = Some r \<Longrightarrow> read_x (snd r) 0 = read_x s 0"
  by (cases i)
     (auto simp: rv_loads_def rv_load_def rv_stores_def
        rv_store_def rv_mret_def Let_def goto_x0 load_mem_x0 store_mem_x0
        dest: csr_x0 atomic_x0 split: if_splits)

lemma rv_exec_x0: "rv_exec M w s = Some r \<Longrightarrow> read_x (snd r) 0 = read_x s 0"
  by (auto simp: rv_exec_def bind_eq_Some_conv dest: rv_meaning_x0)

end
