(* ===== verification/Riscv_Word.thy ===== *)
theory Riscv_Word
  imports Execution_Facts Convert Riscv_Spec
begin

text \<open>
  The 32-bit instructions: the word of an instruction that has a meaning in the specification
  is converted, and executing the converted instruction has that meaning.
\<close>

section \<open>The parsed formats hold the fields of the specification\<close>

lemmas field_defs =
  field_def rv_rd_def rv_rs1_def rv_rs2_def imm_I_def imm_S_def imm_B_def imm_U_def imm_J_def

lemma TypeR_fields:
  "TypeR_from_riscv w = \<lparr>r_rd = rv_rd w, r_rs1 = rv_rs1 w, r_rs2 = rv_rs2 w,
     r_func = ucast (push_bit 3 (field w 25 7) OR field w 12 3)\<rparr>"
  by (rule TypeR.equality) (simp_all add: TypeR_from_riscv_def field_defs bit_blast)

lemma TypeI_fields:
  "TypeI_from_riscv w = \<lparr>i_rd_rs2 = rv_rd w, i_rs1 = rv_rs1 w, i_imm = imm_I w,
     i_func = ucast (field w 12 3)\<rparr>"
  by (rule TypeI.equality) (simp_all add: TypeI_from_riscv_def field_defs bit_blast)

lemma TypeS_fields:
  "TypeS_from_riscv w = \<lparr>s_rs1 = rv_rs1 w, s_rs2 = rv_rs2 w, s_imm = imm_S w,
     s_func = ucast (field w 12 3)\<rparr>"
  by (rule TypeS.equality) (simp_all add: TypeS_from_riscv_def field_defs bit_blast)

lemma TypeB_fields:
  "TypeB_from_riscv w = \<lparr>b_rs1 = rv_rs1 w, b_rs2 = rv_rs2 w, b_imm = imm_B w,
     b_func = ucast (field w 12 3)\<rparr>"
  by (rule TypeB.equality)
     (simp_all add: TypeB_from_riscv_def field_defs bit_blast flip: bit_iff_odd_drop_bit)

lemma TypeU_fields:
  "TypeU_from_riscv w = \<lparr>u_rd = rv_rd w, u_imm = imm_U w\<rparr>"
  by (rule TypeU.equality) (simp_all add: TypeU_from_riscv_def field_defs bit_blast)

lemma TypeJ_fields:
  "TypeJ_from_riscv w = \<lparr>j_rd = rv_rd w, j_imm = imm_J w\<rparr>"
  by (rule TypeJ.equality)
     (simp_all add: TypeJ_from_riscv_def field_defs bit_blast flip: bit_iff_odd_drop_bit)

lemmas riscv_fields = TypeR_fields TypeI_fields TypeS_fields TypeB_fields TypeU_fields TypeJ_fields

section \<open>Arithmetic\<close>

lemma word_of_sint: "word_of_int (sint w) = w"
  by (metis scast_eq scast_id)

lemma uint_drop_bit: "uint (drop_bit k a) = uint a div 2 ^ k" for a :: "'a::len word"
proof -
  have "take_bit LENGTH('a) (uint a) = uint a"
    by (rule take_bit_int_eq_self) (simp_all add: uint_lt2p)
  then have "uint (drop_bit k a) = drop_bit k (uint a)" by (simp only: unsigned_drop_bit_eq)
  then show ?thesis by (simp only: drop_bit_eq_div)
qed

lemma shift_distance: "unat (n AND 31 :: u32) = unat n mod 32"
proof -
  have "mask 5 = (31 :: u32)" by (simp add: mask_eq_exp_minus_1)
  then have "n AND 31 = take_bit 5 n" by (simp only: take_bit_eq_mask)
  then have "unat (n AND 31) = take_bit 5 (unat n)" by (simp only: unsigned_take_bit_eq)
  then show ?thesis by (simp add: take_bit_eq_mod)
qed

lemma wrapping_shl_int: "wrapping_shl a n = word_of_int (uint a * 2 ^ (unat n mod 32))"
  by (simp add: wrapping_shl_def shift_distance push_bit_eq_mult)

lemma wrapping_shr_u_int: "wrapping_shr_u a n = word_of_int (uint a div 2 ^ (unat n mod 32))"
  unfolding wrapping_shr_u_def shift_distance by (metis word_of_int_uint uint_drop_bit)

lemma wrapping_shr_s_int: "wrapping_shr_s a n = word_of_int (sint a div 2 ^ (unat n mod 32))"
proof -
  have "sint (signed_drop_bit k a) = sint a div 2 ^ k" for k
    by (simp add: sint_signed_drop_bit_eq drop_bit_eq_div)
  then show ?thesis
    unfolding wrapping_shr_s_def shift_distance by (metis word_of_sint)
qed

text \<open>The 64-bit products of 32-bit factors do not overflow; their upper halves.\<close>

lemma sint_abs: "\<bar>sint a\<bar> \<le> 2 ^ 31" for a :: i32
  using sint_greater_eq [of a] sint_less [of a] by simp

lemma uint_abs: "\<bar>uint a\<bar> \<le> 2 ^ 32 - 1" for a :: u32
  using uint_lt2p [of a] by simp

lemma abs_product_bound:
  fixes x y :: int
  assumes "\<bar>x\<bar> \<le> A" "\<bar>y\<bar> \<le> B"
  shows "\<bar>x * y\<bar> \<le> A * B"
  unfolding abs_mult using assms by (intro mult_mono) auto

lemma sint_word_of_int_64: "\<bar>x\<bar> < 2 ^ 63 \<Longrightarrow> sint (word_of_int x :: 64 word) = x"
  by (simp add: sint_sbintrunc' signed_take_bit_int_eq_self)

lemma narrow_64: "(ucast (word_of_int x :: 64 word) :: u32) = word_of_int x"
  by (rule ucast_down_wi) (simp add: is_down)

lemma upper_half_signed:
  assumes "\<bar>x\<bar> < 2 ^ 63"
  shows "(ucast (signed_drop_bit 32 (word_of_int x :: 64 word)) :: u32) = word_of_int (x div 2 ^ 32)"
proof -
  have "sint (signed_drop_bit 32 (word_of_int x :: 64 word)) = x div 2 ^ 32"
    using sint_word_of_int_64 [OF assms] by (simp add: sint_signed_drop_bit_eq drop_bit_eq_div)
  then have "signed_drop_bit 32 (word_of_int x :: 64 word) = word_of_int (x div 2 ^ 32)"
    by (metis word_of_sint)
  then show ?thesis by (simp only: narrow_64)
qed

lemma upper_half_unsigned:
  assumes "0 \<le> x" "x < 2 ^ 64"
  shows "(ucast (drop_bit 32 (word_of_int x :: 64 word)) :: u32) = word_of_int (x div 2 ^ 32)"
proof -
  have "uint (word_of_int x :: 64 word) = x"
    using assms by (simp add: uint_word_of_int_eq take_bit_int_eq_self)
  then have "uint (drop_bit 32 (word_of_int x :: 64 word)) = x div 2 ^ 32"
    by (simp only: uint_drop_bit)
  then have "drop_bit 32 (word_of_int x :: 64 word) = word_of_int (x div 2 ^ 32)"
    by (metis word_of_int_uint)
  then show ?thesis by (simp only: narrow_64)
qed

lemma mulh_int:
  "(ucast (signed_drop_bit 32 (scast a * scast b :: 64 word)) :: u32) =
     word_of_int (sint a * sint b div 2 ^ 32)" for a b :: i32
proof -
  have "\<bar>sint a * sint b\<bar> < 2 ^ 63"
    by (rule le_less_trans [OF abs_product_bound [OF sint_abs sint_abs]]) simp
  from upper_half_signed [OF this] show ?thesis by (simp only: of_int_mult of_int_sint)
qed

lemma mulhsu_int:
  "(ucast (signed_drop_bit 32 (scast a * ucast b :: 64 word)) :: u32) =
     word_of_int (sint a * uint b div 2 ^ 32)" for a b :: i32
proof -
  have "\<bar>sint a * uint b\<bar> < 2 ^ 63"
    by (rule le_less_trans [OF abs_product_bound [OF sint_abs uint_abs]]) simp
  from upper_half_signed [OF this] show ?thesis by (simp only: of_int_mult of_int_sint of_int_uint)
qed

lemma mulhu_int:
  "(ucast (drop_bit 32 (ucast a * ucast b :: 64 word)) :: u32) =
     word_of_int (uint a * uint b div 2 ^ 32)" for a b :: u32
proof -
  have "\<bar>uint a * uint b\<bar> < 2 ^ 64"
    by (rule le_less_trans [OF abs_product_bound [OF uint_abs uint_abs]]) simp
  then have "uint a * uint b < 2 ^ 64" by simp
  then show ?thesis
    using upper_half_unsigned [of "uint a * uint b"] by (simp only: of_int_mult of_int_uint) simp
qed

text \<open>The signed and unsigned orders of words are the orders of their integers.\<close>

lemmas word_orders = word_sless_alt word_sle_eq word_less_def word_le_def

section \<open>Operations\<close>

lemma of_sint_arith:
  "word_of_int (sint a + sint b) = a + b" "word_of_int (sint a - sint b) = a - b"
  "word_of_int (sint a * sint b) = a * b" for a b :: i32
  by (simp_all add: word_of_sint)

lemma of_uint_div_mod:
  "word_of_int (uint a div uint b) = a div b" "word_of_int (uint a mod uint b) = a mod b" for a b :: u32
  by (metis uint_div word_of_int_uint, metis uint_mod word_of_int_uint)

lemmas int_arith =
  of_sint_arith of_uint_div_mod wrapping_shl_int wrapping_shr_u_int wrapping_shr_s_int
  mulh_int mulhsu_int mulhu_int wrapping_div_s_def wrapping_rem_s_def word_orders

text \<open>
  The function codes of the register operations: \<open>funct7\<close> and \<open>funct3\<close> in RISC-V, and the code of
  the Embive instruction.
\<close>

definition alu_codes :: "(u32 \<times> u32 \<times> u16) list" where
  "alu_codes =
     [(0, 0, OpAmo_ADD_FUNC), (0x20, 0, OpAmo_SUB_FUNC), (0, 1, OpAmo_SLL_FUNC),
      (0, 2, OpAmo_SLT_FUNC), (0, 3, OpAmo_SLTU_FUNC), (0, 4, OpAmo_XOR_FUNC),
      (0, 5, OpAmo_SRL_FUNC), (0x20, 5, OpAmo_SRA_FUNC), (0, 6, OpAmo_OR_FUNC),
      (0, 7, OpAmo_AND_FUNC), (1, 0, OpAmo_MUL_FUNC), (1, 1, OpAmo_MULH_FUNC),
      (1, 2, OpAmo_MULHSU_FUNC), (1, 3, OpAmo_MULHU_FUNC), (1, 4, OpAmo_DIV_FUNC),
      (1, 5, OpAmo_DIVU_FUNC), (1, 6, OpAmo_REM_FUNC), (1, 7, OpAmo_REMU_FUNC)]"

lemma rv_alu_codes:
  assumes "rv_alu funct7 funct3 a b = Some v"
  shows "\<exists>k. (funct7, funct3, k) \<in> set alu_codes"
  using assms unfolding rv_alu_def alu_codes_def
  by (simp split: if_splits)

lemma alu_codes_result:
  "(funct7, funct3, k) \<in> set alu_codes \<Longrightarrow> op_result k a b = rv_alu funct7 funct3 a b"
  unfolding alu_codes_def
  by (simp only: list.set insert_iff empty_iff prod.inject simp_thms)
     (elim disjE conjE; simp add: op_result_def rv_alu_def int_arith)

lemma alu_codes_convert:
  "(field w 25 7, field w 12 3, k) \<in> set alu_codes \<Longrightarrow>
     (convert_Op w :: ('p, 'c) converted) =
       Inr (embive_raw (OpAmo ((TypeR_from_riscv w)\<lparr>r_func := k\<rparr>)))"
  unfolding alu_codes_def
  by (simp only: list.set insert_iff empty_iff prod.inject simp_thms)
     (elim disjE conjE; simp add: convert_Op_def Let_def TypeR_fields)

lemma imm_I_shift_kind: "imm_I w AND 1024 = 0 \<longleftrightarrow> \<not> bit (field w 25 7) 5"
proof -
  have "bit (imm_I w) 10 \<longleftrightarrow> bit w 30" "bit (field w 25 7) 5 \<longleftrightarrow> bit w 30"
    by (simp_all add: imm_I_def field_def bit_simps)
  moreover have "imm_I w AND 2 ^ 10 = 0 \<longleftrightarrow> \<not> bit (imm_I w) 10"
    by (rule and_exp_eq_0_iff_not_bit)
  ultimately show ?thesis by simp
qed

lemma field3_cases:
  "field w 12 3 = 0 \<or> field w 12 3 = 1 \<or> field w 12 3 = 2 \<or> field w 12 3 = 3 \<or>
   field w 12 3 = 4 \<or> field w 12 3 = 5 \<or> field w 12 3 = 6 \<or> field w 12 3 = 7"
proof -
  have "unat (field w 12 3) < 8"
    unfolding field_def unsigned_take_bit_eq by (simp add: take_bit_eq_mod)
  then show ?thesis by (simp add: word_unat_eq_iff) arith
qed

text \<open>The function codes of the immediate operations are those of RISC-V.\<close>

lemma convert_OpImm_code:
  "(convert_OpImm w :: ('p, 'c) converted) = Inr (embive_raw (OpImm (TypeI_from_riscv w)))"
  using field3_cases [of w]
  by (elim disjE; simp add: convert_OpImm_def Let_def TypeI_fields)

lemma op_imm_result_spec:
  assumes "rv_alu_imm (field w 25 7) (field w 12 3) a (imm_I w) = Some v"
  shows "op_imm_result (ucast (field w 12 3)) a (imm_I w) = Some v"
  using field3_cases [of w] assms
proof (elim disjE)
  assume f3: "field w 12 3 = 5"
  with assms have "field w 25 7 = 0 \<or> field w 25 7 = 0x20"
    by (auto simp: rv_alu_imm_def split: if_splits)
  with assms f3 show ?thesis
    by (elim disjE; simp add: rv_alu_imm_def rv_alu_def op_imm_result_def imm_I_shift_kind
        shift_distance wrapping_shr_u_int wrapping_shr_s_int)
next
  assume f3: "field w 12 3 = 1"
  with assms have "field w 25 7 = 0"
    by (auto simp: rv_alu_imm_def split: if_splits)
  with assms f3 show ?thesis
    by (simp add: rv_alu_imm_def rv_alu_def op_imm_result_def shift_distance wrapping_shl_int)
qed (simp_all add: rv_alu_imm_def rv_alu_def op_imm_result_def word_of_sint word_orders)

definition branch_codes :: "(u32 \<times> u8) list" where
  "branch_codes =
     [(0, Branch_BEQ_FUNC), (1, Branch_BNE_FUNC), (4, Branch_BLT_FUNC), (5, Branch_BGE_FUNC),
      (6, Branch_BLTU_FUNC), (7, Branch_BGEU_FUNC)]"

lemma rv_branch_codes:
  "rv_branch funct3 a b = Some taken \<Longrightarrow> \<exists>k. (funct3, k) \<in> set branch_codes"
  by (simp add: rv_branch_def branch_codes_def split: if_splits)

lemma branch_codes_condition:
  "(funct3, k) \<in> set branch_codes \<Longrightarrow> branch_condition k a b = rv_branch funct3 a b"
  unfolding branch_codes_def
  by (simp only: list.set insert_iff empty_iff prod.inject simp_thms)
     (elim disjE conjE; simp add: branch_condition_def rv_branch_def word_orders)

lemma branch_codes_convert:
  "(field w 12 3, k) \<in> set branch_codes \<Longrightarrow>
     (convert_Branch w :: ('p, 'c) converted) =
       Inr (embive_raw (Branch ((TypeB_from_riscv w)\<lparr>b_func := k\<rparr>)))"
  unfolding branch_codes_def
  by (simp only: list.set insert_iff empty_iff prod.inject simp_thms)
     (elim disjE conjE; simp add: convert_Branch_def Let_def TypeB_fields)

section \<open>Execution\<close>

lemma rv_register_numbers: "rv_rd w < 32" "rv_rs1 w < 32" "rv_rs2 w < 32"
  using fmt_TypeR.from_riscv_wf [of w]
  by (simp_all add: TypeR_wf_def TypeR_fields register_number)

lemma write_reg_goto:
  assumes "i < 32"
  shows "i \<noteq> 0 \<Longrightarrow> write_reg s i (\<lambda>_. v) k = k (write_x i v s)"
  using assms by (simp add: write_reg_def write_x_def)

lemma write_x_frame [simp]:
  "program_counter (write_x i v s) = program_counter s" "memory (write_x i v s) = memory s"
  "write_x 0 v s = s"
  by (simp_all add: write_x_def)

lemma next_word: "next_instruction Word Running s = goto (program_counter s + 4) s"
  by (simp add: next_instruction_def goto_def size_bytes_def)

lemma get_reg_read_x: "i < 32 \<Longrightarrow> get_reg s i = Inr (read_x s i)"
  by (simp add: read_x_def)

lemma next_word_fun: "next_instruction Word Running = (\<lambda>s. goto (program_counter s + 4) s)"
  by (rule ext) (rule next_word)

lemmas exec_simps =
  write_reg_goto next_word get_reg_read_x rv_register_numbers Let_def size_bytes_def

lemma execute_OpAmo_op:
  assumes "op_result (r_func f) (read_x s (r_rs1 f)) (read_x s (r_rs2 f)) = Some v"
    and "r_rs1 f < 32" "r_rs2 f < 32" "r_rd f < 32"
  shows "execute_OpAmo M f s = goto (program_counter s + 4) (write_x (r_rd f) v s)"
  using assms by (simp add: execute_OpAmo_def finish_OpAmo_def exec_simps del: get_reg_ok)

lemma execute_OpImm_op:
  assumes "op_imm_result (i_func f) (read_x s (i_rs1 f)) (i_imm f) = Some v"
    and "i_rs1 f < 32" "i_rd_rs2 f < 32"
  shows "execute_OpImm f s = goto (program_counter s + 4) (write_x (i_rd_rs2 f) v s)"
  using assms
  by (simp add: execute_OpImm_def exec_simps del: get_reg_ok) (simp add: write_x_def)

lemma execute_Branch_op:
  assumes "branch_condition (b_func f) (read_x s (b_rs1 f)) (read_x s (b_rs2 f)) = Some taken"
    and "b_rs1 f < 32" "b_rs2 f < 32"
  shows "execute_Branch f s =
    goto (if taken then program_counter s + b_imm f else program_counter s + 4) s"
  using assms by (simp add: execute_Branch_def exec_simps jump_relative_def goto_def del: get_reg_ok)

lemma convert_opcode:
  "field w 0 7 = 0x33 \<Longrightarrow> convert w = convert_Op w"
  "field w 0 7 = 0x13 \<Longrightarrow> convert w = convert_OpImm w"
  "field w 0 7 = 0x37 \<Longrightarrow> convert w = convert_Lui w"
  "field w 0 7 = 0x17 \<Longrightarrow> convert w = convert_Auipc w"
  "field w 0 7 = 0x6F \<Longrightarrow> convert w = convert_Jal w"
  "field w 0 7 = 0x67 \<Longrightarrow> convert w = convert_Jalr w"
  "field w 0 7 = 0x63 \<Longrightarrow> convert w = convert_Branch w"
  "field w 0 7 = 0x03 \<Longrightarrow> convert w = convert_Load w"
  "field w 0 7 = 0x23 \<Longrightarrow> convert w = convert_Store w"
  "field w 0 7 = 0x2F \<Longrightarrow> convert w = convert_Amo w"
  "field w 0 7 = 0x0F \<Longrightarrow> convert w = convert_MiscMem w"
  "field w 0 7 = 0x73 \<Longrightarrow> convert w = convert_System w"
proof -
  have m: "mask 7 = (0b1111111 :: u32)" "mask 2 = (0b11 :: u32)"
    by (simp_all add: mask_eq_exp_minus_1)
  have "w AND 0b1111111 = field w 0 7"
    unfolding field_def m(1) [symmetric] take_bit_eq_mask by simp
  moreover have "w AND 0b11 = field w 0 7 AND 0b11"
    unfolding calculation [symmetric] by (simp add: and.assoc)
  ultimately show
    "field w 0 7 = 0x33 \<Longrightarrow> convert w = convert_Op w"
    "field w 0 7 = 0x13 \<Longrightarrow> convert w = convert_OpImm w"
    "field w 0 7 = 0x37 \<Longrightarrow> convert w = convert_Lui w"
    "field w 0 7 = 0x17 \<Longrightarrow> convert w = convert_Auipc w"
    "field w 0 7 = 0x6F \<Longrightarrow> convert w = convert_Jal w"
    "field w 0 7 = 0x67 \<Longrightarrow> convert w = convert_Jalr w"
    "field w 0 7 = 0x63 \<Longrightarrow> convert w = convert_Branch w"
    "field w 0 7 = 0x03 \<Longrightarrow> convert w = convert_Load w"
    "field w 0 7 = 0x23 \<Longrightarrow> convert w = convert_Store w"
    "field w 0 7 = 0x2F \<Longrightarrow> convert w = convert_Amo w"
    "field w 0 7 = 0x0F \<Longrightarrow> convert w = convert_MiscMem w"
    "field w 0 7 = 0x73 \<Longrightarrow> convert w = convert_System w"
    by (simp_all add: convert_def)
qed

text \<open>What the refinement states of one instruction word.\<close>

definition implements ::
  "'m memory_ops \<Rightarrow> ('p, 'c) converted \<Rightarrow> 'm Interpreter \<Rightarrow> 'm step_result \<Rightarrow> bool" where
  "implements M converted s r \<longleftrightarrow>
     (\<exists>i. converted = Inr (embive_raw i) \<and> inst_wf i \<and> execute M i s = r)"

lemma implementsI:
  "converted = Inr (embive_raw i) \<Longrightarrow> inst_wf i \<Longrightarrow> execute M i s = r \<Longrightarrow> implements M converted s r"
  by (auto simp: implements_def)

text \<open>The function codes of the tables fit into their fields.\<close>

lemma codes_fit:
  "(a, b, k) \<in> set alu_codes \<Longrightarrow> fits_unsigned 10 k"
  "(a, l) \<in> set branch_codes \<Longrightarrow> fits_unsigned 3 l"
  by (auto simp: alu_codes_def branch_codes_def)

lemma implements_Op:
  assumes "rv_alu (field w 25 7) (field w 12 3) (read_x s (rv_rs1 w)) (read_x s (rv_rs2 w)) = Some v"
  shows "implements M (convert_Op w) s (goto (program_counter s + 4) (write_x (rv_rd w) v s))"
proof -
  obtain k where k: "(field w 25 7, field w 12 3, k) \<in> set alu_codes"
    using rv_alu_codes [OF assms] by blast
  have "execute_OpAmo M ((TypeR_from_riscv w)\<lparr>r_func := k\<rparr>) s =
      goto (program_counter s + 4) (write_x (rv_rd w) v s)"
    using execute_OpAmo_op [of "(TypeR_from_riscv w)\<lparr>r_func := k\<rparr>" s v M] assms
      alu_codes_result [OF k] by (simp add: TypeR_fields rv_register_numbers)
  then show ?thesis
    by (intro implementsI [OF alu_codes_convert [OF k]])
       (simp_all add: converter_wf codes_fit(1) [OF k])
qed

lemma implements_OpImm:
  assumes "rv_alu_imm (field w 25 7) (field w 12 3) (read_x s (rv_rs1 w)) (imm_I w) = Some v"
  shows "implements M (convert_OpImm w) s (goto (program_counter s + 4) (write_x (rv_rd w) v s))"
proof -
  have "execute_OpImm (TypeI_from_riscv w) s =
      goto (program_counter s + 4) (write_x (rv_rd w) v s)"
    using execute_OpImm_op [of "TypeI_from_riscv w" s v] op_imm_result_spec [OF assms]
    by (simp add: TypeI_fields rv_register_numbers)
  then show ?thesis
    by (intro implementsI [OF convert_OpImm_code]) (simp_all add: converter_wf)
qed

lemma implements_Branch:
  assumes "rv_branch (field w 12 3) (read_x s (rv_rs1 w)) (read_x s (rv_rs2 w)) = Some taken"
  shows "implements M (convert_Branch w) s
    (goto (if taken then program_counter s + imm_B w else program_counter s + 4) s)"
proof -
  obtain k where k: "(field w 12 3, k) \<in> set branch_codes"
    using rv_branch_codes [OF assms] by blast
  have "execute_Branch ((TypeB_from_riscv w)\<lparr>b_func := k\<rparr>) s =
      goto (if taken then program_counter s + imm_B w else program_counter s + 4) s"
    using execute_Branch_op [of "(TypeB_from_riscv w)\<lparr>b_func := k\<rparr>" s taken] assms
      branch_codes_condition [OF k] by (simp add: TypeB_fields rv_register_numbers)
  then show ?thesis
    by (intro implementsI [OF branch_codes_convert [OF k]])
       (simp_all add: converter_wf codes_fit(2) [OF k])
qed

lemma implements_upper:
  "implements M (convert_Lui w) s (goto (program_counter s + 4) (write_x (rv_rd w) (imm_U w) s))"
  "implements M (convert_Auipc w) s
     (goto (program_counter s + 4) (write_x (rv_rd w) (program_counter s + imm_U w) s))"
proof -
  have "execute_Lui (TypeU_from_riscv w) s =
      goto (program_counter s + 4) (write_x (rv_rd w) (imm_U w) s)"
    by (simp add: execute_Lui_def TypeU_fields exec_simps)
  then show "implements M (convert_Lui w) s
      (goto (program_counter s + 4) (write_x (rv_rd w) (imm_U w) s))"
    by (intro implementsI [OF convert_Lui_def]) (simp_all add: converter_wf)
  have "execute_Auipc (TypeU_from_riscv w) s =
      goto (program_counter s + 4) (write_x (rv_rd w) (program_counter s + imm_U w) s)"
    by (simp add: execute_Auipc_def TypeU_fields exec_simps)
  then show "implements M (convert_Auipc w) s
      (goto (program_counter s + 4) (write_x (rv_rd w) (program_counter s + imm_U w) s))"
    by (intro implementsI [OF convert_Auipc_def]) (simp_all add: converter_wf)
qed

lemma implements_Jal:
  "implements M (convert_Jal w) s
     (goto (program_counter s + imm_J w) (write_x (rv_rd w) (program_counter s + 4) s))"
proof -
  have "execute_Jal (TypeJ_from_riscv w) s =
      goto (program_counter s + imm_J w) (write_x (rv_rd w) (program_counter s + 4) s)"
    by (simp add: execute_Jal_def TypeJ_fields exec_simps jump_relative_def goto_def)
  then show ?thesis by (intro implementsI [OF convert_Jal_def]) (simp_all add: converter_wf)
qed

lemma even_and_not_1: "x AND 1 = 0 \<Longrightarrow> x AND NOT 1 = x" for x :: u32
  by (simp add: bit_blast)

lemma implements_Jalr:
  assumes "(read_x s (rv_rs1 w) + imm_I w) AND 1 = 0"
  shows "implements M (convert_Jalr w) s
     (goto ((read_x s (rv_rs1 w) + imm_I w) AND NOT 1) (write_x (rv_rd w) (program_counter s + 4) s))"
proof -
  have "execute_Jalr (TypeI_from_riscv w) s =
      goto (read_x s (rv_rs1 w) + imm_I w) (write_x (rv_rd w) (program_counter s + 4) s)"
    by (simp add: execute_Jalr_def TypeI_fields exec_simps goto_def del: get_reg_ok)
  then show ?thesis
    unfolding even_and_not_1 [OF assms]
    by (intro implementsI [OF convert_Jalr_def]) (simp_all add: converter_wf)
qed

text \<open>
  Loads and stores. The three-argument functions \<open>rv_loads\<close> and \<open>rv_stores\<close> select the access by
  \<open>funct3\<close>, the code by its own function code.
\<close>

definition load_codes :: "(u32 \<times> u8) list" where
  "load_codes =
     [(0, LoadStore_LB_FUNC), (1, LoadStore_LH_FUNC), (2, LoadStore_LW_FUNC),
      (4, LoadStore_LBU_FUNC), (5, LoadStore_LHU_FUNC)]"

definition store_codes :: "(u32 \<times> u8) list" where
  "store_codes = [(0, LoadStore_SB_FUNC), (1, LoadStore_SH_FUNC), (2, LoadStore_SW_FUNC)]"

lemma memory_codes_fit:
  "(a, k) \<in> set load_codes \<Longrightarrow> fits_unsigned 3 k" "(a, k) \<in> set store_codes \<Longrightarrow> fits_unsigned 3 k"
  by (auto simp: load_codes_def store_codes_def)

lemma rv_loads_codes:
  "rv_loads M 4 funct3 rd addr s = Some r \<Longrightarrow> \<exists>k. (funct3, k) \<in> set load_codes"
  by (simp add: rv_loads_def load_codes_def split: if_splits)

lemma rv_stores_codes:
  "rv_stores M 4 funct3 addr v s = Some r \<Longrightarrow> \<exists>k. (funct3, k) \<in> set store_codes"
  by (simp add: rv_stores_def store_codes_def split: if_splits)

lemma write_reg_load:
  "i < 32 \<Longrightarrow> i \<noteq> 0 \<Longrightarrow>
     write_reg s i (\<lambda>_. v) (next_instruction Word Running) =
     goto (program_counter s + 4) (write_x i v s)"
  by (simp add: write_reg_goto next_word)

lemma load_codes_execute:
  assumes "(funct3, i_func f) \<in> set load_codes" "i_rs1 f < 32" "i_rd_rs2 f < 32" "i_rd_rs2 f \<noteq> 0"
  shows "Some (execute_LoadStore M f s) =
    rv_loads M 4 funct3 (i_rd_rs2 f) (read_x s (i_rs1 f) + i_imm f) s"
  using assms unfolding load_codes_def
  by (simp only: list.set insert_iff empty_iff prod.inject simp_thms)
     (elim disjE conjE; simp add: execute_LoadStore_def Let_def rv_loads_def rv_load_def
        get_reg_read_x write_reg_load del: get_reg_ok)

lemma store_codes_execute:
  assumes "(funct3, i_func f) \<in> set store_codes" "i_rs1 f < 32" "i_rd_rs2 f < 32"
  shows "Some (execute_LoadStore M f s) =
    rv_stores M 4 funct3 (read_x s (i_rs1 f) + i_imm f) (read_x s (i_rd_rs2 f)) s"
  using assms unfolding store_codes_def
  by (simp only: list.set insert_iff empty_iff prod.inject simp_thms)
     (elim disjE conjE; simp add: execute_LoadStore_def Let_def rv_stores_def rv_store_def
        get_reg_read_x next_word_fun del: get_reg_ok)

lemma load_codes_convert:
  "(field w 12 3, k) \<in> set load_codes \<Longrightarrow>
     (convert_Load w :: ('p, 'c) converted) =
       Inr (embive_raw (LoadStore ((TypeI_from_riscv w)\<lparr>i_func := k\<rparr>)))"
  unfolding load_codes_def
  by (simp only: list.set insert_iff empty_iff prod.inject simp_thms)
     (elim disjE conjE; simp add: convert_Load_def Let_def TypeI_fields)

lemma store_codes_convert:
  "(field w 12 3, k) \<in> set store_codes \<Longrightarrow>
     (convert_Store w :: ('p, 'c) converted) =
       Inr (embive_raw (LoadStore
         \<lparr>i_rd_rs2 = rv_rs2 w, i_rs1 = rv_rs1 w, i_imm = imm_S w, i_func = k\<rparr>))"
  unfolding store_codes_def
  by (simp only: list.set insert_iff empty_iff prod.inject simp_thms)
     (elim disjE conjE; simp add: convert_Store_def Let_def TypeS_fields)

lemma implements_Load:
  assumes "rv_loads M 4 (field w 12 3) (rv_rd w) (read_x s (rv_rs1 w) + imm_I w) s = Some r"
    and "rv_rd w \<noteq> 0"
  shows "implements M (convert_Load w) s r"
proof -
  obtain k where k: "(field w 12 3, k) \<in> set load_codes"
    using rv_loads_codes [OF assms(1)] by blast
  have "execute_LoadStore M ((TypeI_from_riscv w)\<lparr>i_func := k\<rparr>) s = r"
    using load_codes_execute [of "field w 12 3" "(TypeI_from_riscv w)\<lparr>i_func := k\<rparr>" M s] k assms
    by (simp add: TypeI_fields rv_register_numbers)
  then show ?thesis
    by (intro implementsI [OF load_codes_convert [OF k]])
       (simp_all add: converter_wf memory_codes_fit(1) [OF k])
qed

lemma implements_Store:
  assumes "rv_stores M 4 (field w 12 3) (read_x s (rv_rs1 w) + imm_S w) (read_x s (rv_rs2 w)) s = Some r"
  shows "implements M (convert_Store w) s r"
proof -
  obtain k where k: "(field w 12 3, k) \<in> set store_codes"
    using rv_stores_codes [OF assms(1)] by blast
  define f where "f = \<lparr>i_rd_rs2 = rv_rs2 w, i_rs1 = rv_rs1 w, i_imm = imm_S w, i_func = k\<rparr>"
  have "execute_LoadStore M f s = r"
    using store_codes_execute [of "field w 12 3" f M s] k assms
    by (simp add: f_def rv_register_numbers)
  then show ?thesis
    using store_wf [OF fmt_TypeS.from_riscv_wf memory_codes_fit(2) [OF k], of w]
    by (intro implementsI [OF store_codes_convert [OF k]]) (simp_all add: f_def TypeS_fields)
qed

section \<open>Atomics\<close>

lemma finish_OpAmo_goto:
  assumes "r_rd f < 32"
  shows "finish_OpAmo f v = (\<lambda>s. goto (program_counter s + 4) (write_x (r_rd f) v s))"
  by (rule ext) (simp add: finish_OpAmo_def write_reg_goto next_word assms)

definition amo_codes :: "(u32 \<times> u16) list" where
  "amo_codes =
     [(0, OpAmo_AMOADD_FUNC), (1, OpAmo_AMOSWAP_FUNC), (2, OpAmo_LR_FUNC), (3, OpAmo_SC_FUNC),
      (4, OpAmo_AMOXOR_FUNC), (8, OpAmo_AMOOR_FUNC), (12, OpAmo_AMOAND_FUNC),
      (16, OpAmo_AMOMIN_FUNC), (20, OpAmo_AMOMAX_FUNC), (24, OpAmo_AMOMINU_FUNC),
      (28, OpAmo_AMOMAXU_FUNC)]"

lemma rv_atomic_codes:
  "rv_atomic M n funct5 rd addr b s = Some r \<Longrightarrow> \<exists>k. (funct5, k) \<in> set amo_codes"
  by (simp add: rv_atomic_def rv_amo_def amo_codes_def Let_def split: if_splits)

lemma amo_codes_fit: "(a, k) \<in> set amo_codes \<Longrightarrow> fits_unsigned 10 k"
  by (auto simp: amo_codes_def)

lemma amo_codes_op: "(a, k) \<in> set amo_codes \<Longrightarrow> op_result k x y = None"
  by (auto simp: amo_codes_def op_result_def)

lemma min_max_int:
  "(if old \<le>s b then old else b) = (if sint old < sint b then old else b)"
  "(if old \<le>s b then b else old) = (if sint old < sint b then b else old)"
  "min old b = (if uint old < uint b then old else b)"
  "max old b = (if uint old < uint b then b else old)" for old b :: i32
  by (auto simp: word_sle_eq min_def max_def word_le_def dest: antisym)
     (metis less_le_not_le linorder_le_less_linear word_of_sint word_of_int_uint)+

lemma amo_codes_result:
  "(funct5, k) \<in> set amo_codes \<Longrightarrow> funct5 \<noteq> 2 \<Longrightarrow> funct5 \<noteq> 3 \<Longrightarrow>
     amo_result k old b = map_option (\<lambda>f. f old b) (rv_amo funct5)"
  unfolding amo_codes_def
  by (simp only: list.set insert_iff empty_iff prod.inject simp_thms)
     (elim disjE conjE; simp add: amo_result_def rv_amo_def word_of_sint min_max_int)

lemma amo_fields:
  "(ucast (drop_bit 5 (r_func (TypeR_from_riscv w))) :: u8) = ucast (field w 27 5)"
  "(ucast (r_func (TypeR_from_riscv w) AND 0b111) :: u8) = ucast (field w 12 3)"
  by (simp_all add: TypeR_from_riscv_def field_def bit_blast)

lemma amo_codes_convert:
  "(field w 27 5, k) \<in> set amo_codes \<Longrightarrow> field w 12 3 = 2 \<Longrightarrow>
     (convert_Amo w :: ('p, 'c) converted) =
       Inr (embive_raw (OpAmo ((TypeR_from_riscv w)\<lparr>r_func := k\<rparr>)))"
  unfolding amo_codes_def
  by (simp only: list.set insert_iff empty_iff prod.inject simp_thms)
     (elim disjE conjE; simp add: convert_Amo_def Let_def amo_fields)

text \<open>The store-conditional, where the code takes the reservation apart.\<close>

lemma sc_reservation:
  "(case r of Some (a, v) \<Rightarrow> if a = addr \<and> old = v then x a else y | None \<Rightarrow> y) =
     (if r = Some (addr, old) then x addr else y)"
  by (cases r) (auto split: if_splits)

lemma amo_codes_execute:
  assumes "(funct5, r_func f) \<in> set amo_codes" "r_rs1 f < 32" "r_rs2 f < 32" "r_rd f < 32"
  shows "Some (execute_OpAmo M f s) =
    rv_atomic M 4 funct5 (r_rd f) (read_x s (r_rs1 f)) (read_x s (r_rs2 f)) s"
proof -
  have "execute_OpAmo M f s = load_mem M s (read_x s (r_rs1 f)) (\<lambda>value s'.
      execute_atomic M (r_func f) (read_x s (r_rs1 f)) (read_x s (r_rs2 f)) value s' (finish_OpAmo f))"
    using assms by (simp add: execute_OpAmo_def get_reg_read_x amo_codes_op [OF assms(1)] del: get_reg_ok)
  note execute = this
  consider "funct5 = 2" "r_func f = OpAmo_LR_FUNC" | "funct5 = 3" "r_func f = OpAmo_SC_FUNC"
    | "funct5 \<noteq> 2" "funct5 \<noteq> 3" "r_func f \<noteq> OpAmo_LR_FUNC" "r_func f \<noteq> OpAmo_SC_FUNC"
    using assms(1) by (auto simp: amo_codes_def)
  then show ?thesis
  proof cases
    case 3
    obtain g where "rv_amo funct5 = Some g"
      using assms(1) 3(1,2) by (auto simp: amo_codes_def rv_amo_def)
    with 3 show ?thesis
      unfolding execute using amo_codes_result [OF assms(1) 3(1,2)]
      by (simp add: rv_atomic_def execute_atomic_def finish_OpAmo_goto assms Let_def)
  qed (simp_all add: execute rv_atomic_def execute_atomic_def finish_OpAmo_goto assms Let_def
      sc_reservation cong: if_cong)
qed

lemma implements_Amo:
  assumes "rv_atomic M 4 (field w 27 5) (rv_rd w) (read_x s (rv_rs1 w)) (read_x s (rv_rs2 w)) s = Some r"
    and "field w 12 3 = 2"
  shows "implements M (convert_Amo w) s r"
proof -
  obtain k where k: "(field w 27 5, k) \<in> set amo_codes"
    using rv_atomic_codes [OF assms(1)] by blast
  have "execute_OpAmo M ((TypeR_from_riscv w)\<lparr>r_func := k\<rparr>) s = r"
    using amo_codes_execute [of "field w 27 5" "(TypeR_from_riscv w)\<lparr>r_func := k\<rparr>" M s] k assms
    by (simp add: TypeR_fields rv_register_numbers)
  then show ?thesis
    by (intro implementsI [OF amo_codes_convert [OF k assms(2)]])
       (simp_all add: converter_wf amo_codes_fit [OF k])
qed

section \<open>Fences and system instructions\<close>

lemma implements_MiscMem:
  "implements M (convert_MiscMem w) s (goto (program_counter s + 4) s)"
  by (intro implementsI [OF convert_MiscMem_def])
     (simp_all add: converter_wf execute_SystemMiscMem_def next_word Let_def)

lemma implements_environment:
  "implements M (convert 0x00000073 :: ('p, 'c) converted) s (Inr Called, s\<lparr>program_counter := program_counter s + 4\<rparr>)"
  "implements M (convert 0x00100073 :: ('p, 'c) converted) s (Inr Halted, s\<lparr>program_counter := program_counter s + 4\<rparr>)"
  "implements M (convert 0x10500073 :: ('p, 'c) converted) s (Inr Waiting, s\<lparr>program_counter := program_counter s + 4\<rparr>)"
proof -
  define f where "f = (\<lambda>imm. \<lparr>i_rd_rs2 = 0, i_rs1 = 0, i_imm = imm, i_func = SystemMiscMem_MISC_FUNC\<rparr>)"
  have conv: "(convert 0x00000073 :: ('p, 'c) converted) = Inr (embive_raw (SystemMiscMem (f SystemMiscMem_ECALL_IMM)))"
    "(convert 0x00100073 :: ('p, 'c) converted) = Inr (embive_raw (SystemMiscMem (f SystemMiscMem_EBREAK_IMM)))"
    "(convert 0x10500073 :: ('p, 'c) converted) = Inr (embive_raw (SystemMiscMem (f SystemMiscMem_WFI_IMM)))"
    by (simp_all add: convert_opcode(12) field_defs convert_System_def TypeI_fields system_imm_def f_def)
  have wf: "inst_wf (SystemMiscMem (f imm))" if "fits_signed 11 imm" for imm
    using that by (simp add: f_def TypeI_wf_def)
  show "implements M (convert 0x00000073 :: ('p, 'c) converted) s (Inr Called, s\<lparr>program_counter := program_counter s + 4\<rparr>)"
    "implements M (convert 0x00100073 :: ('p, 'c) converted) s (Inr Halted, s\<lparr>program_counter := program_counter s + 4\<rparr>)"
    "implements M (convert 0x10500073 :: ('p, 'c) converted) s (Inr Waiting, s\<lparr>program_counter := program_counter s + 4\<rparr>)"
    unfolding conv
    by (intro implementsI [OF refl] wf;
        simp add: f_def execute_SystemMiscMem_def next_instruction_def size_bytes_def Let_def)+
qed

lemma trap_return_status:
  assumes "bit (mstatus cs) 7"
  shows "trap_return cs = (mepc cs, cs\<lparr>mstatus := set_bit 7 (set_bit 3 (mstatus cs))\<rparr>)"
proof -
  have "set_bit 7 (set_bit 3 m) = m OR MSTATUS_MIE" if "bit m 7" for m :: u8
    by (rule bit_word_eqI) (use that in \<open>auto simp: bit_simps bit_mstatus_masks\<close>)
  with assms show ?thesis by (simp add: trap_return_def Let_def mstatus_bits)
qed

lemma implements_mret:
  assumes "bit (mstatus (control_status (registers s))) 7" "mepc (control_status (registers s)) AND 1 = 0"
  shows "implements M (convert 0x30200073 :: ('p, 'c) converted) s (rv_mret s)"
proof -
  define f where "f = \<lparr>i_rd_rs2 = 0, i_rs1 = 0, i_imm = SystemMiscMem_MRET_IMM,
    i_func = SystemMiscMem_MISC_FUNC\<rparr>"
  have "(convert 0x30200073 :: ('p, 'c) converted) = Inr (embive_raw (SystemMiscMem f))"
    by (simp add: convert_opcode(12) field_defs convert_System_def TypeI_fields system_imm_def f_def)
  moreover have "mepc (control_status (registers s)) AND NOT 1 = mepc (control_status (registers s))"
    by (rule even_and_not_1) (rule assms(2))
  then have "execute_SystemMiscMem f s = rv_mret s"
    using assms(1) by (simp add: f_def execute_SystemMiscMem_def trap_return_status rv_mret_def goto_def
        Let_def)
  moreover have "inst_wf (SystemMiscMem f)" by (simp add: f_def TypeI_wf_def)
  ultimately show ?thesis by (intro implementsI [of _ "SystemMiscMem f"]) simp_all
qed

text \<open>The operation of the code for a Zicsr instruction, and what it writes.\<close>

definition rv_csr_operation :: "u32 \<Rightarrow> u8 \<Rightarrow> i32 \<Rightarrow> CSOperation option option" where
  "rv_csr_operation funct3 rs1 a =
     (if funct3 = 1 then Some (Some (CsWrite a))
      else if funct3 = 2 then Some (if rs1 = 0 then None else Some (CsSet a))
      else if funct3 = 3 then Some (if rs1 = 0 then None else Some (CsClear a))
      else if funct3 = 5 then Some (Some (CsWrite (ucast rs1)))
      else if funct3 = 6 then Some (if rs1 = 0 then None else Some (CsSet (ucast rs1)))
      else if funct3 = 7 then Some (if rs1 = 0 then None else Some (CsClear (ucast rs1)))
      else None)"

lemma rv_csr_write_operation:
  "rv_csr_write funct3 rs1 a old =
     map_option (map_option (\<lambda>op. execute_operation (Some op) old)) (rv_csr_operation funct3 rs1 a)"
  by (simp add: rv_csr_write_def rv_csr_operation_def execute_operation_def)

lemma merge_same: "(v AND m) OR (v AND NOT m) = v" for v m :: u32
  by (simp flip: bit.conj_disj_distrib)

lemma ucast_mstatus_mask: "(ucast (v AND 0x88) :: u8) = ucast v AND 0x88" for v :: u32
  by (simp add: bit_blast)

lemma rv_csr_put_same: "rv_csr_put a (csr_view cs a) cs = cs"
proof -
  have "(ucast (ucast (mstatus cs) :: u32) :: u8) = mstatus cs" by (simp add: bit_blast)
  then show ?thesis by (simp add: rv_csr_put_def csr_view_def)
qed

lemma cs_operation_state:
  assumes "cs_wf cs" "csr_exists a"
  shows "snd (cs_operation cs op a) =
    rv_csr_put a ((execute_operation op (csr_view cs a) AND csr_writable a)
      OR (csr_view cs a AND NOT (csr_writable a))) cs"
proof -
  note low = cs_wf_low_bits [OF assms(1)] cs_wf_low_bits [OF assms(1), simplified]
  consider "a = 0x300" | "a = 0x304 \<or> a = 0x344" | "a = 0x305 \<or> a = 0x340 \<or> a = 0x341"
    | "a = 0x342 \<or> a = 0x343" | "a \<notin> {0x300, 0x304, 0x344, 0x305, 0x340, 0x341, 0x342, 0x343}"
    by auto
  then show ?thesis
  proof cases
    case 1
    then show ?thesis
      by (simp add: cs_operation_def csr_view_def csr_writable_def rv_csr_put_def Let_def mask_defs low
          ucast_mstatus_mask)
  next
    case 2
    then show ?thesis
      by (elim disjE; simp add: cs_operation_def csr_view_def csr_writable_def rv_csr_put_def Let_def
          mask_defs interrupt_bit_value bit_simps)
  next
    case 3
    then show ?thesis
      by (elim disjE; simp add: cs_operation_def csr_view_def csr_writable_def rv_csr_put_def Let_def
          mask_defs low)
  next
    case 4
    then show ?thesis
      by (elim disjE; simp add: cs_operation_def csr_view_def csr_writable_def rv_csr_put_def Let_def)
  next
    case 5
    then have "snd (cs_operation cs op a) = cs" by (simp add: cs_operation_def)
    moreover from 5 have "rv_csr_put a v cs = cs" for v by (simp add: rv_csr_put_def)
    ultimately show ?thesis by simp
  qed
qed

lemma cs_operation_put:
  assumes "cs_wf cs" "csr_exists a"
  shows "cs_operation cs op a = (Inr (csr_view cs a),
    case op of
      None \<Rightarrow> cs
    | Some _ \<Rightarrow> rv_csr_put a ((execute_operation op (csr_view cs a) AND csr_writable a)
        OR (csr_view cs a AND NOT (csr_writable a))) cs)"
proof -
  obtain old cs' where c: "cs_operation cs op a = (Inr old, cs')"
    using cs_operation_error_iff [of cs op a] assms(2)
    by (cases "cs_operation cs op a"; cases "fst (cs_operation cs op a)") auto
  then have "old = csr_view cs a" by (rule cs_operation_value)
  moreover have "cs' = (case op of
      None \<Rightarrow> cs
    | Some _ \<Rightarrow> rv_csr_put a ((execute_operation op (csr_view cs a) AND csr_writable a)
        OR (csr_view cs a AND NOT (csr_writable a))) cs)"
    using cs_operation_state [OF assms, of op] c
    by (simp add: execute_operation_def merge_same rv_csr_put_same split: option.split)
  ultimately show ?thesis using c by simp
qed

definition csr_codes :: "(u32 \<times> u8) list" where
  "csr_codes =
     [(1, SystemMiscMem_CSRRW_FUNC), (2, SystemMiscMem_CSRRS_FUNC), (3, SystemMiscMem_CSRRC_FUNC),
      (5, SystemMiscMem_CSRRWI_FUNC), (6, SystemMiscMem_CSRRSI_FUNC), (7, SystemMiscMem_CSRRCI_FUNC)]"

lemma rv_csr_codes: "rv_csr_operation funct3 rs1 a = Some op \<Longrightarrow> \<exists>k. (funct3, k) \<in> set csr_codes"
  by (simp add: rv_csr_operation_def csr_codes_def split: if_splits)

lemma csr_codes_fit: "(a, k) \<in> set csr_codes \<Longrightarrow> fits_unsigned 3 k \<and> k \<noteq> SystemMiscMem_MISC_FUNC"
  by (auto simp: csr_codes_def)

lemma csr_codes_operation:
  assumes "(funct3, i_func f) \<in> set csr_codes" "i_rs1 f < 32"
  shows "csr_op_of f s = (case rv_csr_operation funct3 (i_rs1 f) (read_x s (i_rs1 f)) of Some op \<Rightarrow> Inr op)"
  using assms unfolding csr_codes_def
  by (simp only: list.set insert_iff empty_iff prod.inject simp_thms)
     (elim disjE conjE; simp add: csr_op_of_def rv_csr_operation_def get_reg_read_x del: get_reg_ok)

lemma csr_codes_convert:
  "(field w 12 3, k) \<in> set csr_codes \<Longrightarrow>
     (convert_System w :: ('p, 'c) converted) =
       Inr (embive_raw (SystemMiscMem ((TypeI_from_riscv w)\<lparr>i_func := k\<rparr>)))"
  unfolding csr_codes_def
  by (simp only: list.set insert_iff empty_iff prod.inject simp_thms)
     (elim disjE conjE; simp add: convert_System_def Let_def TypeI_fields)

lemma csr_address: "(ucast (imm_I w AND 0b111111111111) :: u16) = ucast (field w 20 12)"
  by (simp add: imm_I_def field_def bit_blast)

lemma set_cs_write_x [simp]:
  "program_counter (set_cs cs s) = program_counter s"
  by (simp add: set_cs_def)

lemma convert_Csr_executes:
  assumes "rv_csr_operation (field w 12 3) (rv_rs1 w) (read_x s (rv_rs1 w)) = Some op"
  shows "implements M (convert_System w) s
    (case cs_operation (control_status (registers s)) op (ucast (field w 20 12)) of
       (Inl e, cs) \<Rightarrow> (Inl e, s)
     | (Inr old, cs) \<Rightarrow> goto (program_counter s + 4) (write_x (rv_rd w) old (set_cs cs s)))"
proof -
  obtain k where k: "(field w 12 3, k) \<in> set csr_codes"
    using rv_csr_codes [OF assms] by blast
  define f where "f = (TypeI_from_riscv w)\<lparr>i_func := k\<rparr>"
  have f: "i_rs1 f = rv_rs1 w" "i_rd_rs2 f = rv_rd w" "i_imm f = imm_I w" "i_func f = k"
    by (simp_all add: f_def TypeI_fields)
  have op: "csr_op_of f s = Inr op"
    using csr_codes_operation [of "field w 12 3" f s] k assms by (simp add: f rv_register_numbers)
  have same: "set_cs (control_status (registers s)) s = s"
    by (simp add: set_cs_def)
  have "execute_SystemMiscMem f s =
      (case cs_operation (control_status (registers s)) op (ucast (field w 20 12)) of
         (Inl e, cs) \<Rightarrow> (Inl e, s)
       | (Inr old, cs) \<Rightarrow> goto (program_counter s + 4) (write_x (rv_rd w) old (set_cs cs s)))"
    using csr_codes_fit [OF k] cs_operation_error_state [of "control_status (registers s)" op "ucast (field w 20 12)"]
    by (auto simp: execute_SystemMiscMem_def f op csr_address question_def Let_def same
        write_reg_goto next_word rv_register_numbers split: prod.split sum.split)
  then show ?thesis
    unfolding f_def
    by (intro implementsI [OF csr_codes_convert [OF k]])
       (simp_all add: converter_wf csr_codes_fit [OF k])
qed

text \<open>
  The operation of the code keeps to the specification where the registers hold legal values and a
  read-only register is not written.
\<close>

lemma rv_csr_operation_agrees:
  assumes "rv_csr n funct3 rd rs1 csr s = Some r"
    and "rv_csr_operation funct3 rs1 (rv_read s rs1) = Some op"
    and "cs_wf (control_status (registers s))"
    and "rv_csr_read_only csr \<Longrightarrow> op = None"
  shows "r = (case cs_operation (control_status (registers s)) op csr of
      (Inl e, cs) \<Rightarrow> (Inl e, s)
    | (Inr old, cs) \<Rightarrow> goto (program_counter s + n) (write_x rd old (set_cs cs s)))"
proof (cases "csr_exists csr")
  case True
  with assms cs_operation_put [OF assms(3) True, of op] show ?thesis
    by (cases op) (auto simp: rv_csr_def Let_def rv_csr_write_operation)
next
  case False
  then have "fst (cs_operation (control_status (registers s)) op csr) = Inl (InvalidCSRegister csr)"
    by (simp add: cs_operation_error_iff)
  with assms False show ?thesis
    by (auto simp: rv_csr_def Let_def rv_csr_write_operation split: prod.split)
qed

lemma implements_Csr:
  assumes "rv_csr 4 (field w 12 3) (rv_rd w) (rv_rs1 w) (ucast (field w 20 12)) s = Some r"
    and x0: "read_x s 0 = 0" and "cs_wf (control_status (registers s))"
    and "rv_csr_read_only (ucast (field w 20 12)) \<Longrightarrow>
      rv_csr_write (field w 12 3) (rv_rs1 w) (rv_read s (rv_rs1 w))
        (csr_view (control_status (registers s)) (ucast (field w 20 12))) = Some None"
  shows "implements M (convert_System w) s r"
proof -
  obtain op where op: "rv_csr_operation (field w 12 3) (rv_rs1 w) (rv_read s (rv_rs1 w)) = Some op"
    using assms(1) by (auto simp: rv_csr_def Let_def rv_csr_write_operation)
  have "op = None" if "rv_csr_read_only (ucast (field w 20 12))"
    using assms(4) [OF that] op by (simp add: rv_csr_write_operation)
  from rv_csr_operation_agrees [OF assms(1) op assms(3) this] show ?thesis
    using convert_Csr_executes [of w s op M] op by (simp add: rv_read_x [OF x0])
qed

section \<open>Every 32-bit instruction\<close>

lemma word_implemented:
  assumes "rv_decode w = Some i" "rv_meaning M 4 i s = Some r" and x0: "read_x s 0 = 0"
    and "\<And>f rd rs1 imm. i = RvLoad f rd rs1 imm \<Longrightarrow> rd \<noteq> 0"
    and "\<And>rd rs1 imm. i = RvJalr rd rs1 imm \<Longrightarrow> (read_x s rs1 + imm) AND 1 = 0"
    and "i = RvMret \<Longrightarrow> bit (mstatus (control_status (registers s))) 7
           \<and> mepc (control_status (registers s)) AND 1 = 0"
    and "\<And>f rd rs1 rs2. i = RvAmo f rd rs1 rs2 \<Longrightarrow> read_x s rs1 AND 3 = 0"
    and "\<And>f rd rs1 csr. i = RvCsr f rd rs1 csr \<Longrightarrow> cs_wf (control_status (registers s))
           \<and> (rv_csr_read_only csr \<longrightarrow>
               rv_csr_write f rs1 (rv_read s rs1) (csr_view (control_status (registers s)) csr) = Some None)"
  shows "implements M (convert w) s r"
proof -
  note x = rv_read_x [OF x0]
  consider "field w 0 7 = 0x33" | "field w 0 7 = 0x13" | "field w 0 7 = 0x37" | "field w 0 7 = 0x17"
    | "field w 0 7 = 0x6F" | "field w 0 7 = 0x67" | "field w 0 7 = 0x63" | "field w 0 7 = 0x03"
    | "field w 0 7 = 0x23" | "field w 0 7 = 0x2F" | "field w 0 7 = 0x0F" | "w = 0x00000073"
    | "w = 0x00100073" | "w = 0x10500073"
    | "field w 0 7 = 0x73" "i = RvCsr (field w 12 3) (rv_rd w) (rv_rs1 w) (ucast (field w 20 12))"
    | "w = 0x30200073"
    using assms(1) by (auto simp: rv_decode_def Let_def split: if_splits)
  then show ?thesis
  proof cases
    case 6
    with assms(1) have i: "i = RvJalr (rv_rd w) (rv_rs1 w) (imm_I w)"
      by (simp add: rv_decode_def Let_def split: if_splits)
    with assms(2) have "r = goto ((read_x s (rv_rs1 w) + imm_I w) AND NOT 1)
        (write_x (rv_rd w) (program_counter s + 4) s)" by (simp add: x)
    with 6 assms(5) [OF i] show ?thesis by (simp only: convert_opcode implements_Jalr)
  next
    case 7
    with assms(1) have i: "i = RvBranch (field w 12 3) (rv_rs1 w) (rv_rs2 w) (imm_B w)"
      by (simp add: rv_decode_def Let_def)
    with assms(2) obtain taken where
      "rv_branch (field w 12 3) (read_x s (rv_rs1 w)) (read_x s (rv_rs2 w)) = Some taken"
      "r = goto (if taken then program_counter s + imm_B w else program_counter s + 4) s"
      by (auto simp: x)
    with 7 show ?thesis by (simp only: convert_opcode implements_Branch)
  next
    case 12
    with assms(1,2) show ?thesis
      by (auto simp: rv_decode_def field_defs implements_environment)
  next
    case 13
    with assms(1,2) show ?thesis
      by (auto simp: rv_decode_def field_defs implements_environment)
  next
    case 14
    with assms(1,2) show ?thesis
      by (auto simp: rv_decode_def field_defs implements_environment)
  next
    case 15
    with assms(2) have "rv_csr 4 (field w 12 3) (rv_rd w) (rv_rs1 w) (ucast (field w 20 12)) s = Some r"
      by simp
    then show ?thesis
      unfolding convert_opcode(12) [OF 15(1)]
      using assms(8) [OF 15(2)] x0 by (intro implements_Csr) simp_all
  next
    case 16
    with assms(1,2,6) show ?thesis by (auto simp: rv_decode_def field_defs implements_mret)
  next
    case 10
    with assms(1) have i: "i = RvAmo (field w 27 5) (rv_rd w) (rv_rs1 w) (rv_rs2 w)" "field w 12 3 = 2"
      by (simp_all add: rv_decode_def Let_def split: if_splits)
    with assms(2) assms(7) [OF i(1)]
    have "rv_atomic M 4 (field w 27 5) (rv_rd w) (read_x s (rv_rs1 w)) (read_x s (rv_rs2 w)) s = Some r"
      by (simp add: x option.map_ident)
    then show ?thesis
      unfolding convert_opcode(10) [OF 10] by (rule implements_Amo) (rule i(2))
  qed (use assms in \<open>auto simp: rv_decode_def Let_def x convert_opcode implements_Op
      implements_OpImm implements_Branch implements_upper implements_Jal implements_Load
      implements_Store implements_Amo implements_MiscMem
      split: if_splits\<close>)
qed

end
