(* ===== verification/Machine_Theorems.thy ===== *)
theory Machine_Theorems
  imports Riscv_Word
begin

text \<open>
  The properties of the interpreter and of the components it is made of: the instruction
  encoding, the memory, the control and status registers, traps and system calls, and runs.
\<close>

section \<open>Instruction encoding\<close>

text \<open>
  C9: Every well-formed instruction is decoded from its own encoding. The interpreter always
  fetches four bytes, so for a 16-bit instruction this holds whatever the two bytes after it are.
\<close>

theorem decode_encoded:
  assumes "inst_wf i"
    and "take_bit (8 * size_bytes (inst_size i)) w = encode_raw i"
  shows "decode_instruction w = Some i"
  using assms by (rule decode_fetched)

theorem decode_encoded_witness:
  "decode_instruction 0xFFFF0485 = Some (CLi \<lparr>ci1_rd_rs1 = 4, ci1_imm = 1\<rparr>)"
  by (rule decode_encoded; code_simp)

text \<open>
  C18: The decoder is total, and what it returns is a fixed point of encoding and decoding: every
  word decodes to a well-formed instruction, and its encoding decodes to the same instruction.
\<close>

theorem decode_canonical:
  "\<exists>i. decode_instruction w = Some i \<and> inst_wf i \<and> decode_instruction (encode_raw i) = Some i"
proof -
  obtain i where "decode_instruction w = Some i" using decode_total by blast
  with decode_wf decode_encode_raw show ?thesis by blast
qed

section \<open>Memory\<close>

lemmas slice_eval =
  slice_defs Let_def question_def usize_of_u32_def RAM_OFFSET_def slice_get_def slice_put_def

text \<open>
  C15: A store to the RAM that succeeds is read back by a load of the same range, changes no byte
  outside of its range, and leaves the code alone.
\<close>

theorem store_then_load:
  assumes W: "32 \<le> W"
    and st: "store_bytes (slice_memory_ops W) m a bs = (Inr u, m')" and a: "RAM_OFFSET \<le> a"
  shows "fst (load_bytes (slice_memory_ops W) m' a (length bs)) = Inr bs
    \<and> (\<forall>b n. access_range a (length bs) \<inter> access_range b n = {} \<longrightarrow>
         fst (load_bytes (slice_memory_ops W) m' b n) = fst (load_bytes (slice_memory_ops W) m b n))
    \<and> code m' = code m \<and> length (ram m') = length (ram m)"
proof -
  from W obtain k where k: "W = 32 + k" using le_Suc_ex by blast
  have "code m' = code m" "length (ram m') = length (ram m)"
    using slice_store_code [of W m a bs] st by simp_all
  with slice.store_load [OF st [unfolded k] a] slice.store_frame [OF st [unfolded k] a]
  show ?thesis unfolding k by blast
qed

theorem store_then_load_witness:
  "fst (load_bytes (slice_memory_ops 64) \<lparr>code = [1], ram = [0, 7, 8, 0]\<rparr> 0x80000001 2) = Inr [7, 8]"
proof -
  have "store_bytes (slice_memory_ops 64) \<lparr>code = [1], ram = [0, 0, 0, 0]\<rparr> 0x80000001 [7, 8] =
      (Inr (), \<lparr>code = [1], ram = [0, 7, 8, 0]\<rparr>)"
    by (simp add: slice_eval)
  moreover have "RAM_OFFSET \<le> 0x80000001" by (simp add: RAM_OFFSET_def word_le_nat_alt)
  ultimately show ?thesis
    using store_then_load [where W = 64 and a = "0x80000001" and bs = "[7, 8]"]
    by (force simp: numeral_2_eq_2)
qed

text \<open>
  C16: A load succeeds exactly when its range lies inside the region its address selects, RAM from
  \<open>0x80000000\<close> on and code below, and returns the bytes of that range; nothing wraps around, on a
  host whose addresses have more than 32 bits.
\<close>

theorem load_in_bounds:
  assumes W: "33 \<le> W" and n: "n < 2 ^ 32"
  shows "fst (load_bytes (slice_memory_ops W) m a n) = Inr bs \<longleftrightarrow>
    (if RAM_OFFSET \<le> a
     then unat a - 2 ^ 31 + n \<le> length (ram m) \<and> bs = take n (drop (unat a - 2 ^ 31) (ram m))
     else unat a + n \<le> length (code m) \<and> bs = take n (drop (unat a) (code m)))"
proof -
  have "(2::nat) ^ 33 \<le> 2 ^ W" using W by (rule power_increasing) simp
  moreover have "unat a < 2 ^ 32" using unsigned_less [of a] by simp
  ultimately have "unat a + n < 2 ^ W" "unat a - 2 ^ 31 + n < 2 ^ W" using n by auto
  with W show ?thesis
    by (auto simp: slice_load_bytes_def usize_of_u32_wide unat_ram_address checked_slice_range_def
        slice_get_def Let_def)
qed

theorem load_in_bounds_witness:
  "fst (load_bytes (slice_memory_ops 64) \<lparr>code = [1, 2, 3], ram = []\<rparr> 1 2) = Inr [2, 3]"
  by (subst load_in_bounds) (simp_all add: RAM_OFFSET_def word_le_nat_alt)

text \<open>
  Writing through the slice that \<open>mut_bytes\<close> hands out has the effect of \<open>store_bytes\<close>, and
  \<open>mut_bytes\<close> fails with the error of \<open>store_bytes\<close>.
\<close>

theorem mut_bytes_is_store:
  assumes "length bs = n"
  shows "store_bytes (slice_memory_ops W) m a bs =
    (case mut_bytes (slice_memory_ops W) m a n of
       Inl e \<Rightarrow> (Inl e, m)
     | Inr (old, write) \<Rightarrow> (Inr (), write bs))"
  using assms
  by (simp add: slice_store_bytes_def slice_mut_bytes_def Let_def question_def split: sum.split)

theorem mut_bytes_is_store_witness:
  "store_bytes (slice_memory_ops 64) \<lparr>code = [], ram = [1, 2]\<rparr> 0x80000000 [9] =
     (Inr (), \<lparr>code = [], ram = [9, 2]\<rparr>)"
  by (subst mut_bytes_is_store [OF refl]) (simp add: slice_eval)

section \<open>Control and status registers\<close>

text \<open>
  C19: An operation on a control and status register refines the abstract map from addresses to
  values: it returns the value of the register, writes the result of the operation under the
  write mask of the register, and leaves the value of every other register alone. The fields
  stay well-formed.
\<close>

theorem csr_operation_refines:
  assumes "cs_wf cs" "cs_operation cs op a = (Inr v, cs')"
  shows "v = csr_view cs a
    \<and> csr_view cs' = (csr_view cs)(a :=
        (execute_operation op v AND csr_writable a) OR (v AND NOT (csr_writable a)))
    \<and> cs_wf cs'"
  using cs_operation_value [OF assms(2)] cs_operation_update [OF assms]
    cs_operation_frame [OF assms(2)] cs_operation_wf [OF assms(1), of op a] assms(2)
  by (auto simp: fun_eq_iff)

theorem csr_operation_refines_witness:
  "csr_view (cs_default\<lparr>mscratch := 5\<rparr>) MSCRATCH_ADDR = 5"
proof -
  have "cs_operation cs_default (Some (CsWrite 5)) MSCRATCH_ADDR = (Inr 0, cs_default\<lparr>mscratch := 5\<rparr>)"
    by (simp add: cs_operation_def cs_default_def execute_operation_def)
  from csr_operation_refines [OF cs_default_wf this] show ?thesis
    by (simp add: execute_operation_def csr_writable_def)
qed

text \<open>
  An operation fails exactly on the addresses that are not implemented; the error names the
  address, and nothing changes.
\<close>

theorem csr_operation_error:
  "cs_operation cs op a = (Inl e, cs') \<longleftrightarrow> \<not> csr_exists a \<and> e = InvalidCSRegister a \<and> cs' = cs"
proof
  assume err: "cs_operation cs op a = (Inl e, cs')"
  then have "fst (cs_operation cs op a) = Inl e" by simp
  with err show "\<not> csr_exists a \<and> e = InvalidCSRegister a \<and> cs' = cs"
    unfolding cs_operation_error_iff using cs_operation_error_state by blast
next
  assume "\<not> csr_exists a \<and> e = InvalidCSRegister a \<and> cs' = cs"
  then show "cs_operation cs op a = (Inl e, cs')"
    using cs_operation_error_iff [of cs op a e] cs_operation_error_state [of cs op a e]
    by (metis prod.collapse)
qed

section \<open>Interrupts\<close>

text \<open>
  C20: An interrupt is refused exactly when the guest has not enabled it, and then changes nothing.
  When it is taken, the guest continues at the trap vector with interrupts disabled, with the
  cause of an external interrupt and the value of the host, and its registers and memory as they
  were; the return instruction of the handler continues where the guest was interrupted, with
  interrupts enabled again.
\<close>

theorem interrupt_round_trip:
  "(if interrupt_enabled (control_status (registers s)) then
      (\<exists>s'. interrupt v s = (Inr (), s')
        \<and> program_counter s' = mtvec (control_status (registers s)) AND NOT 0b11
        \<and> \<not> interrupt_enabled (control_status (registers s'))
        \<and> mcause (control_status (registers s')) = 0x80000010
        \<and> mtval (control_status (registers s')) = v
        \<and> cpu (registers s') = cpu (registers s) \<and> memory s' = memory s
        \<and> (\<exists>s''. execute_SystemMiscMem
                   \<lparr>i_rd_rs2 = rd, i_rs1 = rs1, i_imm = SystemMiscMem_MRET_IMM,
                    i_func = SystemMiscMem_MISC_FUNC\<rparr> s' = (Inr Running, s'')
              \<and> program_counter s'' = program_counter s
              \<and> interrupt_enabled (control_status (registers s''))))
    else interrupt v s = (Inl InterruptNotEnabled, s))"
proof (cases "interrupt_enabled (control_status (registers s))")
  case False
  then show ?thesis by (simp add: interrupt_def)
next
  case True
  define cs where "cs = set_interrupt (control_status (registers s))"
  define cs' where "cs' = fst (trap_entry cs (program_counter s) v)"
  define pc' where "pc' = snd (trap_entry cs (program_counter s) v)"
  have enabled: "interrupt_enabled cs"
    using True by (simp add: cs_def interrupt_enabled_def set_interrupt_def)
  have "interrupt v s = (Inr (), (set_cs cs' s)\<lparr>program_counter := pc'\<rparr>)"
    using True by (simp add: interrupt_def cs_def cs'_def pc'_def Let_def split: prod.split)
  moreover have "pc' = mtvec (control_status (registers s)) AND NOT 0b11"
    by (simp add: pc'_def trap_entry_target cs_def set_interrupt_def MTVEC_MODE_def)
  moreover have "\<not> interrupt_enabled cs'" "mcause cs' = 0x80000010" "mtval cs' = v"
    by (simp_all add: cs'_def trap_entry_disables trap_entry_fields)
  moreover have "fst (trap_return cs') = program_counter s" "interrupt_enabled (snd (trap_return cs'))"
    using enabled by (simp_all add: cs'_def trap_return_entry)
  ultimately show ?thesis
    using True by (cases "trap_return cs'") (simp add: execute_SystemMiscMem_def)
qed

section \<open>System calls\<close>

lemma take_drop_nth: "m + n \<le> length xs \<Longrightarrow> take n (drop m xs) = map ((!) xs) [m..<m + n]"
  by (rule nth_equalityI) simp_all

text \<open>
  C21: The handler of a system call gets the number in \<open>a7\<close>, the arguments in \<open>a0\<close> to \<open>a6\<close>,
  and the memory. Its answer is delivered in \<open>a0\<close> and \<open>a1\<close>: the guest reads 0 in \<open>a0\<close> exactly when the
  call succeeded, and the value in \<open>a1\<close> is 0 otherwise. Every other register is as before. An
  error of the host changes no register.
\<close>

theorem syscall_answer:
  assumes wf: "cpu_wf (cpu (registers s))" and call: "syscall f s c = (r, s', c')"
  shows "\<exists>result m'. f (read_x s 17) (map (read_x s) [10, 11, 12, 13, 14, 15, 16]) (memory s) c = (result, m', c')
    \<and> memory s' = m' \<and> program_counter s' = program_counter s
    \<and> (case result of
         Inl e \<Rightarrow> r = Inl e \<and> cpu (registers s') = cpu (registers s)
       | Inr answer \<Rightarrow> r = Inr ()
           \<and> (read_x s' 10 = 0 \<longleftrightarrow> (\<exists>v. answer = Inr v))
           \<and> read_x s' 11 = (case answer of Inr v \<Rightarrow> v | Inl e \<Rightarrow> 0)
           \<and> same_registers {10, 11} s s')"
proof -
  obtain xs where xs: "inner (cpu (registers s)) = xs" "length xs = 32"
    using wf by (simp add: cpu_wf_def)
  have "take 7 (drop 10 xs) = map ((!) xs) [10..<10 + 7]"
    by (rule take_drop_nth) (simp add: xs(2))
  then have args: "take 7 (drop 10 xs) = map (read_x s) [10, 11, 12, 13, 14, 15, 16]"
    by (simp add: upt_conv_Cons read_x_def xs(1))
  obtain result m' c2 where f: "f (read_x s 17) (map (read_x s) [10, 11, 12, 13, 14, 15, 16]) (memory s) c
      = (result, m', c2)"
    using prod_cases3 by blast
  have sys: "syscall f s c = (case result of
      Inl e \<Rightarrow> (Inl e, s\<lparr>memory := m'\<rparr>, c2)
    | Inr answer \<Rightarrow> (Inr (), syscall_result answer (s\<lparr>memory := m'\<rparr>), c2))"
    using f args xs
    by (simp add: syscall_def syscall_arguments_def SYSCALL_ARGS_def Let_def read_x_def split: sum.split)
  show ?thesis
  proof (cases result)
    case (Inl e)
    with f sys call show ?thesis by simp
  next
    case (Inr answer)
    have nz: "nonzero_get e \<noteq> 0" for e using nonzero_get [of e] by simp
    show ?thesis
      using Inr f sys call xs nz
      by (cases answer)
         (auto simp: syscall_result_def read_x_def same_registers_def nth_list_update
            word_unat_eq_iff Let_def)
  qed
qed

theorem syscall_answer_witness:
  "read_x (fst (snd (syscall (\<lambda>nr args m c. (Inr (Inr (args ! 0)) :: unit + (NonZeroI32 + i32), m, c))
      (interpreter_new () 0) ()))) 10 = 0"
  using syscall_answer [of "interpreter_new () 0"
    "\<lambda>nr args m c. (Inr (Inr (args ! 0)) :: unit + (NonZeroI32 + i32), m, c)" "()"]
  by (cases "syscall (\<lambda>nr args m c. (Inr (Inr (args ! 0)) :: unit + (NonZeroI32 + i32), m, c))
      (interpreter_new () 0) ()")
     (auto simp: interpreter_new_def registers_default_def cpu_default_wf)

section \<open>A concrete machine\<close>

text \<open>A small machine, for concrete instances: \<open>c.li x4, 1\<close> and \<open>ebreak\<close>.\<close>

definition small_code :: "u8 list" where
  "small_code = [0x85, 0x04, 0x15, 0x00, 0, 0]"

definition small_machine :: "SliceMemory Interpreter" where
  "small_machine = interpreter_new \<lparr>code = small_code, ram = [0, 0, 0, 0]\<rparr> 2"

lemma small_decode:
  "decode_instruction 0x00150485 = Some (CLi \<lparr>ci1_rd_rs1 = 4, ci1_imm = 1\<rparr>)"
  "decode_instruction 0x00000015 = Some (CEbreakJalrAdd \<lparr>cr_rd_rs1 = 0, cr_rs2 = 0\<rparr>)"
  by code_simp+

definition small_after :: "SliceMemory Interpreter" where
  "small_after = write_x 4 1 (small_machine\<lparr>program_counter := 2\<rparr>)"

lemmas machine_eval =
  step_def fetch_def load_num_def num_size_def slice_eval decode_execute_def small_decode
  exec_defs write_reg_def next_instruction_def size_bytes_def interpreter_new_def
  registers_default_def cpu_default_def write_x_def small_machine_def small_code_def small_after_def

lemma small_steps:
  "step (slice_memory_ops 64) small_machine = (Inr Running, small_after)"
  "step (slice_memory_ops 64) small_after = (Inr Halted, small_after\<lparr>program_counter := 4\<rparr>)"
  by (simp_all add: machine_eval)

section \<open>Runs\<close>

text \<open>One instruction that leaves the guest running.\<close>

definition runs_to :: "'m memory_ops \<Rightarrow> ('m Interpreter \<times> 'm Interpreter) set" where
  "runs_to M = {(s, t). step M s = (Inr Running, t)}"

lemma runs_to_iff: "(s, t) \<in> runs_to M \<longleftrightarrow> step M s = (Inr Running, t)"
  by (simp add: runs_to_def)

lemma runs_to_Suc:
  "(s, t) \<in> runs_to M ^^ Suc n \<longleftrightarrow>
     (\<exists>s'. step M s = (Inr Running, s') \<and> (s', t) \<in> runs_to M ^^ n)"
  unfolding runs_to_iff [symmetric] by (meson relpow_Suc_D2 relpow_Suc_I2)

lemma run_limited_relpow:
  "run_limited M n s = (Inr Running, t) \<longleftrightarrow> (s, t) \<in> runs_to M ^^ n"
proof (induction n arbitrary: s)
  case 0
  then show ?case by auto
next
  case (Suc n)
  show ?case
    unfolding runs_to_Suc Suc.IH [symmetric] by (auto split: prod.split sum.split)
qed

lemma run_limited_stop:
  assumes "r \<noteq> Inr Running"
  shows "run_limited M n s = (r, t) \<longleftrightarrow>
    (\<exists>k<n. \<exists>u. (s, u) \<in> runs_to M ^^ k \<and> step M u = (r, t))"
proof (induction n arbitrary: s)
  case 0
  then show ?case using assms by auto
next
  case (Suc n)
  have split: "(\<exists>k<Suc n. P k) \<longleftrightarrow> P 0 \<or> (\<exists>k<n. P (Suc k))" for P
    by (metis Suc_less_eq gr0_conv_Suc not_gr_zero zero_less_Suc)
  obtain x s' where step: "step M s = (x, s')" by fastforce
  have "(\<exists>k<Suc n. \<exists>u. (s, u) \<in> runs_to M ^^ k \<and> step M u = (r, t)) \<longleftrightarrow>
      step M s = (r, t) \<or> (x = Inr Running \<and> run_limited M n s' = (r, t))"
    unfolding split runs_to_Suc Suc.IH by (auto simp: step)
  with step assms show ?case by (auto split: sum.split)
qed

text \<open>
  C13: A run is the iteration of single steps. With an instruction limit it reports that the guest
  is still running exactly after that many instructions that all leave it running, and any
  other result is the result of a single instruction before the limit. Without a limit it
  returns exactly when some instruction stops, and with the result of that instruction; otherwise
  it does not return.
\<close>

theorem run_is_iterated_step:
  "run M s = Some (r, t) \<longleftrightarrow>
     (let limit = instruction_limit s in
      if r = Inr Running
      then limit > 0 \<and> (s, t) \<in> runs_to M ^^ unat limit
      else (\<exists>k u. (limit = 0 \<or> k < unat limit) \<and> (s, u) \<in> runs_to M ^^ k \<and> step M u = (r, t)))"
proof (cases "instruction_limit s > 0")
  case True
  then show ?thesis
    using run_limited_relpow [of M "unat (instruction_limit s)" s t]
      run_limited_stop [of r M "unat (instruction_limit s)" s t]
    by (auto simp: run_def Let_def)
next
  case False
  then have zero: "instruction_limit s = 0" by (simp add: word_gt_0)
  have "run_unlimited M s = Some (r, t) \<longleftrightarrow> (\<exists>n. run_limited M n s = (r, t)) \<and> r \<noteq> Inr Running"
    using run_unlimited_limited [of M s "(r, t)"] run_limited_unlimited [of M _ s]
    by (metis fst_conv)
  with zero run_limited_stop [of r M _ s t] show ?thesis
    by (auto simp: run_def Let_def)
qed

text \<open>
  The instruction limit only cuts a run in pieces: running with the limit \<open>n\<close> and, if the
  guest is still running, again with the limit \<open>m\<close>, is running with the limit \<open>n + m\<close>.
\<close>

theorem run_resumes:
  "run_limited M (n + m) s =
     (if fst (run_limited M n s) = Inr Running then run_limited M m (snd (run_limited M n s))
      else run_limited M n s)"
  unfolding run_limited_split by (auto split: prod.split sum.split State.split)

text \<open>
  C10: The sandbox: whatever the guest program is, and however long it runs, the code region of a
  \<open>SliceMemory\<close> is not modified and the RAM keeps its size; the guest cannot change its own
  instruction limit, and its registers stay well-formed.
\<close>

theorem run_sandboxed:
  assumes "run (slice_memory_ops W) s = Some (r, t)"
  shows "code (memory t) = code (memory s) \<and> length (ram (memory t)) = length (ram (memory s))
    \<and> instruction_limit t = instruction_limit s
    \<and> (registers_wf (registers s) \<longrightarrow> registers_wf (registers t))"
  using guest_code.rel_run [OF assms] guest_wf.rel_run [OF assms] by blast

theorem run_sandboxed_witness:
  "code (memory (small_after\<lparr>program_counter := 4\<rparr>)) = code (memory small_machine)"
proof -
  have "instruction_limit small_machine > 0" "unat (instruction_limit small_machine) = Suc (Suc 0)"
    by (simp_all add: machine_eval)
  then have "run (slice_memory_ops 64) small_machine =
      Some (Inr Halted, small_after\<lparr>program_counter := 4\<rparr>)"
    by (simp only: run_def if_True) (simp add: small_steps)
  from run_sandboxed [OF this] show ?thesis by blast
qed

text \<open>
  C11: A failing instruction is without effect: when a step returns an error, the interpreter is as
  before, except that the reservation of a store-conditional is gone. The error is an invalid or
  illegal instruction at the program counter, an unknown control and status register, or an error
  of a memory access; a CPU register error never occurs.
\<close>

theorem step_error_no_effect:
  assumes "step (slice_memory_ops (32 + k)) s = (Inl e, t)"
  shows "t = s\<lparr>memory_reservation := memory_reservation t\<rparr>
    \<and> (e = InvalidInstruction (program_counter s) \<or> e = IllegalInstruction (program_counter s)
       \<or> (\<exists>a. e = InvalidCSRegister a \<and> \<not> csr_exists a)
       \<or> (\<exists>a. e = InvalidMemoryAddress a) \<or> (\<exists>n. e = InvalidMemoryAccessLength n))"
proof -
  have mem: "fst (slice_load_bytes W m a n) = Inl e \<Longrightarrow>
      (\<exists>a. e = InvalidMemoryAddress a) \<or> (\<exists>n. e = InvalidMemoryAccessLength n)"
    "fst (slice_store_bytes W m a bs) = Inl e \<Longrightarrow>
      (\<exists>a. e = InvalidMemoryAddress a) \<or> (\<exists>n. e = InvalidMemoryAccessLength n)" for W m a n bs
    by (auto simp: slice_load_bytes_def slice_store_bytes_def checked_slice_range_def Let_def
        question_def split: sum.splits if_splits)
  have "clean (slice_memory_ops (32 + k)) s (Inl e, t)"
    using slice.clean_step [of k s] assms by simp
  then have "same_but_reservation s t" "guest_error (slice_memory_ops (32 + k)) s e"
    by (simp_all add: clean_def)
  then show ?thesis
    unfolding same_but_reservation_def guest_error_def using mem by (metis slice_ops_sel(1,3))
qed

theorem step_error_no_effect_witness:
  "\<exists>t. step (slice_memory_ops (32 + 32)) (small_machine\<lparr>program_counter := 100\<rparr>) =
      (Inl (InvalidMemoryAddress 104), t)
    \<and> t = small_machine\<lparr>program_counter := 100, memory_reservation := memory_reservation t\<rparr>"
proof -
  have "step (slice_memory_ops (32 + 32)) (small_machine\<lparr>program_counter := 100\<rparr>) =
      (Inl (InvalidMemoryAddress 104), small_machine\<lparr>program_counter := 100\<rparr>)"
    by (simp add: machine_eval)
  with step_error_no_effect [OF this] show ?thesis by auto
qed

text \<open>
  C12: An instruction writes no CPU register except its destination register, which is x0 only for
  the loads, \<open>c.lwsp\<close>, \<open>c.mv\<close> and \<open>c.add\<close> with destination x0.
\<close>

theorem only_destination_changes:
  assumes "decode_instruction w = Some i"
  shows "same_registers (dest_regs i) s (snd (decode_execute M s w))
    \<and> (0 \<in> dest_regs i \<longrightarrow>
        (case i of LoadStore f \<Rightarrow> True | CLwsp f \<Rightarrow> True | CJrMv f \<Rightarrow> True
         | CEbreakJalrAdd f \<Rightarrow> True | _ \<Rightarrow> False))"
proof
  show "same_registers (dest_regs i) s (snd (decode_execute M s w))"
    using dest_frame.rel_execute [of i "dest_regs i" s M] assms by (simp add: decode_execute_def)
  have "inst_wf i" using assms by (rule decode_wf)
  then show "0 \<in> dest_regs i \<longrightarrow>
      (case i of LoadStore f \<Rightarrow> True | CLwsp f \<Rightarrow> True | CJrMv f \<Rightarrow> True
       | CEbreakJalrAdd f \<Rightarrow> True | _ \<Rightarrow> False)"
    by (cases i) (auto simp: TypeCIW_wf_def TypeCL_wf_def COMPRESSED_REGISTER_OFFSET_def
        fits_unsigned_def)
qed

theorem only_destination_changes_witness:
  "same_registers ({4} - {0}) small_machine
     (snd (decode_execute (slice_memory_ops 64) small_machine 0x00150485))"
  using only_destination_changes [OF small_decode(1), of small_machine "slice_memory_ops 64"] by simp

text \<open>
  C14: In every state that a new interpreter can reach, by instructions, interrupts, system calls,
  changes of the memory by the host and resets in any order, there are 32 CPU registers, the trap
  vector is aligned, the machine status has no bits but the two interrupt enables, and the
  instruction limit is the one it was created with.
\<close>

theorem reachable_wellformed:
  assumes "reachable M limit s"
  shows "length (inner (cpu (registers s))) = 32
    \<and> mtvec (control_status (registers s)) AND 0b11 = 0
    \<and> (\<forall>n. bit (mstatus (control_status (registers s))) n \<longrightarrow> n = 3 \<or> n = 7)
    \<and> instruction_limit s = limit"
proof -
  have wf: "registers_wf (registers s)" and limit: "instruction_limit s = limit"
    using reachable_registers_wf [OF assms] by blast+
  then have "mtvec (control_status (registers s)) AND 0b11 =
      (mtvec (control_status (registers s)) AND NOT MTVEC_MODE) AND 0b11"
    by (simp add: registers_wf_def cs_safe_def)
  also have "\<dots> = 0" by (simp add: MTVEC_MODE_def and.assoc)
  finally show ?thesis
    using wf limit by (simp add: registers_wf_def cs_safe_def cpu_wf_def mstatus_masked)
qed

theorem reachable_wellformed_witness:
  "length (inner (cpu (registers small_after))) = 32"
proof -
  have "reachable (slice_memory_ops 64) 2 small_machine"
    unfolding small_machine_def by (rule reachable_new)
  then have "reachable (slice_memory_ops 64) 2 small_after"
    using small_steps(1) by (blast intro: reachable_step guest_step)
  from reachable_wellformed [OF this] show ?thesis by blast
qed

section \<open>Atomics\<close>

lemma slice_load_num_memory:
  "fst (load_num (slice_memory_ops W) m a) = r \<Longrightarrow> load_num (slice_memory_ops W) m a = (r, m)"
  using slice_load_pure [of W m a]
  by (auto simp: load_num_def prod_eq_iff split: prod.splits sum.splits if_splits)

text \<open>
  C23: A store-conditional writes exactly when the reservation is for its address and the memory
  still holds the value that was reserved: then it stores its operand and returns 0, otherwise it
  returns 1 and stores nothing. In every case the reservation is gone.
\<close>

theorem store_conditional:
  fixes W :: nat and f :: TypeR and s :: "SliceMemory Interpreter"
  defines "addr \<equiv> read_x s (r_rs1 f)"
  assumes wf: "TypeR_wf f" and sc: "r_func f = OpAmo_SC_FUNC"
    and loaded: "fst (load_num (slice_memory_ops W) (memory s) addr) = Inr (value :: i32)"
  shows "execute_OpAmo (slice_memory_ops W) f s =
    (let cleared = s\<lparr>memory_reservation := None\<rparr>;
         answer = (\<lambda>v s. goto (program_counter s + 4) (write_x (r_rd f) v s)) in
     if memory_reservation s = Some (addr, value) then
       (case store_num (slice_memory_ops W) (memory s) addr (read_x s (r_rs2 f)) of
          (Inl e, m) \<Rightarrow> (Inl e, cleared)
        | (Inr _, m) \<Rightarrow> answer 0 (cleared\<lparr>memory := m\<rparr>))
     else answer 1 cleared)"
proof -
  have r: "r_rs1 f < 32" "r_rs2 f < 32" "r_rd f < 32"
    using wf by (simp_all add: TypeR_wf_def register_number)
  have "execute_OpAmo (slice_memory_ops W) f s =
      execute_atomic (slice_memory_ops W) 19 addr (read_x s (r_rs2 f)) value s (finish_OpAmo f)"
    using r slice_load_num_memory [OF loaded]
    by (simp add: execute_OpAmo_def get_reg_read_x op_result_def sc load_mem_def addr_def
        del: get_reg_ok)
  then show ?thesis
    using slice_store_error [of W "memory s" addr "to_le_bytes (read_x s (r_rs2 f))"]
    by (auto simp: execute_atomic_def Let_def finish_OpAmo_goto r store_mem_def store_num_def
        split: option.split prod.split sum.split)
qed

theorem store_conditional_witness:
  "execute_OpAmo (slice_memory_ops 64)
      \<lparr>r_rd = 5, r_rs1 = 0, r_rs2 = 0, r_func = OpAmo_SC_FUNC\<rparr> small_machine =
    goto 4 (write_x 5 1 (small_machine\<lparr>memory_reservation := None\<rparr>))"
proof -
  have "fst (load_num (slice_memory_ops 64) (memory small_machine) (read_x small_machine 0)) =
      Inr (0x00150485 :: i32)"
    by (simp add: machine_eval read_x_def)
  with store_conditional [of "\<lparr>r_rd = 5, r_rs1 = 0, r_rs2 = 0, r_func = OpAmo_SC_FUNC\<rparr>"
      64 small_machine "0x00150485"]
  show ?thesis
    by (simp add: TypeR_wf_def small_machine_def interpreter_new_def)
qed

text \<open>
  C24: The other atomic instructions read, modify and write: the destination register gets the old
  value of the memory word, the memory gets the result of the operation, and a load from the
  address then reads that result.
\<close>

theorem amo_read_modify_write:
  fixes k :: nat and f :: TypeR and s :: "SliceMemory Interpreter"
  defines "M \<equiv> slice_memory_ops (32 + k)" and "addr \<equiv> read_x s (r_rs1 f)"
  assumes wf: "TypeR_wf f"
    and amo: "op_result (r_func f) addr (read_x s (r_rs2 f)) = None"
      "amo_result (r_func f) old (read_x s (r_rs2 f)) = Some new"
    and loaded: "fst (load_num M (memory s) addr) = Inr (old :: i32)"
    and stored: "store_num M (memory s) addr new = (Inr u, m')"
    and ram: "RAM_OFFSET \<le> addr"
  shows "execute_OpAmo M f s =
      goto (program_counter s + 4) (write_x (r_rd f) old (s\<lparr>memory := m'\<rparr>))
    \<and> load_num M m' addr = (Inr new, m')"
proof -
  have r: "r_rs1 f < 32" "r_rs2 f < 32" "r_rd f < 32"
    using wf by (simp_all add: TypeR_wf_def register_number)
  have func: "r_func f \<noteq> OpAmo_LR_FUNC" "r_func f \<noteq> OpAmo_SC_FUNC"
    using amo(2) by (auto simp: amo_result_def)
  have "execute_OpAmo M f s =
      execute_atomic M (r_func f) addr (read_x s (r_rs2 f)) old s (finish_OpAmo f)"
    using r slice_load_num_memory [OF loaded [unfolded M_def]] amo(1)
    by (simp add: execute_OpAmo_def get_reg_read_x load_mem_def addr_def M_def del: get_reg_ok)
  also have "\<dots> = goto (program_counter s + 4) (write_x (r_rd f) old (s\<lparr>memory := m'\<rparr>))"
    using stored by (simp add: execute_atomic_def func amo(2) store_mem_def finish_OpAmo_goto r)
  finally show ?thesis
    using slice.store_load_num [OF _ stored [unfolded M_def] ram] by (simp add: M_def)
qed

theorem amo_read_modify_write_witness:
  "execute_OpAmo (slice_memory_ops (32 + 32))
      \<lparr>r_rd = 5, r_rs1 = 6, r_rs2 = 6, r_func = OpAmo_AMOSWAP_FUNC\<rparr>
      (write_x 6 0x80000000 small_machine) =
    goto 4 (write_x 5 0 ((write_x 6 0x80000000 small_machine)
      \<lparr>memory := \<lparr>code = small_code, ram = [0, 0, 0, 0x80]\<rparr>\<rparr>))"
proof -
  define s where "s = write_x 6 0x80000000 small_machine"
  have x: "read_x s 6 = 0x80000000" "program_counter s = 0"
    by (simp_all add: s_def read_x_def machine_eval)
  have "fst (load_num (slice_memory_ops (32 + 32)) (memory s) 0x80000000) = Inr (0 :: i32)"
    by (simp add: s_def machine_eval)
  moreover have "store_num (slice_memory_ops (32 + 32)) (memory s) 0x80000000 (0x80000000 :: i32) =
      (Inr (), \<lparr>code = small_code, ram = [0, 0, 0, 0x80]\<rparr>)"
    by (simp add: s_def machine_eval store_num_def to_le_bytes_def upt_conv_Cons)
  ultimately show ?thesis
    using amo_read_modify_write [of "\<lparr>r_rd = 5, r_rs1 = 6, r_rs2 = 6, r_func = OpAmo_AMOSWAP_FUNC\<rparr>"
        s 0 "0x80000000" 32 "()"]
    unfolding s_def [symmetric]
    by (simp add: x TypeR_wf_def op_result_def amo_result_def RAM_OFFSET_def)
qed

section \<open>The register x0\<close>

text \<open>
  C25: The register x0 is not hardwired: a load with destination x0, of a byte, a halfword or a word,
  signed or not, and also \<open>c.lwsp\<close>, puts the loaded value there, and an instruction after it that
  reads x0 sees it: \<open>addi\<close> from x0 computes the sum of that value and the immediate, where RISC-V has
  the immediate.
\<close>

theorem load_overwrites_x0:
  fixes b :: u8 and h :: u16 and v :: i32
  assumes wf: "cpu_wf (cpu (registers s))" "i_rs1 f < 32" "i_rd_rs2 f = 0"
    and a: "a = read_x s (i_rs1 f) + i_imm f"
    and loaded: "i_func f = LoadStore_LB_FUNC \<and> load_num M (memory s) a = (Inr b, m) \<and> v = scast b
      \<or> i_func f = LoadStore_LBU_FUNC \<and> load_num M (memory s) a = (Inr b, m) \<and> v = ucast b
      \<or> i_func f = LoadStore_LH_FUNC \<and> load_num M (memory s) a = (Inr h, m) \<and> v = scast h
      \<or> i_func f = LoadStore_LHU_FUNC \<and> load_num M (memory s) a = (Inr h, m) \<and> v = ucast h
      \<or> i_func f = LoadStore_LW_FUNC \<and> load_num M (memory s) a = (Inr v, m)"
    and addi: "i_func g = OpImm_ADDI_FUNC" "i_rs1 g = 0" "i_rd_rs2 g < 32" "i_rd_rs2 g \<noteq> 0"
  shows "(\<exists>t. execute_LoadStore M f s = (Inr Running, t) \<and> get_reg t 0 = Inr v
      \<and> execute_OpImm g t = goto (program_counter t + 4) (write_x (i_rd_rs2 g) (v + i_imm g) t))
    \<and> (ci5_rd_rs1 c = 0 \<and> load_num M (memory s) (read_x s 2 + ci5_imm c) = (Inr w, m') \<longrightarrow>
      (\<exists>t. execute_CLwsp M c s = (Inr Running, t) \<and> get_reg t 0 = Inr w
        \<and> execute_OpImm g t = goto (program_counter t + 4) (write_x (i_rd_rs2 g) (w + i_imm g) t)))"
proof -
  have use: "execute_OpImm g t = goto (program_counter t + 4) (write_x (i_rd_rs2 g) (x + i_imm g) t)"
    if "get_reg t 0 = Inr x" for t :: "'a Interpreter" and x
    using addi that by (intro execute_OpImm_op) (simp_all add: op_imm_result_def read_x_def)
  have "\<exists>t. execute_LoadStore M f s = (Inr Running, t) \<and> get_reg t 0 = Inr v"
    using wf loaded unfolding a
    by (elim disjE conjE; simp add: execute_LoadStore_def read_x_def Let_def load_mem_def write_reg_def
        next_instruction_def cpu_wf_def)
  moreover have "\<exists>t. execute_CLwsp M c s = (Inr Running, t) \<and> get_reg t 0 = Inr w"
    if "ci5_rd_rs1 c = 0" "load_num M (memory s) (read_x s 2 + ci5_imm c) = (Inr w, m')"
    using wf(1) that
    by (simp add: execute_CLwsp_def read_x_def Let_def load_mem_def write_reg_def
        next_instruction_def cpu_wf_def)
  ultimately show ?thesis using use by blast
qed

text \<open>\<open>lw x0, 0(x0)\<close> and then \<open>addi x5, x0, 1\<close>.\<close>

theorem load_overwrites_x0_witness:
  "\<exists>t. execute_LoadStore (slice_memory_ops 64)
      \<lparr>i_rd_rs2 = 0, i_rs1 = 0, i_imm = 0, i_func = LoadStore_LW_FUNC\<rparr> small_machine =
      (Inr Running, t) \<and> get_reg t 0 = Inr 0x00150485
    \<and> execute_OpImm \<lparr>i_rd_rs2 = 5, i_rs1 = 0, i_imm = 1, i_func = OpImm_ADDI_FUNC\<rparr> t =
        goto (program_counter t + 4) (write_x 5 0x00150486 t)"
proof -
  have "read_x small_machine 0 = 0"
    "load_num (slice_memory_ops 64) (memory small_machine) 0 = (Inr (0x00150485 :: i32), memory small_machine)"
    by (simp_all add: machine_eval read_x_def)
  moreover have "cpu_wf (cpu (registers small_machine))"
    by (simp add: machine_eval cpu_wf_def)
  ultimately show ?thesis
    using load_overwrites_x0 [of small_machine
        "\<lparr>i_rd_rs2 = 0, i_rs1 = 0, i_imm = 0, i_func = LoadStore_LW_FUNC\<rparr>"
        0 "slice_memory_ops 64" 0 "memory small_machine" "0x00150485" 0
        "\<lparr>i_rd_rs2 = 5, i_rs1 = 0, i_imm = 1, i_func = OpImm_ADDI_FUNC\<rparr>"]
    by simp
qed

end
