(* ===== verification/Transpiler.thy ===== *)
theory Transpiler
  imports Convert
begin

text \<open>
  Model of \<^verbatim>\<open>src/transpiler.rs\<close>. \<open>transpile_raw\<close> rewrites a buffer of RISC-V code in place,
  instruction by instruction; \<open>elf_transpiler_impl\<close> walks over the sections of an ELF file, places
  their bytes and transpiles the executable ones; \<open>transpile_elf\<close> and \<open>transpile_elf_vec\<close> are its two
  callers.

  A Rust panic is a value of the model (\<open>Panicked\<close>): indexing a slice out of range and dividing by
  zero panic in every build. Additions and subtractions wrap around, as they do in a build without
  overflow checks. \<open>usize\<close> has 64 bits here.

  The parser of ELF files is the crate \<^verbatim>\<open>elf\<close>, not part of this repository. What the code reads
  from it are the parameters: the function \<open>minimal_parse\<close>, and in its result the headers and the
  function \<open>section_data\<close>.
\<close>

type_synonym u64 = "64 word"
type_synonym usize = "64 word"

datatype ('p, 'c) Failure = Returned "('p, 'c) TranspilerError" | Panicked

section \<open>Code buffers\<close>

text \<open>One iteration of the loop: the next index, and whether the code needs padding.\<close>

definition transpile_inst ::
  "u8 list \<Rightarrow> nat \<Rightarrow> bool \<Rightarrow> (('p, 'c) Failure, nat \<times> bool, u8 list) outcome" where
  "transpile_inst code i needs_padding =
     (let (raw, needs_padding) =
            (if i + 4 > length code
             then (ucast (from_le_bytes (slice_get code i (i + 2)) :: u16) :: u32, True)
             else (from_le_bytes (slice_get code i (i + 4)), needs_padding)) in
      case convert raw of
        Inl e \<Rightarrow> (Inl (Returned e), code)
      | Inr instruction \<Rightarrow>
          let inst_bytes = to_le_bytes (raw_data instruction);
              inst_size = size_bytes (raw_size instruction) in
          if i + inst_size > length code then (Inl Panicked, code)
          else (Inr (i + inst_size, needs_padding), slice_put code i (take inst_size inst_bytes)))"

lemma size_bytes_bounds: "0 < size_bytes sz" "size_bytes sz \<le> 4" "2 \<le> size_bytes sz"
  by (cases sz; simp add: size_bytes_def)+

lemma min_size_bytes [simp]: "min 4 (size_bytes sz) = size_bytes sz"
  using size_bytes_bounds [of sz] by simp

lemma transpile_inst_progress:
  assumes "transpile_inst code i b = (Inr (j, b'), code')"
  shows "i < j" "j \<le> length code" "length code' = length code"
  using assms size_bytes_bounds
  by (auto simp: transpile_inst_def Let_def split: if_splits sum.splits)

function transpile_loop ::
  "u8 list \<Rightarrow> nat \<Rightarrow> bool \<Rightarrow> (('p, 'c) Failure, bool, u8 list) outcome" where
  "transpile_loop code i needs_padding =
     (if i + 2 \<le> length code then
        (case transpile_inst code i needs_padding of
           (Inl e, code) \<Rightarrow> (Inl e, code)
         | (Inr (i, needs_padding), code) \<Rightarrow> transpile_loop code i needs_padding)
      else (Inr needs_padding, code))"
  by pat_completeness auto

termination transpile_loop
proof (relation "measure (\<lambda>(code, i, b). length code - i)")
  fix code i b r code' p j b'
  assume "i + 2 \<le> length code" and r: "(r, code') = transpile_inst code i b"
    "r = Inr p" "(j, b') = p"
  then have "i < j" "j \<le> length code" "length code' = length code"
    using transpile_inst_progress [OF r(1) [symmetric, unfolded r(2) r(3) [symmetric]]] by simp_all
  then show "((code', j, b'), (code, i, b)) \<in> measure (\<lambda>(code, i, b). length code - i)"
    by simp
qed simp

declare transpile_loop.simps [simp del]

definition transpile_raw :: "u8 list \<Rightarrow> (('p, 'c) Failure, bool, u8 list) outcome" where
  "transpile_raw code = transpile_loop code 0 False"

section \<open>ELF files\<close>

text \<open>The constants of the ELF specification that the code imports.\<close>

abbreviation (input) EM_RISCV :: u16 where "EM_RISCV \<equiv> 243"
abbreviation (input) SHT_PROGBITS :: u32 where "SHT_PROGBITS \<equiv> 1"
abbreviation (input) SHF_ALLOC :: u32 where "SHF_ALLOC \<equiv> 0x2"
abbreviation (input) SHF_EXECINSTR :: u32 where "SHF_EXECINSTR \<equiv> 0x4"

record SectionHeader =
  sh_type :: u32
  sh_flags :: u64
  sh_addr :: u64
  sh_offset :: u64
  sh_size :: u64
  sh_addralign :: u64

record ProgramHeader =
  p_vaddr :: u64
  p_paddr :: u64
  p_memsz :: u64

record ('p, 'c) ElfBytes =
  segments :: "ProgramHeader list option"
  section_headers :: "SectionHeader list option"
  e_machine :: u16
  class_elf32 :: bool
  e_entry :: u64
  section_data :: "SectionHeader \<Rightarrow> 'p + u8 list \<times> 'c option"

type_synonym ('p, 'c) append_fn =
  "u8 list \<Rightarrow> usize \<Rightarrow> u8 list \<Rightarrow> (('p, 'c) Failure, unit, u8 list) outcome"

text \<open>\<open>u32::div_ceil\<close>, for a divisor that is not zero.\<close>

definition div_ceil :: "u32 \<Rightarrow> u32 \<Rightarrow> u32" where
  "div_ceil a b = (if a mod b > 0 then a div b + 1 else a div b)"

definition segment_contains :: "SectionHeader \<Rightarrow> ProgramHeader \<Rightarrow> bool" where
  "segment_contains section segment \<longleftrightarrow>
     (let addr = (ucast (sh_addr section) :: u32) in
      addr \<ge> ucast (p_vaddr segment)
      \<and> addr + ucast (sh_size section) \<le> ucast (p_vaddr segment) + ucast (p_memsz segment))"

text \<open>
  The body of the inner loop, for a section in the segment that contains it: \<open>place_section\<close>
  computes where the section goes, \<open>write_section\<close> writes and transpiles it.
\<close>

definition write_section ::
  "('p, 'c) ElfBytes \<Rightarrow> ('p, 'c) append_fn \<Rightarrow> SectionHeader \<Rightarrow> usize \<Rightarrow> usize \<Rightarrow> usize \<times> bool
     \<Rightarrow> u8 list \<Rightarrow> (('p, 'c) Failure, usize \<times> bool, u8 list) outcome" where
  "write_section elf append_fn section offset end_offset acc output =
     (let (binary_size, needs_padding) = acc in
      case section_data elf section of
        Inl e \<Rightarrow> (Inl (Returned (ErrorParsingELF e)), output)
      | Inr (bytes, Some compression) \<Rightarrow> (Inl (Returned (UnsupportedCompression compression)), output)
      | Inr (bytes, None) \<Rightarrow>
          let needs_padding = (if length bytes \<ge> 2 then False else needs_padding) in
          case append_fn output offset bytes of
            (Inl e, output) \<Rightarrow> (Inl e, output)
          | (Inr _, output) \<Rightarrow>
              if (ucast (sh_flags section) AND SHF_EXECINSTR) \<noteq> 0 then
                if offset > end_offset \<or> unat end_offset > length output
                then (Inl Panicked, output)
                else
                  (case transpile_raw (slice_get output (unat offset) (unat end_offset)) of
                     (Inl e, code) \<Rightarrow> (Inl e, slice_put output (unat offset) code)
                   | (Inr needs_padding, code) \<Rightarrow>
                       (Inr (binary_size, needs_padding), slice_put output (unat offset) code))
              else (Inr (binary_size, needs_padding), output))"

definition place_section ::
  "('p, 'c) ElfBytes \<Rightarrow> ('p, 'c) append_fn \<Rightarrow> SectionHeader \<Rightarrow> ProgramHeader \<Rightarrow> usize \<times> bool \<Rightarrow> u8 list
     \<Rightarrow> (('p, 'c) Failure, usize \<times> bool, u8 list) outcome" where
  "place_section elf append_fn section segment acc output =
     (let (binary_size, needs_padding) = acc;
          entry = (ucast (e_entry elf) :: u32);
          paddr = ucast (sh_addr section) - ucast (p_vaddr segment) + ucast (p_paddr segment);
          alignment = (ucast (sh_addralign section) :: u32) in
      if alignment = 0 then (Inl Panicked, output)
      else
        let offset = (ucast (div_ceil (paddr - entry) alignment * alignment) :: usize);
            end_offset = offset + sh_size section in
        if end_offset = ucast paddr then (Inr (binary_size, needs_padding), output)
        else
          let binary_size = (if end_offset > binary_size then end_offset else binary_size) in
          write_section elf append_fn section offset end_offset (binary_size, needs_padding) output)"

definition transpile_section ::
  "('p, 'c) ElfBytes \<Rightarrow> ('p, 'c) append_fn \<Rightarrow> ProgramHeader list \<Rightarrow> nat \<Rightarrow> SectionHeader
     \<Rightarrow> usize \<times> bool \<Rightarrow> u8 list \<Rightarrow> (('p, 'c) Failure, usize \<times> bool, u8 list) outcome" where
  "transpile_section elf append_fn segs i section acc output =
     (if sh_type section = SHT_PROGBITS \<and> (ucast (sh_flags section) AND SHF_ALLOC) \<noteq> 0 then
        case find (segment_contains section) segs of
          None \<Rightarrow> (Inl (Returned (NoSegmentForSection i)), output)
        | Some segment \<Rightarrow> place_section elf append_fn section segment acc output
      else (Inr acc, output))"

fun transpile_sections ::
  "('p, 'c) ElfBytes \<Rightarrow> ('p, 'c) append_fn \<Rightarrow> ProgramHeader list \<Rightarrow> nat \<Rightarrow> SectionHeader list
     \<Rightarrow> usize \<times> bool \<Rightarrow> u8 list \<Rightarrow> (('p, 'c) Failure, usize \<times> bool, u8 list) outcome" where
  "transpile_sections elf append_fn segs i [] acc output = (Inr acc, output)"
| "transpile_sections elf append_fn segs i (section # sections) acc output =
     (case transpile_section elf append_fn segs i section acc output of
        (Inl e, output) \<Rightarrow> (Inl e, output)
      | (Inr acc, output) \<Rightarrow>
          transpile_sections elf append_fn segs (Suc i) sections acc output)"

definition elf_transpiler_impl ::
  "(u8 list \<Rightarrow> 'p + ('p, 'c) ElfBytes) \<Rightarrow> u8 list \<Rightarrow> u8 list \<Rightarrow> ('p, 'c) append_fn
     \<Rightarrow> (('p, 'c) Failure, usize, u8 list) outcome" where
  "elf_transpiler_impl minimal_parse elf output append_fn =
     (case minimal_parse elf of
        Inl e \<Rightarrow> (Inl (Returned (ErrorParsingELF e)), output)
      | Inr elf_bytes \<Rightarrow>
          (case segments elf_bytes of
             None \<Rightarrow> (Inl (Returned NoProgramHeader), output)
           | Some segs \<Rightarrow>
               (case section_headers elf_bytes of
                  None \<Rightarrow> (Inl (Returned NoSectionHeader), output)
                | Some sections \<Rightarrow>
                    if e_machine elf_bytes \<noteq> EM_RISCV \<or> \<not> class_elf32 elf_bytes
                    then (Inl (Returned InvalidPlatform), output)
                    else
                      (case transpile_sections elf_bytes append_fn segs 0 sections (0, False) output of
                         (Inl e, output) \<Rightarrow> (Inl e, output)
                       | (Inr (binary_size, needs_padding), output) \<Rightarrow>
                           if needs_padding then
                             (case append_fn output binary_size [0, 0] of
                                (Inl e, output) \<Rightarrow> (Inl e, output)
                              | (Inr _, output) \<Rightarrow> (Inr (binary_size + 2), output))
                           else (Inr binary_size, output)))))"

definition append_slice :: "('p, 'c) append_fn" where
  "append_slice output offset bytes =
     (let stop = offset + of_nat (length bytes) in
      if offset \<le> stop \<and> unat stop \<le> length output
      then (Inr (), slice_put output (unat offset) bytes)
      else (Inl (Returned BufferTooSmall), output))"

definition append_vec :: "('p, 'c) append_fn" where
  "append_vec output offset bytes = (Inr (), output @ bytes)"

definition transpile_elf ::
  "(u8 list \<Rightarrow> 'p + ('p, 'c) ElfBytes) \<Rightarrow> u8 list \<Rightarrow> u8 list
     \<Rightarrow> (('p, 'c) Failure, usize, u8 list) outcome" where
  "transpile_elf minimal_parse elf output = elf_transpiler_impl minimal_parse elf output append_slice"

definition transpile_elf_vec ::
  "(u8 list \<Rightarrow> 'p + ('p, 'c) ElfBytes) \<Rightarrow> u8 list \<Rightarrow> ('p, 'c) Failure + u8 list" where
  "transpile_elf_vec minimal_parse elf =
     (case elf_transpiler_impl minimal_parse elf [] append_vec of
        (Inl e, output) \<Rightarrow> Inl e
      | (Inr _, output) \<Rightarrow> Inr output)"

end
