(* ===== verification/Transpiled_Code.thy ===== *)
theory Transpiled_Code
  imports Transpiler
begin

text \<open>
  What \<open>transpile_raw\<close> computes. The loop works in place on an index; \<open>transpile_stream\<close> is the same
  computation on the bytes that are left, without an index and without a buffer that changes. The
  refinement lemma relates the two, and the lemmas on instruction boundaries follow from the
  stream: a buffer that was transpiled holds, at every boundary of the RISC-V code, the Embive
  encoding of the instruction that was there, and every instruction keeps its place.
\<close>

section \<open>The stream of instructions\<close>

definition riscv_word :: "u8 list \<Rightarrow> u32" where
  "riscv_word bs =
     (if length bs < 4 then ucast (from_le_bytes (take 2 bs) :: u16) else from_le_bytes (take 4 bs))"

function transpile_stream :: "u8 list \<Rightarrow> ('p, 'c) Failure + bool \<times> u8 list" where
  "transpile_stream bs =
     (if length bs < 2 then Inr (False, bs)
      else
        (case convert (riscv_word bs) of
           Inl e \<Rightarrow> Inl (Returned e)
         | Inr instruction \<Rightarrow>
             let n = size_bytes (raw_size instruction) in
             if n > length bs then Inl Panicked
             else
               (case transpile_stream (drop n bs) of
                  Inl e \<Rightarrow> Inl e
                | Inr (p, out) \<Rightarrow>
                    Inr (p \<or> length bs < 4, take n (to_le_bytes (raw_data instruction)) @ out))))"
  by pat_completeness auto

termination transpile_stream
  by (relation "measure length") (auto simp: not_less size_bytes_bounds(1) intro!: diff_less)

declare transpile_stream.simps [simp del]

lemma transpile_inst_stream:
  assumes "i + 2 \<le> length code"
  shows "transpile_inst code i b =
    (case convert (riscv_word (drop i code)) of
       Inl e \<Rightarrow> (Inl (Returned e), code)
     | Inr instruction \<Rightarrow>
         let n = size_bytes (raw_size instruction) in
         if n > length (drop i code) then (Inl Panicked, code)
         else (Inr (i + n, b \<or> length (drop i code) < 4),
               slice_put code i (take n (to_le_bytes (raw_data instruction)))))"
proof -
  have 4: "length (drop i code) < 4 \<longleftrightarrow> i + 4 > length code" using assms by auto
  have n: "n > length (drop i code) \<longleftrightarrow> i + n > length code" for n using assms by auto
  show ?thesis
    unfolding transpile_inst_def riscv_word_def 4 n
    by (simp add: slice_get_def Let_def split: sum.split)
qed

lemma transpile_loop_stream:
  assumes "i \<le> length code"
  shows "case transpile_loop code i b :: (('p, 'c) Failure, bool, u8 list) outcome of
      (Inl e, code') \<Rightarrow> transpile_stream (drop i code) = Inl e
    | (Inr p, code') \<Rightarrow> \<exists>p' out.
        (transpile_stream (drop i code) :: ('p, 'c) Failure + bool \<times> u8 list) = Inr (p', out)
        \<and> p = (b \<or> p') \<and> code' = take i code @ out"
  using assms
proof (induction "length code - i" arbitrary: code i b rule: less_induct)
  case (less code i b)
  show ?case
  proof (cases "i + 2 \<le> length code")
    case False
    then have "length (drop i code) < 2" by simp
    with False show ?thesis
      using less(2)
      by (simp only: transpile_loop.simps transpile_stream.simps [of "drop i code"] if_True if_False)
         (simp, blast)
  next
    case True
    then have len: "\<not> length (drop i code) < 2" by simp
    note inst = transpile_inst_stream [OF True, where ?'a = 'p and ?'b = 'c]
    show ?thesis
    proof (cases "convert (riscv_word (drop i code)) :: ('p, 'c) converted")
      case (Inl e)
      with len True inst show ?thesis
        by (simp add: transpile_loop.simps transpile_stream.simps [of "drop i code"])
    next
      case (Inr instruction)
      define n where "n = size_bytes (raw_size instruction)"
      define bytes where "bytes = take n (to_le_bytes (raw_data instruction))"
      have n: "length bytes = n" by (simp add: bytes_def n_def)
      show ?thesis
      proof (cases "n > length (drop i code)")
        case True
        with len \<open>i + 2 \<le> length code\<close> inst Inr show ?thesis
          by (simp add: transpile_loop.simps transpile_stream.simps [of "drop i code"] n_def)
      next
        case False
        define code' where "code' = slice_put code i bytes"
        have j: "i + n \<le> length code" using False \<open>i + 2 \<le> length code\<close> by simp
        have len': "length code' = length code" using j n by (simp add: code'_def)
        have inst': "(transpile_inst code i b :: (('p, 'c) Failure, nat \<times> bool, u8 list) outcome) =
            (Inr (i + n, b \<or> length (drop i code) < 4), code')"
          using inst Inr False by (simp add: n_def bytes_def code'_def Let_def)
        have drop: "drop (i + n) code' = drop n (drop i code)"
          using j n by (simp add: code'_def slice_put_def add.commute)
        have take: "take (i + n) code' = take i code @ bytes"
          using j n by (simp add: code'_def slice_put_def)
        have stream: "(transpile_stream (drop i code) :: ('p, 'c) Failure + bool \<times> u8 list) =
            (case transpile_stream (drop n (drop i code)) of
               Inl e \<Rightarrow> Inl e
             | Inr (p, out) \<Rightarrow> Inr (p \<or> length (drop i code) < 4, bytes @ out))"
          unfolding bytes_def n_def
          using len Inr False by (subst transpile_stream.simps) (simp add: n_def Let_def)
        have loop: "(transpile_loop code i b :: (('p, 'c) Failure, bool, u8 list) outcome) =
            transpile_loop code' (i + n) (b \<or> length (drop i code) < 4)"
          using \<open>i + 2 \<le> length code\<close> inst' by (subst transpile_loop.simps) simp
        have IH: "case transpile_loop code' (i + n) (b \<or> length (drop i code) < 4)
                :: (('p, 'c) Failure, bool, u8 list) outcome of
              (Inl e, code2) \<Rightarrow> transpile_stream (drop n (drop i code)) = Inl e
            | (Inr p, code2) \<Rightarrow> \<exists>p' out.
                (transpile_stream (drop n (drop i code)) :: ('p, 'c) Failure + bool \<times> u8 list) = Inr (p', out)
                \<and> p = ((b \<or> length (drop i code) < 4) \<or> p') \<and> code2 = (take i code @ bytes) @ out"
          using less(1) [of code' "i + n" "b \<or> length (drop i code) < 4"] j len'
            \<open>i + 2 \<le> length code\<close> size_bytes_bounds(1) [of "raw_size instruction"]
          unfolding drop take by (simp add: n_def)
        show ?thesis
          unfolding loop stream using IH by (auto split: prod.splits sum.splits)
      qed
    qed
  qed
qed

lemma transpile_raw_stream:
  fixes code :: "u8 list" and e :: "('p, 'c) Failure"
  shows transpile_raw_Inr:
      "(transpile_raw code :: (('p, 'c) Failure, bool, u8 list) outcome) = (Inr p, code') \<longleftrightarrow>
         (transpile_stream code :: ('p, 'c) Failure + bool \<times> u8 list) = Inr (p, code')"
    and transpile_raw_Inl:
      "fst (transpile_raw code :: (('p, 'c) Failure, bool, u8 list) outcome) = Inl e \<longleftrightarrow>
         transpile_stream code = Inl e"
  using transpile_loop_stream [of 0 code False, where ?'p = 'p and ?'c = 'c]
  by (auto simp: transpile_raw_def split: prod.splits sum.splits)

lemma transpile_loop_length:
  "length (snd (transpile_loop code i b :: (('p, 'c) Failure, bool, u8 list) outcome)) = length code"
proof (induction "length code - i" arbitrary: code i b rule: less_induct)
  case (less code i b)
  show ?case
  proof (cases "i + 2 \<le> length code")
    case True
    obtain r code' where r: "transpile_inst code i b = (r :: ('p, 'c) Failure + nat \<times> bool, code')"
      by fastforce
    show ?thesis
    proof (cases r)
      case (Inl e)
      with r have "code' = code"
        by (auto simp: transpile_inst_def Let_def split: if_splits sum.splits)
      with r Inl True show ?thesis by (subst transpile_loop.simps) simp
    next
      case (Inr p)
      obtain j b' where p: "p = (j, b')" by fastforce
      note prog = transpile_inst_progress [OF r [unfolded Inr p]]
      then have "length (snd (transpile_loop code' j b' :: (('p, 'c) Failure, bool, u8 list) outcome))
          = length code'"
        by (intro less) (use prog in simp)
      with r Inr p True prog show ?thesis by (subst transpile_loop.simps) simp
    qed
  next
    case False
    then show ?thesis by (subst transpile_loop.simps) simp
  qed
qed

lemma transpile_raw_length:
  "length (snd (transpile_raw code :: (('p, 'c) Failure, bool, u8 list) outcome)) = length code"
  by (simp add: transpile_raw_def transpile_loop_length)

section \<open>Instruction boundaries\<close>

text \<open>
  Where the instructions of a RISC-V code buffer start: an instruction has two bytes unless the
  two low bits of its first byte are both set.
\<close>

definition riscv_length :: "u8 \<Rightarrow> nat" where
  "riscv_length b = (if b AND 0b11 = 0b11 then 4 else 2)"

inductive boundary :: "u8 list \<Rightarrow> nat \<Rightarrow> bool" for code :: "u8 list" where
  boundary_start: "boundary code 0"
| boundary_next: "boundary code i \<Longrightarrow> i + 2 \<le> length code \<Longrightarrow>
     boundary code (i + riscv_length (code ! i))"

lemma low_bits_set:
  "w AND 3 = 3 \<longleftrightarrow> bit w 0 \<and> bit w 1" for w :: u32
  by (simp add: bit_blast)

lemma low_bits_set_u8: "b AND 3 = 3 \<longleftrightarrow> bit b 0 \<and> bit b 1" for b :: u8
  by (simp add: bit_blast)

lemma low_bits_first_byte:
  assumes "2 \<le> length bs"
  shows "riscv_word bs AND 3 = 3 \<longleftrightarrow> hd bs AND 3 = 3"
proof -
  have "bit (riscv_word bs) n = bit (hd bs) n" if "n < 8" for n
    using assms that by (cases bs) (auto simp: riscv_word_def bit_from_le_bytes bit_simps)
  then show ?thesis by (simp add: low_bits_set low_bits_set_u8)
qed

lemma convert_riscv_word:
  assumes "2 \<le> length bs" "(convert (riscv_word bs) :: ('p, 'c) converted) = Inr raw"
  obtains i where "inst_wf i" "raw = embive_raw i" "size_bytes (inst_size i) = riscv_length (hd bs)"
proof -
  obtain i where i: "inst_wf i" "raw = embive_raw i"
      "inst_size i = (if riscv_word bs AND 3 = 3 then Word else Half)"
    using assms(2) by (rule convert_InrE)
  with low_bits_first_byte [OF assms(1)] that show thesis
    by (simp add: riscv_length_def size_bytes_def)
qed

text \<open>At a boundary of a buffer that was transpiled, the stream goes on with the bytes after it.\<close>

lemma stream_step:
  assumes "2 \<le> length bs"
    and "(transpile_stream bs :: ('p, 'c) Failure + bool \<times> u8 list) = Inr (p, out)"
  obtains i p' out' where
    "inst_wf i" "(convert (riscv_word bs) :: ('p, 'c) converted) = Inr (embive_raw i)"
    "size_bytes (inst_size i) = riscv_length (hd bs)" "riscv_length (hd bs) \<le> length bs"
    "(transpile_stream (drop (riscv_length (hd bs)) bs) :: ('p, 'c) Failure + bool \<times> u8 list)
       = Inr (p', out')"
    "out = take (riscv_length (hd bs)) (to_le_bytes (encode_raw i)) @ out'"
proof -
  obtain raw where raw: "(convert (riscv_word bs) :: ('p, 'c) converted) = Inr raw"
    using assms by (auto simp: transpile_stream.simps [of bs] split: sum.splits)
  then obtain i where i: "inst_wf i" "raw = embive_raw i"
      "size_bytes (inst_size i) = riscv_length (hd bs)"
    using convert_riscv_word [OF assms(1)] by blast
  with raw assms that show thesis
    by (auto simp: transpile_stream.simps [of bs] Let_def embive_raw_def split: if_splits sum.splits)
qed

lemma stream_boundary:
  assumes "(transpile_stream code :: ('p, 'c) Failure + bool \<times> u8 list) = Inr (p, out)"
    and "boundary code i"
  shows "i \<le> length code \<and>
    (\<exists>p'. (transpile_stream (drop i code) :: ('p, 'c) Failure + bool \<times> u8 list) = Inr (p', drop i out))"
  using assms(2)
proof induction
  case boundary_start
  then show ?case using assms(1) by simp
next
  case (boundary_next i)
  define bs where "bs = drop i code"
  have bs: "2 \<le> length bs" "hd bs = code ! i"
    using boundary_next by (simp_all add: bs_def hd_drop_conv_nth)
  from boundary_next obtain p' where
    "(transpile_stream bs :: ('p, 'c) Failure + bool \<times> u8 list) = Inr (p', drop i out)"
    by (auto simp: bs_def)
  then obtain inst p2 out2 where *: "inst_wf inst"
      "(convert (riscv_word bs) :: ('p, 'c) converted) = Inr (embive_raw inst)"
      "size_bytes (inst_size inst) = riscv_length (hd bs)" "riscv_length (hd bs) \<le> length bs"
      "(transpile_stream (drop (riscv_length (hd bs)) bs) :: ('p, 'c) Failure + bool \<times> u8 list)
         = Inr (p2, out2)"
      "drop i out = take (riscv_length (hd bs)) (to_le_bytes (encode_raw inst)) @ out2"
    by (rule stream_step [OF bs(1)])
  have "out2 = drop (riscv_length (hd bs)) (drop i out)"
    unfolding *(6) *(3) [symmetric] by simp
  then have "(transpile_stream (drop (i + riscv_length (code ! i)) code)
      :: ('p, 'c) Failure + bool \<times> u8 list) = Inr (p2, drop (i + riscv_length (code ! i)) out)"
    using *(5) by (simp add: bs_def bs(2) [unfolded bs_def] add.commute)
  moreover have "i + riscv_length (code ! i) \<le> length code"
    using *(4) boundary_next by (simp add: bs(2)) (simp add: bs_def)
  ultimately show ?case by blast
qed

theorem transpiled_instruction:
  assumes "(transpile_raw code :: (('p, 'c) Failure, bool, u8 list) outcome) = (Inr p, code')"
    and "boundary code i" "i + 2 \<le> length code"
  obtains inst where
    "inst_wf inst" "(convert (riscv_word (drop i code)) :: ('p, 'c) converted) = Inr (embive_raw inst)"
    "i + size_bytes (inst_size inst) \<le> length code'"
    "slice_get code' i (i + size_bytes (inst_size inst)) =
       take (size_bytes (inst_size inst)) (to_le_bytes (encode_raw inst))"
proof -
  have len: "length code' = length code"
    using transpile_raw_length [of code, where ?'p = 'p and ?'c = 'c] assms(1) by simp
  have "(transpile_stream code :: ('p, 'c) Failure + bool \<times> u8 list) = Inr (p, code')"
    using assms(1) transpile_raw_Inr by blast
  from stream_boundary [OF this assms(2)] obtain p' where drop:
    "(transpile_stream (drop i code) :: ('p, 'c) Failure + bool \<times> u8 list) = Inr (p', drop i code')"
    by blast
  have "2 \<le> length (drop i code)" using assms(3) by simp
  then obtain inst p2 out where *: "inst_wf inst"
      "(convert (riscv_word (drop i code)) :: ('p, 'c) converted) = Inr (embive_raw inst)"
      "size_bytes (inst_size inst) = riscv_length (hd (drop i code))"
      "riscv_length (hd (drop i code)) \<le> length (drop i code)"
      "(transpile_stream (drop (riscv_length (hd (drop i code))) (drop i code))
         :: ('p, 'c) Failure + bool \<times> u8 list) = Inr (p2, out)"
      "drop i code' = take (riscv_length (hd (drop i code))) (to_le_bytes (encode_raw inst)) @ out"
    using drop by (rule stream_step)
  show thesis
  proof (rule that [OF *(1,2)])
    show "i + size_bytes (inst_size inst) \<le> length code'"
      using *(3,4) len assms(3) by simp
    show "slice_get code' i (i + size_bytes (inst_size inst)) =
        take (size_bytes (inst_size inst)) (to_le_bytes (encode_raw inst))"
      unfolding slice_get_def *(6) *(3) [symmetric] by simp
  qed
qed

end
