(* ===== verification/Elf_Layout.thy ===== *)
theory Elf_Layout
  imports Transpiled_Code
begin

text \<open>
  Facts about the placement of the sections of an ELF file: where a transpilation of a code buffer
  panics, and the bounds of the output. The buffer of \<open>transpile_elf\<close> never changes its length, and
  the size that is reported fits into it, provided that the ELF parser returns as many bytes for each
  section that is loaded as its header says.
\<close>

section \<open>Truncated instructions\<close>

definition truncated :: "u8 list \<Rightarrow> nat \<Rightarrow> bool" where
  "truncated code i \<longleftrightarrow>
     boundary code i \<and> i + 2 \<le> length code \<and> length code < i + riscv_length (code ! i)"

lemma boundary_drop:
  assumes "boundary (drop n code) j" "boundary code n" "n \<le> length code"
  shows "boundary code (n + j)"
  using assms(1)
proof induction
  case boundary_start
  then show ?case using assms(2) by simp
next
  case (boundary_next i)
  then have "boundary code (n + i + riscv_length (code ! (n + i)))"
    using boundary.boundary_next [of code "n + i"] assms(3) by simp
  with boundary_next assms(3) show ?case by (simp add: add.assoc)
qed

lemma truncated_drop:
  "truncated (drop n code) j \<Longrightarrow> boundary code n \<Longrightarrow> n \<le> length code \<Longrightarrow> truncated code (n + j)"
  by (auto simp: truncated_def boundary_drop)

lemma stream_panics:
  assumes "(transpile_stream bs :: ('p, 'c) Failure + bool \<times> u8 list) = Inl Panicked"
  shows "\<exists>i. truncated bs i"
  using assms
proof (induction "length bs" arbitrary: bs rule: less_induct)
  case less
  have len: "2 \<le> length bs"
    using less(2) by (auto simp: transpile_stream.simps [of bs] split: if_splits)
  obtain raw where raw: "(convert (riscv_word bs) :: ('p, 'c) converted) = Inr raw"
    using less(2) by (auto simp: transpile_stream.simps [of bs] split: if_splits sum.splits)
  then have n: "size_bytes (raw_size raw) = riscv_length (hd bs)"
    using convert_riscv_word [OF len raw] by (metis RawInstruction.select_convs(2) embive_raw_def)
  have hd: "hd bs = bs ! 0" using len by (cases bs) auto
  show ?case
  proof (cases "riscv_length (hd bs) \<le> length bs")
    case False
    then have "truncated bs 0" using len by (simp add: truncated_def boundary_start hd)
    then show ?thesis by blast
  next
    case True
    with less(2) len raw have "(transpile_stream (drop (riscv_length (hd bs)) bs)
        :: ('p, 'c) Failure + bool \<times> u8 list) = Inl Panicked"
      by (auto simp: transpile_stream.simps [of bs] Let_def n not_less split: sum.splits)
    moreover have "0 < riscv_length (hd bs)" by (simp add: riscv_length_def)
    ultimately obtain i where "truncated (drop (riscv_length (hd bs)) bs) i"
      using less(1) [of "drop (riscv_length (hd bs)) bs"] True len by fastforce
    moreover have "boundary bs (riscv_length (hd bs))"
      using boundary_next [OF boundary_start, of bs] len by (simp add: hd)
    ultimately show ?thesis using truncated_drop True by blast
  qed
qed

lemma truncated_not_transpiled:
  assumes "truncated code i"
  shows "(transpile_stream code :: ('p, 'c) Failure + bool \<times> u8 list) \<noteq> Inr (p, out)"
proof
  assume "(transpile_stream code :: ('p, 'c) Failure + bool \<times> u8 list) = Inr (p, out)"
  from stream_boundary [OF this] assms obtain p' where
    "(transpile_stream (drop i code) :: ('p, 'c) Failure + bool \<times> u8 list) = Inr (p', drop i out)"
    by (auto simp: truncated_def)
  moreover have "2 \<le> length (drop i code)" using assms by (auto simp: truncated_def)
  ultimately have "riscv_length (hd (drop i code)) \<le> length (drop i code)"
    using stream_step by blast
  with assms show False by (auto simp: truncated_def hd_drop_conv_nth)
qed

section \<open>Bounds of the output\<close>

text \<open>
  The sections that go into the binary hold data of the program in the file. What the ELF parser
  documents of their data, if it is not compressed: as many bytes as the header says. This is not so
  for other sections, like \<^verbatim>\<open>.bss\<close>, whose data is empty whatever their size.
\<close>

definition loadable :: "SectionHeader \<Rightarrow> bool" where
  "loadable section \<longleftrightarrow> sh_type section = SHT_PROGBITS \<and> ucast (sh_flags section) AND SHF_ALLOC \<noteq> 0"

definition sized_section :: "('p, 'c) ElfBytes \<Rightarrow> SectionHeader \<Rightarrow> bool" where
  "sized_section elf section \<longleftrightarrow>
     (case section_data elf section of
        Inr (bytes, None) \<Rightarrow> length bytes = unat (sh_size section)
      | _ \<Rightarrow> True)"

definition section_data_sized :: "('p, 'c) ElfBytes \<Rightarrow> bool" where
  "section_data_sized elf \<longleftrightarrow>
     (case section_headers elf of
        None \<Rightarrow> True
      | Some sections \<Rightarrow> \<forall>section\<in>set sections. loadable section \<longrightarrow> sized_section elf section)"

lemma append_slice_cases:
  assumes "append_slice output offset bytes = (r, output')" "length bytes < 2 ^ 64"
  shows "(\<exists>e. r = Inl e) \<and> output' = output
    \<or> r = Inr () \<and> output' = slice_put output (unat offset) bytes
      \<and> unat (offset + of_nat (length bytes)) = unat offset + length bytes
      \<and> unat offset + length bytes \<le> length output"
proof (cases "offset \<le> offset + of_nat (length bytes) \<and>
    unat (offset + of_nat (length bytes)) \<le> length output")
  case True
  have "unat (of_nat (length bytes) :: usize) = length bytes"
    using assms(2) by (simp add: unat_of_nat)
  with True have "unat (offset + of_nat (length bytes)) = unat offset + length bytes"
    by (simp add: unat_plus_simple)
  with True assms(1) show ?thesis by (auto simp: append_slice_def Let_def)
next
  case False
  with assms(1) show ?thesis by (auto simp: append_slice_def Let_def)
qed

text \<open>Writing a section keeps the length, and on success the section lies inside the output.\<close>

lemma write_section_bounds:
  fixes elf :: "('p, 'c) ElfBytes"
  assumes sized: "sized_section elf section"
    and w: "write_section elf append_slice section offset (offset + sh_size section) (n, p) output = (r, output')"
  shows "length output' = length output
    \<and> (\<forall>n' p'. r = Inr (n', p') \<longrightarrow> n' = n \<and> unat (offset + sh_size section) \<le> length output)"
proof (cases "section_data elf section")
  case (Inl e)
  with w show ?thesis by (auto simp: write_section_def)
next
  case (Inr d)
  obtain bytes c where d: "d = (bytes, c)" by fastforce
  show ?thesis
  proof (cases c)
    case (Some compression)
    with w Inr d show ?thesis by (auto simp: write_section_def)
  next
    case None
    with sized Inr d have len: "length bytes = unat (sh_size section)"
      by (simp add: sized_section_def)
    then have small: "length bytes < 2 ^ 64" using unsigned_less [of "sh_size section"] by simp
    have stop: "offset + of_nat (length bytes) = offset + sh_size section" by (simp add: len)
    obtain ra out2 where ap: "append_slice output offset bytes = (ra :: ('p, 'c) Failure + unit, out2)"
      by fastforce
    from append_slice_cases [OF ap small] show ?thesis
    proof (elim disjE conjE exE)
      fix e assume "ra = Inl e" "out2 = output"
      with w Inr d None ap show ?thesis by (auto simp: write_section_def Let_def)
    next
      assume ok: "ra = Inr ()" "out2 = slice_put output (unat offset) bytes"
        "unat (offset + of_nat (length bytes)) = unat offset + length bytes"
        "unat offset + length bytes \<le> length output"
      have len2: "length out2 = length output" using ok by simp
      have end_le: "unat (offset + sh_size section) \<le> length output"
        using ok(3,4) unfolding stop by simp
      have le: "unat offset \<le> unat (offset + sh_size section)"
        using ok(3) unfolding stop by simp
      have put: "length (slice_put out2 (unat offset) code) = length output"
        if "length code = unat (offset + sh_size section) - unat offset" for code
        using that le end_le len2 by simp
      define raw where "raw = (transpile_raw (slice_get out2 (unat offset)
        (unat (offset + sh_size section))) :: (('p, 'c) Failure, bool, u8 list) outcome)"
      have raw_len: "length (snd raw) = unat (offset + sh_size section) - unat offset"
        unfolding raw_def transpile_raw_length using le end_le len2 by simp
      show ?thesis
        using w Inr d None ap ok(1) len2 end_le put [OF raw_len]
        unfolding write_section_def raw_def [symmetric]
        by (cases raw) (auto simp: Let_def raw_def split: if_splits sum.splits)
    qed
  qed
qed

lemma place_section_bounds:
  assumes sized: "sized_section elf section"
    and place: "place_section elf append_slice section segment (n, p) output = (r, output')"
    and n: "unat n \<le> length output"
  shows "length output' = length output \<and> (\<forall>n' p'. r = Inr (n', p') \<longrightarrow> unat n' \<le> length output)"
proof -
  define offset where "offset = (ucast (div_ceil (ucast (sh_addr section) - ucast (p_vaddr segment)
      + ucast (p_paddr segment) - (ucast (e_entry elf) :: u32)) (ucast (sh_addralign section))
      * ucast (sh_addralign section)) :: usize)"
  consider (unchanged) "output' = output" "r = Inl Panicked \<or> r = Inr (n, p)"
    | (written) m where "m = offset + sh_size section \<or> m = n"
      "write_section elf append_slice section offset (offset + sh_size section) (m, p) output = (r, output')"
    using place unfolding place_section_def Let_def prod.case offset_def [symmetric]
    by (auto split: if_splits)
  then show ?thesis
  proof cases
    case unchanged
    with n show ?thesis by auto
  next
    case written
    with n write_section_bounds [OF sized written(2)] show ?thesis by auto
  qed
qed

lemma transpile_sections_bounds:
  assumes "\<And>section. section \<in> set sections \<Longrightarrow> loadable section \<Longrightarrow> sized_section elf section"
    and "transpile_sections elf append_slice segs i sections (n, p) out = (r, out')"
    and "unat n \<le> length out"
  shows "length out' = length out \<and> (\<forall>n' p'. r = Inr (n', p') \<longrightarrow> unat n' \<le> length out)"
  using assms
proof (induction sections arbitrary: i n p out)
  case Nil
  then show ?case by auto
next
  case (Cons head rest)
  obtain r1 out1 where head: "transpile_section elf append_slice segs i head (n, p) out = (r1, out1)"
    by fastforce
  then have bounds: "length out1 = length out
      \<and> (\<forall>n' p'. r1 = Inr (n', p') \<longrightarrow> unat n' \<le> length out)"
    using place_section_bounds [OF Cons.prems(1) [of head]] Cons.prems(3)
    by (auto simp: transpile_section_def loadable_def split: if_splits option.splits)
  show ?case
  proof (cases r1)
    case (Inl e)
    with head bounds Cons.prems show ?thesis by auto
  next
    case (Inr acc)
    obtain n1 p1 where acc: "acc = (n1, p1)" by fastforce
    have "transpile_sections elf append_slice segs (Suc i) rest (n1, p1) out1 = (r, out')"
      using Cons.prems(2) head Inr acc by simp
    from Cons.IH [OF Cons.prems(1) this] bounds Inr acc show ?thesis by auto
  qed
qed

lemma transpile_elf_bounds:
  fixes minimal_parse :: "u8 list \<Rightarrow> 'p + ('p, 'c) ElfBytes"
  assumes sized: "\<And>elf_bytes. minimal_parse elf = Inr elf_bytes \<Longrightarrow> section_data_sized elf_bytes"
    and t: "transpile_elf minimal_parse elf output = (r, output')"
  shows "length output' = length output \<and> (\<forall>n. r = Inr n \<longrightarrow> unat n \<le> length output)"
proof -
  consider (refused) e where "r = Inl e" "output' = output"
    | (sections) elf_bytes segs sections r1 output1 where
        "minimal_parse elf = Inr elf_bytes" "section_headers elf_bytes = Some sections"
        "transpile_sections elf_bytes append_slice segs 0 sections (0, False) output = (r1, output1)"
        "(r, output') =
          (case r1 of
             Inl e \<Rightarrow> (Inl e, output1)
           | Inr (n, p) \<Rightarrow>
               if p then
                 (case append_slice output1 n [0, 0] of
                    (Inl e, output2) \<Rightarrow> (Inl e, output2)
                  | (Inr _, output2) \<Rightarrow> (Inr (n + 2), output2))
               else (Inr n, output1))"
    using t
    by (auto simp: transpile_elf_def elf_transpiler_impl_def
        split: sum.splits option.splits if_splits prod.splits)
  then show ?thesis
  proof cases
    case sections
    have bounds: "length output1 = length output
        \<and> (\<forall>n' p'. r1 = Inr (n', p') \<longrightarrow> unat n' \<le> length output)"
      using transpile_sections_bounds [OF _ sections(3)] sized [OF sections(1)] sections(2)
      by (simp add: section_data_sized_def)
    show ?thesis
    proof (cases r1)
      case (Inl e)
      with sections(4) bounds show ?thesis by simp
    next
      case (Inr acc)
      obtain n p where acc: "acc = (n, p)" by fastforce
      obtain ra output2 where pad: "append_slice output1 n [0, 0] = (ra :: ('p, 'c) Failure + unit, output2)"
        by fastforce
      have small: "length ([0, 0] :: u8 list) < 2 ^ 64" by simp
      have "length output2 = length output1 \<and> (\<forall>u. ra = Inr u \<longrightarrow> unat (n + 2) \<le> length output1)"
        using append_slice_cases [OF pad small] by auto
      with Inr sections(4) bounds acc pad show ?thesis
        by (auto split: if_splits sum.splits)
    qed
  qed simp
qed

end
