(* ===== verification/Riscv_Compressed.thy ===== *)
theory Riscv_Compressed
  imports Riscv_Word
begin

text \<open>
  The 16-bit instructions: an instruction of the C extension is converted to an Embive instruction
  of its own, not to the instruction it expands to; executing it has the meaning of the expansion.
  With the 32-bit instructions this gives the refinement of the whole specification.
\<close>

section \<open>The parsed formats hold the fields of the specification\<close>

lemmas rvc_field_defs =
  field_def rvc_rd_def rvc_rs2_def  rvc_shamt_def rvc_imm_def
  rvc_imm_addi4spn_def rvc_imm_addi16sp_def rvc_imm_lui_def rvc_imm_lw_def rvc_imm_lwsp_def
  rvc_imm_swsp_def rvc_imm_branch_def rvc_imm_jump_def

lemma rvc_registers:
  "ucast (drop_bit 7 w AND 0b111) + COMPRESSED_REGISTER_OFFSET = rvc_rd1 w"
  "ucast (drop_bit 2 w AND 0b111) + COMPRESSED_REGISTER_OFFSET = rvc_rd2 w"
proof -
  have "x AND 0b111 = take_bit 3 x" for x :: u32
    by (simp add: take_bit_eq_mask mask_eq_exp_minus_1)
  then show "ucast (drop_bit 7 w AND 0b111) + COMPRESSED_REGISTER_OFFSET = rvc_rd1 w"
    "ucast (drop_bit 2 w AND 0b111) + COMPRESSED_REGISTER_OFFSET = rvc_rd2 w"
    by (simp_all only: rvc_rd1_def rvc_rd2_def field_def COMPRESSED_REGISTER_OFFSET_def add.commute)
qed

lemma bit_two: "bit w 2 = bit w (Suc (Suc 0))" for w :: u32
  by (simp add: numeral_2_eq_2)

lemma TypeCIW_fields:
  "TypeCIW_from_riscv w = \<lparr>ciw_rd = rvc_rd2 w, ciw_imm = rvc_imm_addi4spn w\<rparr>"
  by (rule TypeCIW.equality)
     (simp_all add: TypeCIW_from_riscv_def rvc_registers rvc_field_defs bit_blast bit_two
        flip: bit_iff_odd_drop_bit)

lemma TypeCL_fields:
  "TypeCL_from_riscv w = \<lparr>cl_rd_rs2 = rvc_rd2 w, cl_rs1 = rvc_rd1 w, cl_imm = rvc_imm_lw w\<rparr>"
  by (rule TypeCL.equality)
     (simp_all add: TypeCL_from_riscv_def rvc_registers rvc_field_defs bit_blast bit_two
        flip: bit_iff_odd_drop_bit)

lemma TypeCI1_fields:
  "TypeCI1_from_riscv w = \<lparr>ci1_rd_rs1 = rvc_rd w, ci1_imm = rvc_imm w\<rparr>"
  by (rule TypeCI1.equality)
     (simp_all add: TypeCI1_from_riscv_def rvc_registers rvc_field_defs bit_blast bit_two
        flip: bit_iff_odd_drop_bit)

lemma TypeCI2_fields:
  "TypeCI2_from_riscv w = \<lparr>ci2_rd_rs1 = rvc_rd w, ci2_imm = rvc_imm_addi16sp w\<rparr>"
  by (rule TypeCI2.equality)
     (simp_all add: TypeCI2_from_riscv_def rvc_registers rvc_field_defs bit_blast bit_two
        flip: bit_iff_odd_drop_bit)

lemma TypeCI3_fields:
  "TypeCI3_from_riscv w = \<lparr>ci3_rd_rs1 = rvc_rd w, ci3_imm = rvc_imm_lui w\<rparr>"
  by (rule TypeCI3.equality)
     (simp_all add: TypeCI3_from_riscv_def rvc_registers rvc_field_defs bit_blast bit_two
        flip: bit_iff_odd_drop_bit)

lemma TypeCI4_fields:
  "TypeCI4_from_riscv w = \<lparr>ci4_rd_rs1 = rvc_rd w, ci4_imm = rvc_shamt w\<rparr>"
  by (rule TypeCI4.equality)
     (simp_all add: TypeCI4_from_riscv_def rvc_registers rvc_field_defs bit_blast bit_two
        flip: bit_iff_odd_drop_bit)

lemma TypeCI5_fields:
  "TypeCI5_from_riscv w = \<lparr>ci5_rd_rs1 = rvc_rd w, ci5_imm = rvc_imm_lwsp w\<rparr>"
  by (rule TypeCI5.equality)
     (simp_all add: TypeCI5_from_riscv_def rvc_registers rvc_field_defs bit_blast bit_two
        flip: bit_iff_odd_drop_bit)

lemma TypeCB1_fields:
  "TypeCB1_from_riscv w = \<lparr>cb1_rd_rs1 = rvc_rd1 w, cb1_imm = rvc_shamt w\<rparr>"
  by (rule TypeCB1.equality)
     (simp_all add: TypeCB1_from_riscv_def rvc_registers rvc_field_defs bit_blast bit_two
        flip: bit_iff_odd_drop_bit)

lemma TypeCB2_fields:
  "TypeCB2_from_riscv w = \<lparr>cb2_rd_rs1 = rvc_rd1 w, cb2_imm = rvc_imm w\<rparr>"
  by (rule TypeCB2.equality)
     (simp_all add: TypeCB2_from_riscv_def rvc_registers rvc_field_defs bit_blast bit_two
        flip: bit_iff_odd_drop_bit)

lemma TypeCB4_fields:
  "TypeCB4_from_riscv w = \<lparr>cb4_rs1 = rvc_rd1 w, cb4_imm = rvc_imm_branch w\<rparr>"
  by (rule TypeCB4.equality)
     (simp_all add: TypeCB4_from_riscv_def rvc_registers rvc_field_defs bit_blast bit_two
        flip: bit_iff_odd_drop_bit)

lemma TypeCR_fields:
  "TypeCR_from_riscv w = \<lparr>cr_rd_rs1 = rvc_rd w, cr_rs2 = rvc_rs2 w\<rparr>"
  by (rule TypeCR.equality)
     (simp_all add: TypeCR_from_riscv_def rvc_registers rvc_field_defs bit_blast bit_two
        flip: bit_iff_odd_drop_bit)

lemma TypeCS_fields:
  "TypeCS_from_riscv w = \<lparr>cs_rd_rs1 = rvc_rd1 w, cs_rs2 = rvc_rd2 w\<rparr>"
  by (rule TypeCS.equality)
     (simp_all add: TypeCS_from_riscv_def rvc_registers rvc_field_defs bit_blast bit_two
        flip: bit_iff_odd_drop_bit)

lemma TypeCSS_fields:
  "TypeCSS_from_riscv w = \<lparr>css_rs2 = rvc_rs2 w, css_imm = rvc_imm_swsp w\<rparr>"
  by (rule TypeCSS.equality)
     (simp_all add: TypeCSS_from_riscv_def rvc_registers rvc_field_defs bit_blast bit_two
        flip: bit_iff_odd_drop_bit)

lemma TypeCJ_fields: "TypeCJ_from_riscv w = \<lparr>cj_imm = rvc_imm_jump w\<rparr>"
  by (rule TypeCJ.equality)
     (simp_all add: TypeCJ_from_riscv_def rvc_registers rvc_field_defs bit_blast bit_two
        flip: bit_iff_odd_drop_bit)

lemmas rvc_fields =
  TypeCIW_fields TypeCL_fields TypeCI1_fields TypeCI2_fields TypeCI3_fields TypeCI4_fields
  TypeCI5_fields TypeCB1_fields TypeCB2_fields TypeCB4_fields TypeCR_fields TypeCS_fields
  TypeCSS_fields TypeCJ_fields

section \<open>Execution\<close>

lemma rvc_register_numbers:
  "rvc_rd w < 32" "rvc_rs2 w < 32" "rvc_rd1 w < 32" "rvc_rd2 w < 32"
  "rvc_rd1 w \<noteq> 0" "rvc_rd2 w \<noteq> 0"
proof -
  show "rvc_rd w < 32" "rvc_rs2 w < 32"
    using fmt_TypeCR.from_riscv_wf [of w] by (simp_all add: TypeCR_wf_def TypeCR_fields register_number)
  show "rvc_rd1 w < 32" "rvc_rd2 w < 32"
    using fmt_TypeCS.from_riscv_wf [of w] by (simp_all add: TypeCS_wf_def TypeCS_fields register_number)
  have "bit (rvc_rd1 w) 3" "bit (rvc_rd2 w) 3"
    by (simp_all flip: rvc_registers add: COMPRESSED_REGISTER_OFFSET_def bit_compressed_register
        bit_simps)
  then show "rvc_rd1 w \<noteq> 0" "rvc_rd2 w \<noteq> 0" by auto
qed

lemma next_half: "next_instruction Half Running = (\<lambda>s. goto (program_counter s + 2) s)"
  by (rule ext) (simp add: next_instruction_def goto_def size_bytes_def)

lemma write_reg_update:
  assumes "i < 32" "i \<noteq> 0"
  shows "write_reg s i f k = k (write_x i (f (read_x s i)) s)"
  using assms by (simp add: write_reg_def write_x_def read_x_def)

lemma stack_pointer: "reg_index SP = 2" "reg_index RA = 1"
  by simp_all

text \<open>Arithmetic on the immediate and on registers.\<close>

lemmas rvc_exec =
  write_reg_update get_reg_read_x rvc_register_numbers next_half stack_pointer Let_def size_bytes_def

lemma execute_immediate:
  fixes s :: "'m Interpreter"
  assumes "f < (32 :: u8)"
  shows "execute_CAddi \<lparr>ci1_rd_rs1 = f, ci1_imm = imm\<rparr> s =
      goto (program_counter s + 2) (write_x f (read_x s f + imm) s)"
    "execute_CLi \<lparr>ci1_rd_rs1 = f, ci1_imm = imm\<rparr> s = goto (program_counter s + 2) (write_x f imm s)"
    "execute_CLui \<lparr>ci3_rd_rs1 = f, ci3_imm = imm\<rparr> s = goto (program_counter s + 2) (write_x f imm s)"
    "execute_CSlli \<lparr>ci4_rd_rs1 = f, ci4_imm = imm\<rparr> s =
      goto (program_counter s + 2) (write_x f (wrapping_shl (read_x s f) imm) s)"
    "execute_CSrli \<lparr>cb1_rd_rs1 = f, cb1_imm = imm\<rparr> s =
      goto (program_counter s + 2) (write_x f (wrapping_shr_u (read_x s f) imm) s)"
    "execute_CSrai \<lparr>cb1_rd_rs1 = f, cb1_imm = imm\<rparr> s =
      goto (program_counter s + 2) (write_x f (wrapping_shr_s (read_x s f) imm) s)"
    "execute_CAndi \<lparr>cb2_rd_rs1 = f, cb2_imm = imm\<rparr> s =
      goto (program_counter s + 2) (write_x f (read_x s f AND imm) s)"
  using assms by (cases "f = 0"; simp add: exec_defs rvc_exec del: get_reg_ok)+

lemma execute_registers:
  fixes s :: "'m Interpreter"
  assumes "f < (32 :: u8)" "g < (32 :: u8)" "f \<noteq> 0"
  shows "execute_CSub \<lparr>cs_rd_rs1 = f, cs_rs2 = g\<rparr> s =
      goto (program_counter s + 2) (write_x f (read_x s f - read_x s g) s)"
    "execute_CXor \<lparr>cs_rd_rs1 = f, cs_rs2 = g\<rparr> s =
      goto (program_counter s + 2) (write_x f (read_x s f XOR read_x s g) s)"
    "execute_COr \<lparr>cs_rd_rs1 = f, cs_rs2 = g\<rparr> s =
      goto (program_counter s + 2) (write_x f (read_x s f OR read_x s g) s)"
    "execute_CAnd \<lparr>cs_rd_rs1 = f, cs_rs2 = g\<rparr> s =
      goto (program_counter s + 2) (write_x f (read_x s f AND read_x s g) s)"
    "g \<noteq> 0 \<Longrightarrow> execute_CJrMv \<lparr>cr_rd_rs1 = f, cr_rs2 = g\<rparr> s =
      goto (program_counter s + 2) (write_x f (read_x s g) s)"
    "g \<noteq> 0 \<Longrightarrow> execute_CEbreakJalrAdd \<lparr>cr_rd_rs1 = f, cr_rs2 = g\<rparr> s =
      goto (program_counter s + 2) (write_x f (read_x s f + read_x s g) s)"
  using assms by (simp add: exec_defs rvc_exec del: get_reg_ok)+

lemma execute_CAddi4spn_spec:
  assumes "f < 32" "f \<noteq> 0" "imm \<noteq> 0"
  shows "execute_CAddi4spn \<lparr>ciw_rd = f, ciw_imm = imm\<rparr> s =
    goto (program_counter s + 2) (write_x f (read_x s 2 + imm) s)"
  using assms by (simp add: exec_defs rvc_exec del: get_reg_ok)

lemma execute_CAddi16sp_spec:
  "execute_CAddi16sp \<lparr>ci2_rd_rs1 = f, ci2_imm = imm\<rparr> s =
    goto (program_counter s + 2) (write_x 2 (read_x s 2 + imm) s)"
  by (simp add: exec_defs rvc_exec del: get_reg_ok)

text \<open>Loads and stores of words, and the accesses relative to the stack pointer.\<close>

lemma execute_memory:
  fixes s :: "'m Interpreter"
  assumes "f < (32 :: u8)" "g < (32 :: u8)"
  shows "f \<noteq> 0 \<Longrightarrow> execute_CLw M \<lparr>cl_rd_rs2 = f, cl_rs1 = g, cl_imm = imm\<rparr> s =
      rv_load M 2 f (read_x s g + imm) (\<lambda>v. v) s"
    "execute_CSw M \<lparr>cl_rd_rs2 = f, cl_rs1 = g, cl_imm = imm\<rparr> s =
      rv_store M 2 (read_x s g + imm) (read_x s f) s"
  using assms by (simp add: exec_defs rvc_exec rv_load_def rv_store_def del: get_reg_ok)+

lemma execute_stack:
  fixes s :: "'m Interpreter"
  assumes "f < (32 :: u8)"
  shows "f \<noteq> 0 \<Longrightarrow> execute_CLwsp M \<lparr>ci5_rd_rs1 = f, ci5_imm = imm\<rparr> s =
      rv_load M 2 f (read_x s 2 + imm) (\<lambda>v. v) s"
    "execute_CSwsp M \<lparr>css_rs2 = f, css_imm = imm\<rparr> s =
      rv_store M 2 (read_x s 2 + imm) (read_x s f) s"
  using assms by (simp add: exec_defs rvc_exec rv_load_def rv_store_def del: get_reg_ok)+

text \<open>Jumps and branches.\<close>

lemma execute_direct_jump:
  "execute_CJ \<lparr>cj_imm = imm\<rparr> s = goto (program_counter s + imm) s"
  "execute_CJal \<lparr>cj_imm = imm\<rparr> s =
    goto (program_counter s + imm) (write_x 1 (program_counter s + 2) s)"
  "execute_CEbreakJalrAdd \<lparr>cr_rd_rs1 = 0, cr_rs2 = 0\<rparr> s =
    (Inr Halted, s\<lparr>program_counter := program_counter s + 2\<rparr>)"
  by (simp_all add: exec_defs rvc_exec jump_relative_def goto_def next_instruction_def)

lemma execute_jump:
  fixes s :: "'m Interpreter"
  assumes "f < (32 :: u8)"
  shows "execute_CBeqz \<lparr>cb4_rs1 = f, cb4_imm = imm\<rparr> s =
      goto (if read_x s f = 0 then program_counter s + imm else program_counter s + 2) s"
    "execute_CBnez \<lparr>cb4_rs1 = f, cb4_imm = imm\<rparr> s =
      goto (if read_x s f \<noteq> 0 then program_counter s + imm else program_counter s + 2) s"
    "execute_CJrMv \<lparr>cr_rd_rs1 = f, cr_rs2 = 0\<rparr> s = goto (read_x s f) s"
    "f \<noteq> 0 \<Longrightarrow> execute_CEbreakJalrAdd \<lparr>cr_rd_rs1 = f, cr_rs2 = 0\<rparr> s =
      goto (read_x s f) (write_x 1 (program_counter s + 2) s)"
  using assms
  by (simp add: exec_defs rvc_exec jump_relative_def goto_def del: get_reg_ok)+

lemmas execute_compressed =
  execute_CAddi4spn_spec execute_CAddi16sp_spec execute_immediate execute_registers execute_memory execute_stack
  execute_direct_jump execute_jump

section \<open>Every 16-bit instruction\<close>

lemma compressed_fields:
  "c_funct3 w = ucast (field w 13 3)" "c_bit12 w = ucast (field w 12 1)"
  "c_bits11_10 w = ucast (field w 10 2)" "c_bits6_5 w = ucast (field w 5 2)"
  by (simp_all add: convert_defs field_def bit_blast flip: bit_iff_odd_drop_bit)

lemma field13_cases:
  "field w 13 3 = 0 \<or> field w 13 3 = 1 \<or> field w 13 3 = 2 \<or> field w 13 3 = 3 \<or>
   field w 13 3 = 4 \<or> field w 13 3 = 5 \<or> field w 13 3 = 6 \<or> field w 13 3 = 7"
  using field3_cases [of "drop_bit 1 w"] by (simp add: field_def)

lemma field2_cases: "field w k 2 = 0 \<or> field w k 2 = 1 \<or> field w k 2 = 2 \<or> field w k 2 = 3"
proof -
  have "unat (field w k 2) < 4"
    unfolding field_def unsigned_take_bit_eq by (simp add: take_bit_eq_mod)
  then show ?thesis by (simp add: word_unat_eq_iff) arith
qed

lemma field1_cases: "field w k 1 = 0 \<or> field w k 1 = 1"
proof -
  have "unat (field w k 1) < 2"
    unfolding field_def unsigned_take_bit_eq by (simp add: take_bit_eq_mod)
  then show ?thesis by (simp add: word_unat_eq_iff) arith
qed

lemma implements_embive:
  "inst_wf i \<Longrightarrow> execute M i s = r \<Longrightarrow> implements M (Inr (embive_raw i)) s r"
  by (rule implementsI [OF refl])

text \<open>The operations that expansions use.\<close>

lemma expansion_alu:
  "rv_alu 0 0 a b = Some (a + b)" "rv_alu 0x20 0 a b = Some (a - b)" "rv_alu 0 4 a b = Some (a XOR b)"
  "rv_alu 0 6 a b = Some (a OR b)" "rv_alu 0 7 a b = Some (a AND b)"
  "rv_alu_imm 0 0 a b = Some (a + b)" "rv_alu_imm 0 7 a b = Some (a AND b)"
  "rv_alu_imm 0 1 a b = Some (wrapping_shl a b)" "rv_alu_imm 0 5 a b = Some (wrapping_shr_u a b)"
  "rv_alu_imm 0x20 5 a b = Some (wrapping_shr_s a b)"
  "rv_branch 0 a b = Some (a = b)" "rv_branch 1 a b = Some (a \<noteq> b)"
  "rv_loads M n 2 rd addr s = Some (rv_load M n rd addr (\<lambda>v :: u32. v) s)"
  "rv_stores M n 2 addr v s = Some (rv_store M n addr v s)"
  by (simp_all add: rv_alu_imm_def rv_alu_def rv_branch_def rv_loads_def rv_stores_def of_sint_arith
      wrapping_shl_int wrapping_shr_u_int wrapping_shr_s_int)

lemma compressed_wf:
  "TypeCIW_wf \<lparr>ciw_rd = rvc_rd2 w, ciw_imm = rvc_imm_addi4spn w\<rparr>"
  "TypeCL_wf \<lparr>cl_rd_rs2 = rvc_rd2 w, cl_rs1 = rvc_rd1 w, cl_imm = rvc_imm_lw w\<rparr>"
  "TypeCI1_wf \<lparr>ci1_rd_rs1 = rvc_rd w, ci1_imm = rvc_imm w\<rparr>"
  "TypeCI2_wf \<lparr>ci2_rd_rs1 = rvc_rd w, ci2_imm = rvc_imm_addi16sp w\<rparr>"
  "TypeCI3_wf \<lparr>ci3_rd_rs1 = rvc_rd w, ci3_imm = rvc_imm_lui w\<rparr>"
  "TypeCI4_wf \<lparr>ci4_rd_rs1 = rvc_rd w, ci4_imm = rvc_shamt w\<rparr>"
  "TypeCI5_wf \<lparr>ci5_rd_rs1 = rvc_rd w, ci5_imm = rvc_imm_lwsp w\<rparr>"
  "TypeCB1_wf \<lparr>cb1_rd_rs1 = rvc_rd1 w, cb1_imm = rvc_shamt w\<rparr>"
  "TypeCB2_wf \<lparr>cb2_rd_rs1 = rvc_rd1 w, cb2_imm = rvc_imm w\<rparr>"
  "TypeCB4_wf \<lparr>cb4_rs1 = rvc_rd1 w, cb4_imm = rvc_imm_branch w\<rparr>"
  "TypeCR_wf \<lparr>cr_rd_rs1 = rvc_rd w, cr_rs2 = rvc_rs2 w\<rparr>"
  "TypeCS_wf \<lparr>cs_rd_rs1 = rvc_rd1 w, cs_rs2 = rvc_rd2 w\<rparr>"
  "TypeCSS_wf \<lparr>css_rs2 = rvc_rs2 w, css_imm = rvc_imm_swsp w\<rparr>"
  "TypeCJ_wf \<lparr>cj_imm = rvc_imm_jump w\<rparr>"
  using fmt_from_riscv_wf unfolding rvc_fields by blast+

text \<open>The same where the guard of a case has fixed a register.\<close>

lemma compressed_wf_fixed:
  "rvc_rd w = a \<Longrightarrow> TypeCI2_wf \<lparr>ci2_rd_rs1 = a, ci2_imm = rvc_imm_addi16sp w\<rparr>"
  "rvc_rs2 w = 0 \<Longrightarrow> TypeCR_wf \<lparr>cr_rd_rs1 = rvc_rd w, cr_rs2 = 0\<rparr>"
  "TypeCR_wf \<lparr>cr_rd_rs1 = 0, cr_rs2 = 0\<rparr>"
  using compressed_wf(4) [of w] compressed_wf(11) [of w] by (auto simp: TypeCR_wf_def)

lemma even_target: "x AND 1 = 0 \<Longrightarrow> x AND - 2 = x" for x :: u32
  using even_and_not_1 [of x] by simp

lemmas rvc_facts =
  expansion_alu execute_compressed compressed_wf compressed_wf_fixed rvc_register_numbers rvc_fields
  Let_def compressed_fields

lemma quadrant0_implemented:
  assumes "rvc_quadrant0 w = Some i" "rv_meaning M 2 i s = Some r" and x0: "read_x s 0 = 0"
  shows "implements M (convert_C0 w) s r"
  using field13_cases [of w] assms(1,2)
  by (elim disjE)
     (auto simp: rvc_quadrant0_def convert_C0_def rvc_facts rv_read_x [OF x0] x0
        intro!: implements_embive split: if_splits)

lemma arith_implemented:
  assumes "rvc_arith w = Some i" "rv_meaning M 2 i s = Some r" and x0: "read_x s 0 = 0"
  shows "implements M (convert_C1_arith w) s r"
proof (cases "field w 10 2 = 3")
  case True
  with assms(1) have "field w 12 1 = 0" by (simp add: rvc_arith_def Let_def split: if_splits)
  with True show ?thesis
    using field2_cases [of w 5] assms(1,2)
    by (elim disjE)
       (auto simp: rvc_arith_def convert_C1_arith_def rvc_facts rv_read_x [OF x0] x0
          intro!: implements_embive)
next
  case False
  then show ?thesis
    using field2_cases [of w 10] assms(1,2)
    by (elim disjE)
       (auto simp: rvc_arith_def convert_C1_arith_def rvc_facts rv_read_x [OF x0] x0
          intro!: implements_embive split: if_splits)
qed

lemma quadrant1_implemented:
  assumes "rvc_quadrant1 w = Some i" "rv_meaning M 2 i s = Some r" and x0: "read_x s 0 = 0"
  shows "implements M (convert_C1 w) s r"
  using field13_cases [of w] assms(1,2)
  by (elim disjE)
     (auto simp: rvc_quadrant1_def convert_C1_def rvc_facts rv_read_x [OF x0] x0
        arith_implemented [OF _ _ x0] intro!: implements_embive split: if_split_asm)

lemma quadrant2_implemented:
  assumes "rvc_quadrant2 w = Some i" "rv_meaning M 2 i s = Some r" and x0: "read_x s 0 = 0"
    and "\<And>a b rd c d. i = RvOp a b rd c d \<Longrightarrow> rd \<noteq> 0"
    and "\<And>rd rs1 imm. i = RvJalr rd rs1 imm \<Longrightarrow> (read_x s rs1 + imm) AND 1 = 0"
  shows "implements M (convert_C2 w) s r"
  using field13_cases [of w] field1_cases [of w 12] assms(1,2,4,5)
  by (elim disjE)
     (auto simp: rvc_quadrant2_def convert_C2_def rvc_facts rv_read_x [OF x0] x0
        even_target intro!: implements_embive split: if_split_asm)

section \<open>The refinement\<close>

lemma low_field: "w AND 3 = field w 0 2"
  by (simp add: field_def take_bit_eq_mask mask_eq_exp_minus_1)

lemma rv_exec_implemented:
  assumes "rv_exec M w s = Some r" "conforms w s" and x0: "read_x s 0 = 0"
  shows "implements M (convert w) s r"
proof -
  obtain i where i: "rv_instruction w = Some i" "rv_meaning M (rv_length w) i s = Some r"
    using assms(1) by (auto simp: rv_exec_def bind_eq_Some_conv)
  have load: "rd \<noteq> 0" if "i = RvLoad f rd rs1 imm" for f rd rs1 imm
    using assms(2) i(1) that by (simp add: conforms_def)
  have jump: "(read_x s rs1 + imm) AND 1 = 0" if "i = RvJalr rd rs1 imm" for rd rs1 imm
    using assms(2) i(1) that by (simp add: conforms_def rv_read_x [OF x0])
  have trap: "bit (mstatus (control_status (registers s))) 7 \<and> mepc (control_status (registers s)) AND 1 = 0"
    if "i = RvMret"
    using assms(2) i(1) that by (simp add: conforms_def)
  have atomic: "read_x s rs1 AND 3 = 0" if "i = RvAmo f rd rs1 rs2" for f rd rs1 rs2
    using assms(2) i(1) that by (simp add: conforms_def rv_read_x [OF x0])
  have csr: "cs_wf (control_status (registers s))
      \<and> (rv_csr_read_only csr \<longrightarrow>
          rv_csr_write f rs1 (rv_read s rs1) (csr_view (control_status (registers s)) csr) = Some None)"
    if "i = RvCsr f rd rs1 csr" for f rd rs1 csr
    using assms(2) i(1) that by (simp add: conforms_def)
  consider "field w 0 2 = 0" | "field w 0 2 = 1" | "field w 0 2 = 2" | "field w 0 2 = 3"
    using field2_cases by blast
  then show ?thesis
  proof cases
    case 1
    with i have "rvc_quadrant0 w = Some i" "rv_meaning M 2 i s = Some r"
      by (simp_all add: rv_instruction_def rv_length_def)
    then show ?thesis
      unfolding convert_compressed(1) [unfolded low_field, OF 1] by (rule quadrant0_implemented) (rule x0)
  next
    case 2
    with i have "rvc_quadrant1 w = Some i" "rv_meaning M 2 i s = Some r"
      by (simp_all add: rv_instruction_def rv_length_def)
    then show ?thesis
      unfolding convert_compressed(2) [unfolded low_field, OF 2] by (rule quadrant1_implemented) (rule x0)
  next
    case 3
    have "rd \<noteq> 0" if "i = RvOp a b rd c d" for a b rd c d
      using assms(2) i(1) that 3 by (simp add: conforms_def)
    moreover from 3 i have "rvc_quadrant2 w = Some i" "rv_meaning M 2 i s = Some r"
      by (simp_all add: rv_instruction_def rv_length_def)
    ultimately show ?thesis
      unfolding convert_compressed(3) [unfolded low_field, OF 3]
      using quadrant2_implemented x0 jump by blast
  next
    case 4
    with i have "rv_decode w = Some i" "rv_meaning M 4 i s = Some r"
      by (simp_all add: rv_instruction_def rv_length_def)
    then show ?thesis 
      by (rule word_implemented) (use x0 load jump trap atomic csr in blast)+
  qed
qed

end
