(* ===== verification/Transpiler_Theorems.thy ===== *)
theory Transpiler_Theorems
  imports Elf_Layout Riscv_Compressed
begin

text \<open>
  The properties of the transpiler: the conversion of an instruction word, the transpilation of a
  code buffer, and the placement of the sections of an ELF file.
\<close>

section \<open>Conversion of an instruction\<close>

text \<open>
  C26: A word that is converted becomes the encoding of a well-formed instruction, which the
  interpreter decodes again; the size is kept, 32 bits exactly when the two low bits are set, and the
  encoding of a 16-bit instruction has no bit above its own 16. The instruction means what the word
  means: if the RISC-V specification gives the word a meaning in a state with zero in x0, and the
  state is not one of the cases that \<open>conforms\<close> excludes, then executing the instruction has that
  meaning, on every memory.
\<close>

theorem converted_word_decodes:
  fixes M :: "'m memory_ops"
  assumes "(convert w :: ('p, 'c) converted) = Inr raw"
  shows "\<exists>i. inst_wf i \<and> raw_data raw = encode_raw i \<and> raw_size raw = inst_size i
    \<and> decode_instruction (raw_data raw) = Some i
    \<and> raw_size raw = (if w AND 3 = 3 then Word else Half)
    \<and> (raw_size raw = Half \<longrightarrow> take_bit 16 (raw_data raw) = raw_data raw)
    \<and> (\<forall>s r. rv_exec M w s = Some r \<and> conforms w s \<and> read_x s 0 = 0 \<longrightarrow> execute M i s = r)"
proof -
  obtain i where i: "inst_wf i" "raw = embive_raw i"
      "inst_size i = (if w AND 3 = 3 then Word else Half)"
    using assms by (rule convert_InrE)
  have "execute M i s = r" if "rv_exec M w s = Some r" "conforms w s" "read_x s 0 = 0" for s r
  proof -
    have "implements M (convert w :: ('p, 'c) converted) s r"
      using that by (rule rv_exec_implemented)
    then obtain j where j: "inst_wf j" "embive_raw i = embive_raw j" "execute M j s = r"
      using assms i(2) by (auto simp: implements_def)
    then have "encode_raw i = encode_raw j" by (simp add: embive_raw_def)
    then have "i = j"
      using decode_encode_raw [OF i(1)] decode_encode_raw [OF j(1)] by (metis option.inject)
    with j(3) show ?thesis by (simp only:)
  qed
  then have means: "\<forall>s r. rv_exec M w s = Some r \<and> conforms w s \<and> read_x s 0 = 0 \<longrightarrow> execute M i s = r"
    by blast
  show ?thesis
    using raw_half_fits [OF i(1)]
    by (intro exI [of _ i] conjI i(1) means)
       (simp_all add: i(2,3) decode_encode_raw [OF i(1)] embive_raw_def fits_unsigned_def)
qed

lemma convert_addi: "(convert 0x00108093 :: (unit, unit) converted) =
    Inr (embive_raw (OpImm \<lparr>i_rd_rs2 = 1, i_rs1 = 1, i_imm = 1, i_func = OpImm_ADDI_FUNC\<rparr>))"
  by code_simp

lemma addi_word:
  "rv_instruction 0x00108093 = Some (RvOpImm 0 0 1 1 1)" "rv_length 0x00108093 = 4"
  by code_simp+

theorem converted_word_decodes_witness:
  "\<exists>i. decode_instruction (encode_raw (OpImm \<lparr>i_rd_rs2 = 1, i_rs1 = 1, i_imm = 1,
      i_func = OpImm_ADDI_FUNC\<rparr>)) = Some i
    \<and> execute (slice_memory_ops 64) i (interpreter_new \<lparr>code = [], ram = []\<rparr> 0) =
        goto 4 (write_x 1 1 (interpreter_new \<lparr>code = [], ram = []\<rparr> 0))"
proof -
  let ?s = "interpreter_new \<lparr>code = [], ram = []\<rparr> 0 :: SliceMemory Interpreter"
  have "read_x ?s 0 = 0" "rv_read ?s 1 = 0" "program_counter ?s = 0"
    by (simp_all add: rv_read_def read_x_def interpreter_new_def registers_default_def cpu_default_def)
  then have "rv_exec (slice_memory_ops 64) 0x00108093 ?s = Some (goto 4 (write_x 1 1 ?s))"
    "conforms 0x00108093 ?s" "read_x ?s 0 = 0"
    by (simp_all add: rv_exec_def addi_word expansion_alu conforms_def)
  note addi = this
  obtain i where "decode_instruction (raw_data (embive_raw (OpImm \<lparr>i_rd_rs2 = 1, i_rs1 = 1, i_imm = 1,
      i_func = OpImm_ADDI_FUNC\<rparr>))) = Some i" "\<And>s r. rv_exec (slice_memory_ops 64) 0x00108093 s = Some r \<Longrightarrow>
      conforms 0x00108093 s \<Longrightarrow> read_x s 0 = 0 \<Longrightarrow> execute (slice_memory_ops 64) i s = r"
    using converted_word_decodes [OF convert_addi, of "slice_memory_ops 64"] by blast
  from this(1) this(2) [OF addi] show ?thesis by (auto simp: embive_raw_def)
qed

text \<open>
  A 16-bit instruction is converted from its own bits: the bytes that follow it, which the
  transpiler reads along, have no influence on the result, on errors neither.
\<close>

theorem compressed_ignores_next:
  assumes "w AND 3 \<noteq> 3" and "take_bit 16 w = take_bit 16 w'"
  shows "convert w = convert w'"
proof -
  have "w' AND 3 = w AND 3"
    using assms(2) and_masks_low(2) by metis
  with assms convert_low [of w] convert_low [of w'] show ?thesis by metis
qed

theorem compressed_ignores_next_witness:
  "(convert 0xFFFF0085 :: (unit, unit) converted) = convert 0x00000085"
  by (rule compressed_ignores_next) (simp_all add: take_bit_eq_mask mask_eq_exp_minus_1)

text \<open>
  System instructions that RISC-V does not define are not refused, and some of them become
  defined ones: an instruction with the immediate 2, 3 or 4 is converted to the encoding of
  \<open>fence.i\<close>, \<open>wfi\<close> or \<open>mret\<close>, the last two being also what their RISC-V encodings are converted to.
\<close>

theorem undefined_system_instructions:
  "(convert 0x00200073 :: ('p::equal, 'c::equal) converted) = convert 0x0000000F
    \<and> (convert 0x00300073 :: ('p::equal, 'c::equal) converted) = convert 0x10500073
    \<and> (convert 0x00400073 :: ('p::equal, 'c::equal) converted) = convert 0x30200073"
  by (intro conjI; code_simp)

section \<open>Code buffers\<close>

text \<open>
  C27: The loop over the buffer, which overwrites the code it reads, computes what converting the
  instructions one after the other computes: the result, the flag for padding and the bytes.
\<close>

theorem transpile_raw_refines_stream:
  fixes code :: "u8 list"
  shows "((transpile_raw code :: (('p, 'c) Failure, bool, u8 list) outcome) = (Inr p, code') \<longleftrightarrow>
      (transpile_stream code :: ('p, 'c) Failure + bool \<times> u8 list) = Inr (p, code'))
    \<and> (fst (transpile_raw code :: (('p, 'c) Failure, bool, u8 list) outcome) = Inl e \<longleftrightarrow>
      transpile_stream code = Inl e)"
  using transpile_raw_Inr transpile_raw_Inl by blast

text \<open>
  C28: Transpiling never moves an instruction: the buffer keeps its length, whatever the result, and
  at every instruction boundary of the RISC-V code a successful transpilation leaves the
  Embive encoding, of the same size, of the converted instruction.
\<close>

theorem transpiled_in_place:
  fixes code :: "u8 list"
  assumes "(transpile_raw code :: (('p, 'c) Failure, bool, u8 list) outcome) = (Inr p, code')"
    and "boundary code i" "i + 2 \<le> length code"
  shows "length code' = length code
    \<and> (\<exists>inst. (convert (riscv_word (drop i code)) :: ('p, 'c) converted) = Inr (embive_raw inst)
         \<and> size_bytes (inst_size inst) = riscv_length (code ! i)
         \<and> take (riscv_length (code ! i)) (drop i code') =
             take (riscv_length (code ! i)) (to_le_bytes (encode_raw inst)))"
proof -
  obtain inst where inst: "inst_wf inst"
      "(convert (riscv_word (drop i code)) :: ('p, 'c) converted) = Inr (embive_raw inst)"
      "i + size_bytes (inst_size inst) \<le> length code'"
      "slice_get code' i (i + size_bytes (inst_size inst)) =
        take (size_bytes (inst_size inst)) (to_le_bytes (encode_raw inst))"
    using assms by (rule transpiled_instruction)
  have "2 \<le> length (drop i code)" using assms(3) by simp
  from convert_riscv_word [OF this inst(2)] obtain inst' where
    "embive_raw inst = embive_raw inst'" "size_bytes (inst_size inst') = riscv_length (hd (drop i code))"
    by metis
  then have size: "size_bytes (inst_size inst) = riscv_length (code ! i)"
    using assms(3) by (simp add: embive_raw_def hd_drop_conv_nth)
  have "length code' = length code"
    using transpile_raw_length [of code, where ?'p = 'p and ?'c = 'c] assms(1) by simp
  with inst(2,4) size show ?thesis by (auto simp: slice_get_def)
qed

text \<open>A small buffer, for concrete instances: \<open>c.addi x1, 1\<close>, \<open>addi x1, x1, 1\<close>.\<close>

definition small_riscv :: "u8 list" where
  "small_riscv = [0x85, 0x00, 0x93, 0x80, 0x10, 0x00]"

definition small_embive :: "u8 list" where
  "small_embive = [0x23, 0x04, 0x1D, 0x84, 0x10, 0x00]"

lemma small_transpiled:
  "(transpile_raw small_riscv :: ((unit, unit) Failure, bool, u8 list) outcome) = (Inr False, small_embive)"
  by code_simp

lemma small_boundary: "boundary small_riscv 2"
  using boundary_next [OF boundary_start, of small_riscv]
  by (simp add: small_riscv_def riscv_length_def numeral_2_eq_2)

theorem transpiled_in_place_witness:
  "length small_embive = length small_riscv"
  using transpiled_in_place [OF small_transpiled small_boundary] by (simp add: small_riscv_def)

text \<open>
  C29: The transpilation of a buffer can panic only where a 32-bit instruction is cut off by the end of
  the buffer, and a buffer that is cut off there is never transpiled; the two-byte buffer with
  the first half of an \<open>addi\<close> does panic.
\<close>

theorem truncated_code_panics:
  fixes code :: "u8 list"
  shows "(fst (transpile_raw code :: (('p, 'c) Failure, bool, u8 list) outcome) = Inl Panicked \<longrightarrow>
        (\<exists>i. truncated code i))
    \<and> ((\<exists>i. truncated code i) \<longrightarrow>
        (\<exists>e. fst (transpile_raw code :: (('p, 'c) Failure, bool, u8 list) outcome) = Inl e))
    \<and> fst (transpile_raw [0x93, 0x80] :: ((unit, unit) Failure, bool, u8 list) outcome) = Inl Panicked"
proof (intro conjI impI)
  assume "fst (transpile_raw code :: (('p, 'c) Failure, bool, u8 list) outcome) = Inl Panicked"
  then have "(transpile_stream code :: ('p, 'c) Failure + bool \<times> u8 list) = Inl Panicked"
    by (rule transpile_raw_Inl [THEN iffD1])
  then show "\<exists>i. truncated code i" by (rule stream_panics)
next
  assume "\<exists>i. truncated code i"
  then obtain i where i: "truncated code i" by blast
  obtain r code' where r: "(transpile_raw code :: (('p, 'c) Failure, bool, u8 list) outcome) = (r, code')"
    by fastforce
  with truncated_not_transpiled [OF i] have "\<And>p. r \<noteq> Inr p"
    using transpile_raw_Inr by metis
  with r show "\<exists>e. fst (transpile_raw code :: (('p, 'c) Failure, bool, u8 list) outcome) = Inl e"
    by (cases r) auto
next
  show "fst (transpile_raw [0x93, 0x80] :: ((unit, unit) Failure, bool, u8 list) outcome) = Inl Panicked"
    by code_simp
qed

theorem truncated_code_panics_witness:
  "\<exists>e. fst (transpile_raw [0x93, 0x80] :: ((unit, unit) Failure, bool, u8 list) outcome) = Inl e"
proof -
  have "truncated [0x93, 0x80] 0"
    by (simp add: truncated_def boundary_start riscv_length_def)
  then show ?thesis
    using truncated_code_panics [of "[0x93, 0x80]", where ?'p = unit and ?'c = unit] by blast
qed

section \<open>ELF files\<close>

text \<open>
  C31: \<open>transpile_elf\<close> stays inside the buffer of the caller: the buffer keeps its length, whatever the
  result, and the size of the binary that is returned, padding included, fits into it. It is
  assumed that the ELF parser returns as many bytes for a loadable section as its header says.
\<close>

theorem transpile_elf_in_bounds:
  fixes minimal_parse :: "u8 list \<Rightarrow> 'p + ('p, 'c) ElfBytes"
  assumes "\<And>elf_bytes. minimal_parse elf = Inr elf_bytes \<Longrightarrow> section_data_sized elf_bytes"
    and "transpile_elf minimal_parse elf output = (r, output')"
  shows "length output' = length output \<and> (\<forall>n. r = Inr n \<longrightarrow> unat n \<le> length output)"
  using assms by (rule transpile_elf_bounds)

definition small_section :: SectionHeader where
  "small_section = \<lparr>sh_type = SHT_PROGBITS, sh_flags = 6, sh_addr = 0, sh_offset = 0, sh_size = 6, sh_addralign = 2\<rparr>"

definition small_elf :: "(unit, unit) ElfBytes" where
  "small_elf = \<lparr>
     segments = Some [\<lparr>p_vaddr = 0, p_paddr = 0, p_memsz = 6\<rparr>],
     section_headers = Some [small_section],
     e_machine = EM_RISCV,
     class_elf32 = True,
     e_entry = 0,
     section_data = (\<lambda>section.
       if sh_size section = 6 then Inr (small_riscv, None) else Inl ())\<rparr>"

theorem transpile_elf_in_bounds_witness:
  "length (snd (transpile_elf (\<lambda>_. Inr small_elf) [] [0, 0, 0, 0, 0, 0, 0, 0])) = 8
   \<and> transpile_elf (\<lambda>_. Inr small_elf) [] [0, 0, 0, 0, 0, 0, 0, 0] = (Inr 6, small_embive @ [0, 0])"
proof
  have sized: "section_data_sized small_elf"
    by (auto simp: section_data_sized_def sized_section_def small_elf_def small_section_def small_riscv_def)
  show "length (snd (transpile_elf (\<lambda>_. Inr small_elf) [] [0, 0, 0, 0, 0, 0, 0, 0])) = 8"
    using transpile_elf_in_bounds [of "\<lambda>_. Inr small_elf" "[]" "[0, 0, 0, 0, 0, 0, 0, 0]"] sized
    by (cases "transpile_elf (\<lambda>_. Inr small_elf) [] [0, 0, 0, 0, 0, 0, 0, 0]") simp
  show "transpile_elf (\<lambda>_. Inr small_elf) [] [0, 0, 0, 0, 0, 0, 0, 0] = (Inr 6, small_embive @ [0, 0])"
    by code_simp
qed

end
