(* ===== verification/Program.thy ===== *)
theory Program
  imports Riscv_Compressed Transpiled_Code
begin

text \<open>
  Transpiler and interpreter together: a RISC-V code buffer is transpiled, the result is the code
  region of the memory, and the interpreter stands at an instruction boundary.
\<close>

text \<open>The four bytes at a place of the buffer that begins with an encoding are that encoding.\<close>

lemma from_le_bytes_prefix:
  fixes v :: u32
  assumes "n \<le> 4" "4 \<le> length bs" "take n bs = take n (to_le_bytes v)"
  shows "take_bit (8 * n) (from_le_bytes (take 4 bs) :: u32) = take_bit (8 * n) v"
proof (rule bit_word_eqI)
  fix m assume "m < LENGTH(32)"
  show "bit (take_bit (8 * n) (from_le_bytes (take 4 bs) :: u32)) m = bit (take_bit (8 * n) v) m"
  proof (cases "m < 8 * n")
    case True
    then have m: "m div 8 < n" by linarith
    have "bs ! (m div 8) = to_le_bytes v ! (m div 8)"
      using assms m by (metis nth_take)
    then show ?thesis
      using True m assms(1,2)
      by (simp add: bit_take_bit_iff bit_from_le_bytes to_le_bytes_def bit_simps)
  next
    case False
    then show ?thesis by (simp add: bit_take_bit_iff)
  qed
qed

lemma encode_raw_take_bit:
  "inst_wf i \<Longrightarrow> take_bit (8 * size_bytes (inst_size i)) (encode_raw i) = encode_raw i"
  using raw_half_fits [of i]
  by (cases "inst_size i") (simp_all add: size_bytes_def fits_unsigned_def take_bit_word_eq_self)

section \<open>Transpiled code in memory\<close>

text \<open>
  Padding: if \<open>transpile_raw\<close> does not ask for it, four bytes can be fetched at every instruction of
  the code; otherwise two more bytes are enough.
\<close>

lemma stream_boundary_flag:
  assumes "(transpile_stream prog :: ('p, 'c) Failure + bool \<times> u8 list) = Inr (p, out)"
    and "boundary prog i"
    and "(transpile_stream (drop i prog) :: ('p, 'c) Failure + bool \<times> u8 list) = Inr (q, out')" "q"
  shows p
  using assms(2-4)
proof (induction arbitrary: q out' rule: boundary.induct)
  case boundary_start
  then show ?case using assms(1) by simp
next
  case (boundary_next i)
  obtain q1 where q1: "(transpile_stream (drop i prog) :: ('p, 'c) Failure + bool \<times> u8 list) = Inr (q1, drop i out)"
    using stream_boundary [OF assms(1) boundary_next.hyps(1)] by blast
  have len: "2 \<le> length (drop i prog)" "hd (drop i prog) = prog ! i"
    using boundary_next.hyps(2) by (simp_all add: hd_drop_conv_nth)
  from q1 obtain raw where raw: "(convert (riscv_word (drop i prog)) :: ('p, 'c) converted) = Inr raw"
    using len(1) by (auto simp: transpile_stream.simps [of "drop i prog"] split: sum.splits)
  then have "size_bytes (raw_size raw) = riscv_length (prog ! i)"
    using convert_riscv_word [OF len(1) raw] len(2)
    by (metis RawInstruction.select_convs(2) embive_raw_def)
  with q1 raw len boundary_next.prems have q1
    by (auto simp: transpile_stream.simps [of "drop i prog"] Let_def add.commute split: if_splits)
  with boundary_next.IH [OF q1] show ?case by blast
qed

lemma unpadded_instruction:
  assumes "(transpile_raw prog :: (('p, 'c) Failure, bool, u8 list) outcome) = (Inr False, prog')"
    and "boundary prog i" "i + 2 \<le> length prog"
  shows "i + 4 \<le> length prog"
proof -
  have t: "(transpile_stream prog :: ('p, 'c) Failure + bool \<times> u8 list) = Inr (False, prog')"
    using assms(1) transpile_raw_Inr by blast
  then obtain q where q: "(transpile_stream (drop i prog) :: ('p, 'c) Failure + bool \<times> u8 list) = Inr (q, drop i prog')"
    using stream_boundary [OF t assms(2)] by blast
  then have "\<not> q" using stream_boundary_flag [OF t assms(2) q] by blast
  with q assms(3) show ?thesis
    by (auto simp: transpile_stream.simps [of "drop i prog"] Let_def split: if_splits sum.splits)
qed

text \<open>
  The transpiled code is in the code region of the memory, at an offset, with the padding that
  \<open>transpile_raw\<close> asked for.
\<close>

definition loaded :: "bool \<Rightarrow> nat \<Rightarrow> u8 list \<Rightarrow> SliceMemory Interpreter \<Rightarrow> bool" where
  "loaded p base prog' s \<longleftrightarrow>
     (let c = code (memory s); stop = base + length prog' in
      stop + (if p then 2 else 0) \<le> length c \<and> length c \<le> 2 ^ 31 \<and> slice_get c base stop = prog')"

lemma loaded_step:
  assumes "loaded p base prog' s" "step (slice_memory_ops W) s = (r, s')"
  shows "loaded p base prog' s'"
  using guest_code.rel_step [of W s] assms by (metis loaded_def snd_conv)

lemma transpiled_fetch:
  fixes prog :: "u8 list" and s :: "SliceMemory Interpreter"
  assumes W: "32 \<le> W"
    and t: "(transpile_raw prog :: (('p, 'c) Failure, bool, u8 list) outcome) = (Inr p, prog')"
    and mem: "loaded p base prog' s"
    and b: "boundary prog i" "i + 2 \<le> length prog"
    and pc: "program_counter s = of_nat (base + i)"
  obtains inst where "inst_wf inst"
    "(convert (riscv_word (drop i prog)) :: ('p, 'c) converted) = Inr (embive_raw inst)"
    "step (slice_memory_ops W) s = execute (slice_memory_ops W) inst s"
proof -
  obtain inst where inst: "inst_wf inst"
      "(convert (riscv_word (drop i prog)) :: ('p, 'c) converted) = Inr (embive_raw inst)"
      "i + size_bytes (inst_size inst) \<le> length prog'"
      "slice_get prog' i (i + size_bytes (inst_size inst)) =
        take (size_bytes (inst_size inst)) (to_le_bytes (encode_raw inst))"
    using t b by (rule transpiled_instruction)
  define c where "c = code (memory s)"
  define w where "w = (from_le_bytes (take 4 (drop (base + i) c)) :: u32)"
  have c: "length c \<le> 2 ^ 31" "prog' = take (length prog') (drop base c)"
    using mem by (simp_all add: loaded_def Let_def c_def slice_get_def)
  have "length prog' = length prog"
    using transpile_raw_length [of prog, where ?'p = 'p and ?'c = 'c] t by simp
  then have stop: "base + i + 4 \<le> length c"
    using mem unpadded_instruction [of prog prog' i, where ?'p = 'p and ?'c = 'c] t b
    by (cases p) (auto simp: loaded_def Let_def c_def)
  have "base + i < 2 ^ 31" using stop c by simp
  then have i: "unat (of_nat (base + i) :: u32) = base + i"
    by (simp add: unat_of_nat del: of_nat_add)
  have "take (size_bytes (inst_size inst)) (drop i prog') =
      take (size_bytes (inst_size inst)) (drop (base + i) c)"
    using inst(3) by (subst c(2)) (simp add: drop_take min_def add.commute)
  then have "take (size_bytes (inst_size inst)) (drop (base + i) c) =
      take (size_bytes (inst_size inst)) (to_le_bytes (encode_raw inst))"
    using inst(4) by (simp add: slice_get_def)
  then have "take_bit (8 * size_bytes (inst_size inst)) w = encode_raw inst"
    using from_le_bytes_prefix [of "size_bytes (inst_size inst)" "drop (base + i) c" "encode_raw inst"]
      stop encode_raw_take_bit [OF inst(1)] size_bytes_bounds(2) by (simp add: w_def)
  then have decode: "decode_instruction w = Some inst"
    using decode_fetched [OF inst(1)] by blast
  have "(2::nat) ^ 32 \<le> 2 ^ W" using W by (rule power_increasing) simp
  then have range: "base + i + 4 < 2 ^ W" using stop c by simp
  have "\<not> RAM_OFFSET \<le> of_nat (base + i)"
    using \<open>base + i < 2 ^ 31\<close> i by (simp add: RAM_OFFSET_def word_le_nat_alt del: of_nat_add)
  then have "load_num (slice_memory_ops W) (memory s) (of_nat (base + i)) = (Inr w, memory s)"
    using range stop i W
    by (simp add: load_num_def num_size_def slice_load_bytes_def usize_of_u32_wide
        checked_slice_range_def slice_get_def w_def flip: c_def del: of_nat_add)
  then have "step (slice_memory_ops W) s = execute (slice_memory_ops W) inst s"
    by (simp add: step_def fetch_def pc decode_execute_def decode del: of_nat_add)
  with inst that show thesis by blast
qed

section \<open>A step of the RISC-V program\<close>

lemma transpiled_step:
  fixes prog :: "u8 list" and s :: "SliceMemory Interpreter"
  assumes "32 \<le> W"
    and "(transpile_raw prog :: (('p, 'c) Failure, bool, u8 list) outcome) = (Inr p, prog')"
    and "loaded p base prog' s"
    and "boundary prog i" "i + 2 \<le> length prog"
    and "program_counter s = of_nat (base + i)"
    and "rv_exec (slice_memory_ops W) (riscv_word (drop i prog)) s = Some r"
      "conforms (riscv_word (drop i prog)) s"
    and "read_x s 0 = 0"
  shows "step (slice_memory_ops W) s = r"
proof -
  obtain inst where inst: "inst_wf inst"
      "(convert (riscv_word (drop i prog)) :: ('p, 'c) converted) = Inr (embive_raw inst)"
      "step (slice_memory_ops W) s = execute (slice_memory_ops W) inst s"
    using assms(1-6) by (rule transpiled_fetch)
  have "implements (slice_memory_ops W)
      (convert (riscv_word (drop i prog)) :: ('p, 'c) converted) s r"
    using assms(7-9) by (rule rv_exec_implemented)
  then obtain inst' where inst': "inst_wf inst'"
      "(convert (riscv_word (drop i prog)) :: ('p, 'c) converted) = Inr (embive_raw inst')"
      "execute (slice_memory_ops W) inst' s = r"
    unfolding implements_def by (elim exE conjE)
  have "encode_raw inst = encode_raw inst'"
    using inst(2) inst'(2) by (simp add: embive_raw_def)
  then have "inst = inst'"
    using decode_encode_raw [OF inst(1)] decode_encode_raw [OF inst'(1)] by (metis option.inject)
  with inst(3) inst'(3) show ?thesis by (simp only:)
qed

section \<open>Runs of the RISC-V program\<close>

text \<open>
  The RISC-V machine executes the original code, which the interpreter never sees, with the code at
  the address \<open>base\<close>: the instruction at the program counter, if it stands at an instruction and the
  instruction conforms.
\<close>

definition at_instruction :: "nat \<Rightarrow> u8 list \<Rightarrow> 'm Interpreter \<Rightarrow> bool" where
  "at_instruction base prog s \<longleftrightarrow>
     (let i = unat (program_counter s) - base in
      base \<le> unat (program_counter s) \<and> boundary prog i \<and> i + 2 \<le> length prog
      \<and> conforms (riscv_word (drop i prog)) s)"

definition riscv_step ::
  "'m memory_ops \<Rightarrow> nat \<Rightarrow> u8 list \<Rightarrow> 'm Interpreter \<Rightarrow> 'm step_result option" where
  "riscv_step M base prog s = rv_exec M (riscv_word (drop (unat (program_counter s) - base) prog)) s"

inductive riscv_run ::
  "'m memory_ops \<Rightarrow> nat \<Rightarrow> u8 list \<Rightarrow> 'm Interpreter \<Rightarrow> 'm Interpreter \<Rightarrow> bool"
  for M :: "'m memory_ops" and base :: nat and prog :: "u8 list" where
  riscv_run_refl: "riscv_run M base prog s s"
| riscv_run_step: "at_instruction base prog s \<Longrightarrow> riscv_step M base prog s = Some (Inr Running, s') \<Longrightarrow>
     riscv_run M base prog s' t \<Longrightarrow> riscv_run M base prog s t"

text \<open>The program stops: it comes to an instruction whose result is not that it goes on.\<close>

definition riscv_stops ::
  "'m memory_ops \<Rightarrow> nat \<Rightarrow> u8 list \<Rightarrow> 'm Interpreter \<Rightarrow> Error + State \<Rightarrow> 'm Interpreter \<Rightarrow> bool" where
  "riscv_stops M base prog s r u \<longleftrightarrow>
     r \<noteq> Inr Running \<and> (\<exists>t. riscv_run M base prog s t \<and> at_instruction base prog t
       \<and> riscv_step M base prog t = Some (r, u))"

lemma transpiled_riscv_step:
  assumes "32 \<le> W"
    and t: "(transpile_raw prog :: (('p, 'c) Failure, bool, u8 list) outcome) = (Inr p, prog')"
    and s: "loaded p base prog' s" "at_instruction base prog s"
    and r: "riscv_step (slice_memory_ops W) base prog s = Some r" and x0: "read_x s 0 = 0"
  shows "step (slice_memory_ops W) s = r"
  using assms
  by (intro transpiled_step [of W prog p prog' base s "unat (program_counter s) - base"])
     (simp_all add: at_instruction_def riscv_step_def Let_def del: of_nat_add)

lemma transpiled_riscv_run:
  assumes "riscv_run (slice_memory_ops W) base prog s t"
    and "32 \<le> W" "(transpile_raw prog :: (('p, 'c) Failure, bool, u8 list) outcome) = (Inr p, prog')"
    and "loaded p base prog' s" "read_x s 0 = 0"
  shows "loaded p base prog' t \<and> read_x t 0 = 0
    \<and> (\<exists>n. run_limited (slice_memory_ops W) n s = (Inr Running, t))"
  using assms
proof (induction rule: riscv_run.induct)
  case (riscv_run_refl s)
  then show ?case by (intro conjI exI [of _ 0]) simp_all
next
  case (riscv_run_step s s' t)
  then have step: "step (slice_memory_ops W) s = (Inr Running, s')"
    by (intro transpiled_riscv_step)
  have "read_x s' 0 = 0"
    using riscv_run_step.hyps(2) riscv_run_step.prems(4) by (auto simp: riscv_step_def dest: rv_exec_x0)
  with riscv_run_step.prems riscv_run_step.IH loaded_step [OF _ step]
  obtain n where "loaded p base prog' t \<and> read_x t 0 = 0"
      "run_limited (slice_memory_ops W) n s' = (Inr Running, t)"
    by blast
  with step have "run_limited (slice_memory_ops W) (Suc n) s = (Inr Running, t)" by simp
  with \<open>loaded p base prog' t \<and> read_x t 0 = 0\<close> show ?case by blast
qed

lemma transpiled_riscv_stops:
  assumes "32 \<le> W" "(transpile_raw prog :: (('p, 'c) Failure, bool, u8 list) outcome) = (Inr p, prog')"
    and "loaded p base prog' s" "read_x s 0 = 0"
    and "riscv_stops (slice_memory_ops W) base prog s r u"
  shows "run_unlimited (slice_memory_ops W) s = Some (r, u)"
proof -
  obtain t where t: "r \<noteq> Inr Running" "riscv_run (slice_memory_ops W) base prog s t"
      "at_instruction base prog t" "riscv_step (slice_memory_ops W) base prog t = Some (r, u)"
    using assms(5) by (auto simp: riscv_stops_def)
  obtain n where n: "loaded p base prog' t" "run_limited (slice_memory_ops W) n s = (Inr Running, t)"
      "read_x t 0 = 0"
    using transpiled_riscv_run [OF t(2) assms(1-4)] by blast
  have "step (slice_memory_ops W) t = (r, u)"
    using transpiled_riscv_step [OF assms(1,2) n(1) t(3,4) n(3)] .
  then have "run_limited (slice_memory_ops W) (Suc 0) t = (r, u)"
    using t(1) by (auto split: sum.split)
  then have "run_limited (slice_memory_ops W) (n + Suc 0) s = (r, u)"
    unfolding run_limited_split n(2) by simp
  with run_limited_unlimited [of "slice_memory_ops W" "n + Suc 0" s] t(1) show ?thesis by simp
qed

end
