(* ===== verification/Elf_Image.thy ===== *)
theory Elf_Image
  imports Elf_Layout Program
begin

text \<open>
  What \<open>transpile_elf\<close> produces, as a layout: a list of the sections that are placed, each with its
  offset in the binary, its bytes in the ELF file and its bytes in the binary. The loop over the
  sections, with its accumulators and its buffer, is refined to writing that list.

  With it, the whole way of a program: from the ELF file over the binary to its execution.
\<close>

section \<open>The layout\<close>

record Placed =
  placed_at :: nat
  original :: "u8 list"
  transpiled :: "u8 list"
  executable :: bool
  asks_padding :: bool

definition section_paddr :: "SectionHeader \<Rightarrow> ProgramHeader \<Rightarrow> u32" where
  "section_paddr section segment =
     ucast (sh_addr section) - ucast (p_vaddr segment) + ucast (p_paddr segment)"

text \<open>The distance from the entry point, rounded up to the alignment.\<close>

definition section_offset :: "('p, 'c) ElfBytes \<Rightarrow> SectionHeader \<Rightarrow> ProgramHeader \<Rightarrow> usize" where
  "section_offset elf section segment =
     (let alignment = ucast (sh_addralign section) in
      ucast (div_ceil (section_paddr section segment - ucast (e_entry elf)) alignment * alignment))"

definition section_bytes ::
  "('p, 'c) ElfBytes \<Rightarrow> SectionHeader \<Rightarrow> nat \<Rightarrow> u8 list \<Rightarrow> Placed option" where
  "section_bytes elf section offset bytes =
     (if ucast (sh_flags section) AND SHF_EXECINSTR \<noteq> 0 then
        (case (transpile_raw bytes :: (('p, 'c) Failure, bool, u8 list) outcome) of
           (Inl e, _) \<Rightarrow> None
         | (Inr p, out) \<Rightarrow> Some \<lparr>placed_at = offset, original = bytes, transpiled = out,
             executable = True, asks_padding = p\<rparr>)
      else Some \<lparr>placed_at = offset, original = bytes, transpiled = bytes,
        executable = False, asks_padding = False\<rparr>)"

text \<open>Every section that is loaded and not empty has its place.\<close>

definition section_placed ::
  "('p, 'c) ElfBytes \<Rightarrow> ProgramHeader list \<Rightarrow> SectionHeader \<Rightarrow> Placed option" where
  "section_placed elf segs section =
     (if \<not> loadable section then None
      else
        (case find (segment_contains section) segs of
           None \<Rightarrow> None
         | Some segment \<Rightarrow>
             if sh_size section = 0 then None
             else
               (case section_data elf section of
                  Inr (bytes, None) \<Rightarrow>
                    section_bytes elf section (unat (section_offset elf section segment)) bytes
                | _ \<Rightarrow> None)))"

definition elf_layout :: "('p, 'c) ElfBytes \<Rightarrow> Placed list" where
  "elf_layout elf =
     (case (segments elf, section_headers elf) of
        (Some segs, Some sections) \<Rightarrow> List.map_filter (section_placed elf segs) sections
      | _ \<Rightarrow> [])"

text \<open>
  The code does not ask whether a section is empty: it skips a section whose end in the binary is the
  number of its physical address, \<open>skips\<close>. The layout describes the binary where that test is right
  for all sections of the file, like in the files whose entry point is 0. Otherwise a section that is not
  empty may be missing in the binary, or an empty one may be counted.
\<close>

definition skips :: "('p, 'c) ElfBytes \<Rightarrow> SectionHeader \<Rightarrow> ProgramHeader \<Rightarrow> bool" where
  "skips elf section segment \<longleftrightarrow>
     section_offset elf section segment + sh_size section = ucast (section_paddr section segment)"

definition skip_exact :: "('p, 'c) ElfBytes \<Rightarrow> ProgramHeader list \<Rightarrow> SectionHeader \<Rightarrow> bool" where
  "skip_exact elf segs section \<longleftrightarrow>
     (case find (segment_contains section) segs of
        None \<Rightarrow> True
      | Some segment \<Rightarrow> skips elf section segment \<longleftrightarrow> sh_size section = 0)"

definition skip_test_exact :: "('p, 'c) ElfBytes \<Rightarrow> bool" where
  "skip_test_exact elf \<longleftrightarrow>
     (case (segments elf, section_headers elf) of
        (Some segs, Some sections) \<Rightarrow> \<forall>section\<in>set sections. loadable section \<longrightarrow> skip_exact elf segs section
      | _ \<Rightarrow> True)"

text \<open>The test is right where the entry point is 0 and the physical address is aligned.\<close>

lemma div_ceil_aligned: "b \<noteq> 0 \<Longrightarrow> a mod b = 0 \<Longrightarrow> div_ceil a b * b = a"
  using word_mod_div_equality [of a b] by (simp add: div_ceil_def)

lemma skips_entry_0:
  assumes "ucast (e_entry elf) = (0 :: u32)" "ucast (sh_addralign section) \<noteq> (0 :: u32)"
    and "section_paddr section segment mod ucast (sh_addralign section) = 0"
  shows "skips elf section segment \<longleftrightarrow> sh_size section = 0"
  using assms by (simp add: skips_def section_offset_def Let_def div_ceil_aligned)

section \<open>The image of a layout\<close>

definition placed_end :: "Placed \<Rightarrow> nat" where
  "placed_end q = placed_at q + length (transpiled q)"

definition write_image :: "Placed list \<Rightarrow> u8 list \<Rightarrow> u8 list" where
  "write_image qs output = fold (\<lambda>q out. slice_put out (placed_at q) (transpiled q)) qs output"

definition image_size :: "Placed list \<Rightarrow> nat" where
  "image_size qs = fold (\<lambda>q n. max n (placed_end q)) qs 0"

text \<open>The padding depends on the last executable section and on what follows it.\<close>

definition padding_after :: "Placed \<Rightarrow> bool \<Rightarrow> bool" where
  "padding_after q p =
     (if executable q then asks_padding q else if 2 \<le> length (original q) then False else p)"

definition image_padding :: "Placed list \<Rightarrow> u8 list" where
  "image_padding qs = (if fold padding_after qs False then [0, 0] else [])"

definition elf_image :: "('p, 'c) ElfBytes \<Rightarrow> u8 list \<Rightarrow> nat \<times> u8 list" where
  "elf_image elf output =
     (let qs = elf_layout elf; pad = image_padding qs in
      (image_size qs + length pad, slice_put (write_image qs output) (image_size qs) pad))"

section \<open>The loop over the sections writes the layout\<close>

lemma slice_put_put:
  "length xs = length ys \<Longrightarrow> i + length xs \<le> length bs \<Longrightarrow>
     slice_put (slice_put bs i xs) i ys = slice_put bs i ys"
  by (rule nth_equalityI) (auto simp: nth_slice_put)

lemma section_bytes_length:
  "section_bytes elf section offset bytes = Some q \<Longrightarrow>
     placed_at q = offset \<and> original q = bytes \<and> length (transpiled q) = length bytes"
  for elf :: "('p, 'c) ElfBytes"
  using transpile_raw_length [of bytes, where ?'p = 'p and ?'c = 'c]
  by (auto simp: section_bytes_def split: if_splits prod.splits sum.splits)

lemma write_section_placed:
  fixes elf :: "('p, 'c) ElfBytes"
  assumes sized: "sized_section elf section"
    and w: "write_section elf append_slice section offset (offset + sh_size section) (n, p) output
      = (Inr (n', p'), output')"
  shows "\<exists>bytes q. section_data elf section = Inr (bytes, None)
    \<and> section_bytes elf section (unat offset) bytes = Some q
    \<and> unat (offset + sh_size section) = placed_end q \<and> placed_end q \<le> length output
    \<and> n' = n \<and> p' = padding_after q p \<and> output' = slice_put output (placed_at q) (transpiled q)"
proof -
  obtain bytes where d: "section_data elf section = Inr (bytes, None)"
    using w by (auto simp: write_section_def split: sum.splits prod.splits option.splits)
  with sized have len: "length bytes = unat (sh_size section)"
    by (simp add: sized_section_def)
  then have small: "length bytes < 2 ^ 64" using unsigned_less [of "sh_size section"] by simp
  have stop: "offset + of_nat (length bytes) = offset + sh_size section" by (simp add: len)
  obtain ra out2 where ap: "append_slice output offset bytes = (ra :: ('p, 'c) Failure + unit, out2)"
    by fastforce
  from append_slice_cases [OF ap small] w d ap
  have ok: "ra = Inr ()" "out2 = slice_put output (unat offset) bytes"
      "unat (offset + sh_size section) = unat offset + length bytes"
      "unat offset + length bytes \<le> length output"
    unfolding stop by (auto simp: write_section_def Let_def)
  have le: "\<not> offset > offset + sh_size section" "length out2 = length output"
    using ok by (simp_all add: word_less_nat_alt)
  have get: "slice_get out2 (unat offset) (unat offset + length bytes) = bytes"
    using ok by simp
  show ?thesis
  proof (cases "ucast (sh_flags section) AND SHF_EXECINSTR \<noteq> 0")
    case True
    obtain rb out3 where raw: "(transpile_raw bytes :: (('p, 'c) Failure, bool, u8 list) outcome) = (rb, out3)"
      by fastforce
    have out3: "length out3 = length bytes"
      using transpile_raw_length [of bytes, where ?'p = 'p and ?'c = 'c] raw by simp
    from w d ap ok le get True raw obtain q where "rb = Inr q"
      by (cases rb) (auto simp: write_section_def Let_def)
    with w d ap ok le get True raw out3 show ?thesis
      by (auto simp: write_section_def Let_def section_bytes_def placed_end_def padding_after_def
          slice_put_put)
  next
    case False
    with w d ap ok le show ?thesis
      by (auto simp: write_section_def Let_def section_bytes_def placed_end_def padding_after_def)
  qed
qed

lemma transpile_section_placed:
  fixes elf :: "('p, 'c) ElfBytes"
  assumes sized: "loadable section \<Longrightarrow> sized_section elf section"
    and exact: "loadable section \<Longrightarrow> skip_exact elf segs section"
    and t: "transpile_section elf append_slice segs i section (n, p) output = (Inr (n', p'), output')"
  shows "case section_placed elf segs section of
      None \<Rightarrow> (n', p', output') = (n, p, output)
    | Some q \<Rightarrow> unat n' = max (unat n) (placed_end q) \<and> p' = padding_after q p
        \<and> output' = slice_put output (placed_at q) (transpiled q) \<and> placed_end q \<le> length output"
proof (cases "loadable section")
  case False
  with t show ?thesis by (auto simp: transpile_section_def section_placed_def loadable_def)
next
  case True
  with t obtain segment where find: "find (segment_contains section) segs = Some segment"
    and place: "place_section elf append_slice section segment (n, p) output = (Inr (n', p'), output')"
    by (auto simp: transpile_section_def loadable_def split: option.splits)
  define offset where "offset = section_offset elf section segment"
  have skips: "offset + sh_size section = ucast (section_paddr section segment) \<longleftrightarrow> sh_size section = 0"
    using exact True find by (simp add: skip_exact_def skips_def offset_def)
  have place': "if sh_size section = 0 then (n', p', output') = (n, p, output)
      else write_section elf append_slice section offset (offset + sh_size section)
        (if offset + sh_size section > n then offset + sh_size section else n, p) output
        = (Inr (n', p'), output')"
    using place skips unfolding place_section_def Let_def prod.case offset_def section_offset_def
      section_paddr_def [symmetric]
    by (auto split: if_splits)
  show ?thesis
  proof (cases "sh_size section = 0")
    case empty: True
    with place' find True show ?thesis by (simp add: section_placed_def)
  next
    case False
    with place' have w: "write_section elf append_slice section offset (offset + sh_size section)
        (if offset + sh_size section > n then offset + sh_size section else n, p) output
        = (Inr (n', p'), output')"
      by simp
    from write_section_placed [OF sized [OF True] w] obtain bytes q where q:
      "section_data elf section = Inr (bytes, None)"
      "section_bytes elf section (unat offset) bytes = Some q"
      "unat (offset + sh_size section) = placed_end q" "placed_end q \<le> length output"
      "n' = (if offset + sh_size section > n then offset + sh_size section else n)"
      "p' = padding_after q p" "output' = slice_put output (placed_at q) (transpiled q)"
      by blast
    moreover have "section_placed elf segs section = Some q"
      using True find False q(1,2) by (simp add: section_placed_def flip: offset_def)
    moreover have "unat n' = max (unat n) (placed_end q)"
      using q(3,5) by (auto simp: max_def word_less_nat_alt)
    ultimately show ?thesis by simp
  qed
qed

lemma length_write_image:
  "(\<And>q. q \<in> set qs \<Longrightarrow> placed_end q \<le> length out) \<Longrightarrow> length (write_image qs out) = length out"
  by (induction qs arbitrary: out) (simp_all add: write_image_def placed_end_def)

lemma transpile_sections_placed:
  fixes elf :: "('p, 'c) ElfBytes"
  assumes "\<And>section. section \<in> set sections \<Longrightarrow> loadable section \<Longrightarrow>
      sized_section elf section \<and> skip_exact elf segs section"
    and "transpile_sections elf append_slice segs i sections (n, p) out = (Inr (n', p'), out')"
  defines "qs \<equiv> List.map_filter (section_placed elf segs) sections"
  shows "unat n' = fold (\<lambda>q n. max n (placed_end q)) qs (unat n) \<and> p' = fold padding_after qs p
    \<and> out' = write_image qs out \<and> (\<forall>q\<in>set qs. placed_end q \<le> length out)"
  using assms(1,2) unfolding qs_def
proof (induction sections arbitrary: i n p out)
  case Nil
  then show ?case by (simp add: map_filter_simps write_image_def)
next
  case (Cons sec rest)
  from Cons.prems(2) obtain n1 p1 out1 where
    head: "transpile_section elf append_slice segs i sec (n, p) out = (Inr (n1, p1), out1)"
    and rest: "transpile_sections elf append_slice segs (Suc i) rest (n1, p1) out1 = (Inr (n', p'), out')"
    by (auto split: prod.splits sum.splits)
  have ok: "loadable sec \<Longrightarrow> sized_section elf sec" "loadable sec \<Longrightarrow> skip_exact elf segs sec"
    using Cons.prems(1) by simp_all
  from transpile_section_placed [OF ok head] Cons.IH [OF _ rest] Cons.prems(1) show ?case
    by (auto simp: map_filter_simps write_image_def placed_end_def split: option.splits)
qed

lemma transpile_elf_InrE:
  fixes minimal_parse :: "u8 list \<Rightarrow> 'p + ('p, 'c) ElfBytes"
  assumes "transpile_elf minimal_parse elf output = (Inr n, output')"
  obtains elf_bytes segs sections n1 p1 output1 where
    "minimal_parse elf = Inr elf_bytes" "segments elf_bytes = Some segs"
    "section_headers elf_bytes = Some sections"
    "transpile_sections elf_bytes append_slice segs 0 sections (0, False) output = (Inr (n1, p1), output1)"
    "if p1 then n = n1 + 2 \<and> append_slice output1 n1 [0, 0] = (Inr () :: ('p, 'c) Failure + unit, output')
      else n = n1 \<and> output' = output1"
proof -
  obtain e segs sections where
    e: "minimal_parse elf = Inr e" "segments e = Some segs" "section_headers e = Some sections"
    using assms by (auto simp: transpile_elf_def elf_transpiler_impl_def split: sum.splits option.splits)
  obtain r output1 where
    loop: "transpile_sections e append_slice segs 0 sections (0, False) output = (r, output1)"
    by fastforce
  with assms e obtain n1 p1 where r: "r = Inr (n1, p1)"
    by (cases r) (auto simp: transpile_elf_def elf_transpiler_impl_def split: if_splits)
  have "if p1 then n = n1 + 2 \<and> append_slice output1 n1 [0, 0] = (Inr () :: ('p, 'c) Failure + unit, output')
      else n = n1 \<and> output' = output1"
    using assms e loop r
    by (auto simp: transpile_elf_def elf_transpiler_impl_def split: if_splits prod.splits sum.splits)
  with e loop r that show thesis by blast
qed

lemma sections_conditions:
  assumes "section_data_sized elf" "skip_test_exact elf"
    and "segments elf = Some segs" "section_headers elf = Some sections"
    and "section \<in> set sections" "loadable section"
  shows "sized_section elf section \<and> skip_exact elf segs section"
  using assms by (auto simp: section_data_sized_def skip_test_exact_def)

lemma transpile_elf_image:
  fixes minimal_parse :: "u8 list \<Rightarrow> 'p + ('p, 'c) ElfBytes"
  assumes sized: "\<And>elf_bytes. minimal_parse elf = Inr elf_bytes \<Longrightarrow> section_data_sized elf_bytes"
    and exact: "\<And>elf_bytes. minimal_parse elf = Inr elf_bytes \<Longrightarrow> skip_test_exact elf_bytes"
    and t: "transpile_elf minimal_parse elf output = (Inr n, output')"
  obtains elf_bytes where "minimal_parse elf = Inr elf_bytes"
    "elf_image elf_bytes output = (unat n, output')" "unat n \<le> length output"
    "\<forall>q\<in>set (elf_layout elf_bytes). placed_end q \<le> length output"
proof -
  from t obtain elf_bytes segs sections n1 p1 output1 where
    e: "minimal_parse elf = Inr elf_bytes" "segments elf_bytes = Some segs"
      "section_headers elf_bytes = Some sections"
    and loop: "transpile_sections elf_bytes append_slice segs 0 sections (0, False) output = (Inr (n1, p1), output1)"
    and pad: "if p1 then n = n1 + 2 \<and> append_slice output1 n1 [0, 0] = (Inr () :: ('p, 'c) Failure + unit, output')
      else n = n1 \<and> output' = output1"
    by (rule transpile_elf_InrE)
  define qs where "qs = elf_layout elf_bytes"
  have "qs = List.map_filter (section_placed elf_bytes segs) sections"
    by (simp add: qs_def elf_layout_def e)
  with transpile_sections_placed [OF sections_conditions [OF sized [OF e(1)] exact [OF e(1)] e(2,3)] loop] have
    size: "unat n1 = image_size qs" and p1: "p1 = fold padding_after qs False"
    and output1: "output1 = write_image qs output"
    and ends: "\<And>q. q \<in> set qs \<Longrightarrow> placed_end q \<le> length output"
    by (simp_all add: image_size_def)
  have bound: "unat n \<le> length output" using transpile_elf_bounds [OF sized t] by simp
  have "elf_image elf_bytes output = (unat n, output')"
  proof (cases p1)
    case True
    with pad have n: "n = n1 + 2" and ap: "append_slice output1 n1 [0, 0] = (Inr () :: ('p, 'c) Failure + unit, output')"
      by simp_all
    from append_slice_cases [OF ap] size True show ?thesis
      by (simp add: elf_image_def Let_def image_padding_def output1 n flip: qs_def p1)
  next
    case False
    with pad size show ?thesis
      by (simp add: elf_image_def Let_def image_padding_def output1 slice_put_empty flip: qs_def p1)
  qed
  with that [OF e(1) _ bound] ends show thesis by (simp add: qs_def)
qed

section \<open>Reading the image\<close>

lemma write_image_outside:
  assumes "\<And>q. q \<in> set qs \<Longrightarrow> placed_end q \<le> length out"
    and "\<And>q. q \<in> set qs \<Longrightarrow> b \<le> placed_at q \<or> placed_end q \<le> a"
    and "a \<le> b" "b \<le> length out"
  shows "slice_get (write_image qs out) a b = slice_get out a b"
  using assms
proof (induction qs arbitrary: out)
  case Nil
  then show ?case by (simp add: write_image_def)
next
  case (Cons q qs)
  have "slice_get (slice_put out (placed_at q) (transpiled q)) a b = slice_get out a b"
    using Cons.prems(1,2) [of q] Cons.prems(3,4)
    by (intro slice_get_put_disjoint) (auto simp: placed_end_def)
  with Cons.IH [of "slice_put out (placed_at q) (transpiled q)"] Cons.prems show ?case
    by (simp add: write_image_def placed_end_def)
qed

definition disjoint :: "Placed \<Rightarrow> Placed \<Rightarrow> bool" where
  "disjoint q r \<longleftrightarrow> placed_end q \<le> placed_at r \<or> placed_end r \<le> placed_at q"

lemma write_image_inside:
  assumes "\<And>q. q \<in> set qs \<Longrightarrow> placed_end q \<le> length out" "sorted_wrt disjoint qs" "q \<in> set qs"
  shows "slice_get (write_image qs out) (placed_at q) (placed_end q) = transpiled q"
  using assms
proof (induction qs arbitrary: out)
  case Nil
  then show ?case by simp
next
  case (Cons r qs)
  define out1 where "out1 = slice_put out (placed_at r) (transpiled r)"
  have out1: "length out1 = length out" "write_image (r # qs) out = write_image qs out1"
    using Cons.prems(1) by (simp_all add: out1_def write_image_def placed_end_def)
  show ?case
  proof (cases "q \<in> set qs")
    case True
    with Cons out1 show ?thesis by simp
  next
    case False
    with Cons.prems have q: "q = r" "placed_end r \<le> length out" by auto
    have "slice_get (write_image qs out1) (placed_at q) (placed_end q) = slice_get out1 (placed_at q) (placed_end q)"
      using Cons.prems(1,2) out1(1)
      by (intro write_image_outside) (auto simp: disjoint_def q(1), simp add: placed_end_def)
    with q out1 show ?thesis by (simp add: out1_def placed_end_def)
  qed
qed

lemma image_size_le: "q \<in> set qs \<Longrightarrow> placed_end q \<le> image_size qs"
proof (induction qs rule: rev_induct)
  case (snoc r qs)
  then show ?case by (auto simp: image_size_def le_max_iff_disj)
qed simp

lemma image_size_bound:
  "(\<And>q. q \<in> set qs \<Longrightarrow> placed_end q \<le> n) \<Longrightarrow> image_size qs \<le> n"
  by (induction qs rule: rev_induct) (simp_all add: image_size_def)

text \<open>The padding of a binary whose sections are in ascending order.\<close>

definition in_order :: "Placed list \<Rightarrow> bool" where
  "in_order qs \<longleftrightarrow> sorted_wrt (\<lambda>q r. placed_end q \<le> placed_at r) qs
     \<and> (\<forall>q\<in>set qs. 2 \<le> length (transpiled q))"

lemma in_order_disjoint: "in_order qs \<Longrightarrow> sorted_wrt disjoint qs"
  unfolding in_order_def by (auto intro: sorted_wrt_mono_rel [rotated] simp: disjoint_def)

lemma padding_suffices:
  assumes "in_order qs" "q \<in> set qs" "executable q" "asks_padding q"
  shows "placed_end q + 2 \<le> image_size qs + length (image_padding qs)"
  using assms(1,2)
proof (induction qs rule: rev_induct)
  case Nil
  then show ?case by simp
next
  case (snoc r qs)
  show ?case
  proof (cases "q = r")
    case True
    with assms(3,4) show ?thesis
      by (simp add: image_size_def image_padding_def padding_after_def)
  next
    case False
    with snoc.prems have "placed_end q \<le> placed_at r" "2 \<le> length (transpiled r)"
      by (auto simp: in_order_def sorted_wrt_append)
    then show ?thesis by (simp add: image_size_def placed_end_def [of r])
  qed
qed

lemma elf_image_contents:
  assumes "elf_image elf output = (n, output')" "sorted_wrt disjoint (elf_layout elf)"
    and ends: "\<forall>q\<in>set (elf_layout elf). placed_end q \<le> length output" and n: "n \<le> length output"
    and q: "q \<in> set (elf_layout elf)"
  shows "slice_get output' (placed_at q) (placed_end q) = transpiled q"
proof -
  define out where "out = write_image (elf_layout elf) output"
  have out: "length out = length output" using ends by (simp add: out_def length_write_image)
  have size: "placed_end q \<le> image_size (elf_layout elf)"
    "n = image_size (elf_layout elf) + length (image_padding (elf_layout elf))"
    "output' = slice_put out (image_size (elf_layout elf)) (image_padding (elf_layout elf))"
    using assms(1) image_size_le [OF q] by (simp_all add: elf_image_def Let_def out_def)
  have "slice_get output' (placed_at q) (placed_end q) = slice_get out (placed_at q) (placed_end q)"
    unfolding size(3) using size n out
    by (intro slice_get_put_disjoint) (simp_all add: placed_end_def)
  also have "\<dots> = transpiled q"
    using ends assms(2) q by (simp add: out_def write_image_inside)
  finally show ?thesis .
qed

lemma layout_transpiled:
  fixes elf :: "('p, 'c) ElfBytes"
  assumes "q \<in> set (elf_layout elf)" "executable q"
  shows "(transpile_raw (original q) :: (('p, 'c) Failure, bool, u8 list) outcome)
    = (Inr (asks_padding q), transpiled q)"
proof -
  obtain segs sec where "section_placed elf segs sec = Some q"
    using assms(1) by (auto simp: elf_layout_def List.map_filter_def split: option.splits)
  then obtain offset bytes where "section_bytes elf sec offset bytes = Some q"
    by (auto simp: section_placed_def split: option.splits if_splits sum.splits)
  with assms(2) show ?thesis
    by (auto simp: section_bytes_def split: if_splits prod.splits sum.splits)
qed

text \<open>A binary whose sections are in order, as the code region of an interpreter.\<close>

lemma elf_loaded:
  assumes "elf_image elf output = (n, output')" "in_order (elf_layout elf)"
    and "\<forall>q\<in>set (elf_layout elf). placed_end q \<le> length output"
    and "n \<le> length output" "length output = length output'"
    and q: "q \<in> set (elf_layout elf)" "executable q"
    and s: "take n (code (memory s)) = take n output'" "length (code (memory s)) \<le> 2 ^ 31"
  shows "loaded (asks_padding q) (placed_at q) (transpiled q) s"
proof -
  have n: "n = image_size (elf_layout elf) + length (image_padding (elf_layout elf))"
    using assms(1) by (simp add: elf_image_def Let_def)
  with image_size_le [OF q(1)] have le: "placed_end q \<le> n" by simp
  have "slice_get (code (memory s)) (placed_at q) (placed_end q) =
      slice_get (take n output') (placed_at q) (placed_end q)"
    using le unfolding s(1) [symmetric] by (simp add: slice_get_def drop_take min.absorb1 diff_le_mono)
  also have "\<dots> = transpiled q"
    using elf_image_contents [OF assms(1) in_order_disjoint [OF assms(2)] assms(3,4) q(1)] le
    by (simp add: slice_get_def drop_take min.absorb1 diff_le_mono)
  finally have get: "slice_get (code (memory s)) (placed_at q) (placed_end q) = transpiled q" .
  have "length (take n (code (memory s))) = n"
    unfolding s(1) using assms(4,5) by simp
  then have "n \<le> length (code (memory s))" by simp
  moreover have "placed_end q + (if asks_padding q then 2 else 0) \<le> n"
    using le n padding_suffices [OF assms(2) q] by simp
  ultimately show ?thesis
    using get s(2) by (simp add: loaded_def Let_def flip: placed_end_def)
qed

section \<open>Appending the sections to a vector\<close>

text \<open>
  \<open>transpile_elf_vec\<close> appends the sections and ignores their offsets. If every section begins where
  the one before it ends, this is the same.
\<close>

fun contiguous :: "nat \<Rightarrow> Placed list \<Rightarrow> bool" where
  "contiguous n [] \<longleftrightarrow> True"
| "contiguous n (q # qs) \<longleftrightarrow> placed_at q = n \<and> contiguous (placed_end q) qs"

lemma write_section_vec:
  fixes elf :: "('p, 'c) ElfBytes"
  assumes d: "section_data elf section = Inr (bytes, None)"
    and q: "section_bytes elf section (unat offset) bytes = Some q"
    and stop: "unat (offset + sh_size section) = placed_end q"
    and v: "length v = placed_at q"
  shows "write_section elf append_vec section offset (offset + sh_size section) (n, p) v
    = (Inr (n, padding_after q p), v @ transpiled q)"
proof -
  have at: "placed_at q = unat offset" "original q = bytes" "length (transpiled q) = length bytes"
    using section_bytes_length [OF q] by simp_all
  have le: "\<not> offset > offset + sh_size section"
    using stop at by (simp add: word_less_nat_alt placed_end_def)
  have get: "slice_get (v @ bytes) (unat offset) (unat offset + length bytes) = bytes"
    and put: "slice_put (v @ bytes) (unat offset) (transpiled q) = v @ transpiled q"
    using v at by (simp_all add: slice_get_def slice_put_def)
  show ?thesis
  proof (cases "ucast (sh_flags section) AND SHF_EXECINSTR \<noteq> 0")
    case True
    with q obtain a where
      "(transpile_raw bytes :: (('p, 'c) Failure, bool, u8 list) outcome) = (Inr a, transpiled q)"
      "executable q" "asks_padding q = a"
      by (auto simp: section_bytes_def split: prod.splits sum.splits)
    with d stop v at le get put True show ?thesis
      by (simp add: write_section_def append_vec_def Let_def placed_end_def padding_after_def)
  next
    case False
    with q d at show ?thesis
      by (auto simp: write_section_def append_vec_def Let_def section_bytes_def padding_after_def)
  qed
qed

lemma transpile_section_vec:
  fixes elf :: "('p, 'c) ElfBytes"
  assumes sized: "loadable section \<Longrightarrow> sized_section elf section"
    and exact: "loadable section \<Longrightarrow> skip_exact elf segs section"
    and t: "transpile_section elf append_slice segs i section (n, p) output = (Inr (n', p'), output')"
    and v: "\<And>q. section_placed elf segs section = Some q \<Longrightarrow> length v = placed_at q"
  shows "transpile_section elf append_vec segs i section (n, p) v
    = (Inr (n', p'), v @ (case section_placed elf segs section of None \<Rightarrow> [] | Some q \<Rightarrow> transpiled q))"
proof (cases "loadable section")
  case False
  with t show ?thesis by (auto simp: transpile_section_def section_placed_def loadable_def)
next
  case True
  with t obtain segment where find: "find (segment_contains section) segs = Some segment"
    by (auto simp: transpile_section_def loadable_def split: option.splits)
  define offset where "offset = section_offset elf section segment"
  have skips: "offset + sh_size section = ucast (section_paddr section segment) \<longleftrightarrow> sh_size section = 0"
    using exact True find by (simp add: skip_exact_def skips_def offset_def)
  show ?thesis
  proof (cases "sh_size section = 0")
    case empty: True
    with skips have "offset + sh_size section = ucast (section_paddr section segment)" by simp
    with t find True empty show ?thesis
      by (auto simp: transpile_section_def loadable_def place_section_def section_placed_def Let_def
          offset_def section_offset_def section_paddr_def split: if_splits)
  next
    case False
    with skips have not_skipped: "offset + sh_size section \<noteq> ucast (section_paddr section segment)" by simp
    with t find True have
      align: "ucast (sh_addralign section) \<noteq> (0 :: u32)"
      and w: "write_section elf append_slice section offset (offset + sh_size section)
        (if offset + sh_size section > n then offset + sh_size section else n, p) output
        = (Inr (n', p'), output')"
      by (auto simp: transpile_section_def loadable_def place_section_def Let_def
          offset_def section_offset_def section_paddr_def split: if_splits)
    from write_section_placed [OF sized [OF True] w] obtain bytes q where q:
      "section_data elf section = Inr (bytes, None)"
      "section_bytes elf section (unat offset) bytes = Some q"
      "unat (offset + sh_size section) = placed_end q"
      "n' = (if offset + sh_size section > n then offset + sh_size section else n)"
      "p' = padding_after q p"
      by blast
    have placed: "section_placed elf segs section = Some q"
      using True find False q(1,2) by (simp add: section_placed_def flip: offset_def)
    from write_section_vec [OF q(1-3) v [OF placed]]
    have "place_section elf append_vec section segment (n, p) v = (Inr (n', p'), v @ transpiled q)"
      using align not_skipped q(4,5)
      unfolding place_section_def Let_def prod.case offset_def section_offset_def
        section_paddr_def [symmetric]
      by simp
    with True find placed show ?thesis by (simp add: transpile_section_def loadable_def)
  qed
qed

lemma transpile_sections_vec:
  fixes elf :: "('p, 'c) ElfBytes"
  assumes "\<And>section. section \<in> set sections \<Longrightarrow> loadable section \<Longrightarrow>
      sized_section elf section \<and> skip_exact elf segs section"
    and "transpile_sections elf append_slice segs i sections (n, p) out = (Inr (n', p'), out')"
    and "contiguous (length v) (List.map_filter (section_placed elf segs) sections)"
  shows "transpile_sections elf append_vec segs i sections (n, p) v
    = (Inr (n', p'), v @ concat (map transpiled (List.map_filter (section_placed elf segs) sections)))"
  using assms
proof (induction sections arbitrary: i n p out v)
  case Nil
  then show ?case by (simp add: map_filter_simps)
next
  case (Cons sec rest)
  from Cons.prems(2) obtain n1 p1 out1 where
    head: "transpile_section elf append_slice segs i sec (n, p) out = (Inr (n1, p1), out1)"
    and rest: "transpile_sections elf append_slice segs (Suc i) rest (n1, p1) out1 = (Inr (n', p'), out')"
    by (auto split: prod.splits sum.splits)
  have ok: "loadable sec \<Longrightarrow> sized_section elf sec" "loadable sec \<Longrightarrow> skip_exact elf segs sec"
    using Cons.prems(1) by simp_all
  have v: "length v = placed_at q" if "section_placed elf segs sec = Some q" for q
    using Cons.prems(3) that by (simp add: map_filter_simps)
  show ?case
  proof (cases "section_placed elf segs sec")
    case None
    with transpile_section_vec [OF ok head v] Cons.IH [OF _ rest, of v] Cons.prems(1,3)
    show ?thesis by (simp add: map_filter_simps)
  next
    case (Some q)
    with Cons.prems(3) have "contiguous (length (v @ transpiled q)) (List.map_filter (section_placed elf segs) rest)"
      by (auto simp: map_filter_simps placed_end_def)
    with transpile_section_vec [OF ok head v] Cons.IH [OF _ rest this] Some Cons.prems(1)
    show ?thesis by (simp add: map_filter_simps)
  qed
qed

lemma contiguous_image:
  assumes "contiguous (length v) qs" "\<And>q. q \<in> set qs \<Longrightarrow> placed_end q \<le> length out"
    and "take (length v) out = v" "length v \<le> length out"
  defines "w \<equiv> v @ concat (map transpiled qs)"
  shows "take (length w) (write_image qs out) = w \<and> length w \<le> length out
    \<and> fold (\<lambda>q n. max n (placed_end q)) qs (length v) = length w"
  using assms(1-4) unfolding w_def
proof (induction qs arbitrary: v out)
  case Nil
  then show ?case by (simp add: write_image_def)
next
  case (Cons q qs)
  define out1 where "out1 = slice_put out (placed_at q) (transpiled q)"
  have len: "length v + length (transpiled q) \<le> length out" "placed_at q = length v"
    using Cons.prems(1) Cons.prems(2) [of q] by (simp_all add: placed_end_def)
  then have "take (length (v @ transpiled q)) out1 = v @ transpiled q" "length out1 = length out"
    using Cons.prems(3) by (simp_all add: out1_def slice_put_def)
  moreover have "slice_put out (length v) (transpiled q) = out1"
    using Cons.prems(1) by (simp add: out1_def)
  moreover have "placed_end q = length (v @ transpiled q)" "contiguous (length (v @ transpiled q)) qs"
    using Cons.prems(1) by (auto simp: placed_end_def)
  ultimately show ?case
    using len(1) Cons.prems Cons.IH [of "v @ transpiled q" out1] by (simp add: write_image_def max_def)
qed

lemma elf_vec_agrees:
  fixes minimal_parse :: "u8 list \<Rightarrow> 'p + ('p, 'c) ElfBytes"
  assumes sized: "\<And>elf_bytes. minimal_parse elf = Inr elf_bytes \<Longrightarrow> section_data_sized elf_bytes"
    and exact: "\<And>elf_bytes. minimal_parse elf = Inr elf_bytes \<Longrightarrow> skip_test_exact elf_bytes"
    and t: "transpile_elf minimal_parse elf output = (Inr n, output')"
    and "\<And>elf_bytes. minimal_parse elf = Inr elf_bytes \<Longrightarrow> contiguous 0 (elf_layout elf_bytes)"
  shows "transpile_elf_vec minimal_parse elf = Inr (take (unat n) output')"
proof -
  from t obtain e segs sections n1 p1 output1 where
    e: "minimal_parse elf = Inr e" "segments e = Some segs" "section_headers e = Some sections"
    and loop: "transpile_sections e append_slice segs 0 sections (0, False) output = (Inr (n1, p1), output1)"
    by (rule transpile_elf_InrE)
  define qs where "qs = elf_layout e"
  have qs: "qs = List.map_filter (section_placed e segs) sections"
    by (simp add: qs_def elf_layout_def e)
  note ok = sections_conditions [OF sized [OF e(1)] exact [OF e(1)] e(2,3)]
  have loop_vec: "transpile_sections e append_vec segs 0 sections (0, False) []
      = (Inr (n1, p1), concat (map transpiled qs))"
    using transpile_sections_vec [OF ok loop, of "[]"] assms(4) [OF e(1)]
    by (simp add: qs flip: qs_def)
  have p1: "p1 = fold padding_after qs False"
    using transpile_sections_placed [OF ok loop] by (simp add: qs)
  have platform: "e_machine e = EM_RISCV" "class_elf32 e"
    using t e by (auto simp: transpile_elf_def elf_transpiler_impl_def split: if_splits)
  have vec: "transpile_elf_vec minimal_parse elf = Inr (concat (map transpiled qs) @ image_padding qs)"
    using e platform loop_vec
    by (simp add: transpile_elf_vec_def elf_transpiler_impl_def append_vec_def image_padding_def flip: p1)
  obtain e' where "minimal_parse elf = Inr e'" and image: "elf_image e' output = (unat n, output')"
      "unat n \<le> length output" "\<forall>q\<in>set (elf_layout e'). placed_end q \<le> length output"
    by (rule transpile_elf_image [OF sized exact t])
  then have e': "e' = e" using e(1) by simp
  have c: "take (length (concat (map transpiled qs))) (write_image qs output) = concat (map transpiled qs)
    \<and> length (concat (map transpiled qs)) \<le> length output
    \<and> image_size qs = length (concat (map transpiled qs))"
    using contiguous_image [of "[]" qs "output"] assms(4) [OF e(1)] image(3)
    by (simp add: image_size_def e' flip: qs_def)
  have "unat n = image_size qs + length (image_padding qs)"
    "output' = slice_put (write_image qs output) (image_size qs) (image_padding qs)"
    using image(1) by (simp_all add: elf_image_def Let_def e' flip: qs_def)
  with c have "take (unat n) output' = concat (map transpiled qs) @ image_padding qs"
    by (simp add: slice_put_def min_def)
  with vec show ?thesis by simp
qed

end
