(* ===== verification/Host.thy ===== *)
theory Host
  imports Interpreter
begin

text \<open>
  The host side of the interpreter: \<open>syscall_async\<close> of \<^verbatim>\<open>src/interpreter.rs\<close>, and the host programs
  of \<^verbatim>\<open>examples/\<close>, a system call handler and the loop that drives the interpreter.

  An asynchronous function is a state machine that an executor polls: a poll returns \<open>Pending\<close>, here
  with the state in which the function gave up control, or \<open>Ready\<close>, after which it must not be polled
  again. The handler is a closure, that is a pair: the call, which makes a future out of the
  arguments, and the poll of that future. While the future lives, it holds the memory and what the
  closure captures, and the future of \<open>syscall_async\<close> holds the interpreter, so that nobody else
  changes them between two polls.
\<close>

section \<open>Asynchronous system calls\<close>

datatype ('fut, 'r) Poll = Pending 'fut | Ready 'r

record ('m, 'c, 'e, 'fut) async_fn =
  async_call :: "i32 \<Rightarrow> i32 list \<Rightarrow> 'm \<Rightarrow> 'c \<Rightarrow> 'fut \<times> 'm \<times> 'c"
  async_poll :: "'fut \<Rightarrow> 'm \<Rightarrow> 'c \<Rightarrow> ('fut, 'e + (NonZeroI32 + i32)) Poll \<times> 'm \<times> 'c"

datatype 'fut SyscallFuture = Unresumed | Suspended 'fut

text \<open>
  The future of \<open>syscall_async\<close>: the first poll runs it to its only \<open>await\<close>, and every poll from
  there on polls the handler.
\<close>

definition resume_syscall ::
  "('m, 'c, 'e, 'fut) async_fn \<Rightarrow> 'fut \<Rightarrow> 'm Interpreter \<Rightarrow> 'c
     \<Rightarrow> ('fut SyscallFuture, 'e + unit) Poll \<times> 'm Interpreter \<times> 'c" where
  "resume_syscall A fut s c =
     (case async_poll A fut (memory s) c of
        (Pending fut, m, c) \<Rightarrow> (Pending (Suspended fut), s\<lparr>memory := m\<rparr>, c)
      | (Ready (Inl e), m, c) \<Rightarrow> (Ready (Inl e), s\<lparr>memory := m\<rparr>, c)
      | (Ready (Inr result), m, c) \<Rightarrow>
          (Ready (Inr ()), syscall_result result (s\<lparr>memory := m\<rparr>), c))"

fun syscall_async ::
  "('m, 'c, 'e, 'fut) async_fn \<Rightarrow> 'fut SyscallFuture \<Rightarrow> 'm Interpreter \<Rightarrow> 'c
     \<Rightarrow> ('fut SyscallFuture, 'e + unit) Poll \<times> 'm Interpreter \<times> 'c" where
  "syscall_async A Unresumed s c =
     (case syscall_arguments s of
        (nr, args, m) \<Rightarrow>
          (case async_call A nr args m c of
             (fut, m, c) \<Rightarrow> resume_syscall A fut (s\<lparr>memory := m\<rparr>) c))"
| "syscall_async A (Suspended fut) s c = resume_syscall A fut s c"

text \<open>
  An executor that polls until the future is ready: \<open>await_handler\<close> for the future of the handler,
  \<open>await_syscall\<close> for the one of \<open>syscall_async\<close>. They may not return.
\<close>

partial_function (option) await_handler ::
  "('m, 'c, 'e, 'fut) async_fn \<Rightarrow> 'fut \<Rightarrow> 'm \<Rightarrow> 'c \<Rightarrow> (('e + (NonZeroI32 + i32)) \<times> 'm \<times> 'c) option" where
  "await_handler A fut m c =
     (case async_poll A fut m c of
        (Pending fut, m, c) \<Rightarrow> await_handler A fut m c
      | (Ready r, m, c) \<Rightarrow> Some (r, m, c))"

partial_function (option) await_syscall ::
  "('m, 'c, 'e, 'fut) async_fn \<Rightarrow> 'fut SyscallFuture \<Rightarrow> 'm Interpreter \<Rightarrow> 'c
     \<Rightarrow> ('e, unit, 'm Interpreter \<times> 'c) outcome option" where
  "await_syscall A fut s c =
     (case syscall_async A fut s c of
        (Pending fut, s, c) \<Rightarrow> await_syscall A fut s c
      | (Ready r, s, c) \<Rightarrow> Some (r, s, c))"

section \<open>Driving the interpreter\<close>

text \<open>
  The loop of \<^verbatim>\<open>examples/embassy.rs\<close>, for any handler and any value of the interrupt. Each \<open>unwrap\<close> of
  an error ends it with a panic, \<open>break\<close> with \<open>None\<close>. The \<open>yield_now\<close> after the instruction limit lets
  other tasks run, which do not touch the interpreter.
\<close>

datatype 'e HostPanic = RunFailed Error | SyscallFailed 'e | InterruptFailed Error

type_synonym ('m, 'c, 'e) host_result = "'e HostPanic option \<times> 'm Interpreter \<times> 'c"

partial_function (option) host_loop ::
  "'m memory_ops \<Rightarrow> ('m, 'c, 'e, 'fut) async_fn \<Rightarrow> i32 \<Rightarrow> 'm Interpreter \<Rightarrow> 'c
     \<Rightarrow> ('m, 'c, 'e) host_result option" where
  "host_loop M A v s c =
     Option.bind (run M s) (\<lambda>(r, s).
       case r of
         Inl e \<Rightarrow> Some (Some (RunFailed e), s, c)
       | Inr Running \<Rightarrow> host_loop M A v s c
       | Inr Called \<Rightarrow>
           Option.bind (await_syscall A Unresumed s c) (\<lambda>(r, s, c).
             case r of
               Inl e \<Rightarrow> Some (Some (SyscallFailed e), s, c)
             | Inr _ \<Rightarrow> host_loop M A v s c)
       | Inr Waiting \<Rightarrow>
           (case interrupt v s of
              (Inl e, s) \<Rightarrow> Some (Some (InterruptFailed e), s, c)
            | (Inr _, s) \<Rightarrow> host_loop M A v s c)
       | Inr Halted \<Rightarrow> Some (None, s, c))"

section \<open>The system calls of the examples\<close>

setup_lifting type_definition_NonZeroI32

instantiation NonZeroI32 :: equal
begin

lift_definition equal_NonZeroI32 :: "NonZeroI32 \<Rightarrow> NonZeroI32 \<Rightarrow> bool" is "(=)" .

instance by standard (transfer, rule refl)

end

lift_definition error_loading :: NonZeroI32 is 1 by simp

lift_definition not_implemented :: NonZeroI32 is 2 by simp

text \<open>The body that both examples share: add two numbers, load a word, or fail.\<close>

definition example_syscall ::
  "'m memory_ops \<Rightarrow> i32 \<Rightarrow> i32 list \<Rightarrow> 'm \<Rightarrow> 'c \<Rightarrow> ('e + (NonZeroI32 + i32)) \<times> 'm \<times> 'c" where
  "example_syscall M nr args m c =
     (if nr = 1 then (Inr (Inr (args ! 0 + args ! 1)), m, c)
      else if nr = 2 then
        (case load_num M m (args ! 0) of
           (Inr val, m) \<Rightarrow> (Inr (Inr val), m, c)
         | (Inl _, m) \<Rightarrow> (Inr (Inl error_loading), m, c))
      else (Inr (Inl not_implemented), m, c))"

text \<open>
  The asynchronous one gives up control once before its body. How often \<open>yield_now\<close>, which is part of
  the crate \<^verbatim>\<open>embassy_futures\<close>, is pending is the parameter \<open>k\<close>.
\<close>

datatype ExampleFuture = Yielding nat i32 "i32 list"

definition example_syscall_async ::
  "'m memory_ops \<Rightarrow> nat \<Rightarrow> ('m, 'c, 'e, ExampleFuture) async_fn" where
  "example_syscall_async M k = \<lparr>
     async_call = (\<lambda>nr args m c. (Yielding k nr args, m, c)),
     async_poll = (\<lambda>fut m c.
       case fut of
         Yielding (Suc n) nr args \<Rightarrow> (Pending (Yielding n nr args), m, c)
       | Yielding 0 nr args \<Rightarrow>
           (case example_syscall M nr args m c of (r, m, c) \<Rightarrow> (Ready r, m, c)))\<rparr>"

section \<open>Awaiting a system call is awaiting its handler\<close>

text \<open>A poll that is pending changes the memory and nothing else of the interpreter.\<close>

lemma resume_syscall_pending:
  "resume_syscall A fut s c = (Pending fut', s', c') \<Longrightarrow> s' = s\<lparr>memory := memory s'\<rparr>"
  by (auto simp: resume_syscall_def split: prod.splits Poll.splits sum.splits)

text \<open>What a system call does with the result of its handler.\<close>

definition syscall_end ::
  "'m Interpreter \<Rightarrow> ('e + (NonZeroI32 + i32)) \<times> 'm \<times> 'c \<Rightarrow> ('e, unit, 'm Interpreter \<times> 'c) outcome" where
  "syscall_end s = (\<lambda>(r, m, c).
     case r of
       Inl e \<Rightarrow> (Inl e, s\<lparr>memory := m\<rparr>, c)
     | Inr result \<Rightarrow> (Inr (), syscall_result result (s\<lparr>memory := m\<rparr>), c))"

lemma syscall_end_memory: "syscall_end (s\<lparr>memory := m\<rparr>) = syscall_end s"
  by (rule ext) (auto simp: syscall_end_def split: sum.split)

lemma syscall_is_end:
  "syscall f s c = (case syscall_arguments s of (nr, args, m) \<Rightarrow> syscall_end s (f nr args m c))"
  by (auto simp: syscall_def syscall_end_def split: prod.split sum.split)

lemma resume_syscall_end:
  "resume_syscall A fut s c = (case async_poll A fut (memory s) c of
     (Pending fut, m, c) \<Rightarrow> (Pending (Suspended fut), s\<lparr>memory := m\<rparr>, c)
   | (Ready r, m, c) \<Rightarrow> (case syscall_end s (r, m, c) of (r, s, c) \<Rightarrow> (Ready r, s, c)))"
  by (auto simp: resume_syscall_def syscall_end_def split: prod.split Poll.split sum.split)

lemma await_handler_syscall:
  fixes A :: "('m, 'c, 'e, 'fut) async_fn" and s :: "'m Interpreter"
  assumes "await_handler A fut m c = Some y" "memory s = m"
  shows "await_syscall A (Suspended fut) s c = Some (syscall_end s y)"
proof -
  have "\<forall>s. memory s = m \<longrightarrow> await_syscall A (Suspended fut) s c = Some (syscall_end s y)"
  proof (rule await_handler.raw_induct [where P = "\<lambda>A fut m c y.
      \<forall>s. memory s = m \<longrightarrow> await_syscall A (Suspended fut) s c = Some (syscall_end s y)", OF _ assms(1)])
    fix await and A :: "('m, 'c, 'e, 'fut) async_fn" and fut m c y
    assume IH: "\<And>A fut m c y. await A fut m c = Some y \<Longrightarrow>
        \<forall>s. memory s = m \<longrightarrow> await_syscall A (Suspended fut) s c = Some (syscall_end s y)"
      and y: "(case async_poll A fut m c of
          (Pending fut, m, c) \<Rightarrow> await A fut m c | (Ready r, m, c) \<Rightarrow> Some (r, m, c)) = Some y"
    show "\<forall>s. memory s = m \<longrightarrow> await_syscall A (Suspended fut) s c = Some (syscall_end s y)"
    proof (intro allI impI)
      fix s :: "'m Interpreter" assume s: "memory s = m"
      show "await_syscall A (Suspended fut) s c = Some (syscall_end s y)"
        using y s IH
        by (subst await_syscall.simps)
           (auto simp: resume_syscall_end syscall_end_memory split: prod.splits Poll.splits)
    qed
  qed
  with assms(2) show ?thesis by blast
qed

lemma await_syscall_handler:
  fixes A :: "('m, 'c, 'e, 'fut) async_fn" and s :: "'m Interpreter"
  assumes "await_syscall A (Suspended fut) s c = Some y"
  shows "\<exists>z. await_handler A fut (memory s) c = Some z \<and> y = syscall_end s z"
proof -
  have "\<forall>fut'. Suspended fut = Suspended fut' \<longrightarrow>
      (\<exists>z. await_handler A fut' (memory s) c = Some z \<and> y = syscall_end s z)"
  proof (rule await_syscall.raw_induct [where P = "\<lambda>A future s c y. \<forall>fut. future = Suspended fut \<longrightarrow>
      (\<exists>z. await_handler A fut (memory s) c = Some z \<and> y = syscall_end s z)", OF _ assms])
    fix await and A :: "('m, 'c, 'e, 'fut) async_fn" and future and s :: "'m Interpreter" and c y
    assume IH: "\<And>A future s c y. await A future s c = Some y \<Longrightarrow> \<forall>fut. future = Suspended fut \<longrightarrow>
        (\<exists>z. await_handler A fut (memory s) c = Some z \<and> y = syscall_end s z)"
      and y: "(case syscall_async A future s c of
          (Pending fut, s, c) \<Rightarrow> await A fut s c | (Ready r, s, c) \<Rightarrow> Some (r, s, c)) = Some y"
    show "\<forall>fut. future = Suspended fut \<longrightarrow>
        (\<exists>z. await_handler A fut (memory s) c = Some z \<and> y = syscall_end s z)"
    proof (intro allI impI)
      fix fut assume "future = Suspended fut"
      with y show "\<exists>z. await_handler A fut (memory s) c = Some z \<and> y = syscall_end s z"
        by (subst await_handler.simps)
           (auto simp: resume_syscall_end syscall_end_memory split: prod.splits Poll.splits dest!: IH)
    qed
  qed
  then show ?thesis by blast
qed

lemma await_suspended:
  "await_syscall A (Suspended fut) s c = map_option (syscall_end s) (await_handler A fut (memory s) c)"
proof (cases "await_handler A fut (memory s) c")
  case (Some y)
  from await_handler_syscall [OF Some refl] Some show ?thesis by simp
next
  case None
  then show ?thesis
    using await_syscall_handler [of A fut s c] by (cases "await_syscall A (Suspended fut) s c") auto
qed

lemma await_unresumed:
  "await_syscall A Unresumed s c =
     (case syscall_arguments s of (nr, args, m) \<Rightarrow>
        case async_call A nr args m c of (fut, m, c) \<Rightarrow>
          map_option (syscall_end s) (await_handler A fut m c))"
proof -
  obtain nr args m where args: "syscall_arguments s = (nr, args, m)" by (cases "syscall_arguments s")
  obtain fut m' c' where call: "async_call A nr args m c = (fut, m', c')"
    by (cases "async_call A nr args m c")
  have "await_syscall A Unresumed s c = await_syscall A (Suspended fut) (s\<lparr>memory := m'\<rparr>) c'"
    by (simp add: await_syscall.simps [of A Unresumed] await_syscall.simps [of A "Suspended fut"]
        args call)
  then show ?thesis by (simp add: await_suspended args call syscall_end_memory)
qed

section \<open>Blocking handlers\<close>

text \<open>
  The contract between an asynchronous handler and a blocking one: awaiting the first is calling the
  second. Under it, \<open>syscall_async\<close> is \<open>syscall\<close>.
\<close>

locale blocking_handler =
  fixes A :: "('m, 'c, 'e, 'fut) async_fn" and f :: "('m, 'c, 'e) syscall_fn"
  assumes await_call: "async_call A nr args m c = (fut, m', c') \<Longrightarrow>
    await_handler A fut m' c' = Some (f nr args m c)"
begin

lemma await_syscall_blocking: "await_syscall A Unresumed s c = Some (syscall f s c)"
  by (auto simp: await_unresumed syscall_is_end await_call split: prod.split)

end

lemma example_await:
  "await_handler (example_syscall_async M k) (Yielding n nr args) m c = Some (example_syscall M nr args m c)"
  by (induction n; subst await_handler.simps) (simp_all add: example_syscall_async_def split: prod.split)

interpretation example: blocking_handler "example_syscall_async M k" "example_syscall M"
  for M :: "'m memory_ops" and k
  by unfold_locales (auto simp: example_syscall_async_def example_await [unfolded example_syscall_async_def])

section \<open>The loop, instruction by instruction\<close>

text \<open>
  What the host does with the state that \<open>run\<close> returns: \<open>Inl\<close> the end of the loop, \<open>Inr\<close> the state
  it goes on from. Executing single instructions and reacting to each of them is \<open>host_steps\<close>, with a
  bound on their number.
\<close>

definition host_reaction ::
  "('m, 'c, 'e) syscall_fn \<Rightarrow> i32 \<Rightarrow> Error + State \<Rightarrow> 'm Interpreter \<Rightarrow> 'c
     \<Rightarrow> ('m, 'c, 'e) host_result + 'm Interpreter \<times> 'c" where
  "host_reaction f v r s c =
     (case r of
        Inl e \<Rightarrow> Inl (Some (RunFailed e), s, c)
      | Inr Running \<Rightarrow> Inr (s, c)
      | Inr Called \<Rightarrow>
          (case syscall f s c of
             (Inl e, s, c) \<Rightarrow> Inl (Some (SyscallFailed e), s, c)
           | (Inr _, s, c) \<Rightarrow> Inr (s, c))
      | Inr Waiting \<Rightarrow>
          (case interrupt v s of
             (Inl e, s) \<Rightarrow> Inl (Some (InterruptFailed e), s, c)
           | (Inr _, s) \<Rightarrow> Inr (s, c))
      | Inr Halted \<Rightarrow> Inl (None, s, c))"

definition host_instruction ::
  "'m memory_ops \<Rightarrow> ('m, 'c, 'e) syscall_fn \<Rightarrow> i32 \<Rightarrow> 'm Interpreter \<Rightarrow> 'c
     \<Rightarrow> ('m, 'c, 'e) host_result + 'm Interpreter \<times> 'c" where
  "host_instruction M f v s c = (case step M s of (r, s) \<Rightarrow> host_reaction f v r s c)"

fun host_steps ::
  "'m memory_ops \<Rightarrow> ('m, 'c, 'e) syscall_fn \<Rightarrow> i32 \<Rightarrow> nat \<Rightarrow> 'm Interpreter \<Rightarrow> 'c
     \<Rightarrow> ('m, 'c, 'e) host_result option" where
  "host_steps M f v 0 s c = None"
| "host_steps M f v (Suc n) s c =
     (case host_instruction M f v s c of
        Inl r \<Rightarrow> Some r
      | Inr (s, c) \<Rightarrow> host_steps M f v n s c)"

lemma host_steps_mono: "host_steps M f v n s c = Some y \<Longrightarrow> n \<le> k \<Longrightarrow> host_steps M f v k s c = Some y"
proof (induction n arbitrary: s c k)
  case (Suc n)
  then obtain k' where "k = Suc k'" "n \<le> k'" by (cases k) auto
  with Suc show ?case by (auto split: sum.splits)
qed simp

lemma host_steps_unique:
  "host_steps M f v n s c = Some y \<Longrightarrow> host_steps M f v k s c = Some z \<Longrightarrow> y = z"
  by (metis host_steps_mono nat_le_linear option.inject)

text \<open>A run inside the loop is a number of its instructions.\<close>

lemma host_steps_run:
  assumes "run_limited M k s = (r, s1)"
  shows "(\<exists>n. host_steps M f v n s c = Some y) \<longleftrightarrow>
    (case host_reaction f v r s1 c of
       Inl z \<Rightarrow> y = z
     | Inr (s2, c2) \<Rightarrow> \<exists>n. host_steps M f v n s2 c2 = Some y)"
  using assms
proof (induction k arbitrary: s)
  case 0
  then show ?case by (auto simp: host_reaction_def)
next
  case (Suc k)
  have unfold: "(\<exists>n. host_steps M f v n s c = Some y) \<longleftrightarrow>
      (case host_instruction M f v s c of
         Inl z \<Rightarrow> y = z | Inr (s2, c2) \<Rightarrow> \<exists>n. host_steps M f v n s2 c2 = Some y)"
    (is "?l \<longleftrightarrow> ?r")
  proof
    assume ?l
    then obtain n where "host_steps M f v n s c = Some y" by blast
    then show ?r by (cases n) (auto split: sum.splits)
  next
    assume ?r
    then obtain n where "host_steps M f v (Suc n) s c = Some y" by (auto split: sum.splits)
    then show ?l by blast
  qed
  obtain r' s' where step: "step M s = (r', s')" by fastforce
  show ?case
  proof (cases "r' = Inr Running")
    case True
    with Suc step unfold show ?thesis by (simp add: host_instruction_def host_reaction_def)
  next
    case False
    with Suc.prems step have "r = r'" "s1 = s'" by (auto split: sum.splits if_splits)
    then show ?thesis unfolding unfold by (simp add: host_instruction_def step)
  qed
qed

lemma host_steps_run_bound:
  assumes "host_steps M f v n s c = Some y" "run_limited M k s = (r, s1)" "0 < k"
  shows "case host_reaction f v r s1 c of
      Inl z \<Rightarrow> y = z
    | Inr (s2, c2) \<Rightarrow> \<exists>m<n. (r = Inr Running \<longrightarrow> m + k \<le> n) \<and> host_steps M f v m s2 c2 = Some y"
  using assms
proof (induction k arbitrary: n s)
  case (Suc k)
  obtain n' where n: "n = Suc n'" using Suc.prems(1) by (cases n) auto
  obtain r' s' where step: "step M s = (r', s')" by fastforce
  show ?case
  proof (cases "r' = Inr Running")
    case True
    with Suc.prems n step have next_run: "host_steps M f v n' s' c = Some y" "run_limited M k s' = (r, s1)"
      by (auto simp: host_instruction_def host_reaction_def)
    show ?thesis
    proof (cases "k = 0")
      case True
      with next_run n show ?thesis by (auto simp: host_reaction_def)
    next
      case False
      then have IH: "case host_reaction f v r s1 c of Inl z \<Rightarrow> y = z
        | Inr (s2, c2) \<Rightarrow> \<exists>m<n'. (r = Inr Running \<longrightarrow> m + k \<le> n') \<and> host_steps M f v m s2 c2 = Some y"
        using Suc.IH [OF next_run] by simp
      have "m < n' \<Longrightarrow> m < n" "m + k \<le> n' \<Longrightarrow> m + Suc k \<le> n" for m using n by simp_all
      with IH show ?thesis by (simp split: sum.splits) blast
    qed
  next
    case False
    with Suc.prems step have "r = r'" "s1 = s'" by (auto split: sum.splits if_splits)
    with Suc.prems(1) False n step show ?thesis
      by (auto simp: host_instruction_def split: sum.splits)
  qed
qed simp

lemma run_some_limited:
  assumes "run M s = Some (r, s1)"
  obtains k where "0 < k" "run_limited M k s = (r, s1)"
proof (cases "instruction_limit s > 0")
  case True
  with assms that show thesis by (auto simp: run_def word_less_nat_alt)
next
  case False
  then obtain k where k: "run_limited M k s = (r, s1)" "r \<noteq> Inr Running"
    using assms run_unlimited_limited [of M s "(r, s1)"] by (auto simp: run_def)
  then have "0 < k" by (cases k) auto
  with k that show thesis by blast
qed

context blocking_handler
begin

lemma host_loop_unfold:
  "host_loop M A v s c = Option.bind (run M s) (\<lambda>(r, s).
     case host_reaction f v r s c of Inl y \<Rightarrow> Some y | Inr (s, c) \<Rightarrow> host_loop M A v s c)"
  by (subst host_loop.simps)
     (auto simp: host_reaction_def await_syscall_blocking
       split: bind_split prod.split sum.split State.split)

lemma host_loop_steps:
  assumes "host_loop M A v s c = Some y"
  shows "\<exists>n. host_steps M f v n s c = Some y"
proof -
  have "A = A \<longrightarrow> (\<exists>n. host_steps M f v n s c = Some y)"
  proof (rule host_loop.raw_induct [where P = "\<lambda>M A' v s c y.
      A' = A \<longrightarrow> (\<exists>n. host_steps M f v n s c = Some y)", OF _ assms], intro impI)
    fix loop M A' v s c y
    assume IH: "\<And>M A' v s c y. loop M A' v s c = Some y \<Longrightarrow>
        A' = A \<longrightarrow> (\<exists>n. host_steps M f v n s c = Some y)"
      and A: "A' = A"
      and y: "Option.bind (run M s) (\<lambda>(r, s).
         case r of
           Inl e \<Rightarrow> Some (Some (RunFailed e), s, c)
         | Inr Running \<Rightarrow> loop M A' v s c
         | Inr Called \<Rightarrow>
             Option.bind (await_syscall A' Unresumed s c) (\<lambda>(r, s, c).
               case r of
                 Inl e \<Rightarrow> Some (Some (SyscallFailed e), s, c)
               | Inr _ \<Rightarrow> loop M A' v s c)
         | Inr Waiting \<Rightarrow>
             (case interrupt v s of
                (Inl e, s) \<Rightarrow> Some (Some (InterruptFailed e), s, c)
              | (Inr _, s) \<Rightarrow> loop M A' v s c)
         | Inr Halted \<Rightarrow> Some (None, s, c)) = Some y"
    obtain r s1 where run: "run M s = Some (r, s1)" using y by (auto simp: bind_eq_Some_conv)
    have react: "(case host_reaction f v r s1 c of Inl y \<Rightarrow> Some y | Inr (s, c) \<Rightarrow> loop M A v s c) = Some y"
      using y unfolding run A
      by (auto simp: host_reaction_def await_syscall_blocking split: prod.splits sum.splits State.splits)
    obtain k where "run_limited M k s = (r, s1)" using run_some_limited [OF run] by blast
    note steps = host_steps_run [OF this, of f v c y]
    show "\<exists>n. host_steps M f v n s c = Some y"
    proof (cases "host_reaction f v r s1 c")
      case (Inl z)
      with react steps show ?thesis by simp
    next
      case (Inr nxt)
      obtain s2 c2 where "nxt = (s2, c2)" by fastforce
      with react Inr have "loop M A v s2 c2 = Some y" by simp
      with IH have "\<exists>n. host_steps M f v n s2 c2 = Some y" by blast
      with steps Inr \<open>nxt = (s2, c2)\<close> show ?thesis by simp
    qed
  qed
  then show ?thesis by simp
qed

lemma steps_host_loop:
  "host_steps M f v n s c = Some y \<Longrightarrow> host_loop M A v s c = Some y"
proof (induction n arbitrary: s c rule: less_induct)
  case (less n)
  have "0 < n" using less.prems by (cases n) auto
  have "\<exists>r. run M s = Some r"
  proof (cases "instruction_limit s > 0")
    case False
    obtain r s1 where r: "run_limited M n s = (r, s1)" by fastforce
    from host_steps_run_bound [OF less.prems r \<open>0 < n\<close>] have "r \<noteq> Inr Running"
      by (auto simp: host_reaction_def)
    with r False run_limited_unlimited [of M n s] show ?thesis by (simp add: run_def)
  qed (simp add: run_def)
  then obtain r s1 where run: "run M s = Some (r, s1)" by auto
  obtain k where "0 < k" "run_limited M k s = (r, s1)" using run_some_limited [OF run] by blast
  from host_steps_run_bound [OF less.prems this(2,1)] less.IH run show ?case
    by (subst host_loop_unfold) (auto split: sum.splits)
qed

theorem host_loop_iff: "host_loop M A v s c = Some y \<longleftrightarrow> (\<exists>n. host_steps M f v n s c = Some y)"
  using host_loop_steps steps_host_loop by blast

end

end
