(* ===== verification/Test_Support.thy ===== *)
theory Test_Support
  imports Host Transpiler "HOL-Library.Monad_Syntax"
begin

text \<open>
  The unit tests of the crate, as definitions over the model. A test is a computation in the option
  monad, statement by statement the body of its Rust function: \<open>None\<close> is a panic, of a failed \<open>assert\<close>
  or of an \<open>unwrap\<close>, and a test passes if it returns. This theory has what the tests of all modules
  use; each module of the crate has its list of tests in one of the theories that import it.
\<close>

definition assert :: "bool \<Rightarrow> unit option" where
  "assert b = (if b then Some () else None)"

fun unwrap :: "'e + 'a \<Rightarrow> 'a option" where
  "unwrap (Inr v) = Some v"
| "unwrap (Inl e) = None"

fun is_err :: "'e + 'a \<Rightarrow> bool" where
  "is_err (Inr v) \<longleftrightarrow> False"
| "is_err (Inl e) \<longleftrightarrow> True"

fun invalid_address :: "Error + 'a \<Rightarrow> bool" where
  "invalid_address (Inl (InvalidMemoryAddress a)) \<longleftrightarrow> True"
| "invalid_address _ \<longleftrightarrow> False"

fun invalid_register :: "Error + 'a \<Rightarrow> bool" where
  "invalid_register (Inl (InvalidCPURegister i)) \<longleftrightarrow> True"
| "invalid_register _ \<longleftrightarrow> False"

section \<open>Registers\<close>

text \<open>
  The expressions \<^verbatim>\<open>*get_mut(i).unwrap() = v\<close>, \<^verbatim>\<open>get(i).unwrap()\<close> and \<^verbatim>\<open>*get_mut(i).unwrap()\<close> on the CPU
  registers, and \<^verbatim>\<open>operation(op, addr).unwrap()\<close> on the control and status registers.
\<close>

definition poke :: "u8 \<Rightarrow> i32 \<Rightarrow> 'm Interpreter \<Rightarrow> 'm Interpreter option" where
  "poke i v s = do { (old, write) \<leftarrow> unwrap (get_reg_mut s i); Some (set_cpu (write v) s) }"

definition peek :: "u8 \<Rightarrow> 'm Interpreter \<Rightarrow> i32 option" where
  "peek i s = unwrap (get_reg s i)"

definition peek_mut :: "u8 \<Rightarrow> 'm Interpreter \<Rightarrow> i32 option" where
  "peek_mut i s = do { (old, write) \<leftarrow> unwrap (get_reg_mut s i); Some old }"

definition csr_unwrap ::
  "CSOperation option \<Rightarrow> u16 \<Rightarrow> 'm Interpreter \<Rightarrow> (u32 \<times> 'm Interpreter) option" where
  "csr_unwrap op addr s = do {
     let (result, cs) = cs_operation (control_status (registers s)) op addr;
     value \<leftarrow> unwrap result;
     Some (value, set_cs cs s)
   }"

text \<open>\<^verbatim>\<open>Self::size() as u32\<close>.\<close>

definition op_size :: "Instruction \<Rightarrow> u32" where
  "op_size inst = of_nat (size_bytes (inst_size inst))"

section \<open>Programs\<close>

definition transpiled_code :: "u8 list \<Rightarrow> u8 list option" where
  "transpiled_code bytes =
     (case (transpile_raw bytes :: ((unit, unit) Failure, bool, u8 list) outcome) of
        (Inl e, _) \<Rightarrow> None
      | (Inr _, bytes) \<Rightarrow> Some bytes)"

definition run_unwrap :: "SliceMemory Interpreter \<Rightarrow> (State \<times> SliceMemory Interpreter) option" where
  "run_unwrap s = do {
     (result, s) \<leftarrow> run (slice_memory_ops 64) s;
     state \<leftarrow> unwrap result;
     Some (state, s)
   }"

lift_definition minus_one :: NonZeroI32 is "- 1" by simp

lift_definition one :: NonZeroI32 is 1 by simp

text \<open>The handler of system calls in the tests of \<^verbatim>\<open>interpreter.rs\<close>.\<close>

definition test_syscall :: "(SliceMemory, unit, Error) syscall_fn" where
  "test_syscall nr args m c =
     (Inr (if nr = 0 then Inr 0
           else if nr = 1 then
             if args ! 0 = 1 \<and> args ! 1 = 2 \<and> args ! 2 = 3 \<and> args ! 3 = 4
               \<and> args ! 4 = - 5 \<and> args ! 5 = - 6 \<and> args ! 6 = - 7
             then Inr (- 1) else Inl minus_one
           else Inl one), m, c)"

definition syscall_unwrap :: "SliceMemory Interpreter \<Rightarrow> SliceMemory Interpreter option" where
  "syscall_unwrap s = do {
     let (result, s, c) = syscall test_syscall s ();
     unwrap result;
     Some s
   }"

section \<open>Evaluation\<close>

text \<open>
  The tests are evaluated in the logic by \<open>code_simp\<close>. An address is a large number, and the natural
  numbers are unary there: the code equations compare the ends of a range as integers, and only a
  range that lies in the slice becomes a pair of natural numbers.
\<close>

definition int_slice_range :: "nat \<Rightarrow> u8 list \<Rightarrow> int \<Rightarrow> nat \<Rightarrow> Error + nat \<times> nat" where
  "int_slice_range W xs start len =
     (let stop = start + int len in
      if stop \<ge> 2 ^ W then Inl (InvalidMemoryAccessLength len)
      else if stop > int (length xs) then Inl (InvalidMemoryAddress (of_int stop))
      else Inr (nat start, nat stop))"

lemma checked_slice_range_int:
  "checked_slice_range W xs (usize_of_u32 W a) len = int_slice_range W xs (uint a mod 2 ^ W) len"
proof -
  define k where "k = unat a mod 2 ^ W"
  have start: "uint a mod 2 ^ W = int k"
    by (simp only: k_def uint_nat of_nat_mod of_nat_power of_nat_numeral)
  have "int (2 ^ W) \<le> int (k + len) \<longleftrightarrow> 2 ^ W \<le> k + len" by (rule of_nat_le_iff)
  then have "(2 :: int) ^ W \<le> int k + int len \<longleftrightarrow> 2 ^ W \<le> k + len"
    unfolding of_nat_power of_nat_add of_nat_numeral .
  moreover have "nat (int k + int len) = k + len" by simp
  ultimately show ?thesis
    by (auto simp: start usize_of_u32_def k_def [symmetric] checked_slice_range_def
        int_slice_range_def Let_def)
qed

lemma slice_load_bytes_code [code]:
  "slice_load_bytes W m address len =
     (if address \<ge> RAM_OFFSET then
        question (int_slice_range W (ram m) (uint (address - RAM_OFFSET) mod 2 ^ W) len) m
          (\<lambda>(i, j). (Inr (slice_get (ram m) i j), m))
      else question (int_slice_range W (code m) (uint address mod 2 ^ W) len) m
          (\<lambda>(i, j). (Inr (slice_get (code m) i j), m)))"
  by (simp add: slice_load_bytes_def checked_slice_range_int)

lemma slice_mut_bytes_code [code]:
  "slice_mut_bytes W m address len =
     (case int_slice_range W (ram m) (uint (address - RAM_OFFSET) mod 2 ^ W) len of
        Inl e \<Rightarrow> Inl e
      | Inr (i, j) \<Rightarrow>
          Inr (slice_get (ram m) i j, \<lambda>bs. m\<lparr>ram := slice_put (ram m) i bs\<rparr>))"
  by (simp add: slice_mut_bytes_def checked_slice_range_int)

lemma slice_store_bytes_code [code]:
  "slice_store_bytes W m address data =
     question (int_slice_range W (ram m) (uint (address - RAM_OFFSET) mod 2 ^ W) (length data)) m
       (\<lambda>(i, j). (Inr (), m\<lparr>ram := slice_put (ram m) i data\<rparr>))"
  by (simp add: slice_store_bytes_def checked_slice_range_int)

text \<open>
  A word is an abstract value for the evaluation, which computes its integer only where it is
  compared: a run of several instructions would pile up unevaluated words. The code equations for
  programs therefore write the words of a state anew, from their integers, after each instruction.
\<close>

definition evaluated :: "'a::len word \<Rightarrow> 'a word" where
  "evaluated w = word_of_int (uint w)"

lemma evaluated_id [simp]: "evaluated = id"
  by (simp add: evaluated_def fun_eq_iff)

definition evaluated_state :: "'m Interpreter \<Rightarrow> 'm Interpreter" where
  "evaluated_state s = s\<lparr>
     program_counter := evaluated (program_counter s),
     registers := (registers s)\<lparr>
       cpu := (cpu (registers s))\<lparr>inner := map evaluated (inner (cpu (registers s)))\<rparr>,
       control_status := (control_status (registers s))\<lparr>
         mtvec := evaluated (mtvec (control_status (registers s))),
         mscratch := evaluated (mscratch (control_status (registers s))),
         mepc := evaluated (mepc (control_status (registers s))),
         mcause := evaluated (mcause (control_status (registers s))),
         mtval := evaluated (mtval (control_status (registers s))),
         mstatus := evaluated (mstatus (control_status (registers s)))\<rparr>\<rparr>\<rparr>"

lemma evaluated_state_id [simp]: "evaluated_state s = s"
  by (simp add: evaluated_state_def)

lemma fetch_code [code]:
  "fetch M s =
     (case load_num M (memory s) (program_counter s) of
        (Inl e, m) \<Rightarrow> (Inl e, s\<lparr>memory := m\<rparr>)
      | (Inr data, m) \<Rightarrow> (Inr (evaluated data), s\<lparr>memory := m\<rparr>))"
  by (simp add: fetch_def split: prod.split sum.split)

lemma run_limited_code [code]:
  "run_limited M 0 s = (Inr Running, s)"
  "run_limited M (Suc n) s =
     (case step M s of
        (Inl e, s') \<Rightarrow> (Inl e, s')
      | (Inr state, s') \<Rightarrow>
          if state \<noteq> Running then (Inr state, evaluated_state s')
          else run_limited M n (evaluated_state s'))"
  by (simp_all split: prod.split sum.split)

lemma run_unlimited_code [code]:
  "run_unlimited M s =
     (case step M s of
        (Inl e, s') \<Rightarrow> Some (Inl e, s')
      | (Inr state, s') \<Rightarrow>
          if state \<noteq> Running then Some (Inr state, evaluated_state s')
          else run_unlimited M (evaluated_state s'))"
  by (subst run_unlimited.simps) (simp split: prod.split sum.split)

lemma transpiled_code_code [code]:
  "transpiled_code bytes =
     (case (transpile_raw bytes :: ((unit, unit) Failure, bool, u8 list) outcome) of
        (Inl e, _) \<Rightarrow> None
      | (Inr _, bytes) \<Rightarrow> Some (map evaluated bytes))"
  by (simp add: transpiled_code_def split: prod.split sum.split)

text \<open>A test passes; \<open>list_all passes\<close> is a run of a list of tests.\<close>

definition passes :: "unit option \<Rightarrow> bool" where
  "passes test \<longleftrightarrow> test = Some ()"

end
