(* ===== verification/Transpiler_Tests.thy ===== *)
theory Transpiler_Tests
  imports Test_Support Transpiled_Code
begin

text \<open>
  The unit tests of \<^verbatim>\<open>transpiler.rs\<close>: the file \<^verbatim>\<open>tests/test.elf\<close>, transpiled into a buffer and into a
  vector, is \<^verbatim>\<open>tests/test.bin\<close>. The files are data of this theory: \<open>test_bin\<close> is the second one, byte
  for byte, and \<open>test_elf\<close> is what the parser returns for the first one, its headers and the contents of
  the sections that the transpiler reads.
\<close>

definition transpiler_transpile ::
  "(u8 list \<Rightarrow> 'p + ('p, 'c) ElfBytes) \<Rightarrow> u8 list \<Rightarrow> u8 list \<Rightarrow> unit option" where
  "transpiler_transpile minimal_parse elf expected = do {
     let output = replicate 16384 0;
     let (result, output) = transpile_elf minimal_parse elf output;
     assert (\<not> is_err result);
     n \<leftarrow> unwrap result;
     assert (unat n \<le> length output);
     assert (take (unat n) output = expected)
   }"

definition transpiler_transpile_vec ::
  "(u8 list \<Rightarrow> 'p + ('p, 'c) ElfBytes) \<Rightarrow> u8 list \<Rightarrow> u8 list \<Rightarrow> unit option" where
  "transpiler_transpile_vec minimal_parse elf expected = do {
     result \<leftarrow> unwrap (transpile_elf_vec minimal_parse elf);
     assert (result = expected)
   }"

section \<open>The files\<close>

definition test_init :: "u8 list" where
  "test_init =
    [0x97, 0x11, 0x00, 0x80, 0x93, 0x81, 0x01, 0x80, 0x97, 0x02, 0x00, 0x00, 0x93, 0x82, 0x82, 0x02,
     0x73, 0x90, 0x52, 0x30, 0xC1, 0x62, 0x73, 0x90, 0x42, 0x30, 0x17, 0x03, 0x00, 0x80, 0x13, 0x03,
     0x63, 0x7F, 0x13, 0x71, 0x03, 0xFF, 0x33, 0x04, 0x01, 0x00, 0xEF, 0x00, 0x80, 0x09, 0x01, 0x00,
     0x13, 0x01, 0x01, 0xFC, 0x23, 0x20, 0x11, 0x00, 0x23, 0x22, 0x51, 0x00, 0x23, 0x24, 0x61, 0x00,
     0x23, 0x26, 0x71, 0x00, 0x23, 0x28, 0xC1, 0x01, 0x23, 0x2A, 0xD1, 0x01, 0x23, 0x2C, 0xE1, 0x01,
     0x23, 0x2E, 0xF1, 0x01, 0x23, 0x20, 0xA1, 0x02, 0x23, 0x22, 0xB1, 0x02, 0x23, 0x24, 0xC1, 0x02,
     0x23, 0x26, 0xD1, 0x02, 0x23, 0x28, 0xE1, 0x02, 0x23, 0x2A, 0xF1, 0x02, 0x23, 0x2C, 0x01, 0x03,
     0x23, 0x2E, 0x11, 0x03, 0xEF, 0x00, 0x00, 0x0F, 0x83, 0x20, 0x01, 0x00, 0x83, 0x22, 0x41, 0x00,
     0x03, 0x23, 0x81, 0x00, 0x83, 0x23, 0xC1, 0x00, 0x03, 0x2E, 0x01, 0x01, 0x83, 0x2E, 0x41, 0x01,
     0x03, 0x2F, 0x81, 0x01, 0x83, 0x2F, 0xC1, 0x01, 0x03, 0x25, 0x01, 0x02, 0x83, 0x25, 0x41, 0x02,
     0x03, 0x26, 0x81, 0x02, 0x83, 0x26, 0xC1, 0x02, 0x03, 0x27, 0x01, 0x03, 0x83, 0x27, 0x41, 0x03,
     0x03, 0x28, 0x81, 0x03, 0x83, 0x28, 0xC1, 0x03, 0x13, 0x01, 0x01, 0x04, 0x73, 0x00, 0x20, 0x30]"

definition test_text :: "u8 list" where
  "test_text =
    [0x82, 0x80, 0x41, 0x11, 0x02, 0xC6, 0xB7, 0x06, 0x00, 0x80, 0x37, 0x06, 0x00, 0x80, 0x32, 0x47,
     0x93, 0x87, 0x46, 0x00, 0x93, 0x05, 0xC6, 0x00, 0x3E, 0x97, 0x63, 0x61, 0xB7, 0x06, 0x02, 0xC6,
     0x37, 0x08, 0x00, 0x80, 0xB7, 0x08, 0x00, 0x80, 0xB2, 0x47, 0x13, 0x07, 0x08, 0x00, 0x93, 0x86,
     0x48, 0x00, 0xBA, 0x97, 0x63, 0xEC, 0xD7, 0x04, 0x73, 0x60, 0x04, 0x30, 0x37, 0x05, 0x00, 0x80,
     0x13, 0x05, 0x05, 0x00, 0x81, 0x45, 0x01, 0x46, 0x81, 0x46, 0x01, 0x47, 0x81, 0x47, 0x01, 0x48,
     0x89, 0x48, 0x73, 0x00, 0x00, 0x00, 0xB7, 0x08, 0x00, 0x80, 0x23, 0xA2, 0xA8, 0x00, 0x13, 0x85,
     0x48, 0x00, 0x4C, 0xC1, 0x73, 0x00, 0x50, 0x10, 0x0C, 0x41, 0x91, 0xE5, 0x48, 0x41, 0xA9, 0x45,
     0x85, 0x48, 0x73, 0x00, 0x00, 0x00, 0x02, 0x90, 0x41, 0x01, 0x82, 0x80, 0x32, 0x47, 0xBA, 0x97,
     0x23, 0xA0, 0x07, 0x00, 0xB2, 0x47, 0x91, 0x07, 0x3E, 0xC6, 0x51, 0xB7, 0xB2, 0x46, 0x93, 0x05,
     0x80, 0x16, 0x32, 0x46, 0xAE, 0x96, 0x94, 0x42, 0x32, 0x97, 0x14, 0xC3, 0x32, 0x47, 0x11, 0x07,
     0x3A, 0xC6, 0x59, 0xB7, 0x82, 0x80, 0x00, 0x00]"

definition test_data :: "u8 list" where
  "test_data = [0x14, 0x00, 0x00, 0x00]"

definition test_segments :: "ProgramHeader list" where
  "test_segments = [
     \<lparr>p_vaddr = 0, p_paddr = 0, p_memsz = 0\<rparr>,
     \<lparr>p_vaddr = 0, p_paddr = 0, p_memsz = 0xC0\<rparr>,
     \<lparr>p_vaddr = 0x80000000, p_paddr = 0x168, p_memsz = 4\<rparr>,
     \<lparr>p_vaddr = 0, p_paddr = 0, p_memsz = 0\<rparr>,
     \<lparr>p_vaddr = 0x80000004, p_paddr = 0x80000004, p_memsz = 0x80C\<rparr>,
     \<lparr>p_vaddr = 0xC0, p_paddr = 0xC0, p_memsz = 0xA8\<rparr>]"

definition test_sections :: "SectionHeader list" where
  "test_sections = [
     \<lparr>sh_type = 0, sh_flags = 0, sh_addr = 0, sh_offset = 0, sh_size = 0, sh_addralign = 0\<rparr>,
     \<lparr>sh_type = 1, sh_flags = 6, sh_addr = 0, sh_offset = 0x1000, sh_size = 0xC0, sh_addralign = 4\<rparr>,
     \<lparr>sh_type = 1, sh_flags = 3, sh_addr = 0xC0, sh_offset = 0x2004, sh_size = 0, sh_addralign = 1\<rparr>,
     \<lparr>sh_type = 1, sh_flags = 6, sh_addr = 0xC0, sh_offset = 0x10C0, sh_size = 0xA8, sh_addralign = 2\<rparr>,
     \<lparr>sh_type = 1, sh_flags = 3, sh_addr = 0x80000000, sh_offset = 0x2000, sh_size = 4, sh_addralign = 4\<rparr>,
     \<lparr>sh_type = 1, sh_flags = 1, sh_addr = 0x80000004, sh_offset = 0x2004, sh_size = 0, sh_addralign = 4\<rparr>,
     \<lparr>sh_type = 8, sh_flags = 3, sh_addr = 0x80000004, sh_offset = 0x2004, sh_size = 8, sh_addralign = 4\<rparr>,
     \<lparr>sh_type = 8, sh_flags = 3, sh_addr = 0x8000000C, sh_offset = 0x2004, sh_size = 0x404, sh_addralign = 4\<rparr>,
     \<lparr>sh_type = 8, sh_flags = 3, sh_addr = 0x80000410, sh_offset = 0x2004, sh_size = 0x400, sh_addralign = 0x10\<rparr>,
     \<lparr>sh_type = 1, sh_flags = 0x30, sh_addr = 0, sh_offset = 0x2004, sh_size = 0x19, sh_addralign = 1\<rparr>,
     \<lparr>sh_type = 0x70000003, sh_flags = 0, sh_addr = 0, sh_offset = 0x201D, sh_size = 0x60, sh_addralign = 1\<rparr>,
     \<lparr>sh_type = 1, sh_flags = 0, sh_addr = 0, sh_offset = 0x207D, sh_size = 0x13F, sh_addralign = 1\<rparr>,
     \<lparr>sh_type = 1, sh_flags = 0, sh_addr = 0, sh_offset = 0x21BC, sh_size = 0x26, sh_addralign = 1\<rparr>,
     \<lparr>sh_type = 1, sh_flags = 0, sh_addr = 0, sh_offset = 0x21E2, sh_size = 0x14, sh_addralign = 1\<rparr>,
     \<lparr>sh_type = 1, sh_flags = 0, sh_addr = 0, sh_offset = 0x21F8, sh_size = 0x20, sh_addralign = 8\<rparr>,
     \<lparr>sh_type = 1, sh_flags = 0x30, sh_addr = 0, sh_offset = 0x2218, sh_size = 0x41, sh_addralign = 1\<rparr>,
     \<lparr>sh_type = 2, sh_flags = 0, sh_addr = 0, sh_offset = 0x225C, sh_size = 0x250, sh_addralign = 4\<rparr>,
     \<lparr>sh_type = 3, sh_flags = 0, sh_addr = 0, sh_offset = 0x24AC, sh_size = 0x195, sh_addralign = 1\<rparr>,
     \<lparr>sh_type = 3, sh_flags = 0, sh_addr = 0, sh_offset = 0x2641, sh_size = 0xAE, sh_addralign = 1\<rparr>]"

text \<open>The sections that are read are told apart by their flags and their addresses.\<close>

definition test_elf :: "(unit, unit) ElfBytes" where
  "test_elf = \<lparr>segments = Some test_segments, section_headers = Some test_sections,
     e_machine = EM_RISCV, class_elf32 = True, e_entry = 0,
     section_data = (\<lambda>section. Inr
       (if sh_flags section = 6 \<and> sh_addr section = 0 then test_init
        else if sh_flags section = 6 \<and> sh_addr section = 0xC0 then test_text
        else if sh_addr section = 0x80000000 then test_data
        else [], None))\<rparr>"

text \<open>\<open>test_bin\<close> in its three parts.\<close>

definition bin_init :: "u8 list" where
  "bin_init =
    [0x97, 0x11, 0x00, 0x80, 0x1D, 0x8C, 0x01, 0x80, 0x97, 0x02, 0x00, 0x00, 0x1D, 0x94, 0x82, 0x02,
     0x9F, 0x80, 0x52, 0x30, 0xA7, 0x40, 0x9F, 0x80, 0x42, 0x30, 0x17, 0x03, 0x00, 0x80, 0x1D, 0x18,
     0x63, 0x7F, 0x9D, 0x0B, 0x03, 0xFF, 0x1E, 0x00, 0x90, 0x00, 0x99, 0xC0, 0x04, 0x00, 0x03, 0x00,
     0x1D, 0x08, 0x01, 0xFC, 0x9B, 0x07, 0x01, 0x00, 0x9B, 0x17, 0x41, 0x00, 0x9B, 0x1B, 0x81, 0x00,
     0x9B, 0x1F, 0xC1, 0x00, 0x9B, 0x73, 0x01, 0x01, 0x9B, 0x77, 0x41, 0x01, 0x9B, 0x7B, 0x81, 0x01,
     0x9B, 0x7F, 0xC1, 0x01, 0x9B, 0x2B, 0x01, 0x02, 0x9B, 0x2F, 0x41, 0x02, 0x9B, 0x33, 0x81, 0x02,
     0x9B, 0x37, 0xC1, 0x02, 0x9B, 0x3B, 0x01, 0x03, 0x9B, 0x3F, 0x41, 0x03, 0x9B, 0x43, 0x81, 0x03,
     0x9B, 0x47, 0xC1, 0x03, 0x99, 0x80, 0x07, 0x00, 0x1B, 0x05, 0x01, 0x00, 0x1B, 0x15, 0x41, 0x00,
     0x1B, 0x19, 0x81, 0x00, 0x1B, 0x1D, 0xC1, 0x00, 0x1B, 0x71, 0x01, 0x01, 0x1B, 0x75, 0x41, 0x01,
     0x1B, 0x79, 0x81, 0x01, 0x1B, 0x7D, 0xC1, 0x01, 0x1B, 0x29, 0x01, 0x02, 0x1B, 0x2D, 0x41, 0x02,
     0x1B, 0x31, 0x81, 0x02, 0x1B, 0x35, 0xC1, 0x02, 0x1B, 0x39, 0x01, 0x03, 0x1B, 0x3D, 0x41, 0x03,
     0x1B, 0x41, 0x81, 0x03, 0x1B, 0x45, 0xC1, 0x03, 0x1D, 0x08, 0x01, 0x04, 0x1F, 0x00, 0x40, 0x00]"

definition bin_text :: "u8 list" where
  "bin_text =
    [0x34, 0x00, 0x43, 0xC0, 0x16, 0x0C, 0x9C, 0x06, 0x00, 0x80, 0x1C, 0x06, 0x00, 0x80, 0xD3, 0x0D,
     0x1D, 0xBC, 0x46, 0x00, 0x1D, 0x2C, 0xC6, 0x00, 0xD5, 0x3D, 0x18, 0xBA, 0x15, 0x03, 0x16, 0x0C,
     0x1C, 0x08, 0x00, 0x80, 0x9C, 0x08, 0x00, 0x80, 0xF3, 0x0D, 0x1D, 0x38, 0x08, 0x00, 0x1D, 0xB4,
     0x48, 0x00, 0xF5, 0x39, 0x18, 0xBE, 0xC6, 0x02, 0x9F, 0x02, 0x04, 0x30, 0x1C, 0x05, 0x00, 0x80,
     0x1D, 0x28, 0x05, 0x00, 0x65, 0x01, 0x85, 0x01, 0xA5, 0x01, 0xC5, 0x01, 0xE5, 0x01, 0x05, 0x02,
     0x25, 0x0A, 0x1F, 0x00, 0x00, 0x00, 0x9C, 0x08, 0x00, 0x80, 0x9B, 0xAB, 0x48, 0x00, 0x1D, 0xA8,
     0x48, 0x00, 0x62, 0x0A, 0x1F, 0x00, 0x30, 0x00, 0x61, 0x02, 0x71, 0x06, 0x41, 0x0A, 0x65, 0x29,
     0x25, 0x06, 0x1F, 0x00, 0x00, 0x00, 0x15, 0x00, 0x43, 0x40, 0x34, 0x00, 0xD3, 0x0D, 0xF5, 0x39,
     0x9B, 0x83, 0x07, 0x00, 0xF3, 0x0D, 0xE3, 0x11, 0xF6, 0x0D, 0x4F, 0xF8, 0xB3, 0x0D, 0x1D, 0x2C,
     0x80, 0x16, 0x93, 0x0D, 0xB5, 0x2D, 0xA1, 0x05, 0xD5, 0x31, 0xA2, 0x06, 0xD3, 0x0D, 0xC3, 0x11,
     0xD6, 0x0D, 0x6F, 0xF8, 0x34, 0x00, 0x00, 0x00]"

definition test_bin :: "u8 list" where
  "test_bin = bin_init @ bin_text @ test_data"

lemma test_lengths [simp]:
  "length test_init = 192" "length test_text = 168" "length test_data = 4"
  "length bin_init = 192" "length bin_text = 168"
  by (simp_all add: test_init_def test_text_def test_data_def bin_init_def bin_text_def)

section \<open>Transpiling the code sections\<close>

lemma take_take_drop: "take i xs @ take j (drop i xs) @ ys = take (i + j) xs @ ys"
  by (simp add: take_add)

text \<open>\<open>transpile_steps k\<close> is the beginning of the stream, for \<open>k\<close> instructions.\<close>

fun transpile_steps :: "nat \<Rightarrow> u8 list \<Rightarrow> (u8 list \<times> u8 list) option" where
  "transpile_steps 0 bs = Some ([], bs)"
| "transpile_steps (Suc k) bs =
     (if length bs < 4 then None
      else
        (case (convert (evaluated (riscv_word bs)) :: (unit, unit) converted) of
           Inl e \<Rightarrow> None
         | Inr instruction \<Rightarrow>
             let n = size_bytes (raw_size instruction) in
             (case transpile_steps k (drop n bs) of
                None \<Rightarrow> None
              | Some (out, rest) \<Rightarrow>
                  Some (map evaluated (take n (to_le_bytes (raw_data instruction))) @ out, rest))))"

lemma transpile_steps_stream:
  "transpile_steps k bs = Some (out, rest) \<Longrightarrow>
     (transpile_stream bs :: (unit, unit) Failure + bool \<times> u8 list) =
       (case transpile_stream rest of Inl e \<Rightarrow> Inl e | Inr (p, out') \<Rightarrow> Inr (p, out @ out'))"
proof (induction k arbitrary: bs out)
  case 0
  then show ?case by (simp split: sum.split)
next
  case (Suc k)
  then obtain instruction out1 where 1: "4 \<le> length bs"
      "(convert (riscv_word bs) :: (unit, unit) converted) = Inr instruction"
      "transpile_steps k (drop (size_bytes (raw_size instruction)) bs) = Some (out1, rest)"
      "out = take (size_bytes (raw_size instruction)) (to_le_bytes (raw_data instruction)) @ out1"
    by (auto simp: Let_def split: if_splits sum.splits option.splits)
  with Suc.IH [OF 1(3)] size_bytes_bounds(2) [of "raw_size instruction"] show ?case
    by (subst transpile_stream.simps) (auto simp: Let_def split: sum.split)
qed

lemma transpile_stream_code [code]:
  "transpile_stream bs =
     (if length bs < 2 then Inr (False, bs)
      else
        (case convert (evaluated (riscv_word bs)) of
           Inl e \<Rightarrow> Inl (Returned e)
         | Inr instruction \<Rightarrow>
             let n = size_bytes (raw_size instruction) in
             if n > length bs then Inl Panicked
             else
               (case transpile_stream (drop n bs) of
                  Inl e \<Rightarrow> Inl e
                | Inr (p, out) \<Rightarrow>
                    Inr (p \<or> length bs < 4,
                      map evaluated (take n (to_le_bytes (raw_data instruction))) @ out))))"
  by (subst transpile_stream.simps) (simp add: Let_def split: sum.split prod.split)

lemma test_init_part0:
  "transpile_steps 17 test_init = 
    Some (take 64 bin_init, drop 64 test_init)"
  by code_simp

lemma test_init_part1:
  "transpile_steps 17 (drop 64 test_init) = 
    Some (take 68 (drop 64 bin_init), drop 68 (drop 64 test_init))"
  by code_simp

lemma test_init_rest:
  "transpile_stream (drop 132 test_init) =
    (Inr (False, (drop 132 bin_init)) :: (unit, unit) Failure + bool \<times> u8 list)"
  by code_simp

lemma test_init_transpiled:
  "(transpile_raw test_init :: ((unit, unit) Failure, bool, u8 list) outcome) =
    (Inr False, bin_init)"
  using test_init_rest
  by (simp add: transpile_raw_Inr take_take_drop transpile_steps_stream [OF test_init_part0]
      transpile_steps_stream [OF test_init_part1, simplified])

lemma test_text_part0:
  "transpile_steps 16 test_text = 
    Some (take 50 bin_text, drop 50 test_text)"
  by code_simp

lemma test_text_part1:
  "transpile_steps 16 (drop 50 test_text) = 
    Some (take 48 (drop 50 bin_text), drop 48 (drop 50 test_text))"
  by code_simp

lemma test_text_part2:
  "transpile_steps 16 (drop 98 test_text) = 
    Some (take 38 (drop 98 bin_text), drop 38 (drop 98 test_text))"
  by code_simp

lemma test_text_rest:
  "transpile_stream (drop 136 test_text) =
    (Inr (True, (drop 136 bin_text)) :: (unit, unit) Failure + bool \<times> u8 list)"
  by code_simp

lemma test_text_transpiled:
  "(transpile_raw test_text :: ((unit, unit) Failure, bool, u8 list) outcome) =
    (Inr True, bin_text)"
  using test_text_rest
  by (simp add: transpile_raw_Inr take_take_drop transpile_steps_stream [OF test_text_part0]
      transpile_steps_stream [OF test_text_part1, simplified]
      transpile_steps_stream [OF test_text_part2, simplified])

section \<open>The tests\<close>

lemmas transpile_test_elf =
  elf_transpiler_impl_def test_elf_def test_segments_def test_sections_def transpile_section_def
  segment_contains_def place_section_def div_ceil_def write_section_def slice_get_def slice_put_def

lemma test_elf_vec: "transpile_elf_vec (\<lambda>_. Inr test_elf) elf = Inr test_bin"
  by (simp add: transpile_elf_vec_def transpile_test_elf append_vec_def Let_def
      test_init_transpiled test_text_transpiled test_bin_def)

lemma test_elf_slice:
  "transpile_elf (\<lambda>_. Inr test_elf) elf (replicate 16384 0) =
    (Inr 364, test_bin @ replicate (16384 - 364) 0)"
proof -
  define buffer where "buffer = (replicate 16384 0 :: u8 list)"
  have len: "length buffer = 16384" by (simp add: buffer_def)
  have "transpile_elf (\<lambda>_. Inr test_elf) elf buffer = (Inr 364, test_bin @ drop 364 buffer)"
    by (simp add: transpile_elf_def transpile_test_elf append_slice_def Let_def len
      test_init_transpiled test_text_transpiled test_bin_def)
  then show ?thesis by (simp add: buffer_def)
qed

definition transpiler_tests :: "unit option list" where
  "transpiler_tests = [
    transpiler_transpile (\<lambda>_. Inr test_elf) [] test_bin,
    transpiler_transpile_vec (\<lambda>_. Inr test_elf) [] test_bin]"

lemma transpiler_tests_pass: "list_all passes transpiler_tests"
  by (simp add: transpiler_tests_def passes_def transpiler_transpile_def transpiler_transpile_vec_def
      test_elf_slice test_elf_vec assert_def) (simp add: test_bin_def)

end
