(* ===== verification/Elf_Theorems.thy ===== *)
theory Elf_Theorems
  imports Elf_Image Transpiler_Tests
begin

text \<open>
  The properties of the binary that the transpiler makes of an ELF file. An ELF file is here what the
  parser returns for it.
\<close>

section \<open>A small ELF file\<close>

text \<open>
  A file with an executable section (\<open>c.addi x1, 1\<close> and \<open>c.ebreak\<close>), possibly an empty executable
  section after it, two bytes of data, and a \<^verbatim>\<open>.bss\<close> section, which has a size but no data, in one
  segment at \<open>0x1000\<close>, the entry point.
\<close>

definition small_section :: "u64 \<Rightarrow> u64 \<Rightarrow> u64 \<Rightarrow> SectionHeader" where
  "small_section addr len flags = \<lparr>sh_type = SHT_PROGBITS, sh_flags = flags, sh_addr = addr,
     sh_offset = addr, sh_size = len, sh_addralign = 2\<rparr>"

definition small_bss :: SectionHeader where
  "small_bss = \<lparr>sh_type = 8, sh_flags = 3, sh_addr = 0x1008, sh_offset = 0x1008, sh_size = 8,
     sh_addralign = 4\<rparr>"

definition small_segment :: ProgramHeader where
  "small_segment = \<lparr>p_vaddr = 0x1000, p_paddr = 0x1000, p_memsz = 0x2000\<rparr>"

definition text_riscv :: "u8 list" where
  "text_riscv = [0x85, 0x00, 0x02, 0x90]"

definition text_embive :: "u8 list" where
  "text_embive = [0x23, 0x04, 0x15, 0x00]"

definition small_elf :: "SectionHeader list \<Rightarrow> (unit, unit) ElfBytes" where
  "small_elf sections = \<lparr>segments = Some [small_segment], section_headers = Some (sections @ [small_bss]),
     e_machine = EM_RISCV, class_elf32 = True, e_entry = 0x1000,
     section_data = (\<lambda>section. let n = unat (sh_size section) in
       Inr (if sh_type section = SHT_PROGBITS
         then take n ((if sh_flags section = 6 then text_riscv else [1, 2]) @ replicate n 0)
         else [], None))\<rparr>"

abbreviation (input) small_text :: SectionHeader where
  "small_text \<equiv> small_section 0x1000 4 6"

abbreviation (input) small_empty :: SectionHeader where
  "small_empty \<equiv> small_section 0x1004 0 6"

abbreviation (input) page_text :: SectionHeader where
  "page_text \<equiv> small_section 0x1000 0x1000 6"

abbreviation (input) small_data :: SectionHeader where
  "small_data \<equiv> small_section 0x1004 2 2"

lemma text_transpiled:
  "(transpile_raw text_riscv :: ((unit, unit) Failure, bool, u8 list) outcome) = (Inr True, text_embive)"
  by code_simp

lemma empty_transpiled:
  "(transpile_raw [] :: ((unit, unit) Failure, bool, u8 list) outcome) = (Inr False, [])"
  by (simp add: transpile_raw_def transpile_loop.simps)

lemma small_elf_sized: "section_data_sized (small_elf sections)"
  by (auto simp: section_data_sized_def sized_section_def loadable_def small_elf_def Let_def)

lemma small_elf_exact: "skip_test_exact (small_elf [small_text, small_data])"
  by code_simp

lemma small_elf_transpiled:
  "transpile_elf (\<lambda>_. Inr (small_elf [small_text, small_data])) [] (replicate 8 0)
    = (Inr 6, text_embive @ [1, 2, 0, 0])"
  "transpile_elf (\<lambda>_. Inr (small_elf [small_text])) [] (replicate 8 0)
    = (Inr 6, text_embive @ [0, 0, 0, 0])"
  "transpile_elf (\<lambda>_. Inr (small_elf [small_text, small_empty])) [] (replicate 8 0)
    = (Inr 4, text_embive @ [0, 0, 0, 0])"
  by code_simp+

definition small_layout :: "Placed list" where
  "small_layout =
    [\<lparr>placed_at = 0, original = text_riscv, transpiled = text_embive, executable = True, asks_padding = True\<rparr>,
     \<lparr>placed_at = 4, original = [1, 2], transpiled = [1, 2], executable = False, asks_padding = False\<rparr>]"

lemma small_elf_layout: "elf_layout (small_elf [small_text, small_data]) = small_layout"
  by code_simp

lemma small_layout_in_order: "in_order small_layout" "contiguous 0 small_layout"
  by (simp_all add: in_order_def small_layout_def placed_end_def text_embive_def)

section \<open>The file of the unit test\<close>

text \<open>The file \<^verbatim>\<open>tests/test.elf\<close> meets the conditions on an ELF file; its binary has three sections.\<close>

lemma test_elf_sized: "section_data_sized test_elf"
  by (simp add: section_data_sized_def sized_section_def loadable_def test_elf_def test_sections_def)

lemma test_elf_exact: "skip_test_exact test_elf"
  by (simp add: skip_test_exact_def skip_exact_def skips_def section_offset_def section_paddr_def
      segment_contains_def div_ceil_def loadable_def test_elf_def test_sections_def test_segments_def)

lemma test_elf_layout:
  "elf_layout test_elf =
    [\<lparr>placed_at = 0, original = test_init, transpiled = bin_init, executable = True, asks_padding = False\<rparr>,
     \<lparr>placed_at = 192, original = test_text, transpiled = bin_text, executable = True, asks_padding = True\<rparr>,
     \<lparr>placed_at = 360, original = test_data, transpiled = test_data, executable = False, asks_padding = False\<rparr>]"
  by (simp add: elf_layout_def section_placed_def section_bytes_def section_offset_def section_paddr_def
      segment_contains_def div_ceil_def loadable_def test_elf_def test_sections_def test_segments_def
      map_filter_simps test_init_transpiled test_text_transpiled Let_def)

lemma test_elf_in_order: "in_order (elf_layout test_elf)" "contiguous 0 (elf_layout test_elf)"
  by (simp_all add: test_elf_layout in_order_def placed_end_def)

section \<open>The binary\<close>

text \<open>
  C5: The loop of \<open>transpile_elf\<close> over the sections, which writes into a buffer, keeps the size of the
  binary and decides on padding as it goes, writes the layout of the ELF file: when it succeeds, the
  size that it returns and the buffer are those of \<open>elf_image\<close>, which places each section that is
  loaded and not empty at its aligned distance from the entry point, transpiled if it is executable,
  and pads the end. No byte is written past the size of the buffer, and a section that no other one
  overlaps is found whole at its place.

  Two conditions: the parser returns as many bytes for a loadable section as its header says, and
  the test by which the code skips sections, whether offset and size add up to the physical
  address, holds of the empty loadable sections of the file and of no other. A non-empty section for
  which it holds is missing in the binary.
\<close>

theorem transpile_elf_refines_layout:
  fixes minimal_parse :: "u8 list \<Rightarrow> 'p + ('p, 'c) ElfBytes"
  assumes "minimal_parse elf = Inr elf_bytes" "section_data_sized elf_bytes" "skip_test_exact elf_bytes"
    and "transpile_elf minimal_parse elf output = (Inr n, output')"
  shows "elf_image elf_bytes output = (unat n, output') \<and> unat n \<le> length output
    \<and> (\<forall>q\<in>set (elf_layout elf_bytes). placed_end q \<le> unat n)
    \<and> (sorted_wrt disjoint (elf_layout elf_bytes) \<longrightarrow>
        (\<forall>q\<in>set (elf_layout elf_bytes). slice_get output' (placed_at q) (placed_end q) = transpiled q))"
proof -
  have sized: "\<And>e. minimal_parse elf = Inr e \<Longrightarrow> section_data_sized e"
    and exact: "\<And>e. minimal_parse elf = Inr e \<Longrightarrow> skip_test_exact e"
    using assms(1-3) by simp_all
  obtain e where e: "minimal_parse elf = Inr e" "elf_image e output = (unat n, output')"
      "unat n \<le> length output" "\<forall>q\<in>set (elf_layout e). placed_end q \<le> length output"
    by (rule transpile_elf_image [OF sized exact assms(4)])
  have "placed_end q \<le> unat n" if "q \<in> set (elf_layout e)" for q
    using image_size_le [OF that] e(2) by (simp add: elf_image_def Let_def)
  with e elf_image_contents [OF e(2) _ e(4,3)] assms(1) show ?thesis by simp
qed

theorem transpile_elf_refines_layout_witness:
  "elf_image (small_elf [small_text, small_data]) (replicate 8 0) = (6, text_embive @ [1, 2, 0, 0])
   \<and> elf_image test_elf (replicate 16384 0) = (364, test_bin @ replicate (16384 - 364) 0)"
  using transpile_elf_refines_layout [OF refl small_elf_sized small_elf_exact small_elf_transpiled(1)]
    transpile_elf_refines_layout [OF refl test_elf_sized test_elf_exact test_elf_slice]
  by simp

text \<open>
  C32: \<open>transpile_elf_vec\<close>, which appends the sections one after the other whatever their offset, returns
  the binary of \<open>transpile_elf\<close>, without the rest of the buffer, for every ELF file whose sections in
  the binary follow each other without a gap, under the same conditions: the
  loadable sections have the size in their headers, and the code skips exactly the empty ones of them.
  The file \<^verbatim>\<open>tests/test.elf\<close> is one.
\<close>

theorem transpile_elf_vec_agrees:
  fixes minimal_parse :: "u8 list \<Rightarrow> 'p + ('p, 'c) ElfBytes"
  assumes "minimal_parse elf = Inr elf_bytes" "section_data_sized elf_bytes" "skip_test_exact elf_bytes"
    and "transpile_elf minimal_parse elf output = (Inr n, output')"
    and "contiguous 0 (elf_layout elf_bytes)"
  shows "transpile_elf_vec minimal_parse elf = Inr (take (unat n) output')"
  using assms by (intro elf_vec_agrees) simp_all

theorem transpile_elf_vec_agrees_witness:
  "transpile_elf_vec (\<lambda>_. Inr (small_elf [small_text, small_data])) [] = Inr (text_embive @ [1, 2])
   \<and> transpile_elf_vec (\<lambda>_. Inr test_elf) [] = Inr test_bin"
  using transpile_elf_vec_agrees [OF refl small_elf_sized small_elf_exact small_elf_transpiled(1)]
    transpile_elf_vec_agrees [OF refl test_elf_sized test_elf_exact test_elf_slice test_elf_in_order(2)]
  by (simp add: small_elf_layout small_layout_in_order text_embive_def test_bin_def)

section \<open>The test that skips sections\<close>

text \<open>
  C33: The test that shall skip empty sections, for a loadable section in a segment, with an alignment:
  if the offset of the section in the binary and its size add up to its physical address, the section
  is passed over, whatever its size and its data, so a section that is not empty is then missing in
  the binary; otherwise an empty executable section is not passed over: it adds no byte, but it counts
  for the size of the binary, and the padding of the code before it is lost. If the entry point is 0 and
  the physical address is a multiple of the alignment, the test is right: it tells the empty sections.
\<close>

theorem section_skip_test:
  fixes elf :: "('p, 'c) ElfBytes"
  assumes "loadable section" "find (segment_contains section) segs = Some segment"
    and "ucast (sh_addralign section) \<noteq> (0 :: u32)"
  shows "(skips elf section segment \<longrightarrow>
      transpile_section elf append_fn segs i section acc output = (Inr acc, output))
    \<and> (\<not> skips elf section segment \<and> sh_size section = 0 \<and> section_data elf section = Inr ([], None)
        \<and> ucast (sh_flags section) AND SHF_EXECINSTR \<noteq> 0
        \<and> unat (section_offset elf section segment) \<le> length output \<longrightarrow>
      transpile_section elf append_slice segs i section (n, p) output =
        (Inr (max n (section_offset elf section segment), False), output))
    \<and> (ucast (e_entry elf) = (0 :: u32)
        \<and> section_paddr section segment mod ucast (sh_addralign section) = 0 \<longrightarrow>
      (skips elf section segment \<longleftrightarrow> sh_size section = 0))"
proof (intro conjI impI)
  assume "skips elf section segment"
  with assms show "transpile_section elf append_fn segs i section acc output = (Inr acc, output)"
    by (auto simp: transpile_section_def loadable_def place_section_def Let_def skips_def
        section_offset_def section_paddr_def split: prod.split)
next
  assume empty: "\<not> skips elf section segment \<and> sh_size section = 0
      \<and> section_data elf section = Inr ([], None) \<and> ucast (sh_flags section) AND SHF_EXECINSTR \<noteq> 0
      \<and> unat (section_offset elf section segment) \<le> length output"
  define offset where "offset = section_offset elf section segment"
  from empty have not_skipped: "offset \<noteq> ucast (section_paddr section segment)" "sh_size section = 0"
    by (auto simp: skips_def offset_def)
  have "write_section elf append_slice section offset (offset + sh_size section) (m, p) output =
      (Inr (m, False), output)" for m
    using empty
    by (simp add: write_section_def append_slice_def Let_def slice_get_def slice_put_empty
        transpile_raw_def transpile_loop.simps flip: offset_def)
  moreover have "place_section elf append_slice section segment (n, p) output =
      write_section elf append_slice section offset (offset + sh_size section) (max n offset, p) output"
    using not_skipped assms(3)
    unfolding place_section_def Let_def prod.case offset_def section_offset_def
      section_paddr_def [symmetric]
    by (auto simp: max_def)
  ultimately show "transpile_section elf append_slice segs i section (n, p) output =
      (Inr (max n (section_offset elf section segment), False), output)"
    using assms(1,2) by (simp add: transpile_section_def loadable_def offset_def)
next
  assume "ucast (e_entry elf) = (0 :: u32)
      \<and> section_paddr section segment mod ucast (sh_addralign section) = 0"
  with assms(3) show "skips elf section segment \<longleftrightarrow> sh_size section = 0"
    by (simp add: skips_entry_0)
qed

text \<open>
  With the entry point \<open>0x1000\<close>, a section of \<open>0x1000\<close> bytes of code at it is passed over, and an
  empty section after the code loses its padding. The sections of \<^verbatim>\<open>tests/test.elf\<close> are told right.
\<close>

theorem section_skip_test_witness:
  "transpile_section (small_elf [page_text]) append_slice [small_segment] 0 page_text (0, False) [] =
     (Inr (0, False), [])
   \<and> transpile_section (small_elf [small_text, small_empty]) append_slice [small_segment] 1 small_empty
       (4, True) (text_embive @ [0, 0]) = (Inr (4, False), text_embive @ [0, 0])
   \<and> skips test_elf (test_sections ! 2) (the (find (segment_contains (test_sections ! 2)) test_segments))"
proof -
  have small: "loadable page_text" "loadable small_empty"
    "find (segment_contains page_text) [small_segment] = Some small_segment"
    "find (segment_contains small_empty) [small_segment] = Some small_segment"
    "ucast (sh_addralign page_text) \<noteq> (0 :: u32)" "ucast (sh_addralign small_empty) \<noteq> (0 :: u32)"
    "skips (small_elf [page_text]) page_text small_segment"
    "\<not> skips (small_elf [small_text, small_empty]) small_empty small_segment"
    "section_offset (small_elf [small_text, small_empty]) small_empty small_segment = 4"
    "sh_size small_empty = 0" "section_data (small_elf [small_text, small_empty]) small_empty = Inr ([], None)"
    "ucast (sh_flags small_empty) AND SHF_EXECINSTR \<noteq> 0" "length (text_embive @ [0, 0]) = 6"
    by code_simp+
  obtain segment where test: "loadable (test_sections ! 2)" "sh_size (test_sections ! 2) = 0"
    "find (segment_contains (test_sections ! 2)) test_segments = Some segment"
    "ucast (sh_addralign (test_sections ! 2)) = (1 :: u32)" "e_entry test_elf = 0"
    by (simp add: loadable_def test_sections_def test_segments_def segment_contains_def test_elf_def)
  show ?thesis
    using section_skip_test [OF small(1,3,5), of "small_elf [page_text]" append_slice 0 "(0, False)" "[]"]
      section_skip_test [OF small(2,4,6), of "small_elf [small_text, small_empty]" _ 1 _
        "text_embive @ [0, 0]" 4 True]
      section_skip_test [OF test(1,3), of test_elf] small test
    by simp
qed

section \<open>Padding\<close>


definition elf_machine :: "u8 list \<Rightarrow> u32 \<Rightarrow> SliceMemory Interpreter" where
  "elf_machine binary pc = (interpreter_new \<lparr>code = binary, ram = []\<rparr> 0)\<lparr>program_counter := pc\<rparr>"

text \<open>
  What the loss of the padding means. With the entry point \<open>0x1000\<close>, a file with \<open>c.addi\<close> and
  \<open>c.ebreak\<close> becomes six bytes, of which two are padding, and the second instruction halts the
  interpreter; the same file with an empty executable section at the end becomes four bytes, and the
  second instruction cannot be fetched.
\<close>

theorem empty_section_loses_padding:
  "transpile_elf (\<lambda>_. Inr (small_elf [small_text])) [] (replicate 8 0)
     = (Inr 6, text_embive @ [0, 0, 0, 0])
   \<and> transpile_elf (\<lambda>_. Inr (small_elf [small_text, small_empty])) [] (replicate 8 0)
     = (Inr 4, text_embive @ [0, 0, 0, 0])
   \<and> step (slice_memory_ops 64) (elf_machine (text_embive @ [0, 0]) 2)
     = (Inr Halted, elf_machine (text_embive @ [0, 0]) 4)
   \<and> step (slice_memory_ops 64) (elf_machine text_embive 2)
     = (Inl (InvalidMemoryAddress 6), elf_machine text_embive 2)"
proof (intro conjI small_elf_transpiled(2,3))
  have "decode_instruction 0x15 = Some (CEbreakJalrAdd \<lparr>cr_rd_rs1 = 0, cr_rs2 = 0\<rparr>)" by code_simp
  then show "step (slice_memory_ops 64) (elf_machine (text_embive @ [0, 0]) 2)
     = (Inr Halted, elf_machine (text_embive @ [0, 0]) 4)"
    by (simp add: step_def fetch_def load_num_def num_size_def slice_load_bytes_def
        checked_slice_range_def usize_of_u32_wide RAM_OFFSET_def slice_get_def elf_machine_def
        text_embive_def interpreter_new_def decode_execute_def exec_defs
        next_instruction_def size_bytes_def)
  show "step (slice_memory_ops 64) (elf_machine text_embive 2)
     = (Inl (InvalidMemoryAddress 6), elf_machine text_embive 2)"
    by (simp add: step_def fetch_def load_num_def num_size_def slice_load_bytes_def
        checked_slice_range_def usize_of_u32_wide RAM_OFFSET_def question_def elf_machine_def
        text_embive_def interpreter_new_def)
qed

end
