(* ===== verification/Debugger.thy ===== *)
theory Debugger
  imports Interpreter "HOL-Library.Multiset"
begin

text \<open>
  Model of \<^verbatim>\<open>src/interpreter/debugger.rs\<close> and \<^verbatim>\<open>src/interpreter/debugger/gdb.rs\<close>: a GDB target
  around an interpreter, with a table of breakpoints of a fixed size, an execution mode, and the
  system call function of the host.

  The traits are those of the crates \<^verbatim>\<open>gdbstub\<close> and \<^verbatim>\<open>gdbstub_arch\<close>, which are not part of this
  repository: the enumerations here hold the variants that the code names, and the connection is a
  parameter, the record \<open>connection_ops\<close> with its two methods.
\<close>

section \<open>State\<close>

datatype ExecMode = Step | Run

record ('m, 'c) Debugger =
  interpreter :: "'m Interpreter"
  breakpoints :: "u32 option list"
  exec_mode :: ExecMode
  captured :: 'c

text \<open>\<open>captured\<close> is what the closure \<open>syscall_fn\<close> captures; its code is a parameter \<open>f\<close>.\<close>

definition debugger_new :: "nat \<Rightarrow> 'm \<Rightarrow> 'c \<Rightarrow> ('m, 'c) Debugger" where
  "debugger_new N m c = \<lparr>
     interpreter = interpreter_new m 0,
     breakpoints = replicate N None,
     exec_mode = Run,
     captured = c\<rparr>"

text \<open>The interpreter at the end of a session.\<close>

definition debugger_into :: "('m, 'c) Debugger \<Rightarrow> 'm Interpreter" where
  "debugger_into d = interpreter d"

section \<open>What the target supports\<close>

text \<open>
  The debugger is its own table of operations for every extension of \<^verbatim>\<open>gdbstub\<close> that it supports, and
  for the base operations of a target with a single thread.
\<close>

datatype 'd BaseOps = SingleThread 'd

definition base_ops :: "('m, 'c) Debugger \<Rightarrow> ('m, 'c) Debugger BaseOps" where
  "base_ops d = SingleThread d"

definition support_breakpoints :: "('m, 'c) Debugger \<Rightarrow> ('m, 'c) Debugger option" where
  "support_breakpoints d = Some d"

definition support_resume :: "('m, 'c) Debugger \<Rightarrow> ('m, 'c) Debugger option" where
  "support_resume d = Some d"

definition support_single_register_access :: "('m, 'c) Debugger \<Rightarrow> ('m, 'c) Debugger option" where
  "support_single_register_access d = Some d"

definition support_sw_breakpoint :: "('m, 'c) Debugger \<Rightarrow> ('m, 'c) Debugger option" where
  "support_sw_breakpoint d = Some d"

definition support_single_step :: "('m, 'c) Debugger \<Rightarrow> ('m, 'c) Debugger option" where
  "support_single_step d = Some d"

section \<open>The event loop\<close>

datatype Signal = SIGSTOP | SIGINT
datatype SingleThreadStopReason = Terminated Signal | SwBreak | DoneStep | SignalStop Signal
datatype Event = TargetStopped SingleThreadStopReason | IncomingData u8
datatype 'k WaitForStopReasonError = TargetError Error | ConnectionError 'k

record ('conn, 'k) connection_ops =
  peek :: "'conn \<Rightarrow> ('k, u8 option, 'conn) outcome"
  read :: "'conn \<Rightarrow> ('k, u8, 'conn) outcome"

type_synonym ('m, 'c) debugger_fn = "('m, 'c, Error) syscall_fn"

text \<open>What follows an instruction, by the state that the instruction returned.\<close>

definition after_step ::
  "('m, 'c) debugger_fn \<Rightarrow> State \<Rightarrow> ('m, 'c) Debugger
     \<Rightarrow> (Error, SingleThreadStopReason option, ('m, 'c) Debugger) outcome" where
  "after_step f state d =
     (case state of
        Running \<Rightarrow> (Inr None, d)
      | Halted \<Rightarrow> (Inr (Some (Terminated SIGSTOP)), d)
      | Called \<Rightarrow>
          (case syscall f (interpreter d) (captured d) of
             (Inl e, s, c) \<Rightarrow> (Inl e, d\<lparr>interpreter := s, captured := c\<rparr>)
           | (Inr _, s, c) \<Rightarrow> (Inr None, d\<lparr>interpreter := s, captured := c\<rparr>))
      | Waiting \<Rightarrow>
          (case interrupt 0 (interpreter d) of
             (Inl e, s) \<Rightarrow> (Inl e, d\<lparr>interpreter := s\<rparr>)
           | (Inr _, s) \<Rightarrow> (Inr None, d\<lparr>interpreter := s\<rparr>)))"

text \<open>Run a single instruction, and whatever the guest asks for with it.\<close>

definition debug_instruction ::
  "'m memory_ops \<Rightarrow> ('m, 'c) debugger_fn \<Rightarrow> ('m, 'c) Debugger
     \<Rightarrow> (Error, SingleThreadStopReason option, ('m, 'c) Debugger) outcome" where
  "debug_instruction M f d =
     (case step M (interpreter d) of
        (Inl e, s) \<Rightarrow> (Inl e, d\<lparr>interpreter := s\<rparr>)
      | (Inr state, s) \<Rightarrow> after_step f state (d\<lparr>interpreter := s\<rparr>))"

text \<open>The checks at the end of an iteration: \<open>None\<close> means that the loop goes on.\<close>

definition stop_reason :: "('m, 'c) Debugger \<Rightarrow> SingleThreadStopReason option" where
  "stop_reason d =
     (if Some (program_counter (interpreter d)) \<in> set (breakpoints d) then Some SwBreak
      else if exec_mode d = Step then Some DoneStep
      else None)"

definition incoming_data ::
  "('conn, 'k) connection_ops \<Rightarrow> i32 \<Rightarrow> 'conn \<Rightarrow> ('k + u8) option \<times> 'conn" where
  "incoming_data K cycles conn =
     (if sint cycles smod 1024 = 0 then
        (case peek K conn of
           (r, conn) \<Rightarrow>
             if (case r of Inl _ \<Rightarrow> True | Inr b \<Rightarrow> b \<noteq> None)
             then (case read K conn of (byte, conn) \<Rightarrow> (Some byte, conn))
             else (None, conn))
      else (None, conn))"

definition debug_iteration ::
  "'m memory_ops \<Rightarrow> ('m, 'c) debugger_fn \<Rightarrow> ('conn, 'k) connection_ops \<Rightarrow> i32
     \<Rightarrow> ('m, 'c) Debugger \<Rightarrow> 'conn
     \<Rightarrow> ('k WaitForStopReasonError + Event) option \<times> ('m, 'c) Debugger \<times> 'conn" where
  "debug_iteration M f K cycles d conn =
     (case debug_instruction M f d of
        (Inl e, d) \<Rightarrow> (Some (Inl (TargetError e)), d, conn)
      | (Inr (Some reason), d) \<Rightarrow> (Some (Inr (TargetStopped reason)), d, conn)
      | (Inr None, d) \<Rightarrow>
          (case stop_reason d of
             Some reason \<Rightarrow> (Some (Inr (TargetStopped reason)), d, conn)
           | None \<Rightarrow>
               (case incoming_data K cycles conn of
                  (Some (Inl e), conn) \<Rightarrow> (Some (Inl (ConnectionError e)), d, conn)
                | (Some (Inr byte), conn) \<Rightarrow> (Some (Inr (IncomingData byte)), d, conn)
                | (None, conn) \<Rightarrow> (None, d, conn))))"

partial_function (option) wait_loop ::
  "'m memory_ops \<Rightarrow> ('m, 'c) debugger_fn \<Rightarrow> ('conn, 'k) connection_ops \<Rightarrow> i32
     \<Rightarrow> ('m, 'c) Debugger \<Rightarrow> 'conn
     \<Rightarrow> (('k WaitForStopReasonError + Event) \<times> ('m, 'c) Debugger \<times> 'conn) option" where
  "wait_loop M f K cycles d conn =
     (case debug_iteration M f K cycles d conn of
        (Some r, d, conn) \<Rightarrow> Some (r, d, conn)
      | (None, d, conn) \<Rightarrow> wait_loop M f K (cycles + 1) d conn)"

definition wait_for_stop_reason ::
  "'m memory_ops \<Rightarrow> ('m, 'c) debugger_fn \<Rightarrow> ('conn, 'k) connection_ops \<Rightarrow> ('m, 'c) Debugger \<Rightarrow> 'conn
     \<Rightarrow> (('k WaitForStopReasonError + Event) \<times> ('m, 'c) Debugger \<times> 'conn) option" where
  "wait_for_stop_reason M f K d conn = wait_loop M f K 0 d conn"

definition on_interrupt :: "('m, 'c) Debugger \<Rightarrow> SingleThreadStopReason option" where
  "on_interrupt d = Some (SignalStop SIGINT)"

definition debugger_resume :: "('m, 'c) Debugger \<Rightarrow> ('m, 'c) Debugger" where
  "debugger_resume d = d\<lparr>exec_mode := Run\<rparr>"

definition debugger_step :: "('m, 'c) Debugger \<Rightarrow> ('m, 'c) Debugger" where
  "debugger_step d = d\<lparr>exec_mode := Step\<rparr>"

section \<open>Breakpoints\<close>

fun position :: "('a \<Rightarrow> bool) \<Rightarrow> 'a list \<Rightarrow> nat option" where
  "position P [] = None"
| "position P (x # xs) = (if P x then Some 0 else map_option Suc (position P xs))"

definition add_sw_breakpoint :: "u32 \<Rightarrow> ('m, 'c) Debugger \<Rightarrow> bool \<times> ('m, 'c) Debugger" where
  "add_sw_breakpoint addr d =
     (case position (\<lambda>b. b = None) (breakpoints d) of
        Some i \<Rightarrow> (True, d\<lparr>breakpoints := (breakpoints d)[i := Some addr]\<rparr>)
      | None \<Rightarrow> (False, d))"

definition remove_sw_breakpoint :: "u32 \<Rightarrow> ('m, 'c) Debugger \<Rightarrow> bool \<times> ('m, 'c) Debugger" where
  "remove_sw_breakpoint addr d =
     (case position (\<lambda>b. b = Some addr) (breakpoints d) of
        Some i \<Rightarrow> (True, d\<lparr>breakpoints := (breakpoints d)[i := None]\<rparr>)
      | None \<Rightarrow> (False, d))"

section \<open>Registers and memory\<close>

record RiscvCoreRegs =
  core_x :: "u32 list"
  core_pc :: u32

datatype RiscvRegId = Pc | Gpr u8 | Fpr u8 | Csr u16 | OtherReg
datatype TargetFault = NonFatal | Fatal Error

definition set_interpreter :: "'m Interpreter \<Rightarrow> ('m, 'c) Debugger \<Rightarrow> ('m, 'c) Debugger" where
  "set_interpreter s d = d\<lparr>interpreter := s\<rparr>"

text \<open>
  The loop of \<open>read_registers\<close> over the 32 entries of \<open>regs.x\<close>, and the one of \<open>write_registers\<close>
  in the other direction. Both arrays have 32 entries in the code.
\<close>

definition read_registers :: "('m, 'c) Debugger \<Rightarrow> RiscvCoreRegs" where
  "read_registers d = \<lparr>
     core_x = map (\<lambda>i. inner (cpu (registers (interpreter d))) ! i) [0..<32],
     core_pc = program_counter (interpreter d)\<rparr>"

definition write_registers :: "RiscvCoreRegs \<Rightarrow> ('m, 'c) Debugger \<Rightarrow> ('m, 'c) Debugger" where
  "write_registers regs d =
     (let s = interpreter d;
          xs = fold (\<lambda>i xs. xs[i := core_x regs ! i]) [0..<length (core_x regs)]
                 (inner (cpu (registers s))) in
      set_interpreter ((set_cpu ((cpu (registers s))\<lparr>inner := xs\<rparr>) s)
        \<lparr>program_counter := core_pc regs\<rparr>) d)"

text \<open>
  The code copies what the memory returns into the buffer of GDB, and panics if it has another
  length. A memory returns as many bytes as it is asked for, as \<open>SliceMemory\<close> does.
\<close>

definition read_addrs ::
  "'m memory_ops \<Rightarrow> u32 \<Rightarrow> nat \<Rightarrow> ('m, 'c) Debugger
     \<Rightarrow> (TargetFault, u8 list, ('m, 'c) Debugger) outcome" where
  "read_addrs M start_addr len d =
     (let s = interpreter d in
      case load_bytes M (memory s) start_addr len of
        (Inl e, m) \<Rightarrow> (Inl (Fatal e), set_interpreter (s\<lparr>memory := m\<rparr>) d)
      | (Inr bytes, m) \<Rightarrow> (Inr bytes, set_interpreter (s\<lparr>memory := m\<rparr>) d))"

definition write_addrs ::
  "'m memory_ops \<Rightarrow> u32 \<Rightarrow> u8 list \<Rightarrow> ('m, 'c) Debugger
     \<Rightarrow> (TargetFault, unit, ('m, 'c) Debugger) outcome" where
  "write_addrs M start_addr bytes d =
     (let s = interpreter d in
      case store_bytes M (memory s) start_addr bytes of
        (Inl e, m) \<Rightarrow> (Inl (Fatal e), set_interpreter (s\<lparr>memory := m\<rparr>) d)
      | (Inr _, m) \<Rightarrow> (Inr (), set_interpreter (s\<lparr>memory := m\<rparr>) d))"

text \<open>
  The buffer is \<open>buf\<close>; the result is the number of bytes, and the buffer and the debugger after the
  call. Reading a control and status register is an operation on it, which may change its state.
\<close>

definition read_register ::
  "RiscvRegId \<Rightarrow> u8 list \<Rightarrow> ('m, 'c) Debugger
     \<Rightarrow> (TargetFault, nat, u8 list \<times> ('m, 'c) Debugger) outcome" where
  "read_register reg_id buf d =
     (if length buf < 4 then (Inl NonFatal, buf, d)
      else
        let s = interpreter d in
        case reg_id of
          Pc \<Rightarrow> (Inr 4, slice_put buf 0 (to_le_bytes (program_counter s)), d)
        | Gpr i \<Rightarrow>
            (case get_reg s i of
               Inl e \<Rightarrow> (Inl (Fatal e), buf, d)
             | Inr reg \<Rightarrow> (Inr 4, slice_put buf 0 (to_le_bytes reg), d))
        | Fpr i \<Rightarrow> (Inl (Fatal (InvalidCPURegister i)), buf, d)
        | Csr i \<Rightarrow>
            (case cs_operation (control_status (registers s)) None i of
               (Inl e, cs) \<Rightarrow> (Inl (Fatal e), buf, set_interpreter (set_cs cs s) d)
             | (Inr csr, cs) \<Rightarrow>
                 (Inr 4, slice_put buf 0 (to_le_bytes csr), set_interpreter (set_cs cs s) d))
        | OtherReg \<Rightarrow> (Inl NonFatal, buf, d))"

definition write_register ::
  "RiscvRegId \<Rightarrow> u8 list \<Rightarrow> ('m, 'c) Debugger \<Rightarrow> (TargetFault, unit, ('m, 'c) Debugger) outcome" where
  "write_register reg_id buf d =
     (if length buf > 4 then (Inl NonFatal, d)
      else
        let pad_buf = slice_put (replicate 4 0) 0 buf;
            val = (from_le_bytes pad_buf :: u32);
            s = interpreter d in
        case reg_id of
          Pc \<Rightarrow> (Inr (), set_interpreter (s\<lparr>program_counter := val\<rparr>) d)
        | Gpr i \<Rightarrow>
            (case get_reg_mut s i of
               Inl e \<Rightarrow> (Inl (Fatal e), d)
             | Inr (_, write) \<Rightarrow> (Inr (), set_interpreter (set_cpu (write val) s) d))
        | Fpr i \<Rightarrow> (Inl (Fatal (InvalidCPURegister i)), d)
        | Csr i \<Rightarrow>
            (case cs_operation (control_status (registers s)) (Some (CsWrite val)) i of
               (Inl e, cs) \<Rightarrow> (Inl (Fatal e), set_interpreter (set_cs cs s) d)
             | (Inr _, cs) \<Rightarrow> (Inr (), set_interpreter (set_cs cs s) d))
        | OtherReg \<Rightarrow> (Inl NonFatal, d))"

section \<open>The table of breakpoints is a bounded multiset\<close>

lemma position_Some:
  "position P xs = Some i \<Longrightarrow> i < length xs \<and> P (xs ! i)"
  by (induction xs arbitrary: i) (auto split: if_splits)

lemma position_None: "position P xs = None \<longleftrightarrow> (\<forall>x\<in>set xs. \<not> P x)"
  by (induction xs) auto

definition active_breakpoints :: "('m, 'c) Debugger \<Rightarrow> u32 multiset" where
  "active_breakpoints d = image_mset the (filter_mset (\<lambda>b. b \<noteq> None) (mset (breakpoints d)))"

lemma in_active_breakpoints: "a \<in># active_breakpoints d \<longleftrightarrow> Some a \<in> set (breakpoints d)"
  by (force simp: active_breakpoints_def image_iff)

lemma length_filter_less_iff: "length (filter P xs) < length xs \<longleftrightarrow> (\<exists>x\<in>set xs. \<not> P x)"
  by (induction xs) (auto simp: le_imp_less_Suc)

lemma size_active_breakpoints:
  "size (active_breakpoints d) \<le> length (breakpoints d)"
  "size (active_breakpoints d) < length (breakpoints d) \<longleftrightarrow> None \<in> set (breakpoints d)"
proof -
  have "size (active_breakpoints d) = length (filter (\<lambda>b. b \<noteq> None) (breakpoints d))"
    unfolding active_breakpoints_def by (simp only: size_image_mset size_mset flip: mset_filter)
  then show "size (active_breakpoints d) \<le> length (breakpoints d)"
    "size (active_breakpoints d) < length (breakpoints d) \<longleftrightarrow> None \<in> set (breakpoints d)"
    by (simp_all only: length_filter_le length_filter_less_iff) auto
qed

lemma add_breakpoint_True:
  assumes "add_sw_breakpoint a d = (True, d')"
  shows "active_breakpoints d' = add_mset a (active_breakpoints d)"
    "length (breakpoints d') = length (breakpoints d)"
proof -
  obtain i where i: "position (\<lambda>b. b = None) (breakpoints d) = Some i"
    and d': "d' = d\<lparr>breakpoints := (breakpoints d)[i := Some a]\<rparr>"
    using assms by (auto simp: add_sw_breakpoint_def split: option.splits)
  from position_Some [OF i] show "active_breakpoints d' = add_mset a (active_breakpoints d)"
    by (auto simp: active_breakpoints_def d' mset_update)
  show "length (breakpoints d') = length (breakpoints d)" by (simp add: d')
qed

lemma position_is_Some: "position P xs \<noteq> None \<longleftrightarrow> (\<exists>x\<in>set xs. P x)"
  by (simp only: position_None) blast

lemma add_breakpoint_accepts:
  "fst (add_sw_breakpoint a d) \<longleftrightarrow> size (active_breakpoints d) < length (breakpoints d)"
proof -
  have "fst (add_sw_breakpoint a d) \<longleftrightarrow> position (\<lambda>b. b = None) (breakpoints d) \<noteq> None"
    by (simp add: add_sw_breakpoint_def split: option.split)
  then show ?thesis unfolding size_active_breakpoints(2) position_is_Some by simp
qed

lemma remove_breakpoint_True:
  assumes "remove_sw_breakpoint a d = (True, d')"
  shows "active_breakpoints d' = active_breakpoints d - {#a#}"
    "length (breakpoints d') = length (breakpoints d)"
proof -
  obtain i where i: "position (\<lambda>b. b = Some a) (breakpoints d) = Some i"
    and d': "d' = d\<lparr>breakpoints := (breakpoints d)[i := None]\<rparr>"
    using assms by (auto simp: remove_sw_breakpoint_def split: option.splits)
  have mem: "Some a \<in># filter_mset (\<lambda>b. b \<noteq> None) (mset (breakpoints d))"
    using position_Some [OF i] by (auto simp: in_set_conv_nth)
  have "active_breakpoints d' =
      image_mset the (filter_mset (\<lambda>b. b \<noteq> None) (mset (breakpoints d)) - {#Some a#})"
    using position_Some [OF i] by (simp add: active_breakpoints_def d' mset_update)
  with mem show "active_breakpoints d' = active_breakpoints d - {#a#}"
    by (simp only: active_breakpoints_def image_mset_Diff single_subset_iff image_mset_single
        option.sel)
  show "length (breakpoints d') = length (breakpoints d)" by (simp add: d')
qed

lemma remove_breakpoint_accepts:
  "fst (remove_sw_breakpoint a d) \<longleftrightarrow> a \<in># active_breakpoints d"
proof -
  have "fst (remove_sw_breakpoint a d) \<longleftrightarrow> position (\<lambda>b. b = Some a) (breakpoints d) \<noteq> None"
    by (simp add: remove_sw_breakpoint_def split: option.split)
  then show ?thesis unfolding in_active_breakpoints position_is_Some by simp
qed

lemma refused_breakpoint:
  "add_sw_breakpoint a d = (False, d') \<Longrightarrow> d' = d"
  "remove_sw_breakpoint a d = (False, d') \<Longrightarrow> d' = d"
  by (auto simp: add_sw_breakpoint_def remove_sw_breakpoint_def split: option.splits)

section \<open>Requests on a bounded table\<close>

text \<open>
  The contract of a table that GDB fills and empties: it holds a multiset of at most \<open>capacity\<close>
  entries. A client only sees whether its requests are accepted. \<open>serve\<close> answers a sequence of
  requests, with the operations of any table.
\<close>

datatype 'a request = Insert 'a | Remove 'a

fun serve ::
  "('a \<Rightarrow> 's \<Rightarrow> bool \<times> 's) \<Rightarrow> ('a \<Rightarrow> 's \<Rightarrow> bool \<times> 's) \<Rightarrow> 'a request list \<Rightarrow> 's \<Rightarrow> bool list \<times> 's" where
  "serve ins rem [] s = ([], s)"
| "serve ins rem (r # rs) s =
     (case (case r of Insert a \<Rightarrow> ins a s | Remove a \<Rightarrow> rem a s) of
        (ok, s) \<Rightarrow> (case serve ins rem rs s of (oks, s) \<Rightarrow> (ok # oks, s)))"

definition bag_insert :: "nat \<Rightarrow> 'a \<Rightarrow> 'a multiset \<Rightarrow> bool \<times> 'a multiset" where
  "bag_insert N a B = (if size B < N then (True, add_mset a B) else (False, B))"

definition bag_remove :: "'a \<Rightarrow> 'a multiset \<Rightarrow> bool \<times> 'a multiset" where
  "bag_remove a B = (if a \<in># B then (True, B - {#a#}) else (False, B))"

locale bounded_table =
  fixes ins rem :: "'a \<Rightarrow> 's \<Rightarrow> bool \<times> 's" and content :: "'s \<Rightarrow> 'a multiset"
    and capacity :: "'s \<Rightarrow> nat"
  assumes ins_content: "map_prod id content (ins a s) = bag_insert (capacity s) a (content s)"
    and rem_content: "map_prod id content (rem a s) = bag_remove a (content s)"
    and ins_capacity: "capacity (snd (ins a s)) = capacity s"
    and rem_capacity: "capacity (snd (rem a s)) = capacity s"
    and within: "size (content s) \<le> capacity s"
begin

lemma serve_capacity: "capacity (snd (serve ins rem rs s)) = capacity s"
  by (induction rs arbitrary: s)
     (auto simp: ins_capacity rem_capacity split_beta split: request.split)

lemma serve_refines:
  "map_prod id content (serve ins rem rs s) = serve (bag_insert (capacity s)) bag_remove rs (content s)"
proof (induction rs arbitrary: s)
  case (Cons r rs)
  define t where "t = (case r of Insert a \<Rightarrow> ins a s | Remove a \<Rightarrow> rem a s)"
  have "(case r of Insert a \<Rightarrow> bag_insert (capacity s) a (content s) | Remove a \<Rightarrow> bag_remove a (content s))
      = (fst t, content (snd t))"
    by (simp add: t_def map_prod_def split_beta flip: ins_content rem_content split: request.split)
  moreover have "capacity (snd t) = capacity s"
    by (simp add: t_def ins_capacity rem_capacity split: request.split)
  ultimately show ?case
    using Cons.IH [of "snd t", symmetric]
    by (simp add: map_prod_def split_beta flip: t_def)
qed simp

end

lemma add_breakpoint_bag:
  "map_prod id active_breakpoints (add_sw_breakpoint a d)
    = bag_insert (length (breakpoints d)) a (active_breakpoints d)"
proof -
  obtain ok d' where d': "add_sw_breakpoint a d = (ok, d')" by fastforce
  then show ?thesis
    using add_breakpoint_accepts [of a d] add_breakpoint_True(1) [of a d d']
      refused_breakpoint(1) [of a d d']
    by (cases ok) (simp_all add: bag_insert_def)
qed

lemma remove_breakpoint_bag:
  "map_prod id active_breakpoints (remove_sw_breakpoint a d) = bag_remove a (active_breakpoints d)"
proof -
  obtain ok d' where d': "remove_sw_breakpoint a d = (ok, d')" by fastforce
  then show ?thesis
    using remove_breakpoint_accepts [of a d] remove_breakpoint_True(1) [of a d d']
      refused_breakpoint(2) [of a d d']
    by (cases ok) (simp_all add: bag_remove_def)
qed

lemma breakpoint_capacity:
  "length (breakpoints (snd (add_sw_breakpoint a d))) = length (breakpoints d)"
  "length (breakpoints (snd (remove_sw_breakpoint a d))) = length (breakpoints d)"
  by (simp_all add: add_sw_breakpoint_def remove_sw_breakpoint_def split: option.split)

interpretation sw_breakpoints: bounded_table add_sw_breakpoint remove_sw_breakpoint
    active_breakpoints "\<lambda>d. length (breakpoints d)"
  by unfold_locales
     (simp_all add: add_breakpoint_bag remove_breakpoint_bag breakpoint_capacity size_active_breakpoints(1))

text \<open>The requests change nothing but the table.\<close>

lemma serve_breakpoints_frame:
  "\<exists>bs. snd (serve add_sw_breakpoint remove_sw_breakpoint rs d) = d\<lparr>breakpoints := bs\<rparr>"
proof (induction rs arbitrary: d)
  case Nil
  have "d = d\<lparr>breakpoints := breakpoints d\<rparr>" by simp
  then show ?case by (metis serve.simps(1) snd_conv)
next
  case (Cons r rs)
  define d1 where "d1 = snd (case r of Insert a \<Rightarrow> add_sw_breakpoint a d | Remove a \<Rightarrow> remove_sw_breakpoint a d)"
  obtain bs where bs: "d1 = d\<lparr>breakpoints := bs\<rparr>"
  proof -
    have "d1 = d\<lparr>breakpoints := breakpoints d1\<rparr>"
      by (simp add: d1_def add_sw_breakpoint_def remove_sw_breakpoint_def
          split: request.split option.split)
    with that show thesis by blast
  qed
  have "snd (serve add_sw_breakpoint remove_sw_breakpoint (r # rs) d)
      = snd (serve add_sw_breakpoint remove_sw_breakpoint rs d1)"
    by (simp add: d1_def split_beta)
  with Cons.IH [of d1] bs show ?case by auto
qed

section \<open>Registers\<close>

lemma fold_update_nth:
  "length ys \<le> length xs \<Longrightarrow>
     fold (\<lambda>i xs. xs[i := ys ! i]) [0..<length ys] xs = ys @ drop (length ys) xs"
proof (induction ys rule: rev_induct)
  case Nil
  then show ?case by simp
next
  case (snoc y ys)
  have "fold (\<lambda>i xs. xs[i := (ys @ [y]) ! i]) [0..<length ys] xs =
      fold (\<lambda>i xs. xs[i := ys ! i]) [0..<length ys] xs"
    by (rule fold_cong) (auto simp: nth_append)
  with snoc show ?case
    by (simp add: list_update_append Cons_nth_drop_Suc [symmetric])
qed

lemma write_read_registers:
  assumes "cpu_wf (cpu (registers (interpreter d)))"
  shows "write_registers (read_registers d) d = d"
proof -
  have "map (\<lambda>i. inner (cpu (registers (interpreter d))) ! i) [0..<32] =
      inner (cpu (registers (interpreter d)))"
    using assms by (metis cpu_wf_def map_nth)
  with assms show ?thesis
    using fold_update_nth [of "inner (cpu (registers (interpreter d)))"
        "inner (cpu (registers (interpreter d)))"]
    by (simp add: write_registers_def read_registers_def Let_def set_interpreter_def cpu_wf_def)
qed

lemma read_write_registers:
  assumes "cpu_wf (cpu (registers (interpreter d)))" "length (core_x regs) = 32"
  shows "read_registers (write_registers regs d) = regs"
    "cpu_wf (cpu (registers (interpreter (write_registers regs d))))"
  using assms fold_update_nth [of "core_x regs" "inner (cpu (registers (interpreter d)))"]
  by (simp_all add: write_registers_def read_registers_def Let_def set_interpreter_def cpu_wf_def
      map_nth [of "core_x regs", simplified assms])

section \<open>Waiting for a stop\<close>

lemma after_step_frame:
  "after_step f state d = (r, d') \<Longrightarrow>
     breakpoints d' = breakpoints d \<and> exec_mode d' = exec_mode d"
  by (auto simp: after_step_def split: State.splits prod.splits sum.splits)

lemma debug_instruction_frame:
  "debug_instruction M f d = (r, d') \<Longrightarrow>
     breakpoints d' = breakpoints d \<and> exec_mode d' = exec_mode d"
  by (auto simp: debug_instruction_def dest!: after_step_frame split: prod.splits sum.splits)

text \<open>
  The instructions the loop goes through: each runs without an error, is not the end of the guest,
  and leaves the debugger in a state without a reason to stop.
\<close>

inductive debug_path ::
  "'m memory_ops \<Rightarrow> ('m, 'c) debugger_fn \<Rightarrow> ('m, 'c) Debugger \<Rightarrow> ('m, 'c) Debugger \<Rightarrow> bool"
  for M :: "'m memory_ops" and f :: "('m, 'c) debugger_fn" where
  path_refl: "debug_path M f d d"
| path_step: "debug_instruction M f d = (Inr None, d') \<Longrightarrow> stop_reason d' = None \<Longrightarrow>
     debug_path M f d' d'' \<Longrightarrow> debug_path M f d d''"

text \<open>How an event is explained by the last instruction, from \<open>d\<close> to \<open>d'\<close>.\<close>

definition explains ::
  "'m memory_ops \<Rightarrow> ('m, 'c) debugger_fn \<Rightarrow> ('m, 'c) Debugger
     \<Rightarrow> 'k WaitForStopReasonError + Event \<Rightarrow> ('m, 'c) Debugger \<Rightarrow> bool" where
  "explains M f d r d' \<longleftrightarrow>
     (case r of
        Inl (TargetError e) \<Rightarrow> debug_instruction M f d = (Inl e, d')
      | Inr (TargetStopped reason) \<Rightarrow>
          debug_instruction M f d = (Inr (Some reason), d')
          \<or> debug_instruction M f d = (Inr None, d') \<and> stop_reason d' = Some reason
      | _ \<Rightarrow> debug_instruction M f d = (Inr None, d') \<and> stop_reason d' = None)"

lemma debug_iteration_explains:
  "debug_iteration M f K cycles d conn = (Some r, d', conn') \<Longrightarrow> explains M f d r d'"
  by (auto simp: debug_iteration_def explains_def
      split: prod.splits sum.splits option.splits WaitForStopReasonError.splits Event.splits)

lemma debug_iteration_continues:
  "debug_iteration M f K cycles d conn = (None, d', conn') \<Longrightarrow>
     debug_instruction M f d = (Inr None, d') \<and> stop_reason d' = None"
  by (auto simp: debug_iteration_def split: prod.splits sum.splits option.splits)

text \<open>
  The connection after a number of peeks, and how an event is explained by what the loop did with
  the connection: after \<open>k\<close> peeks that found nothing, either it was not used any more, or the next
  peek found something or failed, and then the event is what was read.
\<close>

primrec after_peeks :: "('conn, 'k) connection_ops \<Rightarrow> nat \<Rightarrow> 'conn \<Rightarrow> 'conn" where
  "after_peeks K 0 conn = conn"
| "after_peeks K (Suc n) conn = after_peeks K n (snd (peek K conn))"

definition received ::
  "('conn, 'k) connection_ops \<Rightarrow> nat \<Rightarrow> 'conn \<Rightarrow> 'k WaitForStopReasonError + Event \<Rightarrow> 'conn \<Rightarrow> bool" where
  "received K k conn r conn' \<longleftrightarrow>
     (\<forall>j<k. fst (peek K (after_peeks K j conn)) = Inr None)
     \<and> (case r of
          Inr (IncomingData b) \<Rightarrow>
            fst (peek K (after_peeks K k conn)) \<noteq> Inr None
            \<and> read K (after_peeks K (Suc k) conn) = (Inr b, conn')
        | Inl (ConnectionError e) \<Rightarrow>
            fst (peek K (after_peeks K k conn)) \<noteq> Inr None
            \<and> read K (after_peeks K (Suc k) conn) = (Inl e, conn')
        | _ \<Rightarrow> conn' = after_peeks K k conn)"

lemma incoming_data_polls:
  "incoming_data K cycles conn = (x, conn') \<Longrightarrow>
     (case x of
        None \<Rightarrow> conn' = conn \<or> peek K conn = (Inr None, conn')
      | Some y \<Rightarrow> fst (peek K conn) \<noteq> Inr None \<and> read K (snd (peek K conn)) = (y, conn'))"
  by (auto simp: incoming_data_def split: if_splits prod.splits sum.splits)

lemma debug_iteration_received:
  assumes "debug_iteration M f K cycles d conn = (Some r, d', conn')"
  shows "received K 0 conn r conn'"
  using assms
  by (auto simp: debug_iteration_def received_def dest!: incoming_data_polls
      split: prod.splits sum.splits option.splits)

lemma received_later:
  assumes "peek K conn = (Inr None, conn1)" "received K k conn1 r conn'"
  shows "received K (Suc k) conn r conn'"
  using assms unfolding received_def
  by (auto simp: less_Suc_eq_0_disj split: sum.splits WaitForStopReasonError.splits Event.splits)

lemma debug_iteration_polls:
  assumes "debug_iteration M f K cycles d conn = (None, d1, conn1)" "received K k conn1 r conn'"
  shows "\<exists>k. received K k conn r conn'"
proof -
  have "conn1 = conn \<or> peek K conn = (Inr None, conn1)"
    using assms(1)
    by (auto simp: debug_iteration_def dest!: incoming_data_polls
        split: prod.splits sum.splits option.splits)
  then show ?thesis
  proof
    assume "conn1 = conn"
    with assms(2) show ?thesis by blast
  next
    assume "peek K conn = (Inr None, conn1)"
    from received_later [OF this assms(2)] show ?thesis by (rule exI)
  qed
qed

lemma wait_loop_explained:
  assumes "wait_loop M f K cycles d conn = Some (r, d', conn')"
  shows "\<exists>d0. debug_path M f d d0 \<and> explains M f d0 r d' \<and> (\<exists>k. received K k conn r conn')"
proof -
  have "\<exists>d0. debug_path M f d d0 \<and> explains M f d0 (fst y) (fst (snd y))
      \<and> (\<exists>k. received K k conn (fst y) (snd (snd y)))"
    if "wait_loop M f K cycles d conn = Some y" for y
  proof (rule wait_loop.raw_induct [where P = "\<lambda>M f K cycles d conn y.
        \<exists>d0. debug_path M f d d0 \<and> explains M f d0 (fst y) (fst (snd y))
          \<and> (\<exists>k. received K k conn (fst y) (snd (snd y)))", OF _ that])
    fix wait M f K cycles d conn y
    assume IH: "\<And>M f K cycles d conn y. wait M f K cycles d conn = Some y \<Longrightarrow>
        \<exists>d0. debug_path M f d d0 \<and> explains M f d0 (fst y) (fst (snd y))
          \<and> (\<exists>k. received K k conn (fst y) (snd (snd y)))"
      and y: "(case debug_iteration M f K cycles d conn of
          (Some r, d, conn) \<Rightarrow> Some (r, d, conn)
        | (None, d, conn) \<Rightarrow> wait M f K (cycles + 1) d conn) = Some y"
    show "\<exists>d0. debug_path M f d d0 \<and> explains M f d0 (fst y) (fst (snd y))
        \<and> (\<exists>k. received K k conn (fst y) (snd (snd y)))"
    proof (cases "debug_iteration M f K cycles d conn")
      case (fields r d1 conn1)
      show ?thesis
      proof (cases r)
        case None
        with y fields have "wait M f K (cycles + 1) d1 conn1 = Some y" by simp
        with IH obtain d0 k where "debug_path M f d1 d0" "explains M f d0 (fst y) (fst (snd y))"
            "received K k conn1 (fst y) (snd (snd y))"
          by blast
        with debug_iteration_continues [OF fields [unfolded None]]
          debug_iteration_polls [OF fields [unfolded None]] show ?thesis
          by (blast intro: path_step)
      next
        case (Some r')
        with y fields debug_iteration_explains [OF fields [unfolded Some]]
          debug_iteration_received [OF fields [unfolded Some]] show ?thesis
          by (intro exI [of _ d] conjI exI [of _ 0]) (auto intro: path_refl)
      qed
    qed
  qed
  from this [OF assms] show ?thesis by simp
qed

lemma explains_frame:
  "explains M f d r d' \<Longrightarrow> breakpoints d' = breakpoints d \<and> exec_mode d' = exec_mode d"
  by (auto simp: explains_def dest!: debug_instruction_frame
      split: sum.splits WaitForStopReasonError.splits Event.splits)

lemma debug_path_frame:
  "debug_path M f d d' \<Longrightarrow> breakpoints d' = breakpoints d \<and> exec_mode d' = exec_mode d"
  by (induction rule: debug_path.induct) (auto dest: debug_instruction_frame)

text \<open>In the mode \<open>Step\<close> the loop ends after its first iteration.\<close>

lemma step_mode_stops:
  assumes "exec_mode d = Step"
  obtains r d' where "debug_iteration M f K cycles d conn = (Some r, d', conn)"
    "explains M f d r d'" "\<And>b. r \<noteq> Inr (IncomingData b)" "\<And>e. r \<noteq> Inl (ConnectionError e)"
proof -
  obtain res d' where inst: "debug_instruction M f d = (res, d')" by fastforce
  with assms have "stop_reason d' \<noteq> None"
    by (auto simp: stop_reason_def dest: debug_instruction_frame)
  with inst obtain r where "debug_iteration M f K cycles d conn = (Some r, d', conn)"
    "\<And>b. r \<noteq> Inr (IncomingData b)" "\<And>e. r \<noteq> Inl (ConnectionError e)"
    by (cases res; cases "projr res") (auto simp: debug_iteration_def)
  with that debug_iteration_explains show thesis by metis
qed

section \<open>A debugged interpreter is a reachable one\<close>

lemma debug_instruction_reachable:
  assumes "reachable M limit (interpreter d)" "debug_instruction M f d = (r, d')"
  shows "reachable M limit (interpreter d')"
proof -
  obtain r1 s where s: "step M (interpreter d) = (r1, s)" by fastforce
  then have s_reach: "reachable M limit s"
    using assms(1) by (blast intro: reachable_step guest_step)
  show ?thesis
  proof (cases r1)
    case (Inl e)
    with s s_reach assms(2) show ?thesis by (auto simp: debug_instruction_def)
  next
    case (Inr state)
    show ?thesis
    proof (cases state)
      case Called
      obtain r2 s2 c2 where sys: "syscall f s (captured d) = (r2, s2, c2)"
        using prod_cases3 by blast
      then have "reachable M limit s2"
        using s_reach by (blast intro: reachable_step syscall_host_step)
      with s Inr Called sys assms(2) show ?thesis
        by (auto simp: debug_instruction_def after_step_def split: sum.splits)
    next
      case Waiting
      obtain r2 s2 where int: "interrupt 0 s = (r2, s2)" by fastforce
      then have "reachable M limit s2"
        using s_reach by (blast intro: reachable_step host_interrupt)
      with s Inr Waiting int assms(2) show ?thesis
        by (auto simp: debug_instruction_def after_step_def split: sum.splits)
    qed (use s s_reach Inr assms(2) in \<open>auto simp: debug_instruction_def after_step_def\<close>)
  qed
qed

lemma debug_path_reachable:
  "debug_path M f d d' \<Longrightarrow> reachable M limit (interpreter d) \<Longrightarrow> reachable M limit (interpreter d')"
  by (induction rule: debug_path.induct) (auto dest: debug_instruction_reachable)

end
