(* ===== verification/Debugger_Theorems.thy ===== *)
theory Debugger_Theorems
  imports Debugger Machine_Theorems
begin

text \<open>
  The properties of the debugger: its breakpoints, its event loop, and the access of GDB to the
  registers and the memory of the guest.
\<close>

section \<open>Breakpoints\<close>

text \<open>
  C34: The table of breakpoints is a multiset of at most N addresses: for every sequence of requests of
  GDB, the answers and the active breakpoints are those of a bounded multiset, in which adding is
  accepted exactly while there are fewer than N addresses and adds one occurrence, and removing is
  accepted exactly for an address in it and removes one occurrence. A request that is refused
  changes nothing at all, and no request changes anything but the table.
\<close>

theorem breakpoints_refine_multiset:
  "map_prod id active_breakpoints (serve add_sw_breakpoint remove_sw_breakpoint rs d)
     = serve (bag_insert (length (breakpoints d))) bag_remove rs (active_breakpoints d)
   \<and> size (active_breakpoints (snd (serve add_sw_breakpoint remove_sw_breakpoint rs d)))
       \<le> length (breakpoints d)
   \<and> (\<exists>bs. snd (serve add_sw_breakpoint remove_sw_breakpoint rs d) = d\<lparr>breakpoints := bs\<rparr>)
   \<and> (case add_sw_breakpoint a d of (added, d1) \<Rightarrow> added \<or> d1 = d)
   \<and> (case remove_sw_breakpoint a d of (removed, d2) \<Rightarrow> removed \<or> d2 = d)"
proof (intro conjI)
  show "size (active_breakpoints (snd (serve add_sw_breakpoint remove_sw_breakpoint rs d)))
      \<le> length (breakpoints d)"
    using sw_breakpoints.within sw_breakpoints.serve_capacity by metis
  show "case add_sw_breakpoint a d of (added, d1) \<Rightarrow> added \<or> d1 = d"
    "case remove_sw_breakpoint a d of (removed, d2) \<Rightarrow> removed \<or> d2 = d"
    using refused_breakpoint [of a d] by (auto split: prod.split intro: ccontr)
qed (rule sw_breakpoints.serve_refines serve_breakpoints_frame)+

section \<open>The event loop\<close>

text \<open>The small machine with a breakpoint after its first instruction, for concrete instances.\<close>

definition small_debugger :: "(SliceMemory, unit) Debugger" where
  "small_debugger = \<lparr>interpreter = small_machine, breakpoints = [Some 2], exec_mode = Run,
     captured = ()\<rparr>"

definition no_syscalls :: "(SliceMemory, unit) debugger_fn" where
  "no_syscalls nr args m c = (Inl NoSyscallFunction, m, c)"

definition no_connection :: "(unit, unit) connection_ops" where
  "no_connection = \<lparr>peek = \<lambda>c. (Inr None, c), read = \<lambda>c. (Inl (), c)\<rparr>"

lemma small_debugger_stops:
  "wait_for_stop_reason (slice_memory_ops 64) no_syscalls no_connection small_debugger () =
     Some (Inr (TargetStopped SwBreak), small_debugger\<lparr>interpreter := small_after\<rparr>, ())"
proof -
  have "program_counter small_after = 2" by (simp add: machine_eval)
  then show ?thesis
    by (simp add: wait_for_stop_reason_def wait_loop.simps [of _ _ _ 0] debug_iteration_def
        debug_instruction_def after_step_def stop_reason_def small_debugger_def small_steps)
qed

text \<open>
  C35: What the event loop reports is true: when it returns, the guest has executed instructions none
  of which failed, ended the guest, hit a breakpoint or was a single step, and then a last one,
  from \<open>d0\<close> to \<open>d'\<close>, which explains the event. A breakpoint is reported exactly when the last
  instruction lets the guest go on, neither failing nor ending it, and leaves the program counter at
  an active breakpoint; the end of a single step exactly when the guest goes on, is at no breakpoint,
  and the mode is \<open>Step\<close>. The connection was peeked at a number of times without finding anything;
  a byte that is reported, or an error of the connection, is what was read from it after the next
  peek, which found something or failed, and for every other event the connection was not used any
  more. The breakpoints and the mode are unchanged.
\<close>

theorem stop_reason_explained:
  assumes "wait_for_stop_reason M f K d conn = Some (r, d', conn')"
  shows "\<exists>d0. debug_path M f d d0 \<and> explains M f d0 r d'
    \<and> (r = Inr (TargetStopped SwBreak) \<longleftrightarrow>
         debug_instruction M f d0 = (Inr None, d')
         \<and> program_counter (interpreter d') \<in># active_breakpoints d)
    \<and> (r = Inr (TargetStopped DoneStep) \<longleftrightarrow>
         debug_instruction M f d0 = (Inr None, d')
         \<and> program_counter (interpreter d') \<notin># active_breakpoints d \<and> exec_mode d = Step)
    \<and> (\<exists>k. received K k conn r conn')
    \<and> breakpoints d' = breakpoints d \<and> exec_mode d' = exec_mode d"
proof -
  obtain d0 k where d0: "debug_path M f d d0" "explains M f d0 r d'" "received K k conn r conn'"
    using wait_loop_explained [OF assms [unfolded wait_for_stop_reason_def]] by blast
  have frame: "breakpoints d' = breakpoints d" "exec_mode d' = exec_mode d"
    using debug_path_frame [OF d0(1)] explains_frame [OF d0(2)] by simp_all
  then have "active_breakpoints d' = active_breakpoints d"
    by (simp add: active_breakpoints_def)
  with frame have reason: "stop_reason d' =
      (if program_counter (interpreter d') \<in># active_breakpoints d then Some SwBreak
       else if exec_mode d = Step then Some DoneStep else None)"
    using in_active_breakpoints [of "program_counter (interpreter d')" d']
    by (simp add: stop_reason_def)
  have "fst (debug_instruction M f d0) \<noteq> Inr (Some SwBreak)"
    "fst (debug_instruction M f d0) \<noteq> Inr (Some DoneStep)"
    by (auto simp: debug_instruction_def after_step_def split: prod.split sum.split State.split)
  then have "r = Inr (TargetStopped x) \<longleftrightarrow> debug_instruction M f d0 = (Inr None, d') \<and> stop_reason d' = Some x"
    if "x = SwBreak \<or> x = DoneStep" for x
    using d0(2) that
    by (auto simp: explains_def split: sum.splits WaitForStopReasonError.splits Event.splits)
  from this [of SwBreak] this [of DoneStep] d0 frame show ?thesis
    unfolding reason by auto
qed

theorem stop_reason_explained_witness:
  "program_counter small_after \<in># active_breakpoints small_debugger"
  using stop_reason_explained [OF small_debugger_stops] by auto

text \<open>
  C36: In the mode \<open>Step\<close> the event loop always returns, after exactly one instruction (with the system
  call or interrupt it asks for), and without reading from the connection.
\<close>

theorem single_step_terminates:
  assumes "exec_mode d = Step"
  shows "\<exists>r d'. wait_for_stop_reason M f K d conn = Some (r, d', conn) \<and> explains M f d r d'
    \<and> (\<forall>b. r \<noteq> Inr (IncomingData b)) \<and> (\<forall>e. r \<noteq> Inl (ConnectionError e))"
proof -
  obtain r d' where "debug_iteration M f K 0 d conn = (Some r, d', conn)"
    "explains M f d r d'" "\<And>b. r \<noteq> Inr (IncomingData b)" "\<And>e. r \<noteq> Inl (ConnectionError e)"
    using step_mode_stops [OF assms] by metis
  then show ?thesis
    by (auto simp: wait_for_stop_reason_def wait_loop.simps [of M f K 0])
qed

theorem single_step_terminates_witness:
  "\<exists>r d'. wait_for_stop_reason (slice_memory_ops 64) (\<lambda>nr args m c. (Inr (Inr 0), m, c))
      (\<lparr>peek = \<lambda>c. (Inr None, c), read = \<lambda>c. (Inl (), c)\<rparr> :: (unit, unit) connection_ops)
      (debugger_step (debugger_new 4 \<lparr>code = [], ram = []\<rparr> ())) () = Some (r, d', ())"
proof -
  have mode: "exec_mode (debugger_step (debugger_new 4 \<lparr>code = [], ram = []\<rparr> ())) = Step"
    by (simp add: debugger_step_def)
  show ?thesis by (meson single_step_terminates [OF mode])
qed

section \<open>GDB can always interrupt the guest\<close>

text \<open>A bounded number of iterations of the event loop.\<close>

fun wait_iterations ::
  "'m memory_ops \<Rightarrow> ('m, 'c) debugger_fn \<Rightarrow> ('conn, 'k) connection_ops \<Rightarrow> nat \<Rightarrow> i32
     \<Rightarrow> ('m, 'c) Debugger \<Rightarrow> 'conn
     \<Rightarrow> (('k WaitForStopReasonError + Event) \<times> ('m, 'c) Debugger \<times> 'conn) option" where
  "wait_iterations M f K 0 cycles d conn = None"
| "wait_iterations M f K (Suc n) cycles d conn =
     (case debug_iteration M f K cycles d conn of
        (Some r, d, conn) \<Rightarrow> Some (r, d, conn)
      | (None, d, conn) \<Rightarrow> wait_iterations M f K n (cycles + 1) d conn)"

lemma wait_iterations_loop:
  "wait_iterations M f K n cycles d conn = Some y \<Longrightarrow> wait_loop M f K cycles d conn = Some y"
proof (induction n arbitrary: cycles d conn)
  case (Suc n)
  then show ?case by (subst wait_loop.simps) (auto split: prod.splits option.splits)
qed simp

text \<open>The counter of the cycles wraps around at a multiple of 1024.\<close>

lemma polls_iff: "sint (cycles :: i32) smod 1024 = 0 \<longleftrightarrow> unat cycles mod 1024 = 0"
proof -
  have "take_bit 10 (sint cycles) = take_bit 10 (uint cycles)"
    by (simp add: sint_uint take_bit_signed_take_bit)
  then have "sint cycles mod 1024 = uint cycles mod 1024" by (simp add: take_bit_eq_mod)
  moreover have "uint cycles mod 1024 = int (unat cycles mod 1024)" by (simp add: zmod_int)
  moreover have "sint cycles smod 1024 = 0 \<longleftrightarrow> sint cycles mod 1024 = 0"
    by (auto simp: smod_int_alt_def sgn_0_0 mod_eq_0_iff_dvd)
  ultimately show ?thesis by simp
qed

lemma next_cycle: "unat (cycles + 1 :: i32) mod 1024 = (unat cycles + 1) mod 1024"
  by (simp add: unat_word_ariths mod_mod_cancel)

lemma next_cycle_plus:
  "(unat (cycles + 1 :: i32) + j) mod 1024 = (unat cycles + 1 + j) mod 1024"
  using next_cycle [of cycles] by (metis mod_add_left_eq)

lemma debug_iteration_goes_on:
  assumes "debug_iteration M f K cycles d conn = (None, d', conn')"
  shows "if unat cycles mod 1024 = 0 then peek K conn = (Inr None, conn') else conn' = conn"
  using assms
  by (auto simp: debug_iteration_def incoming_data_def polls_iff
      split: prod.splits sum.splits option.splits if_splits)

lemma wait_iterations_return:
  assumes "fst (peek K (after_peeks K n conn)) \<noteq> Inr None" "k < 1024" "(unat cycles + k) mod 1024 = 0"
  shows "\<exists>y. wait_iterations M f K (Suc (1024 * n + k)) cycles d conn = Some y"
  using assms
proof (induction "1024 * n + k" arbitrary: n k cycles d conn)
  case 0
  then have "unat cycles mod 1024 = 0" "fst (peek K conn) \<noteq> Inr None" by simp_all
  then have "debug_iteration M f K cycles d conn \<noteq> (None, d', conn')" for d' conn'
    using debug_iteration_goes_on [of M f K cycles d conn d' conn'] by auto
  then obtain r d' conn' where "debug_iteration M f K cycles d conn = (Some r, d', conn')"
    by (metis prod.exhaust option.exhaust)
  with 0 show ?case by simp
next
  case (Suc m)
  show ?case
  proof (cases "debug_iteration M f K cycles d conn")
    case (fields r d' conn')
    show ?thesis
    proof (cases r)
      case None
      note goes_on = debug_iteration_goes_on [OF fields [unfolded None]]
      have "\<exists>y. wait_iterations M f K (Suc m) (cycles + 1) d' conn' = Some y"
      proof (cases k)
        case 0
        with Suc goes_on have peeked: "peek K conn = (Inr None, conn')" by simp
        with Suc.prems(1) obtain l where n: "n = Suc l" by (cases n) auto
        have m: "m = 1024 * l + 1023" using Suc.hyps(2) n 0 by simp
        have "(unat (cycles + 1) + 1023) mod 1024 = (unat cycles + 1 + 1023) mod 1024"
          by (rule next_cycle_plus)
        then have c: "(unat (cycles + 1) + 1023) mod 1024 = 0" using Suc.prems(3) 0 by simp
        have "fst (peek K (after_peeks K l conn')) \<noteq> Inr None" using Suc.prems(1) n peeked by simp
        from Suc.hyps(1) [OF m this _ c] show ?thesis unfolding m by simp
      next
        case k: (Suc j)
        have "(unat cycles + k) mod 1024 = k" if "unat cycles mod 1024 = 0"
          using that Suc.prems(2) by (metis add_0 mod_add_left_eq mod_less)
        with k Suc.prems(3) have "unat cycles mod 1024 \<noteq> 0" by (metis nat.distinct(1))
        with goes_on have conn: "conn' = conn" by (simp only: if_False)
        have "(unat (cycles + 1) + j) mod 1024 = (unat cycles + 1 + j) mod 1024"
          by (rule next_cycle_plus)
        then have c: "(unat (cycles + 1) + j) mod 1024 = 0" using Suc.prems(3) k by simp
        have m: "m = 1024 * n + j" "j < 1024" using Suc.hyps(2) Suc.prems(2) k by simp_all
        show ?thesis
          unfolding m(1) conn by (rule Suc.hyps(1) [OF m(1) Suc.prems(1) m(2) c])
      qed
      then show ?thesis unfolding Suc.hyps(2) [symmetric] by (simp add: fields None)
    next
      case (Some y)
      with fields show ?thesis by simp
    qed
  qed
qed

text \<open>
  C37: GDB can always interrupt the guest: if the connection has something to read, or fails, after it
  was asked \<open>n\<close> times, then the event loop returns after at most \<open>1024 * n + 1\<close> instructions, however
  long the guest runs. This holds for every guest, and beyond \<open>2 ^ 31\<close> instructions, where the counter
  of the cycles wraps around to negative numbers.
\<close>

theorem gdb_interrupts_guest:
  assumes "fst (peek K (after_peeks K n conn)) \<noteq> Inr None"
  shows "\<exists>y. wait_iterations M f K (1024 * n + 1) 0 d conn = Some y
    \<and> wait_for_stop_reason M f K d conn = Some y"
proof -
  obtain y where "wait_iterations M f K (Suc (1024 * n + 0)) 0 d conn = Some y"
    using wait_iterations_return [OF assms, of 0 0 M f d] by auto
  with wait_iterations_loop [OF this] show ?thesis
    by (intro exI [of _ y]) (simp add: wait_for_stop_reason_def)
qed

text \<open>A connection that gets a byte after it was asked five times.\<close>

theorem gdb_interrupts_guest_witness:
  "\<exists>y. wait_for_stop_reason (slice_memory_ops 64) no_syscalls
     (\<lparr>peek = \<lambda>c. (Inr (if c = 0 then Some 3 else None), c - 1), read = \<lambda>c. (Inr 3, c)\<rparr>
        :: (nat, unit) connection_ops) small_debugger 5 = Some y"
proof -
  let ?K = "\<lparr>peek = \<lambda>c. (Inr (if c = 0 then Some 3 else None), c - 1), read = \<lambda>c. (Inr 3, c)\<rparr>
    :: (nat, unit) connection_ops"
  have "fst (peek ?K (after_peeks ?K 5 5)) \<noteq> Inr None" by (simp add: numeral_eq_Suc)
  from gdb_interrupts_guest [OF this] show ?thesis by blast
qed

section \<open>The debugged interpreter\<close>

text \<open>
  C39: A debugged interpreter is in a state that the interpreter alone can reach: whatever the event
  loop does, the registers stay well-formed.
\<close>

theorem debugger_keeps_reachable:
  assumes "wait_for_stop_reason M f K d conn = Some (r, d', conn')"
    and "reachable M limit (interpreter d)"
  shows "reachable M limit (interpreter d') \<and> registers_wf (registers (interpreter d'))"
proof -
  obtain d0 where d0: "debug_path M f d d0" "explains M f d0 r d'"
    using wait_loop_explained [OF assms(1) [unfolded wait_for_stop_reason_def]] by blast
  from d0(2) obtain res where "debug_instruction M f d0 = (res, d')"
    by (auto simp: explains_def split: sum.splits WaitForStopReasonError.splits Event.splits)
  then have "reachable M limit (interpreter d')"
    using debug_path_reachable [OF d0(1) assms(2)] debug_instruction_reachable by blast
  then show ?thesis using reachable_registers_wf by blast
qed

theorem debugger_keeps_reachable_witness: "registers_wf (registers small_after)"
proof -
  have "reachable (slice_memory_ops 64) 2 (interpreter small_debugger)"
    by (simp add: small_debugger_def small_machine_def reachable_new)
  from debugger_keeps_reachable [OF small_debugger_stops this] show ?thesis by simp
qed

section \<open>Access to the guest\<close>

text \<open>
  Reading all registers and writing them back is the identity, and writing any register file
  and reading it back returns it.
\<close>

theorem register_file_round_trip:
  assumes "cpu_wf (cpu (registers (interpreter d)))" and "length (core_x regs) = 32"
  shows "write_registers (read_registers d) d = d \<and> read_registers (write_registers regs d) = regs
    \<and> cpu_wf (cpu (registers (interpreter (write_registers regs d))))"
  using write_read_registers [OF assms(1)] read_write_registers [OF assms] by blast

theorem register_file_round_trip_witness:
  "read_registers (write_registers \<lparr>core_x = replicate 32 7, core_pc = 4\<rparr>
      (debugger_new 1 () ())) = \<lparr>core_x = replicate 32 7, core_pc = 4\<rparr>"
  using register_file_round_trip [of "debugger_new 1 () ()" "\<lparr>core_x = replicate 32 7, core_pc = 4\<rparr>"]
  by (simp add: debugger_new_def interpreter_new_def registers_default_def cpu_default_wf)

text \<open>
  C40: The memory access of GDB: what \<open>write_addrs\<close> writes to the RAM, \<open>read_addrs\<close> reads back; reads of
  other addresses return what they did before, the code and the size of the RAM are as they were,
  and nothing of the debugger and of the guest changes but the memory. A write that fails reports the
  error as fatal and changes nothing, and reading never changes anything.
\<close>

theorem memory_access_round_trip:
  assumes W: "32 \<le> W" and a: "RAM_OFFSET \<le> a"
    and wr: "write_addrs (slice_memory_ops W) a bs d = (r, d')"
  shows "(case r of
      Inl fault \<Rightarrow> (\<exists>e. fault = Fatal e) \<and> d' = d
    | Inr _ \<Rightarrow> read_addrs (slice_memory_ops W) a (length bs) d' = (Inr bs, d')
        \<and> (\<forall>b n. access_range a (length bs) \<inter> access_range b n = {} \<longrightarrow>
             fst (read_addrs (slice_memory_ops W) b n d') = fst (read_addrs (slice_memory_ops W) b n d))
        \<and> (\<exists>m. d' = set_interpreter ((interpreter d)\<lparr>memory := m\<rparr>) d
             \<and> code m = code (memory (interpreter d))
             \<and> length (ram m) = length (ram (memory (interpreter d)))))
    \<and> snd (read_addrs (slice_memory_ops W) b n d) = d"
proof -
  from W obtain k where k: "W = 32 + k" using le_Suc_ex by blast
  note store = slice.store_load [of k, folded k] slice.store_frame [of k, folded k]
    slice.store_error [of k, folded k]
  have pure: "m' = m" if "slice_load_bytes W m b n = (x, m')" for m m' b n x
    using arg_cong [OF that, of snd] by simp
  have read: "read_addrs (slice_memory_ops W) b n d =
      (map_sum Fatal id (fst (load_bytes (slice_memory_ops W) (memory (interpreter d)) b n)), d)"
    for b n and d :: "(SliceMemory, 'b) Debugger"
    by (auto simp: read_addrs_def set_interpreter_def Let_def dest: pure split: prod.split sum.split)
  obtain r' m where st: "store_bytes (slice_memory_ops W) (memory (interpreter d)) a bs = (r', m)"
    by fastforce
  show ?thesis
  proof (cases r')
    case (Inl e)
    with st wr store(3) [of "memory (interpreter d)" a bs e m] show ?thesis
      by (auto simp: write_addrs_def set_interpreter_def Let_def read)
  next
    case (Inr u)
    with wr st have d': "r = Inr ()" "d' = set_interpreter ((interpreter d)\<lparr>memory := m\<rparr>) d"
      by (simp_all add: write_addrs_def Let_def)
    have m: "memory (interpreter (set_interpreter ((interpreter d)\<lparr>memory := m\<rparr>) d)) = m"
      by (simp add: set_interpreter_def)
    have "code m = code (memory (interpreter d))"
      "length (ram m) = length (ram (memory (interpreter d)))"
      using slice_store_code [of W "memory (interpreter d)" a bs] st by simp_all
    with d' st Inr store(1) [of "memory (interpreter d)" a bs u m]
      store(2) [of "memory (interpreter d)" a bs u m] a show ?thesis
      by (auto simp: read m)
  qed
qed

theorem memory_access_round_trip_witness:
  "read_addrs (slice_memory_ops 64) 0x80000001 2
     (debugger_new 1 \<lparr>code = [1], ram = [0, 7, 8, 0]\<rparr> () :: (SliceMemory, unit) Debugger)
   = (Inr [7, 8], debugger_new 1 \<lparr>code = [1], ram = [0, 7, 8, 0]\<rparr> ())"
proof -
  have "write_addrs (slice_memory_ops 64) 0x80000001 [7, 8]
      (debugger_new 1 \<lparr>code = [1], ram = [0, 0, 0, 0]\<rparr> () :: (SliceMemory, unit) Debugger) =
    (Inr (), debugger_new 1 \<lparr>code = [1], ram = [0, 7, 8, 0]\<rparr> ())"
    by (simp add: slice_eval write_addrs_def debugger_new_def interpreter_new_def set_interpreter_def)
  moreover have "RAM_OFFSET \<le> 0x80000001" by (simp add: RAM_OFFSET_def word_le_nat_alt)
  ultimately show ?thesis
    using memory_access_round_trip [where W = 64 and a = "0x80000001" and bs = "[7, 8]"]
    by (force simp: numeral_2_eq_2)
qed



end
