(* ===== verification/Memory_Simulation.thy ===== *)
theory Memory_Simulation
  imports Host
begin

text \<open>
  The interpreter is generic in the memory: it only calls the operations of the trait \<open>Memory\<close>. The
  locale \<open>memory_simulation\<close> relates two implementations by a function from the states of the one to
  the states of the other that loads and stores respect, and lifts it to instructions, runs and the
  loop of the host. One instance is another representation of the same memory; with the identity, the
  lifting says that no instruction reads the instruction limit.
\<close>

section \<open>Interpreters with another memory and another limit\<close>

definition interpreter_map :: "('m \<Rightarrow> 'n) \<Rightarrow> (u32 \<Rightarrow> u32) \<Rightarrow> 'm Interpreter \<Rightarrow> 'n Interpreter" where
  "interpreter_map h g s = \<lparr>
     program_counter = program_counter s,
     registers = registers s,
     memory = h (memory s),
     instruction_limit = g (instruction_limit s),
     memory_reservation = memory_reservation s\<rparr>"

lemma interpreter_map_fields [simp]:
  "program_counter (interpreter_map h g s) = program_counter s"
  "registers (interpreter_map h g s) = registers s"
  "memory (interpreter_map h g s) = h (memory s)"
  "instruction_limit (interpreter_map h g s) = g (instruction_limit s)"
  "memory_reservation (interpreter_map h g s) = memory_reservation s"
  by (simp_all add: interpreter_map_def)

lemma interpreter_map_updates [simp]:
  "(interpreter_map h g s)\<lparr>program_counter := pc\<rparr> = interpreter_map h g (s\<lparr>program_counter := pc\<rparr>)"
  "(interpreter_map h g s)\<lparr>memory_reservation := v\<rparr> = interpreter_map h g (s\<lparr>memory_reservation := v\<rparr>)"
  "(interpreter_map h g s)\<lparr>registers := rs\<rparr> = interpreter_map h g (s\<lparr>registers := rs\<rparr>)"
  "(interpreter_map h g s)\<lparr>memory := h m\<rparr> = interpreter_map h g (s\<lparr>memory := m\<rparr>)"
  by (simp_all add: interpreter_map_def)

text \<open>Results of operations on interpreters are mapped in their state.\<close>

abbreviation map_state :: "('m \<Rightarrow> 'n) \<Rightarrow> (u32 \<Rightarrow> u32) \<Rightarrow> 'r \<times> 'm Interpreter \<Rightarrow> 'r \<times> 'n Interpreter" where
  "map_state h g \<equiv> apsnd (interpreter_map h g)"

lemma map_question:
  "(\<And>v. r = Inr v \<Longrightarrow> k' v = map_state h g (k v)) \<Longrightarrow>
     question r (interpreter_map h g s) k' = map_state h g (question r s k)"
  by (simp split: question_splits)

lemma map_write_reg:
  "(\<And>s. k' (interpreter_map h g s) = map_state h g (k s)) \<Longrightarrow>
     write_reg (interpreter_map h g s) i f k' = map_state h g (write_reg s i f k)"
  by (simp add: write_reg_def split: question_splits prod.split)

lemma map_ends [simp]:
  "next_instruction sz st (interpreter_map h g s) = map_state h g (next_instruction sz st s)"
  "jump_relative imm (interpreter_map h g s) = map_state h g (jump_relative imm s)"
  "invalid_instruction (interpreter_map h g s) = map_state h g (invalid_instruction s)"
  by (simp_all add: next_instruction_def jump_relative_def invalid_instruction_def)

lemma map_interrupt:
  "interrupt v (interpreter_map h g s) = map_state h g (interrupt v s)"
  by (simp add: interrupt_def Let_def split: prod.split)

section \<open>Simulations\<close>

locale memory_simulation =
  fixes M :: "'m memory_ops" and N :: "'n memory_ops" and h :: "'m \<Rightarrow> 'n"
  assumes sim_load: "load_bytes N (h m) a n = apsnd h (load_bytes M m a n)"
    and sim_store: "store_bytes N (h m) a bs = apsnd h (store_bytes M m a bs)"
begin

lemma map_load_num:
  "load_num N (h m) a = apsnd h (load_num M m a :: (Error, 'b::len word, 'm) outcome)"
  by (simp add: load_num_def sim_load split: prod.split sum.split)

lemma map_load_mem:
  fixes k :: "'b::len word \<Rightarrow> 'm Interpreter \<Rightarrow> 'm step_result"
  assumes "\<And>v s. k' v (interpreter_map h g s) = map_state h g (k v s)"
  shows "load_mem N (interpreter_map h g s) a k' = map_state h g (load_mem M s a k)"
  by (simp add: load_mem_def map_load_num assms split: prod.split sum.split)

lemma map_store_mem:
  assumes "\<And>s. k' (interpreter_map h g s) = map_state h g (k s)"
  shows "store_mem N (interpreter_map h g s) a v k' = map_state h g (store_mem M s a v k)"
  by (simp add: store_mem_def store_num_def sim_store assms split: prod.split sum.split)

lemmas map_intros = map_question map_write_reg map_load_mem map_store_mem

lemma map_finish:
  "finish_OpAmo f r (interpreter_map h g s) = map_state h g (finish_OpAmo f r s)"
  by (auto simp: finish_OpAmo_def intro!: map_intros)

lemma map_atomic:
  assumes "\<And>v s. k' v (interpreter_map h g s) = map_state h g (k v s)"
  shows "execute_atomic N func rs1 rs2 value (interpreter_map h g s) k' =
    map_state h g (execute_atomic M func rs1 rs2 value s k)"
  by (auto simp: execute_atomic_def Let_def assms intro!: map_intros split: option.splits)

lemma map_OpAmo: "execute_OpAmo N f (interpreter_map h g s) = map_state h g (execute_OpAmo M f s)"
  by (auto simp: execute_OpAmo_def intro!: map_intros map_finish map_atomic split: option.splits)

lemma map_System:
  "execute_SystemMiscMem f (interpreter_map h g s) = map_state h g (execute_SystemMiscMem f s)"
proof -
  have "csr_op_of f (interpreter_map h g s) = csr_op_of f s" by (simp add: csr_op_of_def)
  then show ?thesis
    by (auto simp: execute_SystemMiscMem_def Let_def intro!: map_intros split: prod.split sum.split)
qed

lemma map_OpImm: "execute_OpImm f (interpreter_map h g s) = map_state h g (execute_OpImm f s)"
  by (auto simp: execute_OpImm_def intro!: map_intros split: option.split prod.split)

lemma map_LoadStore:
  "execute_LoadStore N f (interpreter_map h g s) = map_state h g (execute_LoadStore M f s)"
  by (auto simp: execute_LoadStore_def Let_def intro!: map_intros)

lemma map_execute: "execute N i (interpreter_map h g s) = map_state h g (execute M i s)"
proof (cases i)
  case (OpAmo f)
  then show ?thesis by (simp add: map_OpAmo)
next
  case (SystemMiscMem f)
  then show ?thesis by (simp add: map_System)
next
  case (OpImm f)
  then show ?thesis by (simp add: map_OpImm)
next
  case (LoadStore f)
  then show ?thesis by (simp add: map_LoadStore)
qed (auto simp: exec_defs Let_def intro!: map_intros split: option.split)

lemma map_step: "step N (interpreter_map h g s) = map_state h g (step M s)"
proof -
  have "fetch N (interpreter_map h g s) = map_state h g (fetch M s)"
    by (simp add: fetch_def load_num_def sim_load split: prod.split sum.split)
  then show ?thesis
    by (simp add: step_def decode_execute_def map_execute split: prod.split sum.split option.split)
qed

lemma map_run_limited:
  "run_limited N n (interpreter_map h g s) = map_state h g (run_limited M n s)"
  by (induction n arbitrary: s) (simp_all add: map_step split: prod.split sum.split)

lemma map_run_unlimited:
  "run_unlimited N (interpreter_map h g s) = map_option (map_state h g) (run_unlimited M s)"
proof (cases "run_unlimited M s")
  case (Some r)
  then obtain n where n: "run_limited M n s = r" "fst r \<noteq> Inr Running"
    using run_unlimited_limited by blast
  then show ?thesis
    using Some run_limited_unlimited [of N n "interpreter_map h g s"]
    by (simp add: map_run_limited)
next
  case None
  have "run_unlimited N (interpreter_map h g s) \<noteq> Some r" for r
    using run_unlimited_limited [of N "interpreter_map h g s" r] run_limited_unlimited [of M _ s] None
    by (auto simp: map_run_limited)
  with None show ?thesis by (cases "run_unlimited N (interpreter_map h g s)") auto
qed

lemma map_run:
  assumes "\<And>l. 0 < g l \<longleftrightarrow> 0 < l" "g (instruction_limit s) = instruction_limit s"
  shows "run N (interpreter_map h g s) = map_option (map_state h g) (run M s)"
  using assms by (simp add: run_def map_run_limited map_run_unlimited)

end

section \<open>The loop of the host\<close>

definition result_map ::
  "('m \<Rightarrow> 'n) \<Rightarrow> (u32 \<Rightarrow> u32) \<Rightarrow> ('m, 'c, 'e) host_result \<Rightarrow> ('n, 'c, 'e) host_result" where
  "result_map h g = (\<lambda>(p, s, c). (p, interpreter_map h g s, c))"

text \<open>A handler respects the simulation if it does with the one memory what it does with the other.\<close>

definition handler_respects ::
  "('m \<Rightarrow> 'n) \<Rightarrow> ('m, 'c, 'e) syscall_fn \<Rightarrow> ('n, 'c, 'e) syscall_fn \<Rightarrow> bool" where
  "handler_respects h f f' \<longleftrightarrow>
     (\<forall>nr args m c. f' nr args (h m) c = (case f nr args m c of (r, m, c) \<Rightarrow> (r, h m, c)))"

lemma map_syscall:
  "handler_respects h f f' \<Longrightarrow>
     syscall f' (interpreter_map h g s) c =
       (case syscall f s c of (r, s, c) \<Rightarrow> (r, interpreter_map h g s, c))"
  by (simp add: handler_respects_def syscall_def syscall_arguments_def syscall_result_def Let_def
      split: prod.split sum.split)

context memory_simulation
begin

lemma map_host_instruction:
  assumes "handler_respects h f f'"
  shows "host_instruction N f' v (interpreter_map h g s) c =
    map_sum (result_map h g) (map_prod (interpreter_map h g) id) (host_instruction M f v s c)"
  using map_syscall [OF assms]
  by (simp add: host_instruction_def host_reaction_def result_map_def map_step map_interrupt
      split: prod.split sum.split State.split)

lemma map_host_steps:
  assumes "handler_respects h f f'"
  shows "host_steps N f' v n (interpreter_map h g s) c =
    map_option (result_map h g) (host_steps M f v n s c)"
  using map_host_instruction [OF assms]
  by (induction n arbitrary: s c) (simp_all split: sum.split prod.split)

lemma map_host_loop:
  assumes "handler_respects h f f'" and A: "blocking_handler A f" and B: "blocking_handler B f'"
  shows "host_loop N B v (interpreter_map h g s) c =
    map_option (result_map h g) (host_loop M A v s c)"
proof -
  have steps: "host_loop N B v (interpreter_map h g s) c = Some z \<longleftrightarrow>
      (\<exists>y. host_loop M A v s c = Some y \<and> result_map h g y = z)" for z
    unfolding blocking_handler.host_loop_iff [OF A] blocking_handler.host_loop_iff [OF B]
      map_host_steps [OF assms(1)] by auto
  show ?thesis
  proof (cases "host_loop M A v s c")
    case None
    with steps show ?thesis by (metis not_None_eq option.map_disc_iff)
  next
    case (Some y)
    with steps show ?thesis by simp
  qed
qed

lemma example_respects: "handler_respects h (example_syscall M) (example_syscall N)"
  by (simp add: handler_respects_def example_syscall_def map_load_num split: prod.split sum.split)

end

section \<open>The instruction limit\<close>

text \<open>The identity is a simulation of every memory by itself.\<close>

interpretation same_memory: memory_simulation M M id for M :: "'m memory_ops"
  by unfold_locales (simp_all add: apsnd_def prod.map_id)

lemma interpreter_map_limit: "interpreter_map id (\<lambda>_. l) s = s\<lparr>instruction_limit := l\<rparr>"
  by (simp add: interpreter_map_def)

lemma handler_respects_id: "handler_respects id f f"
  by (simp add: handler_respects_def split: prod.split)

lemma host_loop_limit:
  assumes "blocking_handler A f"
  shows "host_loop M A v (s\<lparr>instruction_limit := l\<rparr>) c =
    map_option (\<lambda>(p, s', c'). (p, s'\<lparr>instruction_limit := l\<rparr>, c')) (host_loop M A v s c)"
  using same_memory.map_host_loop [OF handler_respects_id assms assms, of M v "\<lambda>_. l" s c]
  by (simp add: interpreter_map_limit result_map_def)

end
