(* ===== verification/Host_Theorems.thy ===== *)
theory Host_Theorems
  imports Memory_Simulation Debugger
begin

text \<open>
  The properties of the host side: an awaited \<open>syscall_async\<close> is \<open>syscall\<close>, and a debugger that nobody
  uses to stop the guest does what the loop of a host without a debugger does.
\<close>

section \<open>Asynchronous system calls\<close>

text \<open>
  C22: Awaiting \<open>syscall_async\<close> is awaiting its handler: it returns exactly when the future of the
  handler becomes ready, and then the interpreter is as \<open>syscall\<close> leaves it with the same answer. A
  poll that is pending changes nothing but the memory, which the handler holds. So with a handler
  that always gets ready and answers as a blocking one does, \<open>syscall_async\<close> is \<open>syscall\<close>.
\<close>

theorem syscall_async_is_syscall:
  assumes "\<And>nr args m c fut m' c'. async_call A nr args m c = (fut, m', c') \<Longrightarrow>
    await_handler A fut m' c' = Some (f nr args m c)"
  shows "await_syscall A Unresumed s c = Some (syscall f s c)
    \<and> await_syscall A (Suspended fut) s c = map_option (syscall_end s) (await_handler A fut (memory s) c)
    \<and> (\<forall>future s' c'. syscall_async A (Suspended fut) s c = (Pending future, s', c') \<longrightarrow>
        s' = s\<lparr>memory := memory s'\<rparr>)"
proof -
  have "blocking_handler A f" using assms by (rule blocking_handler.intro)
  then show ?thesis
    by (auto simp: blocking_handler.await_syscall_blocking await_suspended dest: resume_syscall_pending)
qed

theorem syscall_async_is_syscall_witness:
  "await_syscall (example_syscall_async (slice_memory_ops 64) 1 :: (_, unit, unit, _) async_fn)
    Unresumed (interpreter_new \<lparr>code = [], ram = []\<rparr> 0) ()
    = Some (syscall (example_syscall (slice_memory_ops 64)) (interpreter_new \<lparr>code = [], ram = []\<rparr> 0) ())"
  by (rule syscall_async_is_syscall [THEN conjunct1]) (rule example.await_call)

section \<open>The instruction limit\<close>

text \<open>
  C7: The instruction limit neither starves the guest nor changes what it does. A host that calls
  \<open>run\<close> again after every limit, letting other tasks run in between, reaches the end of the guest
  whenever a host without a limit does, for every limit that is not zero, and with the same answers,
  errors and state; if the guest never ends, neither host returns. The limit itself is not changed.
\<close>

theorem every_limit_ends:
  assumes "\<And>nr args m c fut m' c'. async_call A nr args m c = (fut, m', c') \<Longrightarrow>
      await_handler A fut m' c' = Some (f nr args m c)"
  shows "host_loop M A v (s\<lparr>instruction_limit := l\<rparr>) c =
    map_option (\<lambda>(p, s', c'). (p, s'\<lparr>instruction_limit := l\<rparr>, c'))
      (host_loop M A v (s\<lparr>instruction_limit := 0\<rparr>) c)"
proof -
  have "blocking_handler A f" using assms by (rule blocking_handler.intro)
  from host_loop_limit [OF this, where M = M and v = v and l = l and c = c
    and s = "s\<lparr>instruction_limit := 0\<rparr>"] show ?thesis by simp
qed

theorem every_limit_ends_witness:
  "host_loop (slice_memory_ops 64) (example_syscall_async (slice_memory_ops 64) 1) 10
     ((interpreter_new \<lparr>code = [], ram = []\<rparr> 0)\<lparr>instruction_limit := 10\<rparr>) ()
   = map_option (\<lambda>(p, s', c'). (p, s'\<lparr>instruction_limit := 10\<rparr>, c'))
      (host_loop (slice_memory_ops 64) (example_syscall_async (slice_memory_ops 64) 1) 10
        ((interpreter_new \<lparr>code = [], ram = []\<rparr> 0)\<lparr>instruction_limit := 0\<rparr>) ())"
  by (rule every_limit_ends) (rule example.await_call)

section \<open>Debugging is transparent\<close>

text \<open>How the debugger reports the end of the loop of the host.\<close>

definition debugger_outcome :: "Error HostPanic option \<Rightarrow> 'k WaitForStopReasonError + Event" where
  "debugger_outcome p =
     (case p of
        None \<Rightarrow> Inr (TargetStopped (Terminated SIGSTOP))
      | Some (RunFailed e) \<Rightarrow> Inl (TargetError e)
      | Some (SyscallFailed e) \<Rightarrow> Inl (TargetError e)
      | Some (InterruptFailed e) \<Rightarrow> Inl (TargetError e))"

definition debugger_after :: "('m, 'c) Debugger \<Rightarrow> 'm Interpreter \<Rightarrow> 'c \<Rightarrow> ('m, 'c) Debugger" where
  "debugger_after d s c = d\<lparr>interpreter := s, captured := c\<rparr>"

definition undisturbed :: "('conn, 'k) connection_ops \<Rightarrow> 'conn \<Rightarrow> ('m, 'c) Debugger \<Rightarrow> bool" where
  "undisturbed K conn d \<longleftrightarrow>
     exec_mode d = Run \<and> set (breakpoints d) \<subseteq> {None} \<and> peek K conn = (Inr None, conn)"

lemma undisturbed_after [simp]: "undisturbed K conn (debugger_after d s c) = undisturbed K conn d"
  by (simp add: undisturbed_def debugger_after_def)

lemma debugger_after_fields [simp]:
  "interpreter (debugger_after d s c) = s" "captured (debugger_after d s c) = c"
  "debugger_after (debugger_after d s c) t b = debugger_after d t b"
  "debugger_after d (interpreter d) (captured d) = d"
  by (simp_all add: debugger_after_def)

lemma debug_instruction_host:
  "debug_instruction M f d = (case host_instruction M f 0 (interpreter d) (captured d) of
     Inl (None, s, c) \<Rightarrow> (Inr (Some (Terminated SIGSTOP)), debugger_after d s c)
   | Inl (Some (RunFailed e), s, c) \<Rightarrow> (Inl e, debugger_after d s c)
   | Inl (Some (SyscallFailed e), s, c) \<Rightarrow> (Inl e, debugger_after d s c)
   | Inl (Some (InterruptFailed e), s, c) \<Rightarrow> (Inl e, debugger_after d s c)
   | Inr (s, c) \<Rightarrow> (Inr None, debugger_after d s c))"
  by (auto simp: debug_instruction_def host_instruction_def host_reaction_def after_step_def
      debugger_after_def split: prod.split sum.split State.split)

lemma debug_iteration_host:
  assumes "undisturbed K conn d"
  shows "debug_iteration M f K cycles d conn =
    (case host_instruction M f 0 (interpreter d) (captured d) of
       Inl (p, s, c) \<Rightarrow> (Some (debugger_outcome p), debugger_after d s c, conn)
     | Inr (s, c) \<Rightarrow> (None, debugger_after d s c, conn))"
  using assms
  by (auto simp: debug_iteration_def debug_instruction_host debugger_outcome_def stop_reason_def
      incoming_data_def undisturbed_def debugger_after_def
      split: sum.split prod.split option.split HostPanic.split)

text \<open>The outcome of the loop of the host, as the event loop returns it.\<close>

definition as_event ::
  "('m, 'c) Debugger \<Rightarrow> 'conn \<Rightarrow> ('m, 'c, Error) host_result
     \<Rightarrow> ('k WaitForStopReasonError + Event) \<times> ('m, 'c) Debugger \<times> 'conn" where
  "as_event d conn = (\<lambda>(p, s, c). (debugger_outcome p, debugger_after d s c, conn))"

lemma as_event_after: "as_event (debugger_after d s c) conn = as_event d conn"
  by (rule ext) (simp add: as_event_def split: prod.split)

lemma steps_wait_loop:
  assumes "host_steps M f 0 n (interpreter d) (captured d) = Some y" "undisturbed K conn d"
  shows "wait_loop M f K cycles d conn = Some (as_event d conn y)"
  using assms
proof (induction n arbitrary: d cycles)
  case (Suc n)
  from Suc.prems show ?case
    by (subst wait_loop.simps)
       (auto simp: debug_iteration_host as_event_def split: sum.splits
         dest: Suc.IH [where d = "debugger_after d s c" for s c, simplified])
qed simp

lemma wait_loop_steps:
  assumes "wait_loop M f K cycles d conn = Some y" "undisturbed K conn d"
  shows "\<exists>n z. host_steps M f 0 n (interpreter d) (captured d) = Some z \<and> y = as_event d conn z"
proof -
  have "undisturbed K conn d \<longrightarrow>
    (\<exists>n z. host_steps M f 0 n (interpreter d) (captured d) = Some z \<and> y = as_event d conn z)"
  proof (rule wait_loop.raw_induct [where P = "\<lambda>M f K cycles d conn y. undisturbed K conn d \<longrightarrow>
      (\<exists>n z. host_steps M f 0 n (interpreter d) (captured d) = Some z \<and> y = as_event d conn z)",
      OF _ assms(1)], intro impI)
    fix wait M f and K :: "('conn, 'k) connection_ops" and cycles d conn y
    assume IH: "\<And>M f K cycles d conn y. wait M f K cycles d conn = Some y \<Longrightarrow> undisturbed K conn d \<longrightarrow>
        (\<exists>n z. host_steps M f 0 n (interpreter d) (captured d) = Some z \<and> y = as_event d conn z)"
      and y: "(case debug_iteration M f K cycles d conn of
          (Some r, d, conn) \<Rightarrow> Some (r, d, conn)
        | (None, d, conn) \<Rightarrow> wait M f K (cycles + 1) d conn) = Some y"
      and u: "undisturbed K conn d"
    show "\<exists>n z. host_steps M f 0 n (interpreter d) (captured d) = Some z \<and> y = as_event d conn z"
    proof (cases "host_instruction M f 0 (interpreter d) (captured d)")
      case (Inl z)
      with y u have "host_steps M f 0 1 (interpreter d) (captured d) = Some z" "y = as_event d conn z"
        by (auto simp: debug_iteration_host as_event_def split: prod.splits)
      then show ?thesis by blast
    next
      case (Inr sc)
      obtain s c where sc: "sc = (s, c)" by fastforce
      with y u Inr have "wait M f K (cycles + 1) (debugger_after d s c) conn = Some y"
        by (simp add: debug_iteration_host)
      with IH [OF this] u obtain n z where "host_steps M f 0 n s c = Some z" "y = as_event d conn z"
        by (auto simp: as_event_after)
      with Inr sc have "host_steps M f 0 (Suc n) (interpreter d) (captured d) = Some z" by simp
      with \<open>y = as_event d conn z\<close> show ?thesis by blast
    qed
  qed
  with assms(2) show ?thesis by blast
qed

text \<open>
  C6: Debugging is transparent: a debugger in the mode \<open>Run\<close>, without breakpoints and with nothing to
  read from GDB, takes the guest exactly where the loop of a host without a debugger takes it, with
  the same system call handler and the interrupt value that the debugger uses. The one does not
  return if and only if the other does not; it reports the end of the guest as a termination and an
  error as that error; and it makes no difference that the host runs the guest with an instruction
  limit, in portions of many instructions, and awaits an asynchronous handler, while the debugger
  executes single instructions.
\<close>

theorem debugger_is_transparent:
  assumes "\<And>nr args m c fut m' c'. async_call A nr args m c = (fut, m', c') \<Longrightarrow>
      await_handler A fut m' c' = Some (f nr args m c)"
    and u: "undisturbed K conn d"
  shows "wait_for_stop_reason M f K d conn =
    map_option (as_event d conn) (host_loop M A 0 (interpreter d) (captured d))"
proof -
  have "blocking_handler A f" using assms(1) by (rule blocking_handler.intro)
  note host = blocking_handler.host_loop_iff [OF this, of M 0 "interpreter d" "captured d"]
  show ?thesis
  proof (cases "wait_for_stop_reason M f K d conn")
    case (Some y)
    then obtain n z where z: "host_steps M f 0 n (interpreter d) (captured d) = Some z"
        "y = as_event d conn z"
      using wait_loop_steps [OF _ u, of M f 0 y] by (auto simp: wait_for_stop_reason_def)
    then have "host_loop M A 0 (interpreter d) (captured d) = Some z"
      using host [of z] by blast
    with z Some show ?thesis by simp
  next
    case None
    have "host_loop M A 0 (interpreter d) (captured d) \<noteq> Some z" for z
      using steps_wait_loop [OF _ u, of M f _ z 0] None host [of z]
      by (auto simp: wait_for_stop_reason_def)
    with None show ?thesis by (metis not_None_eq option.map_disc_iff)
  qed
qed

theorem debugger_is_transparent_witness:
  "wait_for_stop_reason (slice_memory_ops 64) (example_syscall (slice_memory_ops 64))
     (\<lparr>peek = \<lambda>c. (Inr None, c), read = \<lambda>c. (Inl (), c)\<rparr> :: (unit, unit) connection_ops)
     (debugger_new 4 \<lparr>code = [], ram = []\<rparr> ()) ()
   = map_option (as_event (debugger_new 4 \<lparr>code = [], ram = []\<rparr> ()) ())
       (host_loop (slice_memory_ops 64) (example_syscall_async (slice_memory_ops 64) 1) 0
         (interpreter_new \<lparr>code = [], ram = []\<rparr> 0) ())"
proof -
  have "undisturbed (\<lparr>peek = \<lambda>c. (Inr None, c), read = \<lambda>c. (Inl (), c)\<rparr> :: (unit, unit) connection_ops)
      () (debugger_new 4 \<lparr>code = [], ram = []\<rparr> ())"
    by (simp add: undisturbed_def debugger_new_def)
  from debugger_is_transparent [OF example.await_call this] show ?thesis
    by (simp add: debugger_new_def)
qed

end
