(* ===== verification/Fuzz.thy ===== *)
theory Fuzz
  imports Host Transpiler Test_Support
begin

text \<open>
  The entry points of the fuzzer, \<^verbatim>\<open>fuzz/fuzz_targets/\<close>. Each is a closure that libfuzzer calls with
  arbitrary bytes; its result is the state in which it leaves the interpreter, or the buffer.
\<close>

definition MAX_INSTRUCTIONS :: u32 where
  "MAX_INSTRUCTIONS = 2048"

definition RAM_SIZE :: nat where
  "RAM_SIZE = 256"

definition MAX_SIZE :: nat where
  "MAX_SIZE = 512"

definition fuzz_syscall :: "('m, unit, unit) syscall_fn" where
  "fuzz_syscall nr args m c = (Inr (Inr 0), m, c)"

partial_function (option) fuzz_loop :: "SliceMemory Interpreter \<Rightarrow> SliceMemory Interpreter option" where
  "fuzz_loop interpreter =
     Option.bind (run (slice_memory_ops 64) interpreter) (\<lambda>(r, interpreter).
       case r of
         Inr Called \<Rightarrow>
           (case syscall fuzz_syscall interpreter () of
              (Inl e, interpreter, c) \<Rightarrow> Some interpreter
            | (Inr _, interpreter, c) \<Rightarrow> fuzz_loop interpreter)
       | Inr Waiting \<Rightarrow>
           (case interrupt 0 interpreter of
              (Inl e, interpreter) \<Rightarrow> Some interpreter
            | (Inr _, interpreter) \<Rightarrow> fuzz_loop interpreter)
       | _ \<Rightarrow> Some interpreter)"

definition fuzz_interpreter :: "u8 list \<Rightarrow> SliceMemory Interpreter option" where
  "fuzz_interpreter data =
     fuzz_loop (interpreter_new \<lparr>code = data, ram = replicate RAM_SIZE 0\<rparr> MAX_INSTRUCTIONS)"

definition fuzz_transpiler ::
  "(u8 list \<Rightarrow> 'p + ('p, 'c) ElfBytes) \<Rightarrow> u8 list \<Rightarrow> (('p, 'c) Failure, usize, u8 list) outcome" where
  "fuzz_transpiler minimal_parse data = transpile_elf minimal_parse data (replicate MAX_SIZE 0)"

section \<open>What the fuzzer cannot find\<close>

text \<open>
  Whatever the bytes are, the interpreter that the target leaves, if it returns, has them as its code,
  a RAM of the same size, and well-formed registers.
\<close>

definition fuzz_safe :: "u8 list \<Rightarrow> SliceMemory Interpreter \<Rightarrow> bool" where
  "fuzz_safe data s \<longleftrightarrow>
     code (memory s) = data \<and> length (ram (memory s)) = RAM_SIZE \<and> registers_wf (registers s)"

lemma fuzz_safe_run: "run (slice_memory_ops 64) s = Some (r, s') \<Longrightarrow> fuzz_safe data s \<Longrightarrow> fuzz_safe data s'"
  using guest_code.rel_run [of 64 s r s'] guest_wf.rel_run [of "slice_memory_ops 64" s r s']
  by (auto simp: fuzz_safe_def)

lemma fuzz_safe_syscall: "syscall fuzz_syscall s () = (r, s', c) \<Longrightarrow> fuzz_safe data s \<Longrightarrow> fuzz_safe data s'"
  using syscall_result_wf(1) [of s "Inr 0"]
  by (auto simp: syscall_def syscall_arguments_def fuzz_syscall_def fuzz_safe_def Let_def
      syscall_result_def)

lemma fuzz_safe_interrupt: "interrupt v s = (r, s') \<Longrightarrow> fuzz_safe data s \<Longrightarrow> fuzz_safe data s'"
  using interrupt_wf [of v s r s']
  by (auto simp: fuzz_safe_def interrupt_def Let_def split: if_splits prod.splits)

theorem fuzz_interpreter_safe:
  assumes "fuzz_interpreter data = Some s"
  shows "fuzz_safe data s"
proof -
  have "fuzz_safe data t \<longrightarrow> fuzz_safe data u" if "fuzz_loop t = Some u" for t u
  proof (rule fuzz_loop.raw_induct [where P = "\<lambda>t u. fuzz_safe data t \<longrightarrow> fuzz_safe data u", OF _ that])
    fix loop t u
    assume IH: "\<And>t u. loop t = Some u \<Longrightarrow> fuzz_safe data t \<longrightarrow> fuzz_safe data u"
      and u: "Option.bind (run (slice_memory_ops 64) t) (\<lambda>(r, interpreter).
       case r of
         Inr Called \<Rightarrow>
           (case syscall fuzz_syscall interpreter () of
              (Inl e, interpreter, c) \<Rightarrow> Some interpreter
            | (Inr _, interpreter, c) \<Rightarrow> loop interpreter)
       | Inr Waiting \<Rightarrow>
           (case interrupt 0 interpreter of
              (Inl e, interpreter) \<Rightarrow> Some interpreter
            | (Inr _, interpreter) \<Rightarrow> loop interpreter)
       | _ \<Rightarrow> Some interpreter) = Some u"
    show "fuzz_safe data t \<longrightarrow> fuzz_safe data u"
    proof
      assume t: "fuzz_safe data t"
      obtain r t1 where run: "run (slice_memory_ops 64) t = Some (r, t1)"
        using u by (auto simp: bind_eq_Some_conv)
      obtain a b c d where call: "syscall fuzz_syscall t1 () = (a, b, c)"
        and irq: "interrupt 0 t1 = d" by (metis prod_cases3)
      have safe: "fuzz_safe data t1" "fuzz_safe data b" "fuzz_safe data (snd d)"
        using fuzz_safe_run [OF run t] fuzz_safe_syscall [OF call]
          fuzz_safe_interrupt [of 0 t1 "fst d" "snd d"] irq by simp_all
      show "fuzz_safe data u"
        using u safe IH [of b u] IH [of "snd d" u]
        by (auto simp: run call irq split: prod.splits sum.splits State.splits)
    qed
  qed
  moreover have "fuzz_safe data (interpreter_new \<lparr>code = data, ram = replicate RAM_SIZE 0\<rparr> MAX_INSTRUCTIONS)"
    by (simp add: fuzz_safe_def interpreter_new_def registers_default_wf)
  ultimately show ?thesis using assms by (simp add: fuzz_interpreter_def)
qed

section \<open>What hangs it\<close>

text \<open>An \<open>ecall\<close> and a jump back to it, as \<open>transpile_raw\<close> translates them.\<close>

definition endless_calls :: "u8 list" where
  "endless_calls = [0x1f, 0, 0, 0, 0x19, 0xe0, 0xff, 0xff]"

lemma endless_calls_transpiled:
  "transpiled_code [0x73, 0, 0, 0, 0x6f, 0xf0, 0xdf, 0xff] = Some endless_calls"
  by code_simp

definition endless_start :: "SliceMemory Interpreter" where
  "endless_start =
     interpreter_new \<lparr>code = endless_calls, ram = replicate RAM_SIZE 0\<rparr> MAX_INSTRUCTIONS"

definition endless_called :: "SliceMemory Interpreter" where
  "endless_called = endless_start\<lparr>program_counter := 4\<rparr>"

lemma endless_steps:
  "step (slice_memory_ops 64) endless_start = (Inr Called, endless_called)"
  "step (slice_memory_ops 64) endless_called = (Inr Running, endless_start)"
  "syscall fuzz_syscall endless_called () = (Inr (), endless_called, ())"
  by code_simp+

lemma endless_runs:
  "run (slice_memory_ops 64) endless_start = Some (Inr Called, endless_called)"
  "run (slice_memory_ops 64) endless_called = Some (Inr Called, endless_called)"
proof -
  have run: "run (slice_memory_ops 64) s = Some (run_limited (slice_memory_ops 64) 2048 s)"
    if "instruction_limit s = MAX_INSTRUCTIONS" for s
    using that by (simp add: run_def MAX_INSTRUCTIONS_def)
  have limit: "instruction_limit endless_start = MAX_INSTRUCTIONS"
    "instruction_limit endless_called = MAX_INSTRUCTIONS"
    by (simp_all add: endless_start_def endless_called_def interpreter_new_def)
  have two: "2048 = Suc (Suc 2046)" by simp
  show
    "run (slice_memory_ops 64) endless_start = Some (Inr Called, endless_called)"
    "run (slice_memory_ops 64) endless_called = Some (Inr Called, endless_called)"
    unfolding run [OF limit(1)] run [OF limit(2)] two
    by (simp_all only: run_limited.simps) (simp_all add: endless_steps)
qed

text \<open>
  C38: The fuzz target of the interpreter does not end for every input: \<open>MAX_INSTRUCTIONS\<close> bounds each
  call of \<open>run\<close>, but nothing bounds their number, and the handler of system calls never fails. On the
  code of eight bytes that calls the host and jumps back to the call, which is what \<open>transpile_raw\<close>
  makes of \<^verbatim>\<open>ecall\<close> and \<^verbatim>\<open>j -4\<close>, every run ends with the next system call, and the target never
  returns.
\<close>

theorem fuzz_interpreter_hangs:
  "transpiled_code [0x73, 0, 0, 0, 0x6f, 0xf0, 0xdf, 0xff] = Some endless_calls
   \<and> fuzz_interpreter endless_calls = None"
proof -
  have "s = endless_start \<or> s = endless_called \<longrightarrow> False" if "fuzz_loop s = Some t" for s t
  proof (rule fuzz_loop.raw_induct [where
        P = "\<lambda>s t. s = endless_start \<or> s = endless_called \<longrightarrow> False", OF _ that], intro impI)
    fix loop s t
    assume IH: "\<And>s t. loop s = Some t \<Longrightarrow> s = endless_start \<or> s = endless_called \<longrightarrow> False"
      and t: "Option.bind (run (slice_memory_ops 64) s) (\<lambda>(r, interpreter).
       case r of
         Inr Called \<Rightarrow>
           (case syscall fuzz_syscall interpreter () of
              (Inl e, interpreter, c) \<Rightarrow> Some interpreter
            | (Inr _, interpreter, c) \<Rightarrow> loop interpreter)
       | Inr Waiting \<Rightarrow>
           (case interrupt 0 interpreter of
              (Inl e, interpreter) \<Rightarrow> Some interpreter
            | (Inr _, interpreter) \<Rightarrow> loop interpreter)
       | _ \<Rightarrow> Some interpreter) = Some t"
      and "s = endless_start \<or> s = endless_called"
    then have "run (slice_memory_ops 64) s = Some (Inr Called, endless_called)"
      by (auto simp: endless_runs)
    with t have "loop endless_called = Some t" by (simp add: endless_steps)
    with IH show False by blast
  qed
  then show ?thesis
    using endless_calls_transpiled
    by (cases "fuzz_loop endless_start") (auto simp: fuzz_interpreter_def endless_start_def)
qed

end
