(* ===== verification/Riscv_Guest.thy ===== *)
theory Riscv_Guest
  imports Elf_Image Host
begin

text \<open>
  The whole guest: the code of all executable sections of an ELF file, executed after the RISC-V
  specification, together with what the host does when the guest stops. The interpreter, on the
  transpiled sections, does the same instruction by instruction, whether the guest ends or not.
\<close>

section \<open>The guest after the specification\<close>

text \<open>
  An instruction of the guest stands in one of the executable sections; the host then reacts to its
  result. \<open>Inl\<close> is the end, \<open>Inr\<close> the state to go on from, as in \<open>host_instruction\<close>.
\<close>

definition riscv_guest_instruction ::
  "'m memory_ops \<Rightarrow> ('m, 'c, 'e) syscall_fn \<Rightarrow> i32 \<Rightarrow> Placed list \<Rightarrow> 'm Interpreter \<Rightarrow> 'c
     \<Rightarrow> ('m, 'c, 'e) host_result + 'm Interpreter \<times> 'c \<Rightarrow> bool" where
  "riscv_guest_instruction M f v qs s c z \<longleftrightarrow>
     (\<exists>q\<in>set qs. executable q \<and> at_instruction (placed_at q) (original q) s \<and>
       (\<exists>r t. riscv_step M (placed_at q) (original q) s = Some (r, t) \<and> z = host_reaction f v r t c))"

inductive riscv_guest_ends ::
  "'m memory_ops \<Rightarrow> ('m, 'c, 'e) syscall_fn \<Rightarrow> i32 \<Rightarrow> Placed list \<Rightarrow> 'm Interpreter \<Rightarrow> 'c
     \<Rightarrow> ('m, 'c, 'e) host_result \<Rightarrow> bool"
  for M :: "'m memory_ops" and f :: "('m, 'c, 'e) syscall_fn" and v :: i32 and qs :: "Placed list" where
  guest_ends_now:
    "riscv_guest_instruction M f v qs s c (Inl y) \<Longrightarrow> riscv_guest_ends M f v qs s c y"
| guest_ends_later:
    "riscv_guest_instruction M f v qs s c (Inr (t, d)) \<Longrightarrow> riscv_guest_ends M f v qs t d y \<Longrightarrow>
       riscv_guest_ends M f v qs s c y"

coinductive riscv_guest_forever ::
  "'m memory_ops \<Rightarrow> ('m, 'c, 'e) syscall_fn \<Rightarrow> i32 \<Rightarrow> Placed list \<Rightarrow> 'm Interpreter \<Rightarrow> 'c \<Rightarrow> bool"
  for M :: "'m memory_ops" and f :: "('m, 'c, 'e) syscall_fn" and v :: i32 and qs :: "Placed list" where
  guest_goes_on:
    "riscv_guest_instruction M f v qs s c (Inr (t, d)) \<Longrightarrow> riscv_guest_forever M f v qs t d \<Longrightarrow>
       riscv_guest_forever M f v qs s c"

inductive_cases riscv_guest_forever_step: "riscv_guest_forever M f v qs s c"

section \<open>The interpreter on the transpiled sections\<close>

text \<open>A handler that leaves the code region alone, which a guest of \<open>SliceMemory\<close> cannot write either.\<close>

definition keeps_code :: "(SliceMemory, 'c, 'e) syscall_fn \<Rightarrow> bool" where
  "keeps_code f \<longleftrightarrow> (\<forall>nr args m c. code (fst (snd (f nr args m c))) = code m)"

definition guest_loaded :: "Placed list \<Rightarrow> SliceMemory Interpreter \<Rightarrow> bool" where
  "guest_loaded qs s \<longleftrightarrow>
     (\<forall>q\<in>set qs. executable q \<longrightarrow> loaded (asks_padding q) (placed_at q) (transpiled q) s)
     \<and> read_x s 0 = 0"

lemma reaction_goes_on:
  assumes "host_reaction f v r s c = Inr (t, d)" "keeps_code f"
  shows "code (memory t) = code (memory s) \<and> read_x t 0 = read_x s 0"
proof -
  have "code (memory t) = code (memory s) \<and> read_x t 0 = read_x s 0"
    if u: "syscall f s c = (Inr u, t, d)" for u
  proof -
    obtain nr args where call: "syscall_arguments s = (nr, args, memory s)"
      by (simp add: syscall_arguments_def Let_def)
    obtain w m where "f nr args (memory s) c = (Inr w, m, d)" "t = syscall_result w (s\<lparr>memory := m\<rparr>)"
      using u by (auto simp: syscall_def call split: prod.splits sum.splits)
    moreover have "code m = code (memory s)"
      using assms(2) calculation(1) unfolding keeps_code_def by (metis fst_conv snd_conv)
    ultimately show ?thesis
      by (auto simp: syscall_result_def Let_def read_x_def split: sum.split)
  qed
  moreover have "memory t = memory s \<and> read_x t 0 = read_x s 0" if "interrupt v s = (Inr u, t)" for u
    using that by (auto simp: interrupt_def Let_def read_x_def split: prod.splits if_splits)
  ultimately show ?thesis
    using assms(1)
    by (auto simp: host_reaction_def split: sum.splits State.splits prod.splits)
qed

lemma guest_instruction:
  fixes elf :: "('p, 'k) ElfBytes"
  assumes W: "32 \<le> W" and f: "keeps_code f" and s: "guest_loaded (elf_layout elf) s"
    and z: "riscv_guest_instruction (slice_memory_ops W) f v (elf_layout elf) s c z"
  shows "host_instruction (slice_memory_ops W) f v s c = z
    \<and> (\<forall>t d. z = Inr (t, d) \<longrightarrow> guest_loaded (elf_layout elf) t)"
proof -
  obtain q r s1 where q: "q \<in> set (elf_layout elf)" "executable q"
      "at_instruction (placed_at q) (original q) s"
      "riscv_step (slice_memory_ops W) (placed_at q) (original q) s = Some (r, s1)"
      "z = host_reaction f v r s1 c"
    using z by (auto simp: riscv_guest_instruction_def)
  have q_loaded: "loaded (asks_padding q) (placed_at q) (transpiled q) s" and x0: "read_x s 0 = 0"
    using s q(1,2) by (simp_all add: guest_loaded_def)
  have step: "step (slice_memory_ops W) s = (r, s1)"
    using transpiled_riscv_step [OF W layout_transpiled [OF q(1,2)] q_loaded q(3,4) x0] .
  have "guest_loaded (elf_layout elf) t" if "host_reaction f v r s1 c = Inr (t, d)" for t d
  proof -
    have "code (memory s1) = code (memory s)" using guest_code.rel_step [of W s] by (simp add: step)
    moreover have "read_x s1 0 = 0" using q(4) x0 by (auto simp: riscv_step_def dest: rv_exec_x0)
    ultimately show ?thesis
      using reaction_goes_on [OF that f] s by (simp add: guest_loaded_def loaded_def)
  qed
  with q(5) show ?thesis by (simp add: host_instruction_def step)
qed

lemma guest_ends:
  fixes elf :: "('p, 'k) ElfBytes"
  assumes "riscv_guest_ends (slice_memory_ops W) f v (elf_layout elf) s c y"
    and "32 \<le> W" "keeps_code f" "guest_loaded (elf_layout elf) s"
  shows "\<exists>n. host_steps (slice_memory_ops W) f v n s c = Some y"
  using assms
proof (induction rule: riscv_guest_ends.induct)
  case (guest_ends_now s c y)
  from guest_instruction [OF guest_ends_now.prems guest_ends_now.hyps]
  have "host_steps (slice_memory_ops W) f v 1 s c = Some y" by simp
  then show ?case by blast
next
  case (guest_ends_later s c t d y)
  from guest_instruction [OF guest_ends_later.prems guest_ends_later.hyps(1)]
  have step: "host_instruction (slice_memory_ops W) f v s c = Inr (t, d)"
    and "guest_loaded (elf_layout elf) t"
    by simp_all
  with guest_ends_later.IH guest_ends_later.prems
  obtain n where "host_steps (slice_memory_ops W) f v n t d = Some y" by blast
  with step have "host_steps (slice_memory_ops W) f v (Suc n) s c = Some y" by simp
  then show ?case by blast
qed

lemma guest_forever:
  fixes elf :: "('p, 'k) ElfBytes"
  assumes "riscv_guest_forever (slice_memory_ops W) f v (elf_layout elf) s c"
    and W: "32 \<le> W" and f: "keeps_code f" and "guest_loaded (elf_layout elf) s"
  shows "host_steps (slice_memory_ops W) f v n s c = None"
  using assms(1,4)
proof (induction n arbitrary: s c)
  case (Suc n)
  obtain t d where t: "riscv_guest_instruction (slice_memory_ops W) f v (elf_layout elf) s c (Inr (t, d))"
      "riscv_guest_forever (slice_memory_ops W) f v (elf_layout elf) t d"
    using Suc.prems(1) by (rule riscv_guest_forever_step)
  with guest_instruction [OF W f Suc.prems(2) t(1)] Suc.IH show ?case by simp
qed simp

section \<open>The binary of an ELF file is the guest\<close>

lemma elf_guest_loaded:
  fixes minimal_parse :: "u8 list \<Rightarrow> 'p + ('p, 'k) ElfBytes"
  assumes elf: "minimal_parse elf = Inr elf_bytes" "section_data_sized elf_bytes" "skip_test_exact elf_bytes"
    and t: "transpile_elf minimal_parse elf output = (Inr n, output')"
    and "in_order (elf_layout elf_bytes)"
    and s: "take (unat n) (code (memory s)) = take (unat n) output'" "length (code (memory s)) \<le> 2 ^ 31"
      "read_x s 0 = 0"
  shows "guest_loaded (elf_layout elf_bytes) s"
proof -
  have sized: "\<And>e. minimal_parse elf = Inr e \<Longrightarrow> section_data_sized e"
    and exact: "\<And>e. minimal_parse elf = Inr e \<Longrightarrow> skip_test_exact e"
    using elf by simp_all
  obtain e where e: "minimal_parse elf = Inr e" "elf_image e output = (unat n, output')"
      "unat n \<le> length output" "\<forall>q\<in>set (elf_layout e). placed_end q \<le> length output"
    by (rule transpile_elf_image [OF sized exact t])
  have len: "length output = length output'" using transpile_elf_bounds [OF sized t] by simp
  show ?thesis
    using elf_loaded [OF e(2) _ e(4,3) len _ _ s(1,2)] e(1) elf(1) assms(5) s(3)
    by (auto simp: guest_loaded_def)
qed

end
