(* ===== verification/Journal_Memory.thy ===== *)
theory Journal_Memory
  imports Memory_Simulation Test_Support "HOL-Library.AList"
begin

text \<open>
  Another implementation of the trait \<open>Memory\<close>: a journal, with one entry per byte of the RAM that has
  been written, over a RAM of zeros and a code region that ends in zeros. It simulates \<open>SliceMemory\<close>,
  and its states stay as small as what the guest has written, which lets whole programs be evaluated
  in the logic. Addresses and sizes are integers here, for the same reason.
\<close>

type_synonym Journal = "(int \<times> u8) list"

definition journal_get :: "Journal \<Rightarrow> int \<Rightarrow> u8" where
  "journal_get J a = (case map_of J a of Some b \<Rightarrow> b | None \<Rightarrow> 0)"

primrec journal_put :: "Journal \<Rightarrow> int \<Rightarrow> u8 list \<Rightarrow> Journal" where
  "journal_put J a [] = J"
| "journal_put J a (b # bs) = journal_put (AList.update a (evaluated b) J) (a + 1) bs"

text \<open>The code region: the bytes \<open>C\<close>, and zeros up to the length \<open>n\<close>.\<close>

definition padded_code :: "u8 list \<Rightarrow> int \<Rightarrow> u8 list" where
  "padded_code C n = C @ replicate (nat n - length C) 0"

definition journal_code :: "u8 list \<Rightarrow> int \<Rightarrow> int \<Rightarrow> nat \<Rightarrow> u8 list" where
  "journal_code C n start len =
     (if start + int len \<le> int (length C) then take len (drop (nat start) C)
      else take len (drop (nat start) (padded_code C n)))"

definition journal_range :: "nat \<Rightarrow> int \<Rightarrow> int \<Rightarrow> nat \<Rightarrow> Error + int" where
  "journal_range W ram_size start len =
     (let stop = start + int len in
      if stop \<ge> 2 ^ W then Inl (InvalidMemoryAccessLength len)
      else if stop > ram_size then Inl (InvalidMemoryAddress (of_int stop))
      else Inr start)"

definition journal_load ::
  "nat \<Rightarrow> u8 list \<Rightarrow> int \<Rightarrow> int \<Rightarrow> Journal \<Rightarrow> u32 \<Rightarrow> nat \<Rightarrow> (Error, u8 list, Journal) outcome" where
  "journal_load W C n ram_size J address len =
     (if address \<ge> RAM_OFFSET then
        question (journal_range W ram_size (uint (address - RAM_OFFSET) mod 2 ^ W) len) J
          (\<lambda>i. (Inr (map (\<lambda>k. journal_get J (i + int k)) [0..<len]), J))
      else question (journal_range W n (uint address mod 2 ^ W) len) J
          (\<lambda>i. (Inr (journal_code C n i len), J)))"

definition journal_mut ::
  "nat \<Rightarrow> int \<Rightarrow> Journal \<Rightarrow> u32 \<Rightarrow> nat \<Rightarrow> Error + u8 list \<times> (u8 list \<Rightarrow> Journal)" where
  "journal_mut W ram_size J address len =
     (case journal_range W ram_size (uint (address - RAM_OFFSET) mod 2 ^ W) len of
        Inl e \<Rightarrow> Inl e
      | Inr i \<Rightarrow> Inr (map (\<lambda>k. journal_get J (i + int k)) [0..<len], journal_put J i))"

definition journal_store ::
  "nat \<Rightarrow> int \<Rightarrow> Journal \<Rightarrow> u32 \<Rightarrow> u8 list \<Rightarrow> (Error, unit, Journal) outcome" where
  "journal_store W ram_size J address data =
     question (journal_range W ram_size (uint (address - RAM_OFFSET) mod 2 ^ W) (length data)) J
       (\<lambda>i. (Inr (), journal_put J i data))"

definition journal_ops :: "nat \<Rightarrow> u8 list \<Rightarrow> int \<Rightarrow> int \<Rightarrow> Journal memory_ops" where
  "journal_ops W C n ram_size = \<lparr>
     load_bytes = journal_load W C n ram_size,
     mut_bytes = journal_mut W ram_size,
     store_bytes = journal_store W ram_size\<rparr>"

section \<open>The journal simulates the slices\<close>

definition journal_memory :: "u8 list \<Rightarrow> int \<Rightarrow> int \<Rightarrow> Journal \<Rightarrow> SliceMemory" where
  "journal_memory C n ram_size J = \<lparr>
     code = padded_code C n,
     ram = map (\<lambda>i. journal_get J (int i)) [0..<nat ram_size]\<rparr>"

lemma journal_get_put:
  "journal_get (journal_put J a bs) b =
     (if a \<le> b \<and> b < a + int (length bs) then bs ! nat (b - a) else journal_get J b)"
proof (induction bs arbitrary: J a)
  case (Cons x bs)
  have "nat (b - a) = Suc (nat (b - (a + 1)))" if "a + 1 \<le> b" using that by linarith
  then show ?case
    using Cons by (auto simp: journal_get_def update_conv' nth_Cons')
qed auto

lemma int_slice_range_journal:
  assumes "int (length xs) = ram_size" "0 \<le> start"
  shows "int_slice_range W xs start len =
    map_sum id (\<lambda>i. (nat i, nat (i + int len))) (journal_range W ram_size start len)"
  using assms by (auto simp: int_slice_range_def journal_range_def Let_def)

lemma journal_range_Inr:
  "journal_range W ram_size start len = Inr i \<longleftrightarrow> i = start \<and> start + int len \<le> ram_size \<and> start + int len < 2 ^ W"
  by (auto simp: journal_range_def Let_def)

lemma journal_code_slice:
  "int (length C) \<le> n \<Longrightarrow> 0 \<le> i \<Longrightarrow>
     journal_code C n i len = slice_get (padded_code C n) (nat i) (nat (i + int len))"
  by (auto simp: journal_code_def slice_get_def padded_code_def nat_add_distrib)

lemma journal_ram_slice:
  assumes "0 \<le> i" "i + int len \<le> ram_size"
  shows "slice_get (map (\<lambda>i. journal_get J (int i)) [0..<nat ram_size]) (nat i) (nat (i + int len)) =
    map (\<lambda>k. journal_get J (i + int k)) [0..<len]"
  using assms by (intro nth_equalityI) (auto simp: slice_get_def nat_add_distrib)

lemma journal_put_slice:
  assumes "0 \<le> i" "i + int (length bs) \<le> ram_size"
  shows "slice_put (map (\<lambda>i. journal_get J (int i)) [0..<nat ram_size]) (nat i) bs =
    map (\<lambda>k. journal_get (journal_put J i bs) (int k)) [0..<nat ram_size]"
proof (rule nth_equalityI)
  fix k assume "k < length (slice_put (map (\<lambda>i. journal_get J (int i)) [0..<nat ram_size]) (nat i) bs)"
  then show "slice_put (map (\<lambda>i. journal_get J (int i)) [0..<nat ram_size]) (nat i) bs ! k =
      map (\<lambda>k. journal_get (journal_put J i bs) (int k)) [0..<nat ram_size] ! k"
    using assms by (auto simp: nth_slice_put journal_get_put nat_diff_distrib)
qed (use assms in \<open>simp add: slice_put_def\<close>)

lemma question_map_sum: "question (map_sum id f r) s k = question r s (\<lambda>v. k (f v))"
  by (cases r) simp_all

lemma journal_simulates:
  assumes "int (length C) \<le> n" "0 \<le> ram_size"
  shows "memory_simulation (journal_ops W C n ram_size) (slice_memory_ops W) (journal_memory C n ram_size)"
proof
  fix J and address :: u32 and k :: nat and bs :: "u8 list"
  define i where "i = uint address mod 2 ^ W"
  define j where "j = uint (address - RAM_OFFSET) mod 2 ^ W"
  have nonneg: "0 \<le> i" "0 \<le> j" by (simp_all add: i_def j_def)
  have len: "int (length (padded_code C n)) = n"
    "int (length (map (\<lambda>i. journal_get J (int i)) [0..<nat ram_size])) = ram_size"
    using assms by (simp_all add: padded_code_def)
  note ranges = int_slice_range_journal [OF len(1) nonneg(1)] int_slice_range_journal [OF len(2) nonneg(2)]
    question_map_sum
  show "load_bytes (slice_memory_ops W) (journal_memory C n ram_size J) address k =
      apsnd (journal_memory C n ram_size) (load_bytes (journal_ops W C n ram_size) J address k)"
  proof (cases "address \<ge> RAM_OFFSET")
    case True
    then show ?thesis
      using nonneg by (cases "journal_range W ram_size j k")
        (auto simp: journal_ops_def journal_load_def slice_load_bytes_code journal_memory_def ranges
          journal_ram_slice simp flip: j_def dest: journal_range_Inr [THEN iffD1])
  next
    case False
    then show ?thesis
      using nonneg assms by (cases "journal_range W n i k")
        (auto simp: journal_ops_def journal_load_def slice_load_bytes_code journal_memory_def ranges
          journal_code_slice simp flip: i_def dest: journal_range_Inr [THEN iffD1])
  qed
  show "store_bytes (slice_memory_ops W) (journal_memory C n ram_size J) address bs =
      apsnd (journal_memory C n ram_size) (store_bytes (journal_ops W C n ram_size) J address bs)"
    using nonneg by (cases "journal_range W ram_size j (length bs)")
      (auto simp: journal_ops_def journal_store_def slice_store_bytes_code journal_memory_def ranges
        journal_put_slice simp flip: j_def dest: journal_range_Inr [THEN iffD1])
qed

end
