(* ===== verification/Guest_Check.thy ===== *)
theory Guest_Check
  imports Riscv_Guest Journal_Memory
begin

text \<open>
  Whole guests after the RISC-V specification, by evaluation. The interpreter runs the guest on a
  journal, and before each instruction a check on the original code decides whether the
  specification covers it. If the guest passes the check up to its end, then the RISC-V program comes to
  that end.
\<close>

section \<open>The instructions of a code section\<close>

text \<open>The address and the word of every instruction.\<close>

function rv_walk :: "int \<Rightarrow> u8 list \<Rightarrow> (u32 \<times> u32) list" where
  "rv_walk a bs =
     (if length bs < 2 then []
      else (of_int a, riscv_word bs)
        # rv_walk (a + int (riscv_length (hd bs))) (drop (riscv_length (hd bs)) bs))"
  by pat_completeness auto
termination by (relation "measure (length \<circ> snd)") (auto simp: riscv_length_def)

declare rv_walk.simps [simp del]

lemma rv_walk_instruction:
  assumes "boundary prog i" "(x, w) \<in> set (rv_walk (base + int i) (drop i prog))"
  shows "\<exists>j. x = of_int (base + int j) \<and> boundary prog j \<and> j + 2 \<le> length prog
    \<and> riscv_word (drop j prog) = w"
  using assms
proof (induction "length prog - i" arbitrary: i rule: less_induct)
  case less
  then have len: "i + 2 \<le> length prog"
    by (auto simp: rv_walk.simps [of _ "drop i prog"] split: if_splits)
  define k where "k = riscv_length (prog ! i)"
  have k: "0 < k" by (simp add: k_def riscv_length_def)
  have hd: "hd (drop i prog) = prog ! i" "\<not> length (drop i prog) < 2"
    using len by (simp_all add: hd_drop_conv_nth)
  consider "x = of_int (base + int i)" "w = riscv_word (drop i prog)"
    | "(x, w) \<in> set (rv_walk (base + int (i + k)) (drop (i + k) prog))"
    using less.prems(2) len
    by (subst (asm) rv_walk.simps) (auto simp: hd(1) add_ac if_not_P [OF hd(2)] simp del: length_drop simp flip: k_def)
  then show ?case
  proof cases
    case 1
    with less.prems(1) len show ?thesis by blast
  next
    case 2
    have "boundary prog (i + k)" unfolding k_def using less.prems(1) len by (rule boundary_next)
    with 2 less.hyps [of "i + k"] len k show ?thesis by simp
  qed
qed

section \<open>Covered instructions\<close>

fun rv_defined :: "rv_inst \<Rightarrow> bool" where
  "rv_defined (RvOp funct7 funct3 rd rs1 rs2) \<longleftrightarrow> rv_alu funct7 funct3 0 0 \<noteq> None"
| "rv_defined (RvOpImm funct7 funct3 rd rs1 imm) \<longleftrightarrow> rv_alu_imm funct7 funct3 0 imm \<noteq> None"
| "rv_defined (RvBranch funct3 rs1 rs2 imm) \<longleftrightarrow> rv_branch funct3 0 0 \<noteq> None"
| "rv_defined (RvLoad funct3 rd rs1 imm) \<longleftrightarrow> funct3 \<in> {0, 1, 2, 4, 5}"
| "rv_defined (RvStore funct3 rs1 rs2 imm) \<longleftrightarrow> funct3 \<in> {0, 1, 2}"
| "rv_defined (RvAmo funct5 rd rs1 rs2) \<longleftrightarrow> funct5 = 2 \<or> funct5 = 3 \<or> rv_amo funct5 \<noteq> None"
| "rv_defined (RvCsr funct3 rd rs1 csr) \<longleftrightarrow> rv_csr_write funct3 rs1 0 0 \<noteq> None"
| "rv_defined _ \<longleftrightarrow> True"

lemma rv_defined_meaning: "rv_defined i \<Longrightarrow> rv_meaning M n i s \<noteq> None"
proof (cases i)
  case (RvOp funct7 funct3 rd rs1 rs2)
  moreover have "rv_alu funct7 funct3 a b = None \<longleftrightarrow> rv_alu funct7 funct3 0 0 = None" for a b
    by (simp add: rv_alu_def)
  ultimately show "rv_defined i \<Longrightarrow> ?thesis" by (simp del: not_None_eq)
next
  case (RvOpImm funct7 funct3 rd rs1 imm)
  moreover have "rv_alu_imm funct7 funct3 a imm = None \<longleftrightarrow> rv_alu_imm funct7 funct3 0 imm = None" for a
    by (simp add: rv_alu_imm_def rv_alu_def)
  ultimately show "rv_defined i \<Longrightarrow> ?thesis" by (simp del: not_None_eq)
next
  case (RvBranch funct3 rs1 rs2 imm)
  moreover have "rv_branch funct3 a b = None \<longleftrightarrow> rv_branch funct3 0 0 = None" for a b
    by (simp add: rv_branch_def)
  ultimately show "rv_defined i \<Longrightarrow> ?thesis" by (simp del: not_None_eq)
next
  case (RvCsr funct3 rd rs1 csr)
  moreover have "rv_csr_write funct3 rs1 a old = None \<longleftrightarrow> rv_csr_write funct3 rs1 0 0 = None" for a old
    by (simp add: rv_csr_write_def)
  ultimately show "rv_defined i \<Longrightarrow> ?thesis" by (auto simp: rv_csr_def Let_def)
next
  case (RvAmo funct5 rd rs1 rs2)
  then show "rv_defined i \<Longrightarrow> ?thesis" by (auto simp: rv_atomic_def Let_def)
qed (auto simp: rv_loads_def rv_stores_def)

definition word_checked :: "u32 \<Rightarrow> 'm Interpreter \<Rightarrow> bool" where
  "word_checked w s \<longleftrightarrow>
     (case rv_instruction w of None \<Rightarrow> False | Some i \<Rightarrow> rv_defined i) \<and> conforms w s"

lemma word_checked_map [simp]: "word_checked w (interpreter_map h g s) = word_checked w s"
proof -
  have "rv_read (interpreter_map h g s) i = rv_read s i" for i
    by (simp add: rv_read_def read_x_def)
  then show ?thesis by (simp add: word_checked_def conforms_def cong: option.case_cong rv_inst.case_cong)
qed

lemma checked_instruction:
  assumes q: "q \<in> set qs" "executable q" "placed_at q + length (original q) \<le> 2 ^ 32"
    and w: "map_of (rv_walk (int (placed_at q)) (original q)) (program_counter s) = Some w"
    and "word_checked w s"
  shows "\<exists>z. riscv_guest_instruction M f v qs s c z"
proof -
  have "(program_counter s, w) \<in> set (rv_walk (int (placed_at q) + int 0) (drop 0 (original q)))"
    using map_of_SomeD [OF w] by simp
  from rv_walk_instruction [OF boundary_start this] obtain j where
    pc: "program_counter s = of_int (int (placed_at q) + int j)"
    and j: "boundary (original q) j" "j + 2 \<le> length (original q)"
      "riscv_word (drop j (original q)) = w"
    by blast
  have "program_counter s = of_nat (placed_at q + j)"
    unfolding pc by simp
  moreover have "placed_at q + j < 2 ^ 32" using j(2) q(3) by simp
  ultimately have "unat (program_counter s) = placed_at q + j"
    by (simp add: unat_of_nat del: of_nat_add)
  moreover obtain r t where "rv_exec M w s = Some (r, t)"
    using assms(5) rv_defined_meaning
    by (fastforce simp: word_checked_def rv_exec_def split: option.splits)
  ultimately have "at_instruction (placed_at q) (original q) s"
    "riscv_step M (placed_at q) (original q) s = Some (r, t)"
    using j assms(5) by (simp_all add: at_instruction_def riscv_step_def word_checked_def)
  with q(1,2) show ?thesis unfolding riscv_guest_instruction_def by blast
qed

section \<open>Checked runs\<close>

text \<open>
  A number of instructions of the guest, with the reactions of the host; and the same with the check,
  for which \<open>word_at\<close> returns the instruction word at an address.
\<close>

fun host_advance ::
  "'m memory_ops \<Rightarrow> ('m, 'c, 'e) syscall_fn \<Rightarrow> i32 \<Rightarrow> nat \<Rightarrow> 'm Interpreter \<Rightarrow> 'c
     \<Rightarrow> ('m, 'c, 'e) host_result + 'm Interpreter \<times> 'c" where
  "host_advance M f v 0 s c = Inr (s, c)"
| "host_advance M f v (Suc n) s c =
     (case host_instruction M f v s c of
        Inl r \<Rightarrow> Inl r
      | Inr (s, c) \<Rightarrow> host_advance M f v n (evaluated_state s) c)"

lemma host_advance_steps:
  "host_advance M f v k s c = Inr (t, d) \<Longrightarrow> host_steps M f v (k + n) s c = host_steps M f v n t d"
  by (induction k arbitrary: s c) (auto split: sum.splits)

lemma host_advance_ends: "host_advance M f v k s c = Inl r \<Longrightarrow> host_steps M f v k s c = Some r"
  by (induction k arbitrary: s c) (auto split: sum.splits)

fun guest_check ::
  "'m memory_ops \<Rightarrow> ('m, 'c, 'e) syscall_fn \<Rightarrow> i32 \<Rightarrow> (u32 \<Rightarrow> u32 option) \<Rightarrow> nat \<Rightarrow> 'm Interpreter \<Rightarrow> 'c
     \<Rightarrow> (('m, 'c, 'e) host_result + 'm Interpreter \<times> 'c) option" where
  "guest_check M f v word_at 0 s c = Some (Inr (s, c))"
| "guest_check M f v word_at (Suc n) s c =
     (case word_at (program_counter s) of
        None \<Rightarrow> None
      | Some w \<Rightarrow>
          if word_checked w s then
            (case host_instruction M f v s c of
               Inl r \<Rightarrow> Some (Inl r)
             | Inr (s, c) \<Rightarrow> guest_check M f v word_at n (evaluated_state s) c)
          else None)"

lemma guest_check_advances:
  "guest_check M f v word_at n s c = Some z \<Longrightarrow> host_advance M f v n s c = z"
  by (induction n arbitrary: s c) (auto split: option.splits if_splits sum.splits)

text \<open>
  The checked run on a memory that simulates the slices is one of the RISC-V guest on the slices; from
  where the check ends, the guest may go on without it.
\<close>

lemma guest_check_ends:
  fixes elf :: "('p, 'k) ElfBytes"
  assumes sim: "memory_simulation M (slice_memory_ops W) h" and W: "32 \<le> W"
    and f: "handler_respects h f f'" "keeps_code f'"
    and q: "q \<in> set (elf_layout elf)" "executable q" "placed_at q + length (original q) \<le> 2 ^ 32"
    and table: "word_at = map_of (rv_walk (int (placed_at q)) (original q))"
    and "guest_check M f v word_at n s c = Some z"
    and "guest_loaded (elf_layout elf) (interpreter_map h id s)"
    and "case z of
        Inl r \<Rightarrow> y = result_map h id r
      | Inr (t, d) \<Rightarrow> guest_loaded (elf_layout elf) (interpreter_map h id t) \<longrightarrow>
          riscv_guest_ends (slice_memory_ops W) f' v (elf_layout elf) (interpreter_map h id t) d y"
  shows "riscv_guest_ends (slice_memory_ops W) f' v (elf_layout elf) (interpreter_map h id s) c y"
  using assms(9-11)
proof (induction n arbitrary: s c)
  case 0
  then have "z = Inr (s, c)" by simp
  with 0(2,3) show ?case by (simp only: sum.case prod.case simp_thms)
next
  case (Suc n)
  let ?s = "interpreter_map h id s"
  obtain w where w: "word_at (program_counter s) = Some w" "word_checked w s"
    using Suc.prems(1) by (auto split: option.splits if_splits)
  then obtain x where x: "riscv_guest_instruction (slice_memory_ops W) f' v (elf_layout elf) ?s c x"
    using checked_instruction [OF q, of ?s w "slice_memory_ops W" f' v c] by (auto simp: table)
  from guest_instruction [OF W f(2) Suc.prems(2) x]
  have next_state: "host_instruction (slice_memory_ops W) f' v ?s c = x"
    and loaded: "\<And>t d. x = Inr (t, d) \<Longrightarrow> guest_loaded (elf_layout elf) t"
    by simp_all
  have x_map: "x = map_sum (result_map h id) (map_prod (interpreter_map h id) id) (host_instruction M f v s c)"
    using memory_simulation.map_host_instruction [OF sim f(1), of v id s c] next_state by simp
  show ?case
  proof (cases "host_instruction M f v s c")
    case (Inl r)
    with x_map Suc.prems(1,3) w have "x = Inl y" by auto
    with x show ?thesis by (simp only: guest_ends_now)
  next
    case (Inr st)
    obtain t d where st: "st = (t, d)" by fastforce
    have x_next: "x = Inr (interpreter_map h id t, d)" using x_map Inr st by simp
    have "guest_check M f v word_at n t d = Some z"
      using Suc.prems(1) w Inr st by simp
    then have "riscv_guest_ends (slice_memory_ops W) f' v (elf_layout elf) (interpreter_map h id t) d y"
      using loaded [OF x_next] Suc.prems(3) by (rule Suc.IH)
    with x [unfolded x_next] show ?thesis by (rule guest_ends_later)
  qed
qed

end
