(* ===== verification/Embassy_Example.thy ===== *)
theory Embassy_Example
  imports Journal_Memory Transpiler_Tests Guest_Check
begin

text \<open>
  The program \<^verbatim>\<open>examples/embassy.rs\<close>, run in the logic: it transpiles \<^verbatim>\<open>tests/app.elf\<close>, drives the
  interpreter with an asynchronous handler and an instruction limit, raises an interrupt when the guest
  waits, and asserts the result that the guest leaves in its registers. \<open>embassy_main\<close> is its function
  \<open>main\<close>; the logger and the task that ticks beside it have no effect on the interpreter. Its result is
  \<open>None\<close> if the loop does not end, \<open>Some None\<close> if an \<open>unwrap\<close> or an assertion panics.

  The file is what the parser returns for it. The evaluation uses the journal in place of the two
  slices, single instructions in place of the loop, and the blocking handler in place of the
  asynchronous one; that these are the same are the theorems of \<open>Journal_Memory\<close> and \<open>Host\<close>.
\<close>

definition embassy_main ::
  "(u8 list \<Rightarrow> 'p + ('p, 'c) ElfBytes) \<Rightarrow> nat \<Rightarrow> u8 list \<Rightarrow> unit option option" where
  "embassy_main minimal_parse yields elf_file =
     (case transpile_elf minimal_parse elf_file (replicate 16384 0) of
        (Inl e, code_bytes) \<Rightarrow> Some None
      | (Inr n, code_bytes) \<Rightarrow>
          let memory = \<lparr>code = code_bytes, ram = replicate 4096 0\<rparr>;
              interpreter = interpreter_new memory 10;
              handler = (example_syscall_async (slice_memory_ops 64) yields ::
                (SliceMemory, unit, unit, ExampleFuture) async_fn) in
          Option.bind (host_loop (slice_memory_ops 64) handler 10 interpreter ())
            (\<lambda>(panic, interpreter, c).
              Some (do {
                assert (panic = None);
                value \<leftarrow> peek (reg_index A0) interpreter;
                assert (value = 0);
                value \<leftarrow> peek (reg_index A1) interpreter;
                assert (value = 30)
              })))"

section \<open>The file\<close>

definition app_text :: "u8 list" where
  "app_text =
    [0x97, 0x11, 0x00, 0x80, 0x93, 0x81, 0x01, 0x80, 0x97, 0x02, 0x00, 0x00, 0x93, 0x82, 0x82, 0x02,
     0x73, 0x90, 0x52, 0x30, 0xC1, 0x62, 0x73, 0x90, 0x42, 0x30, 0x17, 0x03, 0x00, 0x80, 0x13, 0x03,
     0x63, 0x7F, 0x13, 0x71, 0x03, 0xFF, 0x33, 0x04, 0x01, 0x00, 0xEF, 0x00, 0xA0, 0x09, 0x01, 0x00,
     0x13, 0x01, 0x01, 0xFC, 0x23, 0x20, 0x11, 0x00, 0x23, 0x22, 0x51, 0x00, 0x23, 0x24, 0x61, 0x00,
     0x23, 0x26, 0x71, 0x00, 0x23, 0x28, 0xC1, 0x01, 0x23, 0x2A, 0xD1, 0x01, 0x23, 0x2C, 0xE1, 0x01,
     0x23, 0x2E, 0xF1, 0x01, 0x23, 0x20, 0xA1, 0x02, 0x23, 0x22, 0xB1, 0x02, 0x23, 0x24, 0xC1, 0x02,
     0x23, 0x26, 0xD1, 0x02, 0x23, 0x28, 0xE1, 0x02, 0x23, 0x2A, 0xF1, 0x02, 0x23, 0x2C, 0x01, 0x03,
     0x23, 0x2E, 0x11, 0x03, 0x73, 0x25, 0x30, 0x34, 0xEF, 0x00, 0x00, 0x0C, 0x83, 0x20, 0x01, 0x00,
     0x83, 0x22, 0x41, 0x00, 0x03, 0x23, 0x81, 0x00, 0x83, 0x23, 0xC1, 0x00, 0x03, 0x2E, 0x01, 0x01,
     0x83, 0x2E, 0x41, 0x01, 0x03, 0x2F, 0x81, 0x01, 0x83, 0x2F, 0xC1, 0x01, 0x03, 0x25, 0x01, 0x02,
     0x83, 0x25, 0x41, 0x02, 0x03, 0x26, 0x81, 0x02, 0x83, 0x26, 0xC1, 0x02, 0x03, 0x27, 0x01, 0x03,
     0x83, 0x27, 0x41, 0x03, 0x03, 0x28, 0x81, 0x03, 0x83, 0x28, 0xC1, 0x03, 0x13, 0x01, 0x01, 0x04,
     0x73, 0x00, 0x20, 0x30, 0x37, 0x07, 0x00, 0x80, 0x93, 0x87, 0x41, 0x80, 0x13, 0x07, 0x87, 0x00,
     0x63, 0xEB, 0xE7, 0x04, 0xB7, 0x07, 0x00, 0x80, 0xB7, 0x06, 0x00, 0x80, 0x93, 0x87, 0x07, 0x00,
     0x13, 0x07, 0x40, 0x14, 0x93, 0x86, 0x46, 0x00, 0x63, 0xE3, 0xD7, 0x04, 0x73, 0x60, 0x04, 0x30,
     0x37, 0x05, 0x00, 0x80, 0x13, 0x05, 0x05, 0x00, 0x81, 0x45, 0x01, 0x46, 0x81, 0x46, 0x01, 0x47,
     0x81, 0x47, 0x01, 0x48, 0x89, 0x48, 0x73, 0x00, 0x00, 0x00, 0xAA, 0x88, 0x2E, 0x85, 0x73, 0x00,
     0x50, 0x10, 0x63, 0x99, 0x08, 0x00, 0xB7, 0x05, 0x00, 0x80, 0x83, 0xA5, 0x45, 0x00, 0x85, 0x48,
     0x73, 0x00, 0x00, 0x00, 0x02, 0x90, 0x23, 0xA0, 0x07, 0x00, 0x91, 0x07, 0x55, 0xB7, 0x10, 0x43,
     0x11, 0x07, 0x90, 0xC3, 0x91, 0x07, 0x4D, 0xBF, 0xB7, 0x07, 0x00, 0x80, 0x23, 0xA2, 0xA7, 0x00,
     0x82, 0x80, 0x00, 0x00]"

definition app_data :: "u8 list" where
  "app_data = [0x14, 0x00, 0x00, 0x00]"

definition app_segments :: "ProgramHeader list" where
  "app_segments = [
     \<lparr>p_vaddr = 0, p_paddr = 0, p_memsz = 0\<rparr>,
     \<lparr>p_vaddr = 0, p_paddr = 0, p_memsz = 0x144\<rparr>,
     \<lparr>p_vaddr = 0x80000000, p_paddr = 0x144, p_memsz = 8\<rparr>,
     \<lparr>p_vaddr = 0x80000008, p_paddr = 0x148, p_memsz = 0x808\<rparr>,
     \<lparr>p_vaddr = 0, p_paddr = 0, p_memsz = 0\<rparr>]"

definition app_sections :: "SectionHeader list" where
  "app_sections = [
     \<lparr>sh_type = 0, sh_flags = 0, sh_addr = 0, sh_offset = 0, sh_size = 0, sh_addralign = 0\<rparr>,
     \<lparr>sh_type = 1, sh_flags = 6, sh_addr = 0, sh_offset = 0x1000, sh_size = 0x144, sh_addralign = 4\<rparr>,
     \<lparr>sh_type = 1, sh_flags = 3, sh_addr = 0x144, sh_offset = 0x2004, sh_size = 0, sh_addralign = 4\<rparr>,
     \<lparr>sh_type = 1, sh_flags = 2, sh_addr = 0x80000000, sh_offset = 0x2000, sh_size = 4, sh_addralign = 4\<rparr>,
     \<lparr>sh_type = 8, sh_flags = 3, sh_addr = 0x80000004, sh_offset = 0x2004, sh_size = 4, sh_addralign = 4\<rparr>,
     \<lparr>sh_type = 8, sh_flags = 3, sh_addr = 0x80000008, sh_offset = 0x2008, sh_size = 0x808, sh_addralign = 4\<rparr>,
     \<lparr>sh_type = 0x70000003, sh_flags = 0, sh_addr = 0, sh_offset = 0x2004, sh_size = 0x67, sh_addralign = 1\<rparr>,
     \<lparr>sh_type = 1, sh_flags = 0x30, sh_addr = 0, sh_offset = 0x206B, sh_size = 0x19, sh_addralign = 1\<rparr>,
     \<lparr>sh_type = 2, sh_flags = 0, sh_addr = 0, sh_offset = 0x2084, sh_size = 0x250, sh_addralign = 4\<rparr>,
     \<lparr>sh_type = 3, sh_flags = 0, sh_addr = 0, sh_offset = 0x22D4, sh_size = 0x1FC, sh_addralign = 1\<rparr>,
     \<lparr>sh_type = 3, sh_flags = 0, sh_addr = 0, sh_offset = 0x24D0, sh_size = 0x56, sh_addralign = 1\<rparr>]"

text \<open>Two sections are read, the code and the data.\<close>

definition app_elf :: "(unit, unit) ElfBytes" where
  "app_elf = \<lparr>segments = Some app_segments, section_headers = Some app_sections,
     e_machine = EM_RISCV, class_elf32 = True, e_entry = 0,
     section_data = (\<lambda>section. Inr
       (if sh_flags section = 6 then app_text
        else if sh_addr section = 0x80000000 then app_data
        else [], None))\<rparr>"

section \<open>Its binary\<close>

definition app_code :: "u8 list" where
  "app_code =
    [0x97, 0x11, 0x00, 0x80, 0x1D, 0x8C, 0x01, 0x80, 0x97, 0x02, 0x00, 0x00, 0x1D, 0x94, 0x82, 0x02,
     0x9F, 0x80, 0x52, 0x30, 0xA7, 0x40, 0x9F, 0x80, 0x42, 0x30, 0x17, 0x03, 0x00, 0x80, 0x1D, 0x18,
     0x63, 0x7F, 0x9D, 0x0B, 0x03, 0xFF, 0x1E, 0x00, 0x90, 0x00, 0x99, 0xD0, 0x04, 0x00, 0x03, 0x00,
     0x1D, 0x08, 0x01, 0xFC, 0x9B, 0x07, 0x01, 0x00, 0x9B, 0x17, 0x41, 0x00, 0x9B, 0x1B, 0x81, 0x00,
     0x9B, 0x1F, 0xC1, 0x00, 0x9B, 0x73, 0x01, 0x01, 0x9B, 0x77, 0x41, 0x01, 0x9B, 0x7B, 0x81, 0x01,
     0x9B, 0x7F, 0xC1, 0x01, 0x9B, 0x2B, 0x01, 0x02, 0x9B, 0x2F, 0x41, 0x02, 0x9B, 0x33, 0x81, 0x02,
     0x9B, 0x37, 0xC1, 0x02, 0x9B, 0x3B, 0x01, 0x03, 0x9B, 0x3F, 0x41, 0x03, 0x9B, 0x43, 0x81, 0x03,
     0x9B, 0x47, 0xC1, 0x03, 0x1F, 0x29, 0x30, 0x34, 0x99, 0x00, 0x06, 0x00, 0x1B, 0x05, 0x01, 0x00,
     0x1B, 0x15, 0x41, 0x00, 0x1B, 0x19, 0x81, 0x00, 0x1B, 0x1D, 0xC1, 0x00, 0x1B, 0x71, 0x01, 0x01,
     0x1B, 0x75, 0x41, 0x01, 0x1B, 0x79, 0x81, 0x01, 0x1B, 0x7D, 0xC1, 0x01, 0x1B, 0x29, 0x01, 0x02,
     0x1B, 0x2D, 0x41, 0x02, 0x1B, 0x31, 0x81, 0x02, 0x1B, 0x35, 0xC1, 0x02, 0x1B, 0x39, 0x01, 0x03,
     0x1B, 0x3D, 0x41, 0x03, 0x1B, 0x41, 0x81, 0x03, 0x1B, 0x45, 0xC1, 0x03, 0x1D, 0x08, 0x01, 0x04,
     0x1F, 0x00, 0x40, 0x00, 0x1C, 0x07, 0x00, 0x80, 0x1D, 0xBC, 0x41, 0x80, 0x1D, 0x38, 0x87, 0x00,
     0x18, 0x3E, 0xB7, 0x02, 0x9C, 0x07, 0x00, 0x80, 0x9C, 0x06, 0x00, 0x80, 0x1D, 0xBC, 0x07, 0x00,
     0x1D, 0x38, 0x40, 0x14, 0x1D, 0xB4, 0x46, 0x00, 0x18, 0xBE, 0x36, 0x02, 0x9F, 0x02, 0x04, 0x30,
     0x1C, 0x05, 0x00, 0x80, 0x1D, 0x28, 0x05, 0x00, 0x65, 0x01, 0x85, 0x01, 0xA5, 0x01, 0xC5, 0x01,
     0xE5, 0x01, 0x05, 0x02, 0x25, 0x0A, 0x1F, 0x00, 0x00, 0x00, 0x34, 0x2A, 0x54, 0x2D, 0x1F, 0x00,
     0x30, 0x00, 0x98, 0x44, 0x90, 0x00, 0x9C, 0x05, 0x00, 0x80, 0x1B, 0xAD, 0x45, 0x00, 0x25, 0x06,
     0x1F, 0x00, 0x00, 0x00, 0x15, 0x00, 0x9B, 0x83, 0x07, 0x00, 0xE3, 0x11, 0x4F, 0xFA, 0x81, 0x06,
     0xC3, 0x11, 0x82, 0x07, 0xE3, 0x11, 0x2F, 0xFB, 0x9C, 0x07, 0x00, 0x80, 0x9B, 0xAB, 0x47, 0x00,
     0x34, 0x00, 0x00, 0x00]"

definition app_bin :: "u8 list" where
  "app_bin = app_code @ app_data"

lemma app_lengths [simp]: "length app_text = 324" "length app_data = 4" "length app_code = 324"
  by (simp_all add: app_text_def app_data_def app_code_def)

lemma app_text_part0:
  "transpile_steps 16 app_text = 
    Some (take 60 app_code, drop 60 app_text)"
  by code_simp

lemma app_text_part1:
  "transpile_steps 16 (drop 60 app_text) = 
    Some (take 64 (drop 60 app_code), drop 64 (drop 60 app_text))"
  by code_simp

lemma app_text_part2:
  "transpile_steps 16 (drop 124 app_text) = 
    Some (take 64 (drop 124 app_code), drop 64 (drop 124 app_text))"
  by code_simp

lemma app_text_part3:
  "transpile_steps 16 (drop 188 app_text) = 
    Some (take 62 (drop 188 app_code), drop 62 (drop 188 app_text))"
  by code_simp

lemma app_text_part4:
  "transpile_steps 16 (drop 250 app_text) = 
    Some (take 44 (drop 250 app_code), drop 44 (drop 250 app_text))"
  by code_simp

lemma app_text_rest:
  "transpile_stream (drop 294 app_text) =
    (Inr (True, (drop 294 app_code)) :: (unit, unit) Failure + bool \<times> u8 list)"
  by code_simp

lemma app_text_transpiled:
  "(transpile_raw app_text :: ((unit, unit) Failure, bool, u8 list) outcome) =
    (Inr True, app_code)"
  using app_text_rest
  by (simp add: transpile_raw_Inr take_take_drop transpile_steps_stream [OF app_text_part0]
      transpile_steps_stream [OF app_text_part1, simplified]
      transpile_steps_stream [OF app_text_part2, simplified]
      transpile_steps_stream [OF app_text_part3, simplified]
      transpile_steps_stream [OF app_text_part4, simplified])

lemma app_transpiled:
  "transpile_elf (\<lambda>_. Inr app_elf) elf (replicate 16384 0) =
    (Inr 328, app_bin @ replicate (16384 - 328) 0)"
proof -
  define buffer where "buffer = (replicate 16384 0 :: u8 list)"
  have len: "length buffer = 16384" by (simp add: buffer_def)
  have "transpile_elf (\<lambda>_. Inr app_elf) elf buffer = (Inr 328, app_bin @ drop 328 buffer)"
    by (simp add: transpile_elf_def elf_transpiler_impl_def app_elf_def app_segments_def app_sections_def
      transpile_section_def segment_contains_def place_section_def div_ceil_def write_section_def
      slice_get_def slice_put_def append_slice_def Let_def len app_text_transpiled app_bin_def)
  then show ?thesis by (simp add: buffer_def)
qed

section \<open>Its run\<close>

text \<open>
  The memory of the example as a journal. The operations are functions of their own, so that the
  evaluation does not carry the code along.
\<close>

definition app_load :: "Journal \<Rightarrow> u32 \<Rightarrow> nat \<Rightarrow> (Error, u8 list, Journal) outcome" where
  "app_load J a n = journal_load 64 app_bin 16384 4096 J a n"

definition app_mut :: "Journal \<Rightarrow> u32 \<Rightarrow> nat \<Rightarrow> Error + u8 list \<times> (u8 list \<Rightarrow> Journal)" where
  "app_mut J a n = journal_mut 64 4096 J a n"

definition app_store :: "Journal \<Rightarrow> u32 \<Rightarrow> u8 list \<Rightarrow> (Error, unit, Journal) outcome" where
  "app_store J a bs = journal_store 64 4096 J a bs"

definition app_ops :: "Journal memory_ops" where
  "app_ops = \<lparr>load_bytes = app_load, mut_bytes = app_mut, store_bytes = app_store\<rparr>"

definition app_memory :: "Journal \<Rightarrow> SliceMemory" where
  "app_memory = journal_memory app_bin 16384 4096"

interpretation app: memory_simulation app_ops "slice_memory_ops 64" app_memory
proof -
  have "app_ops = journal_ops 64 app_bin 16384 4096"
    by (simp add: app_ops_def journal_ops_def app_load_def app_mut_def app_store_def fun_eq_iff)
  moreover have "int (length app_bin) \<le> 16384" by (simp add: app_bin_def)
  ultimately show "memory_simulation app_ops (slice_memory_ops 64) app_memory"
    using journal_simulates [of app_bin 16384 4096 64] by (simp add: app_memory_def)
qed

abbreviation app_handler :: "(Journal, unit, unit) syscall_fn" where
  "app_handler \<equiv> example_syscall app_ops"

text \<open>
  The words of the RISC-V code, by their address, with which the run is checked to be one of the
  RISC-V specification.
\<close>

definition app_words :: "(u32 \<times> u32) list" where
  "app_words = [
     (0, 0x80001197), (4, 0x80018193), (8, 0x297), (0xC, 0x2828293), (0x10, 0x30529073),
     (0x14, 0x907362C1), (0x16, 0x30429073), (0x1A, 0x80000317), (0x1E, 0x7F630313),
     (0x22, 0xFF037113), (0x26, 0x10433), (0x2A, 0x9A000EF), (0x2E, 0x1130001),
     (0x30, 0xFC010113), (0x34, 0x112023), (0x38, 0x512223), (0x3C, 0x612423),
     (0x40, 0x712623), (0x44, 0x1C12823), (0x48, 0x1D12A23), (0x4C, 0x1E12C23),
     (0x50, 0x1F12E23), (0x54, 0x2A12023), (0x58, 0x2B12223), (0x5C, 0x2C12423),
     (0x60, 0x2D12623), (0x64, 0x2E12823), (0x68, 0x2F12A23), (0x6C, 0x3012C23),
     (0x70, 0x3112E23), (0x74, 0x34302573), (0x78, 0xC0000EF), (0x7C, 0x12083),
     (0x80, 0x412283), (0x84, 0x812303), (0x88, 0xC12383), (0x8C, 0x1012E03),
     (0x90, 0x1412E83), (0x94, 0x1812F03), (0x98, 0x1C12F83), (0x9C, 0x2012503),
     (0xA0, 0x2412583), (0xA4, 0x2812603), (0xA8, 0x2C12683), (0xAC, 0x3012703),
     (0xB0, 0x3412783), (0xB4, 0x3812803), (0xB8, 0x3C12883), (0xBC, 0x4010113),
     (0xC0, 0x30200073), (0xC4, 0x80000737), (0xC8, 0x80418793), (0xCC, 0x870713),
     (0xD0, 0x4E7EB63), (0xD4, 0x800007B7), (0xD8, 0x800006B7), (0xDC, 0x78793),
     (0xE0, 0x14400713), (0xE4, 0x468693), (0xE8, 0x4D7E363), (0xEC, 0x30046073),
     (0xF0, 0x80000537), (0xF4, 0x50513), (0xF8, 0x46014581), (0xFA, 0x46814601),
     (0xFC, 0x47014681), (0xFE, 0x47814701), (0x100, 0x48014781), (0x102, 0x48894801),
     (0x104, 0x734889), (0x106, 0x73), (0x10A, 0x852E88AA), (0x10C, 0x73852E),
     (0x10E, 0x10500073), (0x112, 0x89963), (0x116, 0x800005B7), (0x11A, 0x45A583),
     (0x11E, 0x734885), (0x120, 0x73), (0x124, 0xA0239002), (0x126, 0x7A023),
     (0x12A, 0xB7550791), (0x12C, 0x4310B755), (0x12E, 0x7114310), (0x130, 0xC3900711),
     (0x132, 0x791C390), (0x134, 0xBF4D0791), (0x136, 0x7B7BF4D), (0x138, 0x800007B7),
     (0x13C, 0xA7A223), (0x140, 0x8082), (0x142, 0x0)]"

definition app_word :: "u32 \<Rightarrow> u32 option" where
  "app_word pc = map_of app_words pc"

lemma app_words_walk: "rv_walk 0 app_text = app_words"
  by code_simp

definition app_start :: "Journal Interpreter" where
  "app_start = interpreter_new [] 10"

text \<open>The states of the guest after 24, 48 and 72 instructions, and at its end.\<close>

definition word_journal :: "int \<Rightarrow> u32 list \<Rightarrow> Journal" where
  "word_journal a ws =
     concat (map (\<lambda>(i, w). zip [a + 4 * i .. a + 4 * i + 3] (map evaluated (to_le_bytes w)))
       (zip [0 .. int (length ws) - 1] ws))"

definition app_state1 :: "Journal Interpreter" where
  "app_state1 = \<lparr>
     program_counter = 0xE4,
     registers = \<lparr>
       cpu = \<lparr>inner = [
         0, 0x2E, 0x80000810, 0x80000800, 0, 0x10000, 0x80000810, 0, 0x80000810, 0, 0, 0, 0,
         0x80000000, 0x144, 0x80000000, 0, 0, 0, 0, 0, 0, 0, 0, 0, 0, 0, 0, 0, 0, 0, 0]\<rparr>,
       control_status = \<lparr>
         mtvec = 0x30, mscratch = 0, mepc = 0, mcause = 0, mtval = 0, mie_embive = True,
         mip_embive = False, mstatus = 0\<rparr>\<rparr>,
     memory = word_journal 4 [0],
     instruction_limit = 10, memory_reservation = None\<rparr>"

definition app_state2 :: "Journal Interpreter" where
  "app_state2 = \<lparr>
     program_counter = 0x38,
     registers = \<lparr>
       cpu = \<lparr>inner = [
         0, 0x2E, 0x800007D0, 0x80000800, 0, 0x10000, 0x80000810, 0, 0x80000810, 0, 0x14, 0x14,
         0, 0, 0, 0, 0, 0, 0, 0, 0, 0, 0, 0, 0, 0, 0, 0, 0, 0, 0, 0]\<rparr>,
       control_status = \<lparr>
         mtvec = 0x30, mscratch = 0, mepc = 0x112, mcause = 0x80000010, mtval = 0xA,
         mie_embive = True, mip_embive = True, mstatus = 0x80\<rparr>\<rparr>,
     memory = word_journal 4 [0] @
     word_journal 0 [0x14] @
     word_journal 0x7D0 [0x2E],
     instruction_limit = 10, memory_reservation = None\<rparr>"

definition app_state3 :: "Journal Interpreter" where
  "app_state3 = \<lparr>
     program_counter = 0x8C,
     registers = \<lparr>
       cpu = \<lparr>inner = [
         0, 0x2E, 0x800007D0, 0x80000800, 0, 0x10000, 0x80000810, 0, 0x80000810, 0, 0xA, 0x14,
         0, 0, 0, 0x80000000, 0, 0, 0, 0, 0, 0, 0, 0, 0, 0, 0, 0, 0, 0, 0, 0]\<rparr>,
       control_status = \<lparr>
         mtvec = 0x30, mscratch = 0, mepc = 0x112, mcause = 0x80000010, mtval = 0xA,
         mie_embive = True, mip_embive = True, mstatus = 0x80\<rparr>\<rparr>,
     memory = word_journal 4 [0xA] @
     word_journal 0 [0x14] @
     word_journal 0x7D0 [
       0x2E, 0x10000, 0x80000810, 0, 0, 0, 0, 0, 0x14, 0x14, 0, 0, 0, 0, 0, 0],
     instruction_limit = 10, memory_reservation = None\<rparr>"

definition app_end :: "Journal Interpreter" where
  "app_end = \<lparr>
     program_counter = 0x126,
     registers = \<lparr>
       cpu = \<lparr>inner = [
         0, 0x2E, 0x80000810, 0x80000800, 0, 0x10000, 0x80000810, 0, 0x80000810, 0, 0, 0x1E, 0,
         0, 0, 0, 0, 1, 0, 0, 0, 0, 0, 0, 0, 0, 0, 0, 0, 0, 0, 0]\<rparr>,
       control_status = \<lparr>
         mtvec = 0x30, mscratch = 0, mepc = 0x112, mcause = 0x80000010, mtval = 0xA,
         mie_embive = True, mip_embive = True, mstatus = 0x88\<rparr>\<rparr>,
     memory = word_journal 4 [0xA] @
     word_journal 0 [0x14] @
     word_journal 0x7D0 [
       0x2E, 0x10000, 0x80000810, 0, 0, 0, 0, 0, 0x14, 0x14, 0, 0, 0, 0, 0, 0],
     instruction_limit = 10, memory_reservation = None\<rparr>"

lemma app_phase1:
  "guest_check app_ops app_handler 10 app_word 24 app_start () = Some (Inr (app_state1, ()))"
  by code_simp

lemma app_phase2:
  "guest_check app_ops app_handler 10 app_word 24 app_state1 () = Some (Inr (app_state2, ()))"
  by code_simp

lemma app_phase3:
  "guest_check app_ops app_handler 10 app_word 24 app_state2 () = Some (Inr (app_state3, ()))"
  by code_simp

lemma app_phase4:
  "guest_check app_ops app_handler 10 app_word 24 app_state3 () = Some (Inl (None, app_end, ()))"
  by code_simp

lemmas app_advance =
  app_phase1 [THEN guest_check_advances] app_phase2 [THEN guest_check_advances]
  app_phase3 [THEN guest_check_advances] app_phase4 [THEN guest_check_advances]

lemma app_steps: "host_steps app_ops app_handler 10 (24 + (24 + (24 + 24))) app_start () = Some (None, app_end, ())"
  unfolding host_advance_steps [OF app_advance(1)] host_advance_steps [OF app_advance(2)]
    host_advance_steps [OF app_advance(3)]
  by (rule host_advance_ends [OF app_advance(4)])

lemma app_loop:
  "host_loop (slice_memory_ops 64)
     (example_syscall_async (slice_memory_ops 64) yields :: (SliceMemory, unit, unit, _) async_fn) 10
     (interpreter_new \<lparr>code = app_bin @ replicate 16056 0, ram = replicate 4096 0\<rparr> 10) ()
   = Some (None, interpreter_map app_memory id app_end, ())"
proof -
  have "host_loop app_ops
      (example_syscall_async app_ops yields :: (Journal, unit, unit, _) async_fn) 10 app_start () =
      Some (None, app_end, ())"
    using app_steps unfolding example.host_loop_iff by blast
  moreover have "interpreter_map app_memory id app_start =
      interpreter_new \<lparr>code = app_bin @ replicate 16056 0, ram = replicate 4096 0\<rparr> 10"
    by (simp add: interpreter_map_def app_start_def interpreter_new_def app_memory_def
        journal_memory_def padded_code_def journal_get_def app_bin_def map_replicate_trivial)
  moreover have respects:
    "handler_respects app_memory app_handler (example_syscall (slice_memory_ops 64))"
    by (rule app.example_respects)
  ultimately show ?thesis
    using app.map_host_loop [OF respects example.blocking_handler_axioms [where k = yields]
      example.blocking_handler_axioms [where k = yields], where v = 10 and g = id and s = app_start
      and c = "()"]
    by (simp add: result_map_def)
qed

section \<open>The example succeeds\<close>

text \<open>
  C8: The example \<^verbatim>\<open>embassy.rs\<close> ends, and all its unwraps and assertions hold: the ELF file
  \<^verbatim>\<open>tests/app.elf\<close> is transpiled, its guest starts, initialises its memory, waits for the interrupt,
  takes it and returns from it, makes its two system calls and halts with 0 and 30 in a0 and a1,
  however often the asynchronous handler yields before it answers.
\<close>

theorem embassy_main_succeeds: "embassy_main (\<lambda>_. Inr app_elf) yields elf_file = Some (Some ())"
  by (simp add: embassy_main_def app_transpiled Let_def app_loop assert_def peek_def cpu_get_def
      CPU_REGISTER_COUNT_def app_end_def)

end
