(* ===== verification/Guest_Examples.thy ===== *)
theory Guest_Examples
  imports Riscv_Guest Elf_Theorems Embassy_Example
begin

text \<open>
  Two guests in ELF files. A small one, with an executable section and a \<^verbatim>\<open>.bss\<close> section, makes the same
  system call for ever. The one of the example \<^verbatim>\<open>embassy.rs\<close>, in \<^verbatim>\<open>tests/app.elf\<close>, comes to its end, through
  an interrupt and system calls: every instruction on the way is one that the specification covers.
\<close>

definition call_elf :: "u8 list \<Rightarrow> (unit, unit) ElfBytes" where
  "call_elf text = (small_elf [small_section 0x1000 6 6])\<lparr>section_data :=
     (\<lambda>section. let n = unat (sh_size section) in
       Inr (if sh_type section = SHT_PROGBITS then take n (text @ replicate n 0) else [], None))\<rparr>"

definition call_layout :: "u8 list \<Rightarrow> u8 list \<Rightarrow> Placed list" where
  "call_layout riscv embive = [\<lparr>placed_at = 0, original = riscv, transpiled = embive,
     executable = True, asks_padding = True\<rparr>]"

lemma call_layout_in_order: "2 \<le> length embive \<Longrightarrow> in_order (call_layout riscv embive)"
  by (simp add: in_order_def call_layout_def)

lemma call_elf_sized: "section_data_sized (call_elf text)"
  by (auto simp: section_data_sized_def sized_section_def loadable_def call_elf_def small_elf_def Let_def)

lemma call_elf_exact: "skip_test_exact (call_elf text)"
  by (simp add: skip_test_exact_def skip_exact_def skips_def section_offset_def section_paddr_def
      segment_contains_def div_ceil_def loadable_def call_elf_def small_elf_def small_section_def
      small_bss_def small_segment_def)

text \<open>The state after the system call that the example's handler does not implement.\<close>

lemma example_syscall_unknown:
  assumes "read_x s 17 = 0"
  shows "host_reaction (example_syscall M) v (Inr Called) s c =
    Inr (syscall_result (Inl not_implemented) s, c)"
proof -
  have "inner (cpu (registers s)) ! unat (reg_index A7) = 0" using assms by (simp add: read_x_def)
  then show ?thesis
    by (simp add: host_reaction_def syscall_def syscall_arguments_def example_syscall_def Let_def)
qed

lemma example_syscall_answers: "\<exists>w m' c'. example_syscall M nr args m c = (Inr w, m', c')"
  by (simp add: example_syscall_def split: prod.split sum.split)

lemma keeps_code_example: "keeps_code (example_syscall (slice_memory_ops W))"
  by (simp add: keeps_code_def example_syscall_def load_num_def slice_load_bytes_def question_def
      split: prod.split sum.split)

section \<open>A guest that does not end\<close>

text \<open>\<open>ecall\<close> and \<open>c.j -4\<close>.\<close>

definition calling_riscv :: "u8 list" where
  "calling_riscv = [0x73, 0, 0, 0, 0xF5, 0xBF]"

definition calling_embive :: "u8 list" where
  "calling_embive = [0x1F, 0, 0, 0, 0xCF, 0xFF]"

lemma calling_transpiled:
  "transpile_elf (\<lambda>_. Inr (call_elf calling_riscv)) [] (replicate 8 0) = (Inr 8, calling_embive @ [0, 0])"
  "elf_layout (call_elf calling_riscv) = call_layout calling_riscv calling_embive"
  by code_simp+

lemma calling_words:
  "rv_instruction (riscv_word calling_riscv) = Some RvEcall" "rv_length (riscv_word calling_riscv) = 4"
  "rv_instruction (riscv_word (drop 4 calling_riscv)) = Some (RvJal 0 (- 4))"
  by code_simp+

lemma calling_boundaries: "boundary calling_riscv 0" "boundary calling_riscv 4"
  using boundary_start boundary_next [OF boundary_start, of calling_riscv]
  by (simp_all add: calling_riscv_def riscv_length_def)

text \<open>Whatever the handler answers, as long as it does not fail.\<close>

lemma calling_guest_forever:
  fixes f :: "('m, 'c, 'e) syscall_fn"
  assumes "\<And>nr args m c. \<exists>w m' c'. f nr args m c = (Inr w, m', c')"
    and "program_counter s = 0 \<or> program_counter s = 4"
  shows "riscv_guest_forever M f v (call_layout calling_riscv calling_embive) s c"
  using assms(2)
proof (coinduction arbitrary: s c rule: riscv_guest_forever.coinduct)
  case riscv_guest_forever
  show ?case
  proof (cases "program_counter s = 0")
    case True
    let ?s = "s\<lparr>program_counter := 4\<rparr>"
    obtain w m d where f: "f (inner (cpu (registers s)) ! 17) (take SYSCALL_ARGS (drop 10
        (inner (cpu (registers s))))) (memory s) c = (Inr w, m, d)"
      using assms(1) by blast
    define t where "t = syscall_result w (?s\<lparr>memory := m\<rparr>)"
    have t: "program_counter t = 4" by (simp add: t_def syscall_result_def Let_def split: sum.split)
    have "host_reaction f v (Inr Called) ?s c = Inr (t, d)"
      using f by (simp add: host_reaction_def syscall_def syscall_arguments_def Let_def t_def)
    moreover have "riscv_step M 0 calling_riscv s = Some (Inr Called, ?s)"
      by (simp add: riscv_step_def rv_exec_def True calling_words)
    moreover have "at_instruction 0 calling_riscv s"
      by (simp add: at_instruction_def True calling_boundaries calling_words conforms_def)
         (simp add: calling_riscv_def)
    ultimately have "riscv_guest_instruction M f v (call_layout calling_riscv calling_embive) s c (Inr (t, d))"
      by (simp add: riscv_guest_instruction_def call_layout_def)
    with t show ?thesis by blast
  next
    case False
    with riscv_guest_forever have pc: "program_counter s = 4" by simp
    let ?t = "s\<lparr>program_counter := 0\<rparr>"
    have "riscv_step M 0 calling_riscv s = Some (Inr Running, ?t)"
      by (simp add: riscv_step_def rv_exec_def pc calling_words goto_def write_x_def)
    moreover have "at_instruction 0 calling_riscv s"
      by (simp add: at_instruction_def pc calling_boundaries calling_words conforms_def)
         (simp add: calling_riscv_def)
    ultimately have "riscv_guest_instruction M f v (call_layout calling_riscv calling_embive) s c (Inr (?t, c))"
      by (simp add: riscv_guest_instruction_def call_layout_def host_reaction_def)
    then show ?thesis by force
  qed
qed

section \<open>The guest of the example\<close>

lemma app_elf_layout:
  "elf_layout app_elf =
    [\<lparr>placed_at = 0, original = app_text, transpiled = app_code, executable = True, asks_padding = True\<rparr>,
     \<lparr>placed_at = 324, original = app_data, transpiled = app_data, executable = False, asks_padding = False\<rparr>]"
  by (simp add: elf_layout_def section_placed_def section_bytes_def section_offset_def section_paddr_def
      segment_contains_def div_ceil_def loadable_def app_elf_def app_sections_def app_segments_def
      map_filter_simps app_text_transpiled Let_def)

lemma app_elf_conditions:
  "section_data_sized app_elf" "skip_test_exact app_elf" "in_order (elf_layout app_elf)"
proof -
  show "section_data_sized app_elf"
    by (simp add: section_data_sized_def sized_section_def loadable_def app_elf_def app_sections_def)
  show "skip_test_exact app_elf"
    by (simp add: skip_test_exact_def skip_exact_def skips_def section_offset_def section_paddr_def
        segment_contains_def div_ceil_def loadable_def app_elf_def app_sections_def app_segments_def)
  show "in_order (elf_layout app_elf)"
    by (simp add: app_elf_layout in_order_def placed_end_def)
qed

definition app_guest :: "SliceMemory Interpreter" where
  "app_guest = interpreter_new \<lparr>code = app_bin @ replicate 16056 0, ram = replicate 4096 0\<rparr> 10"

lemma app_guest_start:
  "app_guest = interpreter_map app_memory id app_start"
  "take (unat (328 :: usize)) (code (memory app_guest)) =
     take (unat (328 :: usize)) (app_bin @ replicate (16384 - 328) 0)"
  "length (code (memory app_guest)) \<le> 2 ^ 31" "read_x app_guest 0 = 0"
  by (simp_all add: app_guest_def interpreter_map_def app_start_def interpreter_new_def app_memory_def
      journal_memory_def padded_code_def journal_get_def app_bin_def map_replicate_trivial
      read_x_def registers_default_def cpu_default_def)

lemma app_guest_loaded: "guest_loaded (elf_layout app_elf) app_guest"
  using elf_guest_loaded [OF refl app_elf_conditions(1,2) app_transpiled app_elf_conditions(3)
      app_guest_start(2-4)] .

abbreviation app_slice_handler :: "(SliceMemory, unit, unit) syscall_fn" where
  "app_slice_handler \<equiv> example_syscall (slice_memory_ops 64)"

text \<open>The checked phases of the example, one after the other.\<close>

lemma app_guest_phase:
  assumes "guest_check app_ops app_handler 10 app_word n s () = Some z"
    and "guest_loaded (elf_layout app_elf) (interpreter_map app_memory id s)"
    and "case z of
        Inl r \<Rightarrow> y = result_map app_memory id r
      | Inr (t, d) \<Rightarrow> guest_loaded (elf_layout app_elf) (interpreter_map app_memory id t) \<longrightarrow>
          riscv_guest_ends (slice_memory_ops 64) app_slice_handler 10
            (elf_layout app_elf) (interpreter_map app_memory id t) d y"
  shows "riscv_guest_ends (slice_memory_ops 64) app_slice_handler 10
    (elf_layout app_elf) (interpreter_map app_memory id s) () y"
proof (rule guest_check_ends [OF app.memory_simulation_axioms _ app.example_respects keeps_code_example])
  define q where "q = hd (elf_layout app_elf)"
  have q: "q \<in> set (elf_layout app_elf)" "executable q" "placed_at q = 0" "original q = app_text"
    by (simp_all add: q_def app_elf_layout)
  then show "q \<in> set (elf_layout app_elf)" "executable q" "placed_at q + length (original q) \<le> 2 ^ 32"
    by simp_all
  show "app_word = map_of (rv_walk (int (placed_at q)) (original q))"
    by (simp add: q app_words_walk app_word_def fun_eq_iff)
qed (use assms in simp_all)

lemma app_guest_ends:
  "riscv_guest_ends (slice_memory_ops 64) app_slice_handler 10
     (elf_layout app_elf) app_guest () (None, interpreter_map app_memory id app_end, ())"
proof -
  let ?ends = "\<lambda>s. guest_loaded (elf_layout app_elf) (interpreter_map app_memory id s) \<longrightarrow>
    riscv_guest_ends (slice_memory_ops 64) app_slice_handler 10
      (elf_layout app_elf) (interpreter_map app_memory id s) () (None, interpreter_map app_memory id app_end, ())"
  have "?ends app_state3" using app_guest_phase [OF app_phase4] by (simp add: result_map_def)
  then have "?ends app_state2" using app_guest_phase [OF app_phase3] by simp
  then have "?ends app_state1" using app_guest_phase [OF app_phase2] by simp
  then have "?ends app_start" using app_guest_phase [OF app_phase1] by simp
  then show ?thesis using app_guest_loaded by (simp add: app_guest_start(1))
qed

end
