(* ===== verification/Gdb_Tcp.thy ===== *)
theory Gdb_Tcp
  imports Host_Theorems Transpiler
begin

text \<open>
  Model of \<^verbatim>\<open>examples/gdb_tcp.rs\<close>: a connection of the debugger over a TCP stream of the standard
  library, and the program around it. The stream is a record of operations on a socket, of which the
  code relies only on their results; \<open>stream_peek\<close> and \<open>stream_read_exact\<close> return the bytes that they
  put at the start of the buffer.
\<close>

section \<open>The connection\<close>

record ('sock, 'e) tcp_stream_ops =
  set_nonblocking :: "bool \<Rightarrow> 'sock \<Rightarrow> ('e, unit, 'sock) outcome"
  set_nodelay :: "bool \<Rightarrow> 'sock \<Rightarrow> ('e, unit, 'sock) outcome"
  stream_read_exact :: "nat \<Rightarrow> 'sock \<Rightarrow> ('e, u8 list, 'sock) outcome"
  stream_peek :: "nat \<Rightarrow> 'sock \<Rightarrow> ('e, u8 list, 'sock) outcome"
  stream_write_all :: "u8 list \<Rightarrow> 'sock \<Rightarrow> ('e, unit, 'sock) outcome"
  stream_flush :: "'sock \<Rightarrow> ('e, unit, 'sock) outcome"
  would_block :: "'e \<Rightarrow> bool"

record 'sock TcpConnection =
  stream :: 'sock

definition tcp_new :: "'sock \<Rightarrow> 'sock TcpConnection" where
  "tcp_new s = \<lparr>stream = s\<rparr>"

text \<open>The result of an operation on the stream of a connection.\<close>

definition on_stream ::
  "('sock \<Rightarrow> ('e, 'r, 'sock) outcome) \<Rightarrow> 'sock TcpConnection \<Rightarrow> ('e, 'r, 'sock TcpConnection) outcome" where
  "on_stream f conn = (case f (stream conn) of (r, s) \<Rightarrow> (r, conn\<lparr>stream := s\<rparr>))"

definition tcp_write ::
  "('sock, 'e) tcp_stream_ops \<Rightarrow> u8 \<Rightarrow> 'sock TcpConnection \<Rightarrow> ('e, unit, 'sock TcpConnection) outcome" where
  "tcp_write T byte conn = on_stream (stream_write_all T [byte]) conn"

definition tcp_write_all ::
  "('sock, 'e) tcp_stream_ops \<Rightarrow> u8 list \<Rightarrow> 'sock TcpConnection \<Rightarrow> ('e, unit, 'sock TcpConnection) outcome" where
  "tcp_write_all T buf conn = on_stream (stream_write_all T buf) conn"

definition tcp_flush ::
  "('sock, 'e) tcp_stream_ops \<Rightarrow> 'sock TcpConnection \<Rightarrow> ('e, unit, 'sock TcpConnection) outcome" where
  "tcp_flush T conn = on_stream (stream_flush T) conn"

definition tcp_on_session_start ::
  "('sock, 'e) tcp_stream_ops \<Rightarrow> 'sock TcpConnection \<Rightarrow> ('e, unit, 'sock TcpConnection) outcome" where
  "tcp_on_session_start T conn = on_stream (set_nodelay T True) conn"

definition tcp_read ::
  "('sock, 'e) tcp_stream_ops \<Rightarrow> 'sock TcpConnection \<Rightarrow> ('e, u8, 'sock TcpConnection) outcome" where
  "tcp_read T conn =
     (case on_stream (set_nonblocking T False) conn of
        (Inl e, conn) \<Rightarrow> (Inl e, conn)
      | (Inr _, conn) \<Rightarrow>
          (case on_stream (stream_read_exact T 1) conn of
             (Inl e, conn) \<Rightarrow> (Inl e, conn)
           | (Inr bytes, conn) \<Rightarrow> (Inr (slice_put [0] 0 bytes ! 0), conn)))"

definition tcp_peek ::
  "('sock, 'e) tcp_stream_ops \<Rightarrow> 'sock TcpConnection \<Rightarrow> ('e, u8 option, 'sock TcpConnection) outcome" where
  "tcp_peek T conn =
     (case on_stream (set_nonblocking T True) conn of
        (Inl e, conn) \<Rightarrow> (Inl e, conn)
      | (Inr _, conn) \<Rightarrow>
          (case on_stream (stream_peek T 1) conn of
             (Inr bytes, conn) \<Rightarrow> (Inr (Some (slice_put [0] 0 bytes ! 0)), conn)
           | (Inl e, conn) \<Rightarrow> (if would_block T e then (Inr None, conn) else (Inl e, conn))))"

definition tcp_connection :: "('sock, 'e) tcp_stream_ops \<Rightarrow> ('sock TcpConnection, 'e) connection_ops" where
  "tcp_connection T = \<lparr>peek = tcp_peek T, read = tcp_read T\<rparr>"

text \<open>
  A stream with nothing to read does not disturb the debugger; one that the client has closed, whose
  peek returns no bytes, looks as if there was a byte 0, so that the debugger goes on to read, and the
  read reports the end.
\<close>

lemma quiet_stream_undisturbed:
  assumes "set_nonblocking T True (stream conn) = (Inr (), stream conn)"
    and "stream_peek T 1 (stream conn) = (Inl e, stream conn)" "would_block T e"
    and "exec_mode d = Run" "set (breakpoints d) \<subseteq> {None}"
  shows "undisturbed (tcp_connection T) conn d"
  using assms by (simp add: undisturbed_def tcp_connection_def tcp_peek_def on_stream_def)

lemma closed_stream_reads:
  assumes "set_nonblocking T True (stream conn) = (Inr (), s)" "stream_peek T 1 s = (Inr [], s)"
    and "set_nonblocking T False s = (Inr (), t)" "stream_read_exact T 1 t = (Inl e, t)"
  shows "peek (tcp_connection T) conn = (Inr (Some 0), conn\<lparr>stream := s\<rparr>)
    \<and> incoming_data (tcp_connection T) 0 conn = (Some (Inl e), conn\<lparr>stream := t\<rparr>)"
  using assms
  by (simp add: incoming_data_def tcp_connection_def tcp_peek_def tcp_read_def on_stream_def slice_put_def)

section \<open>The program\<close>

text \<open>
  The arguments of the program are parameters, and so are the file system, the listener that accepts
  a client, the builder of the server of \<^verbatim>\<open>gdbstub\<close>, which gets the size of the packet buffer, and its
  \<open>run_blocking\<close>, a function on the debugger that may not return. What the program prints is left out.
\<close>

datatype ('io, 'f, 'b) MainError = IoError 'io | TranspileError 'f | BuilderError 'b

text \<open>The program panics, returns an error, or ends with the state of the interpreter.\<close>

datatype ('io, 'f, 'b) MainResult =
  MainPanics | MainFails "('io, 'f, 'b) MainError" | MainEnds "SliceMemory Interpreter"

definition gdb_tcp_session ::
  "('sock TcpConnection \<Rightarrow> nat \<Rightarrow> 'b + 'gdb)
     \<Rightarrow> ('gdb \<Rightarrow> (SliceMemory, unit) Debugger \<Rightarrow> (SliceMemory, unit) Debugger option)
     \<Rightarrow> 'io + 'sock \<Rightarrow> (SliceMemory, unit) Debugger \<Rightarrow> ('io, 'f, 'b) MainResult option" where
  "gdb_tcp_session build run_blocking accepted debugger =
     (case accepted of
        Inl e \<Rightarrow> Some (MainFails (IoError e))
      | Inr client \<Rightarrow>
          (case build (tcp_new client) 4096 of
             Inl e \<Rightarrow> Some (MainFails (BuilderError e))
           | Inr gdb \<Rightarrow>
               map_option (\<lambda>debugger. MainEnds (debugger_into debugger)) (run_blocking gdb debugger)))"

definition gdb_tcp_main ::
  "(string \<Rightarrow> 'io + u8 list) \<Rightarrow> (u8 list \<Rightarrow> 'p + ('p, 'c) ElfBytes) \<Rightarrow> 'io
     \<Rightarrow> ((SliceMemory, unit) Debugger \<Rightarrow> ('io, ('p, 'c) TranspilerError, 'b) MainResult option)
     \<Rightarrow> string list \<Rightarrow> ('io, ('p, 'c) TranspilerError, 'b) MainResult option" where
  "gdb_tcp_main read_file minimal_parse invalid_input session args =
     (if length args \<noteq> 2 then
        Some (if args = [] then MainPanics else MainFails (IoError invalid_input))
      else
        (case read_file (args ! 1) of
           Inl e \<Rightarrow> Some (MainFails (IoError e))
         | Inr elf \<Rightarrow>
             (case transpile_elf minimal_parse elf (replicate (256 * 1024) 0) of
                (Inl Panicked, code_bytes) \<Rightarrow> Some MainPanics
              | (Inl (Returned e), code_bytes) \<Rightarrow> Some (MainFails (TranspileError e))
              | (Inr _, code_bytes) \<Rightarrow>
                  session (debugger_new 4 \<lparr>code = code_bytes, ram = replicate (64 * 1024) 0\<rparr> ()))))"

end
