(* ===== verification/Format_Tests.thy ===== *)
theory Format_Tests
  imports Test_Support
begin

text \<open>
  The unit tests of the formats (\<^verbatim>\<open>format.rs\<close>).
\<close>

unbundle bit_operations_syntax

definition format_type_r :: "unit option" where
  "format_type_r = do {
     let inst = 0b01000000001100100101000010110011;
     let parsed = TypeR_from_riscv inst;
     assert (TypeR_from_embive (TypeR_to_embive parsed) = parsed);
     assert (r_rd parsed = 1);
     assert (r_rs1 parsed = 4);
     assert (r_rs2 parsed = 3);
     assert (r_func parsed = (push_bit 3 32) OR 5)
   }"

definition format_type_i_negative :: "unit option" where
  "format_type_i_negative = do {
     let inst = 0b11000001100000010000000110010011;
     let parsed = TypeI_from_riscv inst;
     assert (TypeI_from_embive (TypeI_to_embive parsed) = parsed);
     assert (i_rd_rs2 parsed = 3);
     assert (i_func parsed = 0);
     assert (i_rs1 parsed = 2);
     assert (i_imm parsed = - 1000)
   }"

definition format_type_i_positive :: "unit option" where
  "format_type_i_positive = do {
     let inst = 0b01111111101000000100000010010011;
     let parsed = TypeI_from_riscv inst;
     assert (TypeI_from_embive (TypeI_to_embive parsed) = parsed);
     assert (i_rd_rs2 parsed = 1);
     assert (i_func parsed = 4);
     assert (i_rs1 parsed = 0);
     assert (i_imm parsed = 2042)
   }"

definition format_type_s_negative :: "unit option" where
  "format_type_s_negative = do {
     let inst = 0b11100000000100010001101100100011;
     let parsed = TypeS_from_riscv inst;
     assert (TypeS_from_embive (TypeS_to_embive parsed) = parsed);
     assert (s_imm parsed = - 490);
     assert (s_func parsed = 1);
     assert (s_rs1 parsed = 2);
     assert (s_rs2 parsed = 1)
   }"

definition format_type_s_positive :: "unit option" where
  "format_type_s_positive = do {
     let inst = 0b00011110000100010001010100100011;
     let parsed = TypeS_from_riscv inst;
     assert (TypeS_from_embive (TypeS_to_embive parsed) = parsed);
     assert (s_imm parsed = 490);
     assert (s_func parsed = 1);
     assert (s_rs1 parsed = 2);
     assert (s_rs2 parsed = 1)
   }"

definition format_type_b_negative :: "unit option" where
  "format_type_b_negative = do {
     let inst = 0b10101100100000101001010011100011;
     let parsed = TypeB_from_riscv inst;
     assert (TypeB_from_embive (TypeB_to_embive parsed) = parsed);
     assert (b_imm parsed = - 1336);
     assert (b_func parsed = 1);
     assert (b_rs1 parsed = 5);
     assert (b_rs2 parsed = 8)
   }"

definition format_type_b_positive :: "unit option" where
  "format_type_b_positive = do {
     let inst = 0b00101100100000101001010001100011;
     let parsed = TypeB_from_riscv inst;
     assert (TypeB_from_embive (TypeB_to_embive parsed) = parsed);
     assert (b_imm parsed = 712);
     assert (b_func parsed = 1);
     assert (b_rs1 parsed = 5);
     assert (b_rs2 parsed = 8)
   }"

definition format_type_u_negative :: "unit option" where
  "format_type_u_negative = do {
     let inst = 0b11110000001000001111000110110111;
     let parsed = TypeU_from_riscv inst;
     assert (TypeU_from_embive (TypeU_to_embive parsed) = parsed);
     assert (u_imm parsed = push_bit 12 (- 65009));
     assert (u_rd parsed = 3)
   }"

definition format_type_u_positive :: "unit option" where
  "format_type_u_positive = do {
     let inst = 0b00010000001000001111000110110111;
     let parsed = TypeU_from_riscv inst;
     assert (TypeU_from_embive (TypeU_to_embive parsed) = parsed);
     assert (u_imm parsed = push_bit 12 66063);
     assert (u_rd parsed = 3)
   }"

definition format_type_j_negative :: "unit option" where
  "format_type_j_negative = do {
     let inst = 0b10101100001100011011000111101111;
     let parsed = TypeJ_from_riscv inst;
     assert (TypeJ_from_embive (TypeJ_to_embive parsed) = parsed);
     assert (j_imm parsed = - 935230);
     assert (j_rd parsed = 3)
   }"

definition format_type_j_positive :: "unit option" where
  "format_type_j_positive = do {
     let inst = 0b01011100001100011011000111101111;
     let parsed = TypeJ_from_riscv inst;
     assert (TypeJ_from_embive (TypeJ_to_embive parsed) = parsed);
     assert (j_imm parsed = 114114);
     assert (j_rd parsed = 3)
   }"

definition format_type_ciw :: "unit option" where
  "format_type_ciw = do {
     let inst = 0b0001011011001000;
     let parsed = TypeCIW_from_riscv inst;
     assert (TypeCIW_from_embive (TypeCIW_to_embive parsed) = parsed);
     assert (ciw_rd parsed = 10);
     assert (ciw_imm parsed = 868)
   }"

definition format_type_cl :: "unit option" where
  "format_type_cl = do {
     let inst = 0b0101100011010100;
     let parsed = TypeCL_from_riscv inst;
     assert (TypeCL_from_embive (TypeCL_to_embive parsed) = parsed);
     assert (cl_rd_rs2 parsed = 13);
     assert (cl_rs1 parsed = 9);
     assert (cl_imm parsed = 52)
   }"

definition format_type_ci1 :: "unit option" where
  "format_type_ci1 = do {
     let inst = 0b0100010101010101;
     let parsed = TypeCI1_from_riscv inst;
     assert (TypeCI1_from_embive (TypeCI1_to_embive parsed) = parsed);
     assert (ci1_rd_rs1 parsed = 10);
     assert (ci1_imm parsed = 21)
   }"

definition format_type_ci1_negative :: "unit option" where
  "format_type_ci1_negative = do {
     let inst = 0b0101010100101101;
     let parsed = TypeCI1_from_riscv inst;
     assert (TypeCI1_from_embive (TypeCI1_to_embive parsed) = parsed);
     assert (ci1_rd_rs1 parsed = 10);
     assert (ci1_imm parsed = - 21)
   }"

definition format_type_ci2 :: "unit option" where
  "format_type_ci2 = do {
     let inst = 0b0110000101011001;
     let parsed = TypeCI2_from_riscv inst;
     assert (TypeCI2_from_embive (TypeCI2_to_embive parsed) = parsed);
     assert (ci2_rd_rs1 parsed = 2);
     assert (ci2_imm parsed = 400)
   }"

definition format_type_ci2_negative :: "unit option" where
  "format_type_ci2_negative = do {
     let inst = 0b0111000100100101;
     let parsed = TypeCI2_from_riscv inst;
     assert (TypeCI2_from_embive (TypeCI2_to_embive parsed) = parsed);
     assert (ci2_rd_rs1 parsed = 2);
     assert (ci2_imm parsed = - 416)
   }"

definition format_type_ci3 :: "unit option" where
  "format_type_ci3 = do {
     let inst = 0b0110010101010101;
     let parsed = TypeCI3_from_riscv inst;
     assert (TypeCI3_from_embive (TypeCI3_to_embive parsed) = parsed);
     assert (ci3_rd_rs1 parsed = 10);
     assert (ci3_imm parsed = push_bit 12 21)
   }"

definition format_type_ci3_negative :: "unit option" where
  "format_type_ci3_negative = do {
     let inst = 0b0111010100101101;
     let parsed = TypeCI3_from_riscv inst;
     assert (TypeCI3_from_embive (TypeCI3_to_embive parsed) = parsed);
     assert (ci3_rd_rs1 parsed = 10);
     assert (ci3_imm parsed = push_bit 12 (- 21))
   }"

definition format_type_ci4 :: "unit option" where
  "format_type_ci4 = do {
     let inst = 0b0001010100100110;
     let parsed = TypeCI4_from_riscv inst;
     assert (TypeCI4_from_embive (TypeCI4_to_embive parsed) = parsed);
     assert (ci4_rd_rs1 parsed = 10);
     assert (ci4_imm parsed = 41)
   }"

definition format_type_ci5 :: "unit option" where
  "format_type_ci5 = do {
     let inst = 0b0101010101010110;
     let parsed = TypeCI5_from_riscv inst;
     assert (TypeCI5_from_embive (TypeCI5_to_embive parsed) = parsed);
     assert (ci5_rd_rs1 parsed = 10);
     assert (ci5_imm parsed = 116)
   }"

definition format_type_cb1 :: "unit option" where
  "format_type_cb1 = do {
     let inst = 0b0001010100100110;
     let parsed = TypeCB1_from_riscv inst;
     assert (TypeCB1_from_embive (TypeCB1_to_embive parsed) = parsed);
     assert (cb1_rd_rs1 parsed = 10);
     assert (cb1_imm parsed = 41)
   }"

definition format_type_cb2 :: "unit option" where
  "format_type_cb2 = do {
     let inst = 0b1000100101101001;
     let parsed = TypeCB2_from_riscv inst;
     assert (TypeCB2_from_embive (TypeCB2_to_embive parsed) = parsed);
     assert (cb2_rd_rs1 parsed = 10);
     assert (cb2_imm parsed = 26)
   }"

definition format_type_cb2_negative :: "unit option" where
  "format_type_cb2_negative = do {
     let inst = 0b1001100100100101;
     let parsed = TypeCB2_from_riscv inst;
     assert (TypeCB2_from_embive (TypeCB2_to_embive parsed) = parsed);
     assert (cb2_rd_rs1 parsed = 10);
     assert (cb2_imm parsed = - 23)
   }"

definition format_type_cb4 :: "unit option" where
  "format_type_cb4 = do {
     let inst = 0b1110110101111101;
     let parsed = TypeCB4_from_riscv inst;
     assert (TypeCB4_from_embive (TypeCB4_to_embive parsed) = parsed);
     assert (cb4_rs1 parsed = 10);
     assert (cb4_imm parsed = 254)
   }"

definition format_type_cb4_negative :: "unit option" where
  "format_type_cb4_negative = do {
     let inst = 0b1111100100110101;
     let parsed = TypeCB4_from_riscv inst;
     assert (TypeCB4_from_embive (TypeCB4_to_embive parsed) = parsed);
     assert (cb4_rs1 parsed = 10);
     assert (cb4_imm parsed = - 140)
   }"

definition format_type_cr :: "unit option" where
  "format_type_cr = do {
     let inst = 0b1000010100101110;
     let parsed = TypeCR_from_riscv inst;
     assert (TypeCR_from_embive (TypeCR_to_embive parsed) = parsed);
     assert (cr_rd_rs1 parsed = 10);
     assert (cr_rs2 parsed = 11)
   }"

definition format_type_css :: "unit option" where
  "format_type_css = do {
     let inst = 0b1101010110101010;
     let parsed = TypeCSS_from_riscv inst;
     assert (TypeCSS_from_embive (TypeCSS_to_embive parsed) = parsed);
     assert (css_rs2 parsed = 10);
     assert (css_imm parsed = 232)
   }"

definition format_type_cj :: "unit option" where
  "format_type_cj = do {
     let inst = 0b0011110010101001;
     let parsed = TypeCJ_from_riscv inst;
     assert (TypeCJ_from_embive (TypeCJ_to_embive parsed) = parsed);
     assert (cj_imm parsed = - 1446)
   }"

definition format_tests :: "unit option list" where
  "format_tests = [
    format_type_r, format_type_i_negative, format_type_i_positive, format_type_s_negative,
    format_type_s_positive, format_type_b_negative, format_type_b_positive,
    format_type_u_negative, format_type_u_positive, format_type_j_negative,
    format_type_j_positive, format_type_ciw, format_type_cl, format_type_ci1,
    format_type_ci1_negative, format_type_ci2, format_type_ci2_negative, format_type_ci3,
    format_type_ci3_negative, format_type_ci4, format_type_ci5, format_type_cb1, format_type_cb2,
    format_type_cb2_negative, format_type_cb4, format_type_cb4_negative, format_type_cr,
    format_type_css, format_type_cj]"

lemma format_tests_pass: "list_all passes format_tests"
  by code_simp

end
