(* ===== verification/Memory_Tests.thy ===== *)
theory Memory_Tests
  imports Test_Support
begin

text \<open>
  The unit tests of the memory and the registers (\<^verbatim>\<open>interpreter/memory.rs\<close>,
  \<^verbatim>\<open>memory_type.rs\<close>, \<^verbatim>\<open>interpreter/registers/\<close>).
\<close>

unbundle bit_operations_syntax

section \<open>\<^verbatim>\<open>interpreter/memory.rs\<close>\<close>

definition memory_load_ram :: "unit option" where
  "memory_load_ram = do {
     let ram_bytes = [0x1, 0x2, 0x3, 0x4];
     let memory = \<lparr>code = [], ram = ram_bytes\<rparr>;
     let (result, memory) = slice_load_bytes 64 memory 0x80000000 4;
     assert (\<not> is_err result);
     bytes \<leftarrow> unwrap result;
     assert (bytes = [0x1, 0x2, 0x3, 0x4])
   }"

definition memory_mut_ram :: "unit option" where
  "memory_mut_ram = do {
     let ram_bytes = [0x1, 0x2, 0x3, 0x4];
     let memory = \<lparr>code = [], ram = ram_bytes\<rparr>;
     let result = slice_mut_bytes 64 memory 0x80000000 4;
     assert (\<not> is_err result);
     (bytes, write) \<leftarrow> unwrap result;
     let bytes = bytes[0 := 0x5];
     assert (bytes = [0x5, 0x2, 0x3, 0x4])
   }"

definition memory_load_out_of_ram :: "unit option" where
  "memory_load_out_of_ram = do {
     let ram_bytes = replicate 2 0;
     let memory = \<lparr>code = [], ram = ram_bytes\<rparr>;
     let (result, memory) = slice_load_bytes 64 memory 0x80000000 4;
     assert (is_err result);
     assert (invalid_address result)
   }"

definition memory_mut_out_of_ram :: "unit option" where
  "memory_mut_out_of_ram = do {
     let ram_bytes = replicate 2 0;
     let memory = \<lparr>code = [], ram = ram_bytes\<rparr>;
     let result = slice_mut_bytes 64 memory 0x80000000 4;
     assert (is_err result);
     assert (invalid_address result)
   }"

definition memory_store_ram :: "unit option" where
  "memory_store_ram = do {
     let ram_bytes = replicate 4 0;
     let memory = \<lparr>code = [], ram = ram_bytes\<rparr>;
     let (result, memory) = slice_store_bytes 64 memory 0x80000000 [0x1, 0x2, 0x3, 0x4];
     assert (\<not> is_err result);
     assert (ram memory = [0x1, 0x2, 0x3, 0x4])
   }"

definition memory_store_out_of_ram :: "unit option" where
  "memory_store_out_of_ram = do {
     let ram_bytes = replicate 2 0;
     let memory = \<lparr>code = [], ram = ram_bytes\<rparr>;
     let (result, memory) = slice_store_bytes 64 memory 0x80000000 (replicate 4 0);
     assert (is_err result);
     assert (invalid_address result)
   }"

definition memory_load_code :: "unit option" where
  "memory_load_code = do {
     let code_bytes = [0x1, 0x2, 0x3, 0x4];
     let memory = \<lparr>code = code_bytes, ram = []\<rparr>;
     let (result, memory) = slice_load_bytes 64 memory 0x0 4;
     assert (\<not> is_err result);
     bytes \<leftarrow> unwrap result;
     assert (bytes = [0x1, 0x2, 0x3, 0x4])
   }"

definition memory_mut_code :: "unit option" where
  "memory_mut_code = do {
     let code_bytes = replicate 2 0;
     let memory = \<lparr>code = code_bytes, ram = []\<rparr>;
     let result = slice_mut_bytes 64 memory 0x0 4;
     assert (is_err result);
     assert (invalid_address result)
   }"

definition memory_store_code :: "unit option" where
  "memory_store_code = do {
     let code_bytes = replicate 4 0;
     let memory = \<lparr>code = code_bytes, ram = []\<rparr>;
     let (result, memory) = slice_store_bytes 64 memory 0x0 [0x1, 0x2, 0x3, 0x4];
     assert (is_err result);
     assert (invalid_address result)
   }"

definition memory_load_out_of_code :: "unit option" where
  "memory_load_out_of_code = do {
     let code_bytes = replicate 2 0;
     let memory = \<lparr>code = code_bytes, ram = []\<rparr>;
     let (result, memory) = slice_load_bytes 64 memory 0x0 4;
     assert (is_err result);
     assert (invalid_address result)
   }"

section \<open>\<^verbatim>\<open>interpreter/memory/memory_type.rs\<close>\<close>

definition memory_type_i8_load_store :: "unit option" where
  "memory_type_i8_load_store = do {
     let ram_bytes = replicate 1 0;
     let memory = \<lparr>code = [], ram = ram_bytes\<rparr>;
     let address = RAM_OFFSET;
     let value = (- 42 :: 8 word);
     let (stored, memory) = store_num (slice_memory_ops 64) memory address value;
     assert (\<not> is_err stored);
     let (result, memory) = load_num (slice_memory_ops 64) memory address;
     assert (\<not> is_err result);
     loaded_value \<leftarrow> unwrap result;
     assert (loaded_value = value)
   }"

definition memory_type_u8_load_store :: "unit option" where
  "memory_type_u8_load_store = do {
     let ram_bytes = replicate 1 0;
     let memory = \<lparr>code = [], ram = ram_bytes\<rparr>;
     let address = RAM_OFFSET;
     let value = (255 :: u8);
     let (stored, memory) = store_num (slice_memory_ops 64) memory address value;
     assert (\<not> is_err stored);
     let (result, memory) = load_num (slice_memory_ops 64) memory address;
     assert (\<not> is_err result);
     loaded_value \<leftarrow> unwrap result;
     assert (loaded_value = value)
   }"

definition memory_type_i16_load_store :: "unit option" where
  "memory_type_i16_load_store = do {
     let ram_bytes = replicate 2 0;
     let memory = \<lparr>code = [], ram = ram_bytes\<rparr>;
     let address = RAM_OFFSET;
     let value = (- 12345 :: 16 word);
     let (stored, memory) = store_num (slice_memory_ops 64) memory address value;
     assert (\<not> is_err stored);
     let (result, memory) = load_num (slice_memory_ops 64) memory address;
     assert (\<not> is_err result);
     loaded_value \<leftarrow> unwrap result;
     assert (loaded_value = value)
   }"

definition memory_type_u16_load_store :: "unit option" where
  "memory_type_u16_load_store = do {
     let ram_bytes = replicate 2 0;
     let memory = \<lparr>code = [], ram = ram_bytes\<rparr>;
     let address = RAM_OFFSET;
     let value = (54321 :: u16);
     let (stored, memory) = store_num (slice_memory_ops 64) memory address value;
     assert (\<not> is_err stored);
     let (result, memory) = load_num (slice_memory_ops 64) memory address;
     assert (\<not> is_err result);
     loaded_value \<leftarrow> unwrap result;
     assert (loaded_value = value)
   }"

definition memory_type_i32_load_store :: "unit option" where
  "memory_type_i32_load_store = do {
     let ram_bytes = replicate 4 0;
     let memory = \<lparr>code = [], ram = ram_bytes\<rparr>;
     let address = RAM_OFFSET;
     let value = (- 123456789 :: i32);
     let (stored, memory) = store_num (slice_memory_ops 64) memory address value;
     assert (\<not> is_err stored);
     let (result, memory) = load_num (slice_memory_ops 64) memory address;
     assert (\<not> is_err result);
     loaded_value \<leftarrow> unwrap result;
     assert (loaded_value = value)
   }"

definition memory_type_u32_load_store :: "unit option" where
  "memory_type_u32_load_store = do {
     let ram_bytes = replicate 4 0;
     let memory = \<lparr>code = [], ram = ram_bytes\<rparr>;
     let address = RAM_OFFSET;
     let value = (123456789 :: u32);
     let (stored, memory) = store_num (slice_memory_ops 64) memory address value;
     assert (\<not> is_err stored);
     let (result, memory) = load_num (slice_memory_ops 64) memory address;
     assert (\<not> is_err result);
     loaded_value \<leftarrow> unwrap result;
     assert (loaded_value = value)
   }"

definition memory_type_i64_load_store :: "unit option" where
  "memory_type_i64_load_store = do {
     let ram_bytes = replicate 8 0;
     let memory = \<lparr>code = [], ram = ram_bytes\<rparr>;
     let address = RAM_OFFSET;
     let value = (- 1234567890123456789 :: 64 word);
     let (stored, memory) = store_num (slice_memory_ops 64) memory address value;
     assert (\<not> is_err stored);
     let (result, memory) = load_num (slice_memory_ops 64) memory address;
     assert (\<not> is_err result);
     loaded_value \<leftarrow> unwrap result;
     assert (loaded_value = value)
   }"

definition memory_type_u64_load_store :: "unit option" where
  "memory_type_u64_load_store = do {
     let ram_bytes = replicate 8 0;
     let memory = \<lparr>code = [], ram = ram_bytes\<rparr>;
     let address = RAM_OFFSET;
     let value = (12345678901234567890 :: 64 word);
     let (stored, memory) = store_num (slice_memory_ops 64) memory address value;
     assert (\<not> is_err stored);
     let (result, memory) = load_num (slice_memory_ops 64) memory address;
     assert (\<not> is_err result);
     loaded_value \<leftarrow> unwrap result;
     assert (loaded_value = value)
   }"

definition memory_type_i128_load_store :: "unit option" where
  "memory_type_i128_load_store = do {
     let ram_bytes = replicate 16 0;
     let memory = \<lparr>code = [], ram = ram_bytes\<rparr>;
     let address = RAM_OFFSET;
     let value = (- 123456789012345678901234567890123456 :: 128 word);
     let (stored, memory) = store_num (slice_memory_ops 64) memory address value;
     assert (\<not> is_err stored);
     let (result, memory) = load_num (slice_memory_ops 64) memory address;
     assert (\<not> is_err result);
     loaded_value \<leftarrow> unwrap result;
     assert (loaded_value = value)
   }"

definition memory_type_u128_load_store :: "unit option" where
  "memory_type_u128_load_store = do {
     let ram_bytes = replicate 16 0;
     let memory = \<lparr>code = [], ram = ram_bytes\<rparr>;
     let address = RAM_OFFSET;
     let value = (123456789012345678901234567890123456 :: 128 word);
     let (stored, memory) = store_num (slice_memory_ops 64) memory address value;
     assert (\<not> is_err stored);
     let (result, memory) = load_num (slice_memory_ops 64) memory address;
     assert (\<not> is_err result);
     loaded_value \<leftarrow> unwrap result;
     assert (loaded_value = value)
   }"

definition memory_type_bool_load_store :: "unit option" where
  "memory_type_bool_load_store = do {
     let ram_bytes = replicate 1 0;
     let memory = \<lparr>code = [], ram = ram_bytes\<rparr>;
     let address = RAM_OFFSET;
     let value = True;
     let (stored, memory) = store_bool (slice_memory_ops 64) memory address value;
     assert (\<not> is_err stored);
     let (result, memory) = load_bool (slice_memory_ops 64) memory address;
     assert (\<not> is_err result);
     loaded_value \<leftarrow> unwrap result;
     assert (loaded_value = value)
   }"

definition memory_type_i32_store_fail :: "unit option" where
  "memory_type_i32_store_fail = do {
     let ram_bytes = replicate 1 0;
     let memory = \<lparr>code = [], ram = ram_bytes\<rparr>;
     let address = RAM_OFFSET;
     let value = (0x7FFFFFFF :: i32);
     let (stored, memory) = store_num (slice_memory_ops 64) memory address value;
     assert (is_err stored)
   }"

definition memory_type_i32_load_fail :: "unit option" where
  "memory_type_i32_load_fail = do {
     let ram_bytes = replicate 1 0;
     let memory = \<lparr>code = [], ram = ram_bytes\<rparr>;
     let address = RAM_OFFSET;
     let value = (0x7FFFFFFF :: i32);
     let (stored, memory) = store_num (slice_memory_ops 64) memory address value;
     assert (is_err stored)
   }"

section \<open>\<^verbatim>\<open>interpreter/registers/cpu.rs\<close>\<close>

definition cpu_get_cpu_register :: "unit option" where
  "cpu_get_cpu_register = do {
     let regs = cpu_default;
     assert (cpu_get regs 0 = Inr 0);
     assert (cpu_get regs (CPU_REGISTER_COUNT - 1) = Inr 0);
     (value, write) \<leftarrow> unwrap (cpu_get_mut regs 0);
     assert (value = 0);
     (value, write) \<leftarrow> unwrap (cpu_get_mut regs (CPU_REGISTER_COUNT - 1));
     assert (value = 0)
   }"

definition cpu_get_cpu_register_out_of_bounds :: "unit option" where
  "cpu_get_cpu_register_out_of_bounds = do {
     let regs = cpu_default;
     assert (invalid_register (cpu_get regs CPU_REGISTER_COUNT));
     assert (invalid_register (cpu_get_mut regs CPU_REGISTER_COUNT))
   }"

section \<open>\<^verbatim>\<open>interpreter/registers/control_status.rs\<close>\<close>

definition control_status_mstatus :: "unit option" where
  "control_status_mstatus = do {
     let cs = cs_default;
     let (result, cs) = cs_operation cs (Some (CsWrite 0x1898)) MSTATUS_ADDR;
     assert (result = Inr 0);
     let (result, cs) = cs_operation cs None MSTATUS_ADDR;
     assert (result = Inr (0x1898 AND ucast MSTATUS_MASK))
   }"

definition control_status_misa :: "unit option" where
  "control_status_misa = do {
     let cs = cs_default;
     let (result, cs) = cs_operation cs (Some (CsWrite 0x1898)) MISA_ADDR;
     assert (result = Inr get_misa);
     let (result, cs) = cs_operation cs None MISA_ADDR;
     assert (result = Inr get_misa)
   }"

definition control_status_mie :: "unit option" where
  "control_status_mie = do {
     let cs = cs_default;
     let (result, cs) = cs_operation cs (Some (CsWrite 0x1810)) MIE_ADDR;
     assert (result = Inr 0);
     let (result, cs) = cs_operation cs None MIE_ADDR;
     assert (result = Inr (0x1810 AND MI_E_P_MASK))
   }"

definition control_status_mtvec :: "unit option" where
  "control_status_mtvec = do {
     let cs = cs_default;
     let (result, cs) = cs_operation cs (Some (CsWrite 0x12FF)) MTVEC_ADDR;
     assert (result = Inr 0);
     let (result, cs) = cs_operation cs None MTVEC_ADDR;
     assert (result = Inr (0x12FF AND (NOT MTVEC_MODE)))
   }"

definition control_status_mscratch :: "unit option" where
  "control_status_mscratch = do {
     let cs = cs_default;
     let (result, cs) = cs_operation cs (Some (CsWrite 0xFFFF)) MSCRATCH_ADDR;
     assert (result = Inr 0);
     let (result, cs) = cs_operation cs None MSCRATCH_ADDR;
     assert (result = Inr 0xFFFF)
   }"

definition control_status_mepc :: "unit option" where
  "control_status_mepc = do {
     let cs = cs_default;
     let (result, cs) = cs_operation cs (Some (CsWrite 0x1231)) MEPC_ADDR;
     assert (result = Inr 0);
     let (result, cs) = cs_operation cs None MEPC_ADDR;
     assert (result = Inr (0x1231 AND (NOT MEPC_BIT0)))
   }"

definition control_status_mcause :: "unit option" where
  "control_status_mcause = do {
     let cs = cs_default;
     let (result, cs) = cs_operation cs (Some (CsWrite 0xFFFF)) MCAUSE_ADDR;
     assert (result = Inr 0);
     let (result, cs) = cs_operation cs None MCAUSE_ADDR;
     assert (result = Inr 0xFFFF)
   }"

definition control_status_mip :: "unit option" where
  "control_status_mip = do {
     let cs = cs_default;
     let (result, cs) = cs_operation cs None MIP_ADDR;
     assert (result = Inr 0);
     let cs = set_interrupt cs;
     let (result, cs) = cs_operation cs None MIP_ADDR;
     assert (result = Inr MI_E_P_MASK)
   }"

definition memory_tests :: "unit option list" where
  "memory_tests = [
    memory_load_ram, memory_mut_ram, memory_load_out_of_ram, memory_mut_out_of_ram,
    memory_store_ram, memory_store_out_of_ram, memory_load_code, memory_mut_code,
    memory_store_code, memory_load_out_of_code]"

definition memory_type_tests :: "unit option list" where
  "memory_type_tests = [
    memory_type_i8_load_store, memory_type_u8_load_store, memory_type_i16_load_store,
    memory_type_u16_load_store, memory_type_i32_load_store, memory_type_u32_load_store,
    memory_type_i64_load_store, memory_type_u64_load_store, memory_type_i128_load_store,
    memory_type_u128_load_store, memory_type_bool_load_store, memory_type_i32_store_fail,
    memory_type_i32_load_fail]"

definition cpu_tests :: "unit option list" where
  "cpu_tests = [
    cpu_get_cpu_register, cpu_get_cpu_register_out_of_bounds]"

definition control_status_tests :: "unit option list" where
  "control_status_tests = [
    control_status_mstatus, control_status_misa, control_status_mie, control_status_mtvec,
    control_status_mscratch, control_status_mepc, control_status_mcause, control_status_mip]"

lemma memory_tests_pass: "list_all passes memory_tests"
  by code_simp

lemma memory_type_tests_pass: "list_all passes memory_type_tests"
  by code_simp

lemma cpu_tests_pass: "list_all passes cpu_tests"
  by code_simp

lemma control_status_tests_pass: "list_all passes control_status_tests"
  by code_simp

section \<open>The floating point types\<close>

text \<open>
  A value of the types \<^verbatim>\<open>f32\<close> and \<^verbatim>\<open>f64\<close> is its bits, which is all that loads and stores see. Their
  arithmetic is not modelled: \<open>close a b\<close> stands for the test that the absolute value of \<open>a - b\<close> is less
  than the constant \<^verbatim>\<open>EPSILON\<close>, of which the tests need only that the two constants are close to themselves.
\<close>

definition f32_PI :: u32 where "f32_PI = 0x40490FDB"
definition f64_E :: u64 where "f64_E = 0x4005BF0A8B145769"

definition memory_type_f32_load_store :: "(u32 \<Rightarrow> u32 \<Rightarrow> bool) \<Rightarrow> unit option" where
  "memory_type_f32_load_store close = do {
     let ram_bytes = replicate 4 0;
     let memory = \<lparr>code = [], ram = ram_bytes\<rparr>;
     let address = RAM_OFFSET;
     let value = f32_PI;
     let (stored, memory) = store_num (slice_memory_ops 64) memory address value;
     assert (\<not> is_err stored);
     let (result, memory) = load_num (slice_memory_ops 64) memory address;
     assert (\<not> is_err result);
     loaded_value \<leftarrow> unwrap result;
     assert (close loaded_value value)
   }"

definition memory_type_f64_load_store :: "(u64 \<Rightarrow> u64 \<Rightarrow> bool) \<Rightarrow> unit option" where
  "memory_type_f64_load_store close = do {
     let ram_bytes = replicate 8 0;
     let memory = \<lparr>code = [], ram = ram_bytes\<rparr>;
     let address = RAM_OFFSET;
     let value = f64_E;
     let (stored, memory) = store_num (slice_memory_ops 64) memory address value;
     assert (\<not> is_err stored);
     let (result, memory) = load_num (slice_memory_ops 64) memory address;
     assert (\<not> is_err result);
     loaded_value \<leftarrow> unwrap result;
     assert (close loaded_value value)
   }"

lemma f32_stored:
  "store_num (slice_memory_ops 64) \<lparr>code = [], ram = replicate 4 0\<rparr> RAM_OFFSET f32_PI =
     (Inr (), \<lparr>code = [], ram = [0xDB, 0x0F, 0x49, 0x40]\<rparr>)"
  "load_num (slice_memory_ops 64) \<lparr>code = [], ram = [0xDB, 0x0F, 0x49, 0x40]\<rparr> RAM_OFFSET =
     (Inr f32_PI, \<lparr>code = [], ram = [0xDB, 0x0F, 0x49, 0x40]\<rparr>)"
  by code_simp+

lemma f64_stored:
  "store_num (slice_memory_ops 64) \<lparr>code = [], ram = replicate 8 0\<rparr> RAM_OFFSET f64_E =
     (Inr (), \<lparr>code = [], ram = [0x69, 0x57, 0x14, 0x8B, 0x0A, 0xBF, 0x05, 0x40]\<rparr>)"
  "load_num (slice_memory_ops 64)
       \<lparr>code = [], ram = [0x69, 0x57, 0x14, 0x8B, 0x0A, 0xBF, 0x05, 0x40]\<rparr> RAM_OFFSET =
     (Inr f64_E, \<lparr>code = [], ram = [0x69, 0x57, 0x14, 0x8B, 0x0A, 0xBF, 0x05, 0x40]\<rparr>)"
  by code_simp+

lemma float_tests_pass:
  assumes "close32 f32_PI f32_PI" "close64 f64_E f64_E"
  shows "passes (memory_type_f32_load_store close32) \<and> passes (memory_type_f64_load_store close64)"
  using assms
  by (simp add: memory_type_f32_load_store_def memory_type_f64_load_store_def f32_stored f64_stored
      Let_def assert_def passes_def)

end
