(* ===== verification/Execute_Tests.thy ===== *)
theory Execute_Tests
  imports Test_Support
begin

text \<open>
  The unit tests of the 32-bit instructions but \<open>OpAmo\<close> (\<^verbatim>\<open>interpreter/decode_execute/\<close>).
\<close>

unbundle bit_operations_syntax

section \<open>\<^verbatim>\<open>interpreter/decode_execute/auipc.rs\<close>\<close>

definition auipc_auipc :: "unit option" where
  "auipc_auipc = do {
     let memory = \<lparr>code = [], ram = []\<rparr>;
     let interpreter = interpreter_new memory 0;
     let interpreter = interpreter\<lparr>program_counter := 0x1\<rparr>;
     let inst = \<lparr>u_rd = 1, u_imm = 0x1000\<rparr>;
     let (result, interpreter) =
       execute_Auipc (TypeU_from_embive (TypeU_to_embive inst)) interpreter;
     assert (result = Inr Running);
     value \<leftarrow> peek_mut 1 interpreter;
     assert (value = 0x1001);
     assert (program_counter interpreter = 0x1 + (op_size (Auipc inst)))
   }"

definition auipc_auipc_negative :: "unit option" where
  "auipc_auipc_negative = do {
     let memory = \<lparr>code = [], ram = []\<rparr>;
     let interpreter = interpreter_new memory 0;
     let interpreter = interpreter\<lparr>program_counter := 0x1\<rparr>;
     let inst = \<lparr>u_rd = 1, u_imm = - 0x1000\<rparr>;
     let (result, interpreter) =
       execute_Auipc (TypeU_from_embive (TypeU_to_embive inst)) interpreter;
     assert (result = Inr Running);
     value \<leftarrow> peek_mut 1 interpreter;
     assert (value = - 0xfff);
     assert (program_counter interpreter = 0x1 + (op_size (Auipc inst)))
   }"

section \<open>\<^verbatim>\<open>interpreter/decode_execute/branch.rs\<close>\<close>

definition branch_beq_negative :: "unit option" where
  "branch_beq_negative = do {
     let memory = \<lparr>code = [], ram = []\<rparr>;
     let interpreter = interpreter_new memory 0;
     let interpreter = interpreter\<lparr>program_counter := 0x1\<rparr>;
     let inst = \<lparr>b_rs1 = 1, b_rs2 = 2, b_imm = - 0x100, b_func = Branch_BEQ_FUNC\<rparr>;
     interpreter \<leftarrow> poke 1 (- 0x1) interpreter;
     interpreter \<leftarrow> poke 2 (- 0x1) interpreter;
     let (result, interpreter) =
       execute_Branch (TypeB_from_embive (TypeB_to_embive inst)) interpreter;
     assert (result = Inr Running);
     assert (program_counter interpreter = 0x1 - 0x100)
   }"

definition branch_beq_equal :: "unit option" where
  "branch_beq_equal = do {
     let memory = \<lparr>code = [], ram = []\<rparr>;
     let interpreter = interpreter_new memory 0;
     let interpreter = interpreter\<lparr>program_counter := 0x1\<rparr>;
     let inst = \<lparr>b_rs1 = 1, b_rs2 = 2, b_imm = 0x100, b_func = Branch_BEQ_FUNC\<rparr>;
     interpreter \<leftarrow> poke 1 0x1 interpreter;
     interpreter \<leftarrow> poke 2 0x1 interpreter;
     let (result, interpreter) =
       execute_Branch (TypeB_from_embive (TypeB_to_embive inst)) interpreter;
     assert (result = Inr Running);
     assert (program_counter interpreter = 0x101)
   }"

definition branch_beq_not_equal :: "unit option" where
  "branch_beq_not_equal = do {
     let memory = \<lparr>code = [], ram = []\<rparr>;
     let interpreter = interpreter_new memory 0;
     let interpreter = interpreter\<lparr>program_counter := 0x1\<rparr>;
     let inst = \<lparr>b_rs1 = 1, b_rs2 = 2, b_imm = 0x100, b_func = Branch_BEQ_FUNC\<rparr>;
     interpreter \<leftarrow> poke 1 0x1 interpreter;
     interpreter \<leftarrow> poke 2 0x2 interpreter;
     let (result, interpreter) =
       execute_Branch (TypeB_from_embive (TypeB_to_embive inst)) interpreter;
     assert (result = Inr Running);
     assert (program_counter interpreter = 0x1 + (op_size (Branch inst)))
   }"

definition branch_bne_equal :: "unit option" where
  "branch_bne_equal = do {
     let memory = \<lparr>code = [], ram = []\<rparr>;
     let interpreter = interpreter_new memory 0;
     let interpreter = interpreter\<lparr>program_counter := 0x1\<rparr>;
     let inst = \<lparr>b_rs1 = 1, b_rs2 = 2, b_imm = 0x100, b_func = Branch_BNE_FUNC\<rparr>;
     interpreter \<leftarrow> poke 1 0x1 interpreter;
     interpreter \<leftarrow> poke 2 0x1 interpreter;
     let (result, interpreter) =
       execute_Branch (TypeB_from_embive (TypeB_to_embive inst)) interpreter;
     assert (result = Inr Running);
     assert (program_counter interpreter = 0x1 + (op_size (Branch inst)))
   }"

definition branch_bne_not_equal :: "unit option" where
  "branch_bne_not_equal = do {
     let memory = \<lparr>code = [], ram = []\<rparr>;
     let interpreter = interpreter_new memory 0;
     let interpreter = interpreter\<lparr>program_counter := 0x1\<rparr>;
     let inst = \<lparr>b_rs1 = 1, b_rs2 = 2, b_imm = 0x100, b_func = Branch_BNE_FUNC\<rparr>;
     interpreter \<leftarrow> poke 1 (- 0x2) interpreter;
     interpreter \<leftarrow> poke 2 (- 0x1) interpreter;
     let (result, interpreter) =
       execute_Branch (TypeB_from_embive (TypeB_to_embive inst)) interpreter;
     assert (result = Inr Running);
     assert (program_counter interpreter = 0x101)
   }"

definition branch_blt_less_than :: "unit option" where
  "branch_blt_less_than = do {
     let memory = \<lparr>code = [], ram = []\<rparr>;
     let interpreter = interpreter_new memory 0;
     let interpreter = interpreter\<lparr>program_counter := 0x1\<rparr>;
     let inst = \<lparr>b_rs1 = 1, b_rs2 = 2, b_imm = 0x100, b_func = Branch_BLT_FUNC\<rparr>;
     interpreter \<leftarrow> poke 1 0x1 interpreter;
     interpreter \<leftarrow> poke 2 0x2 interpreter;
     let (result, interpreter) =
       execute_Branch (TypeB_from_embive (TypeB_to_embive inst)) interpreter;
     assert (result = Inr Running);
     assert (program_counter interpreter = 0x101)
   }"

definition branch_blt_greater_than :: "unit option" where
  "branch_blt_greater_than = do {
     let memory = \<lparr>code = [], ram = []\<rparr>;
     let interpreter = interpreter_new memory 0;
     let interpreter = interpreter\<lparr>program_counter := 0x1\<rparr>;
     let inst = \<lparr>b_rs1 = 2, b_rs2 = 1, b_imm = 0x100, b_func = Branch_BLT_FUNC\<rparr>;
     interpreter \<leftarrow> poke 1 (- 0x2) interpreter;
     interpreter \<leftarrow> poke 2 (- 0x1) interpreter;
     let (result, interpreter) =
       execute_Branch (TypeB_from_embive (TypeB_to_embive inst)) interpreter;
     assert (result = Inr Running);
     assert (program_counter interpreter = 0x1 + (op_size (Branch inst)))
   }"

definition branch_bge_greater_than :: "unit option" where
  "branch_bge_greater_than = do {
     let memory = \<lparr>code = [], ram = []\<rparr>;
     let interpreter = interpreter_new memory 0;
     let interpreter = interpreter\<lparr>program_counter := 0x1\<rparr>;
     let inst = \<lparr>b_rs1 = 2, b_rs2 = 1, b_imm = 0x100, b_func = Branch_BGE_FUNC\<rparr>;
     interpreter \<leftarrow> poke 1 0x1 interpreter;
     interpreter \<leftarrow> poke 2 0x2 interpreter;
     let (result, interpreter) =
       execute_Branch (TypeB_from_embive (TypeB_to_embive inst)) interpreter;
     assert (result = Inr Running);
     assert (program_counter interpreter = 0x101)
   }"

definition branch_bge_equal :: "unit option" where
  "branch_bge_equal = do {
     let memory = \<lparr>code = [], ram = []\<rparr>;
     let interpreter = interpreter_new memory 0;
     let interpreter = interpreter\<lparr>program_counter := 0x1\<rparr>;
     let inst = \<lparr>b_rs1 = 1, b_rs2 = 2, b_imm = 0x100, b_func = Branch_BGE_FUNC\<rparr>;
     interpreter \<leftarrow> poke 1 0x1 interpreter;
     interpreter \<leftarrow> poke 2 0x1 interpreter;
     let (result, interpreter) =
       execute_Branch (TypeB_from_embive (TypeB_to_embive inst)) interpreter;
     assert (result = Inr Running);
     assert (program_counter interpreter = 0x101)
   }"

definition branch_bge_less_than :: "unit option" where
  "branch_bge_less_than = do {
     let memory = \<lparr>code = [], ram = []\<rparr>;
     let interpreter = interpreter_new memory 0;
     let interpreter = interpreter\<lparr>program_counter := 0x1\<rparr>;
     let inst = \<lparr>b_rs1 = 1, b_rs2 = 2, b_imm = 0x100, b_func = Branch_BGE_FUNC\<rparr>;
     interpreter \<leftarrow> poke 1 (- 0x2) interpreter;
     interpreter \<leftarrow> poke 2 (- 0x1) interpreter;
     let (result, interpreter) =
       execute_Branch (TypeB_from_embive (TypeB_to_embive inst)) interpreter;
     assert (result = Inr Running);
     assert (program_counter interpreter = 0x1 + (op_size (Branch inst)))
   }"

definition branch_bltu_less_than :: "unit option" where
  "branch_bltu_less_than = do {
     let memory = \<lparr>code = [], ram = []\<rparr>;
     let interpreter = interpreter_new memory 0;
     let interpreter = interpreter\<lparr>program_counter := 0x1\<rparr>;
     let inst = \<lparr>b_rs1 = 1, b_rs2 = 2, b_imm = 0x100, b_func = Branch_BLTU_FUNC\<rparr>;
     interpreter \<leftarrow> poke 1 0x1 interpreter;
     interpreter \<leftarrow> poke 2 0x2 interpreter;
     let (result, interpreter) =
       execute_Branch (TypeB_from_embive (TypeB_to_embive inst)) interpreter;
     assert (result = Inr Running);
     assert (program_counter interpreter = 0x101)
   }"

definition branch_bltu_greater_than :: "unit option" where
  "branch_bltu_greater_than = do {
     let memory = \<lparr>code = [], ram = []\<rparr>;
     let interpreter = interpreter_new memory 0;
     let interpreter = interpreter\<lparr>program_counter := 0x1\<rparr>;
     let inst = \<lparr>b_rs1 = 2, b_rs2 = 1, b_imm = 0x100, b_func = Branch_BLTU_FUNC\<rparr>;
     interpreter \<leftarrow> poke 1 (- 0x2) interpreter;
     interpreter \<leftarrow> poke 2 (- 0x1) interpreter;
     let (result, interpreter) =
       execute_Branch (TypeB_from_embive (TypeB_to_embive inst)) interpreter;
     assert (result = Inr Running);
     assert (program_counter interpreter = 0x1 + (op_size (Branch inst)))
   }"

definition branch_bgeu_greater_than :: "unit option" where
  "branch_bgeu_greater_than = do {
     let memory = \<lparr>code = [], ram = []\<rparr>;
     let interpreter = interpreter_new memory 0;
     let interpreter = interpreter\<lparr>program_counter := 0x1\<rparr>;
     let inst = \<lparr>b_rs1 = 2, b_rs2 = 1, b_imm = 0x100, b_func = Branch_BGEU_FUNC\<rparr>;
     interpreter \<leftarrow> poke 1 0x1 interpreter;
     interpreter \<leftarrow> poke 2 (- 0x1) interpreter;
     let (result, interpreter) =
       execute_Branch (TypeB_from_embive (TypeB_to_embive inst)) interpreter;
     assert (result = Inr Running);
     assert (program_counter interpreter = 0x101)
   }"

definition branch_bgeu_equal :: "unit option" where
  "branch_bgeu_equal = do {
     let memory = \<lparr>code = [], ram = []\<rparr>;
     let interpreter = interpreter_new memory 0;
     let interpreter = interpreter\<lparr>program_counter := 0x1\<rparr>;
     let inst = \<lparr>b_rs1 = 1, b_rs2 = 2, b_imm = 0x100, b_func = Branch_BGEU_FUNC\<rparr>;
     interpreter \<leftarrow> poke 1 0x1 interpreter;
     interpreter \<leftarrow> poke 2 0x1 interpreter;
     let (result, interpreter) =
       execute_Branch (TypeB_from_embive (TypeB_to_embive inst)) interpreter;
     assert (result = Inr Running);
     assert (program_counter interpreter = 0x101)
   }"

definition branch_bgeu_less_than :: "unit option" where
  "branch_bgeu_less_than = do {
     let memory = \<lparr>code = [], ram = []\<rparr>;
     let interpreter = interpreter_new memory 0;
     let interpreter = interpreter\<lparr>program_counter := 0x1\<rparr>;
     let inst = \<lparr>b_rs1 = 1, b_rs2 = 2, b_imm = 0x100, b_func = Branch_BGEU_FUNC\<rparr>;
     interpreter \<leftarrow> poke 1 0x1 interpreter;
     interpreter \<leftarrow> poke 2 (- 0x1) interpreter;
     let (result, interpreter) =
       execute_Branch (TypeB_from_embive (TypeB_to_embive inst)) interpreter;
     assert (result = Inr Running);
     assert (program_counter interpreter = 0x1 + (op_size (Branch inst)))
   }"

section \<open>\<^verbatim>\<open>interpreter/decode_execute/jal.rs\<close>\<close>

definition jal_jal :: "unit option" where
  "jal_jal = do {
     let memory = \<lparr>code = [], ram = []\<rparr>;
     let interpreter = interpreter_new memory 0;
     let interpreter = interpreter\<lparr>program_counter := 0x1\<rparr>;
     let inst = \<lparr>j_rd = 1, j_imm = 0x1000\<rparr>;
     let (result, interpreter) =
       execute_Jal (TypeJ_from_embive (TypeJ_to_embive inst)) interpreter;
     assert (result = Inr Running);
     value \<leftarrow> peek_mut 1 interpreter;
     assert (value = 0x5);
     assert (program_counter interpreter = 0x1 + 0x1000)
   }"

section \<open>\<^verbatim>\<open>interpreter/decode_execute/jalr.rs\<close>\<close>

definition jalr_jlr_negative :: "unit option" where
  "jalr_jlr_negative = do {
     let memory = \<lparr>code = [], ram = []\<rparr>;
     let interpreter = interpreter_new memory 0;
     let interpreter = interpreter\<lparr>program_counter := 0x1\<rparr>;
     let inst = \<lparr>i_rd_rs2 = 1, i_rs1 = 2, i_imm = - 0x100, i_func = 0x0\<rparr>;
     interpreter \<leftarrow> poke 2 (- 0x200) interpreter;
     let (result, interpreter) =
       execute_Jalr (TypeI_from_embive (TypeI_to_embive inst)) interpreter;
     assert (result = Inr Running);
     value \<leftarrow> peek_mut 1 interpreter;
     assert (value = 0x5);
     assert (program_counter interpreter = ((- 0x200) + (- 0x100) :: u32))
   }"

definition jalr_jlr :: "unit option" where
  "jalr_jlr = do {
     let memory = \<lparr>code = [], ram = []\<rparr>;
     let interpreter = interpreter_new memory 0;
     let interpreter = interpreter\<lparr>program_counter := 0x1\<rparr>;
     let inst = \<lparr>i_rd_rs2 = 1, i_rs1 = 2, i_imm = 0x100, i_func = 0x0\<rparr>;
     interpreter \<leftarrow> poke 2 0x200 interpreter;
     let (result, interpreter) =
       execute_Jalr (TypeI_from_embive (TypeI_to_embive inst)) interpreter;
     assert (result = Inr Running);
     value \<leftarrow> peek_mut 1 interpreter;
     assert (value = 0x5);
     assert (program_counter interpreter = 0x300)
   }"

definition jalr_jlr_same_reg :: "unit option" where
  "jalr_jlr_same_reg = do {
     let memory = \<lparr>code = [], ram = []\<rparr>;
     let interpreter = interpreter_new memory 0;
     let interpreter = interpreter\<lparr>program_counter := 0x1\<rparr>;
     let inst = \<lparr>i_rd_rs2 = 1, i_rs1 = 1, i_imm = 0x100, i_func = 0x0\<rparr>;
     interpreter \<leftarrow> poke 1 0x200 interpreter;
     let (result, interpreter) =
       execute_Jalr (TypeI_from_embive (TypeI_to_embive inst)) interpreter;
     assert (result = Inr Running);
     value \<leftarrow> peek_mut 1 interpreter;
     assert (value = 0x5);
     assert (program_counter interpreter = 0x300)
   }"

section \<open>\<^verbatim>\<open>interpreter/decode_execute/load_store.rs\<close>\<close>

definition load_store_lb :: "unit option" where
  "load_store_lb = do {
     let ram_bytes = replicate 2 0x0;
     let ram_bytes = ram_bytes[1 := 0x12];
     let memory = \<lparr>code = [], ram = ram_bytes\<rparr>;
     let interpreter = interpreter_new memory 0;
     let inst = \<lparr>i_rd_rs2 = 1, i_rs1 = 2, i_imm = 0x1, i_func = LoadStore_LB_FUNC\<rparr>;
     interpreter \<leftarrow> poke 2 RAM_OFFSET interpreter;
     let (result, interpreter) =
       execute_LoadStore (slice_memory_ops 64) (TypeI_from_embive (TypeI_to_embive inst)) interpreter;
     assert (result = Inr Running);
     value \<leftarrow> peek_mut 1 interpreter;
     assert (value = 0x12);
     assert (program_counter interpreter = op_size (LoadStore inst))
   }"

definition load_store_lb_negative :: "unit option" where
  "load_store_lb_negative = do {
     let ram_bytes = replicate 2 0x0;
     let ram_bytes = ram_bytes[1 := ((- 0x12) :: u8)];
     let memory = \<lparr>code = [], ram = ram_bytes\<rparr>;
     let interpreter = interpreter_new memory 0;
     let inst = \<lparr>i_rd_rs2 = 1, i_rs1 = 2, i_imm = 0x1, i_func = LoadStore_LB_FUNC\<rparr>;
     interpreter \<leftarrow> poke 2 RAM_OFFSET interpreter;
     let (result, interpreter) =
       execute_LoadStore (slice_memory_ops 64) (TypeI_from_embive (TypeI_to_embive inst)) interpreter;
     assert (result = Inr Running);
     value \<leftarrow> peek_mut 1 interpreter;
     assert (value = - 0x12);
     assert (program_counter interpreter = op_size (LoadStore inst))
   }"

definition load_store_lh :: "unit option" where
  "load_store_lh = do {
     let ram_bytes = replicate 3 0x0;
     let ram_bytes = ram_bytes[1 := 0x12];
     let ram_bytes = ram_bytes[2 := 0x34];
     let memory = \<lparr>code = [], ram = ram_bytes\<rparr>;
     let interpreter = interpreter_new memory 0;
     let inst = \<lparr>i_rd_rs2 = 1, i_rs1 = 2, i_imm = 0x1, i_func = LoadStore_LH_FUNC\<rparr>;
     interpreter \<leftarrow> poke 2 RAM_OFFSET interpreter;
     let (result, interpreter) =
       execute_LoadStore (slice_memory_ops 64) (TypeI_from_embive (TypeI_to_embive inst)) interpreter;
     assert (result = Inr Running);
     value \<leftarrow> peek_mut 1 interpreter;
     assert (value = 0x3412);
     assert (program_counter interpreter = op_size (LoadStore inst))
   }"

definition load_store_lh_negative :: "unit option" where
  "load_store_lh_negative = do {
     let ram_bytes = to_le_bytes (- 28098 :: 16 word);
     let memory = \<lparr>code = [], ram = ram_bytes\<rparr>;
     let interpreter = interpreter_new memory 0;
     let inst = \<lparr>i_rd_rs2 = 1, i_rs1 = 2, i_imm = 0x0, i_func = LoadStore_LH_FUNC\<rparr>;
     interpreter \<leftarrow> poke 2 RAM_OFFSET interpreter;
     let (result, interpreter) =
       execute_LoadStore (slice_memory_ops 64) (TypeI_from_embive (TypeI_to_embive inst)) interpreter;
     assert (result = Inr Running);
     value \<leftarrow> peek_mut 1 interpreter;
     assert (value = - 28098);
     assert (program_counter interpreter = op_size (LoadStore inst))
   }"

definition load_store_lw :: "unit option" where
  "load_store_lw = do {
     let ram_bytes = replicate 5 0x0;
     let ram_bytes = ram_bytes[1 := 0x12];
     let ram_bytes = ram_bytes[2 := 0x34];
     let ram_bytes = ram_bytes[3 := 0x56];
     let ram_bytes = ram_bytes[4 := 0x78];
     let memory = \<lparr>code = [], ram = ram_bytes\<rparr>;
     let interpreter = interpreter_new memory 0;
     let inst = \<lparr>i_rd_rs2 = 1, i_rs1 = 2, i_imm = 0x1, i_func = LoadStore_LW_FUNC\<rparr>;
     interpreter \<leftarrow> poke 2 RAM_OFFSET interpreter;
     let (result, interpreter) =
       execute_LoadStore (slice_memory_ops 64) (TypeI_from_embive (TypeI_to_embive inst)) interpreter;
     assert (result = Inr Running);
     value \<leftarrow> peek_mut 1 interpreter;
     assert (value = 0x78563412);
     assert (program_counter interpreter = op_size (LoadStore inst))
   }"

definition load_store_lw_negative :: "unit option" where
  "load_store_lw_negative = do {
     let ram_bytes = to_le_bytes (- 19088744 :: i32);
     let memory = \<lparr>code = [], ram = ram_bytes\<rparr>;
     let interpreter = interpreter_new memory 0;
     let inst = \<lparr>i_rd_rs2 = 1, i_rs1 = 2, i_imm = 0x0, i_func = LoadStore_LW_FUNC\<rparr>;
     interpreter \<leftarrow> poke 2 RAM_OFFSET interpreter;
     let (result, interpreter) =
       execute_LoadStore (slice_memory_ops 64) (TypeI_from_embive (TypeI_to_embive inst)) interpreter;
     assert (result = Inr Running);
     value \<leftarrow> peek_mut 1 interpreter;
     assert (value = - 19088744);
     assert (program_counter interpreter = op_size (LoadStore inst))
   }"

definition load_store_lbu :: "unit option" where
  "load_store_lbu = do {
     let ram_bytes = replicate 2 0x0;
     let ram_bytes = ram_bytes[1 := 0x12];
     let memory = \<lparr>code = [], ram = ram_bytes\<rparr>;
     let interpreter = interpreter_new memory 0;
     let inst = \<lparr>i_rd_rs2 = 1, i_rs1 = 2, i_imm = 0x1, i_func = LoadStore_LBU_FUNC\<rparr>;
     interpreter \<leftarrow> poke 2 RAM_OFFSET interpreter;
     let (result, interpreter) =
       execute_LoadStore (slice_memory_ops 64) (TypeI_from_embive (TypeI_to_embive inst)) interpreter;
     assert (result = Inr Running);
     value \<leftarrow> peek_mut 1 interpreter;
     assert (value = 0x12);
     assert (program_counter interpreter = op_size (LoadStore inst))
   }"

definition load_store_lbu_negative :: "unit option" where
  "load_store_lbu_negative = do {
     let ram_bytes = replicate 2 0x0;
     let ram_bytes = ram_bytes[1 := ((- 0x12) :: u8)];
     let memory = \<lparr>code = [], ram = ram_bytes\<rparr>;
     let interpreter = interpreter_new memory 0;
     let inst = \<lparr>i_rd_rs2 = 1, i_rs1 = 2, i_imm = 0x1, i_func = LoadStore_LBU_FUNC\<rparr>;
     interpreter \<leftarrow> poke 2 RAM_OFFSET interpreter;
     let (result, interpreter) =
       execute_LoadStore (slice_memory_ops 64) (TypeI_from_embive (TypeI_to_embive inst)) interpreter;
     assert (result = Inr Running);
     value \<leftarrow> peek_mut 1 interpreter;
     assert (value = (ucast ((- 0x12) :: u8) :: i32));
     assert (program_counter interpreter = op_size (LoadStore inst))
   }"

definition load_store_lhu :: "unit option" where
  "load_store_lhu = do {
     let ram_bytes = replicate 3 0x0;
     let ram_bytes = ram_bytes[1 := 0x12];
     let ram_bytes = ram_bytes[2 := 0x34];
     let memory = \<lparr>code = [], ram = ram_bytes\<rparr>;
     let interpreter = interpreter_new memory 0;
     let inst = \<lparr>i_rd_rs2 = 1, i_rs1 = 2, i_imm = 0x1, i_func = LoadStore_LHU_FUNC\<rparr>;
     interpreter \<leftarrow> poke 2 RAM_OFFSET interpreter;
     let (result, interpreter) =
       execute_LoadStore (slice_memory_ops 64) (TypeI_from_embive (TypeI_to_embive inst)) interpreter;
     assert (result = Inr Running);
     value \<leftarrow> peek_mut 1 interpreter;
     assert (value = 0x3412);
     assert (program_counter interpreter = op_size (LoadStore inst))
   }"

definition load_store_lhu_negative :: "unit option" where
  "load_store_lhu_negative = do {
     let ram_bytes = to_le_bytes (- 28098 :: 16 word);
     let memory = \<lparr>code = [], ram = ram_bytes\<rparr>;
     let interpreter = interpreter_new memory 0;
     let inst = \<lparr>i_rd_rs2 = 1, i_rs1 = 2, i_imm = 0x0, i_func = LoadStore_LHU_FUNC\<rparr>;
     interpreter \<leftarrow> poke 2 RAM_OFFSET interpreter;
     let (result, interpreter) =
       execute_LoadStore (slice_memory_ops 64) (TypeI_from_embive (TypeI_to_embive inst)) interpreter;
     assert (result = Inr Running);
     value \<leftarrow> peek_mut 1 interpreter;
     assert (value = (ucast ((- 28098) :: u16) :: i32));
     assert (program_counter interpreter = op_size (LoadStore inst))
   }"

definition load_store_sb :: "unit option" where
  "load_store_sb = do {
     let ram_bytes = replicate 2 0;
     let memory = \<lparr>code = [], ram = ram_bytes\<rparr>;
     let interpreter = interpreter_new memory 0;
     let inst = \<lparr>i_rd_rs2 = 2, i_rs1 = 1, i_imm = 0x1, i_func = LoadStore_SB_FUNC\<rparr>;
     interpreter \<leftarrow> poke 1 RAM_OFFSET interpreter;
     interpreter \<leftarrow> poke 2 0x2 interpreter;
     let (result, interpreter) =
       execute_LoadStore (slice_memory_ops 64) (TypeI_from_embive (TypeI_to_embive inst)) interpreter;
     assert (result = Inr Running);
     assert (program_counter interpreter = op_size (LoadStore inst));
     assert (ram (Interpreter.memory interpreter) ! 1 = 0x2)
   }"

definition load_store_sh :: "unit option" where
  "load_store_sh = do {
     let ram_bytes = replicate 4 0;
     let memory = \<lparr>code = [], ram = ram_bytes\<rparr>;
     let interpreter = interpreter_new memory 0;
     let inst = \<lparr>i_rd_rs2 = 2, i_rs1 = 1, i_imm = 0x2, i_func = LoadStore_SH_FUNC\<rparr>;
     interpreter \<leftarrow> poke 1 RAM_OFFSET interpreter;
     interpreter \<leftarrow> poke 2 0x1234 interpreter;
     let (result, interpreter) =
       execute_LoadStore (slice_memory_ops 64) (TypeI_from_embive (TypeI_to_embive inst)) interpreter;
     assert (result = Inr Running);
     assert (program_counter interpreter = op_size (LoadStore inst));
     assert (slice_get (ram (Interpreter.memory interpreter)) 2 4 = [0x34, 0x12])
   }"

definition load_store_sw :: "unit option" where
  "load_store_sw = do {
     let ram_bytes = replicate 4 0;
     let memory = \<lparr>code = [], ram = ram_bytes\<rparr>;
     let interpreter = interpreter_new memory 0;
     let inst = \<lparr>i_rd_rs2 = 2, i_rs1 = 1, i_imm = 0x0, i_func = LoadStore_SW_FUNC\<rparr>;
     interpreter \<leftarrow> poke 1 RAM_OFFSET interpreter;
     interpreter \<leftarrow> poke 2 0x12345678 interpreter;
     let (result, interpreter) =
       execute_LoadStore (slice_memory_ops 64) (TypeI_from_embive (TypeI_to_embive inst)) interpreter;
     assert (result = Inr Running);
     assert (program_counter interpreter = op_size (LoadStore inst));
     assert (slice_get (ram (Interpreter.memory interpreter)) 0 4 = [0x78, 0x56, 0x34, 0x12])
   }"

section \<open>\<^verbatim>\<open>interpreter/decode_execute/lui.rs\<close>\<close>

definition lui_lui :: "unit option" where
  "lui_lui = do {
     let memory = \<lparr>code = [], ram = []\<rparr>;
     let interpreter = interpreter_new memory 0;
     let interpreter = interpreter\<lparr>program_counter := 0x1\<rparr>;
     let inst = \<lparr>u_rd = 1, u_imm = 0x1000\<rparr>;
     let (result, interpreter) =
       execute_Lui (TypeU_from_embive (TypeU_to_embive inst)) interpreter;
     assert (result = Inr Running);
     value \<leftarrow> peek_mut 1 interpreter;
     assert (value = 0x1000);
     assert (program_counter interpreter = 0x1 + (op_size (Lui inst)))
   }"

section \<open>\<^verbatim>\<open>interpreter/decode_execute/op_imm.rs\<close>\<close>

definition op_imm_addi :: "unit option" where
  "op_imm_addi = do {
     let memory = \<lparr>code = [], ram = []\<rparr>;
     let interpreter = interpreter_new memory 0;
     let inst = \<lparr>i_rd_rs2 = 1, i_rs1 = 2, i_imm = 0x100, i_func = OpImm_ADDI_FUNC\<rparr>;
     interpreter \<leftarrow> poke 2 1 interpreter;
     let (result, interpreter) =
       execute_OpImm (TypeI_from_embive (TypeI_to_embive inst)) interpreter;
     assert (result = Inr Running);
     value \<leftarrow> peek_mut 1 interpreter;
     assert (value = 0x101);
     assert (program_counter interpreter = op_size (OpImm inst))
   }"

definition op_imm_addi_negative :: "unit option" where
  "op_imm_addi_negative = do {
     let memory = \<lparr>code = [], ram = []\<rparr>;
     let interpreter = interpreter_new memory 0;
     let inst = \<lparr>i_rd_rs2 = 1, i_rs1 = 2, i_imm = - 100, i_func = OpImm_ADDI_FUNC\<rparr>;
     interpreter \<leftarrow> poke 2 1 interpreter;
     let (result, interpreter) =
       execute_OpImm (TypeI_from_embive (TypeI_to_embive inst)) interpreter;
     assert (result = Inr Running);
     value \<leftarrow> peek_mut 1 interpreter;
     assert (value = - 99);
     assert (program_counter interpreter = op_size (OpImm inst))
   }"

definition op_imm_xori :: "unit option" where
  "op_imm_xori = do {
     let memory = \<lparr>code = [], ram = []\<rparr>;
     let interpreter = interpreter_new memory 0;
     let inst = \<lparr>i_rd_rs2 = 1, i_rs1 = 2, i_imm = 0x100, i_func = OpImm_XORI_FUNC\<rparr>;
     interpreter \<leftarrow> poke 2 0x123 interpreter;
     let (result, interpreter) =
       execute_OpImm (TypeI_from_embive (TypeI_to_embive inst)) interpreter;
     assert (result = Inr Running);
     value \<leftarrow> peek_mut 1 interpreter;
     assert (value = 0x023);
     assert (program_counter interpreter = op_size (OpImm inst))
   }"

definition op_imm_xori_not :: "unit option" where
  "op_imm_xori_not = do {
     let memory = \<lparr>code = [], ram = []\<rparr>;
     let interpreter = interpreter_new memory 0;
     let inst = \<lparr>i_rd_rs2 = 1, i_rs1 = 2, i_imm = - 1, i_func = OpImm_XORI_FUNC\<rparr>;
     interpreter \<leftarrow> poke 2 0x1234 interpreter;
     let (result, interpreter) =
       execute_OpImm (TypeI_from_embive (TypeI_to_embive inst)) interpreter;
     assert (result = Inr Running);
     value \<leftarrow> peek_mut 1 interpreter;
     assert (value = NOT 0x1234);
     assert (program_counter interpreter = op_size (OpImm inst))
   }"

definition op_imm_ori :: "unit option" where
  "op_imm_ori = do {
     let memory = \<lparr>code = [], ram = []\<rparr>;
     let interpreter = interpreter_new memory 0;
     let inst = \<lparr>i_rd_rs2 = 1, i_rs1 = 2, i_imm = 0x100, i_func = OpImm_ORI_FUNC\<rparr>;
     interpreter \<leftarrow> poke 2 0x1234 interpreter;
     let (result, interpreter) =
       execute_OpImm (TypeI_from_embive (TypeI_to_embive inst)) interpreter;
     assert (result = Inr Running);
     value \<leftarrow> peek_mut 1 interpreter;
     assert (value = 0x1234 OR 0x100);
     assert (program_counter interpreter = op_size (OpImm inst))
   }"

definition op_imm_ori_negative :: "unit option" where
  "op_imm_ori_negative = do {
     let memory = \<lparr>code = [], ram = []\<rparr>;
     let interpreter = interpreter_new memory 0;
     let inst = \<lparr>i_rd_rs2 = 1, i_rs1 = 2, i_imm = - 0x100, i_func = OpImm_ORI_FUNC\<rparr>;
     interpreter \<leftarrow> poke 2 0x1234 interpreter;
     let (result, interpreter) =
       execute_OpImm (TypeI_from_embive (TypeI_to_embive inst)) interpreter;
     assert (result = Inr Running);
     value \<leftarrow> peek_mut 1 interpreter;
     assert (value = 0x1234 OR (- 0x100));
     assert (program_counter interpreter = op_size (OpImm inst))
   }"

definition op_imm_andi :: "unit option" where
  "op_imm_andi = do {
     let memory = \<lparr>code = [], ram = []\<rparr>;
     let interpreter = interpreter_new memory 0;
     let inst = \<lparr>i_rd_rs2 = 1, i_rs1 = 2, i_imm = 0x100, i_func = OpImm_ANDI_FUNC\<rparr>;
     interpreter \<leftarrow> poke 2 0x1234 interpreter;
     let (result, interpreter) =
       execute_OpImm (TypeI_from_embive (TypeI_to_embive inst)) interpreter;
     assert (result = Inr Running);
     value \<leftarrow> peek_mut 1 interpreter;
     assert (value = 0x1234 AND 0x100);
     assert (program_counter interpreter = op_size (OpImm inst))
   }"

definition op_imm_slli :: "unit option" where
  "op_imm_slli = do {
     let memory = \<lparr>code = [], ram = []\<rparr>;
     let interpreter = interpreter_new memory 0;
     let inst = \<lparr>i_rd_rs2 = 1, i_rs1 = 2, i_imm = 0b101, i_func = OpImm_SLLI_FUNC\<rparr>;
     interpreter \<leftarrow> poke 2 0x1234 interpreter;
     let (result, interpreter) =
       execute_OpImm (TypeI_from_embive (TypeI_to_embive inst)) interpreter;
     assert (result = Inr Running);
     value \<leftarrow> peek_mut 1 interpreter;
     assert (value = push_bit 0b101 0x1234);
     assert (program_counter interpreter = op_size (OpImm inst))
   }"

definition op_imm_srli :: "unit option" where
  "op_imm_srli = do {
     let memory = \<lparr>code = [], ram = []\<rparr>;
     let interpreter = interpreter_new memory 0;
     let inst = \<lparr>i_rd_rs2 = 1, i_rs1 = 2,
       i_imm = 0b101, i_func = OpImm_SRLI_SRAI_FUNC\<rparr>;
     interpreter \<leftarrow> poke 2 (- 0x1234) interpreter;
     let (result, interpreter) =
       execute_OpImm (TypeI_from_embive (TypeI_to_embive inst)) interpreter;
     assert (result = Inr Running);
     value \<leftarrow> peek_mut 1 interpreter;
     assert (value = (drop_bit 0b101 ((- 0x1234) :: u32) :: i32));
     assert (program_counter interpreter = op_size (OpImm inst))
   }"

definition op_imm_srai :: "unit option" where
  "op_imm_srai = do {
     let memory = \<lparr>code = [], ram = []\<rparr>;
     let interpreter = interpreter_new memory 0;
     let inst = \<lparr>i_rd_rs2 = 1, i_rs1 = 2,
       i_imm = 0b101 OR (push_bit 10 0b1), i_func = OpImm_SRLI_SRAI_FUNC\<rparr>;
     interpreter \<leftarrow> poke 2 (- 0x1234) interpreter;
     let (result, interpreter) =
       execute_OpImm (TypeI_from_embive (TypeI_to_embive inst)) interpreter;
     assert (result = Inr Running);
     value \<leftarrow> peek_mut 1 interpreter;
     assert (value = signed_drop_bit 0b101 (- 0x1234));
     assert (program_counter interpreter = op_size (OpImm inst))
   }"

definition op_imm_slti_lower :: "unit option" where
  "op_imm_slti_lower = do {
     let memory = \<lparr>code = [], ram = []\<rparr>;
     let interpreter = interpreter_new memory 0;
     let inst = \<lparr>i_rd_rs2 = 1, i_rs1 = 2, i_imm = 0x123, i_func = OpImm_SLTI_FUNC\<rparr>;
     interpreter \<leftarrow> poke 2 0x100 interpreter;
     let (result, interpreter) =
       execute_OpImm (TypeI_from_embive (TypeI_to_embive inst)) interpreter;
     assert (result = Inr Running);
     value \<leftarrow> peek_mut 1 interpreter;
     assert (value = 1);
     assert (program_counter interpreter = op_size (OpImm inst))
   }"

definition op_imm_slti_greater :: "unit option" where
  "op_imm_slti_greater = do {
     let memory = \<lparr>code = [], ram = []\<rparr>;
     let interpreter = interpreter_new memory 0;
     let inst = \<lparr>i_rd_rs2 = 1, i_rs1 = 2, i_imm = 0x1000, i_func = OpImm_SLTI_FUNC\<rparr>;
     interpreter \<leftarrow> poke 2 0x1234 interpreter;
     let (result, interpreter) =
       execute_OpImm (TypeI_from_embive (TypeI_to_embive inst)) interpreter;
     assert (result = Inr Running);
     value \<leftarrow> peek_mut 1 interpreter;
     assert (value = 0);
     assert (program_counter interpreter = op_size (OpImm inst))
   }"

definition op_imm_slti_equal :: "unit option" where
  "op_imm_slti_equal = do {
     let memory = \<lparr>code = [], ram = []\<rparr>;
     let interpreter = interpreter_new memory 0;
     let inst = \<lparr>i_rd_rs2 = 1, i_rs1 = 2, i_imm = 0x1000, i_func = OpImm_SLTI_FUNC\<rparr>;
     interpreter \<leftarrow> poke 2 0x1000 interpreter;
     let (result, interpreter) =
       execute_OpImm (TypeI_from_embive (TypeI_to_embive inst)) interpreter;
     assert (result = Inr Running);
     value \<leftarrow> peek_mut 1 interpreter;
     assert (value = 0);
     assert (program_counter interpreter = op_size (OpImm inst))
   }"

definition op_imm_slti_negative :: "unit option" where
  "op_imm_slti_negative = do {
     let memory = \<lparr>code = [], ram = []\<rparr>;
     let interpreter = interpreter_new memory 0;
     let inst = \<lparr>i_rd_rs2 = 1, i_rs1 = 2,
       i_imm = - 0x1000, i_func = OpImm_SLTI_FUNC\<rparr>;
     interpreter \<leftarrow> poke 2 (- 0x1234) interpreter;
     let (result, interpreter) =
       execute_OpImm (TypeI_from_embive (TypeI_to_embive inst)) interpreter;
     assert (result = Inr Running);
     value \<leftarrow> peek_mut 1 interpreter;
     assert (value = 1);
     assert (program_counter interpreter = op_size (OpImm inst))
   }"

definition op_imm_sltiu_lower :: "unit option" where
  "op_imm_sltiu_lower = do {
     let memory = \<lparr>code = [], ram = []\<rparr>;
     let interpreter = interpreter_new memory 0;
     let inst = \<lparr>i_rd_rs2 = 1, i_rs1 = 2, i_imm = 0x123, i_func = OpImm_SLTIU_FUNC\<rparr>;
     interpreter \<leftarrow> poke 2 0x100 interpreter;
     let (result, interpreter) =
       execute_OpImm (TypeI_from_embive (TypeI_to_embive inst)) interpreter;
     assert (result = Inr Running);
     value \<leftarrow> peek_mut 1 interpreter;
     assert (value = 1);
     assert (program_counter interpreter = op_size (OpImm inst))
   }"

definition op_imm_sltiu_greater :: "unit option" where
  "op_imm_sltiu_greater = do {
     let memory = \<lparr>code = [], ram = []\<rparr>;
     let interpreter = interpreter_new memory 0;
     let inst = \<lparr>i_rd_rs2 = 1, i_rs1 = 2, i_imm = 0x1000, i_func = OpImm_SLTIU_FUNC\<rparr>;
     interpreter \<leftarrow> poke 2 0x1234 interpreter;
     let (result, interpreter) =
       execute_OpImm (TypeI_from_embive (TypeI_to_embive inst)) interpreter;
     assert (result = Inr Running);
     value \<leftarrow> peek_mut 1 interpreter;
     assert (value = 0);
     assert (program_counter interpreter = op_size (OpImm inst))
   }"

definition op_imm_sltiu_equal :: "unit option" where
  "op_imm_sltiu_equal = do {
     let memory = \<lparr>code = [], ram = []\<rparr>;
     let interpreter = interpreter_new memory 0;
     let inst = \<lparr>i_rd_rs2 = 1, i_rs1 = 2, i_imm = 0x1000, i_func = OpImm_SLTIU_FUNC\<rparr>;
     interpreter \<leftarrow> poke 2 0x1000 interpreter;
     let (result, interpreter) =
       execute_OpImm (TypeI_from_embive (TypeI_to_embive inst)) interpreter;
     assert (result = Inr Running);
     value \<leftarrow> peek_mut 1 interpreter;
     assert (value = 0);
     assert (program_counter interpreter = op_size (OpImm inst))
   }"

definition op_imm_sltiu_negative :: "unit option" where
  "op_imm_sltiu_negative = do {
     let memory = \<lparr>code = [], ram = []\<rparr>;
     let interpreter = interpreter_new memory 0;
     let inst = \<lparr>i_rd_rs2 = 1, i_rs1 = 2,
       i_imm = - 0x100, i_func = OpImm_SLTIU_FUNC\<rparr>;
     interpreter \<leftarrow> poke 2 (- 0x1234) interpreter;
     let (result, interpreter) =
       execute_OpImm (TypeI_from_embive (TypeI_to_embive inst)) interpreter;
     assert (result = Inr Running);
     value \<leftarrow> peek_mut 1 interpreter;
     assert (value = 1);
     assert (program_counter interpreter = op_size (OpImm inst))
   }"

section \<open>\<^verbatim>\<open>interpreter/decode_execute/system_misc_mem.rs\<close>\<close>

definition system_misc_mem_ebreak :: "unit option" where
  "system_misc_mem_ebreak = do {
     let memory = \<lparr>code = [], ram = []\<rparr>;
     let interpreter = interpreter_new memory 0;
     let inst = \<lparr>i_rd_rs2 = 0, i_rs1 = 0, i_imm = 0x1, i_func = 0\<rparr>;
     let (result, interpreter) =
       execute_SystemMiscMem (TypeI_from_embive (TypeI_to_embive inst)) interpreter;
     assert (result = Inr Halted);
     assert (program_counter interpreter = op_size (SystemMiscMem inst))
   }"

definition system_misc_mem_ecall :: "unit option" where
  "system_misc_mem_ecall = do {
     let ram_bytes = replicate 4 0;
     let memory = \<lparr>code = [], ram = ram_bytes\<rparr>;
     let interpreter = interpreter_new memory 0;
     let inst = \<lparr>i_rd_rs2 = 0, i_rs1 = 0,
       i_imm = SystemMiscMem_ECALL_IMM, i_func = SystemMiscMem_MISC_FUNC\<rparr>;
     let (result, interpreter) =
       execute_SystemMiscMem (TypeI_from_embive (TypeI_to_embive inst)) interpreter;
     assert (result = Inr Called);
     assert (program_counter interpreter = op_size (SystemMiscMem inst))
   }"

definition system_misc_mem_wfi :: "unit option" where
  "system_misc_mem_wfi = do {
     let memory = \<lparr>code = [], ram = []\<rparr>;
     let interpreter = interpreter_new memory 0;
     let inst = \<lparr>i_rd_rs2 = 0, i_rs1 = 0,
       i_imm = SystemMiscMem_WFI_IMM, i_func = SystemMiscMem_MISC_FUNC\<rparr>;
     let (result, interpreter) =
       execute_SystemMiscMem (TypeI_from_embive (TypeI_to_embive inst)) interpreter;
     assert (result = Inr Waiting);
     assert (program_counter interpreter = op_size (SystemMiscMem inst))
   }"

definition system_misc_mem_mret :: "unit option" where
  "system_misc_mem_mret = do {
     let memory = \<lparr>code = [], ram = []\<rparr>;
     let interpreter = interpreter_new memory 0;
     (value, interpreter) \<leftarrow> csr_unwrap (Some (CsWrite 0x1234)) 0x341 interpreter;
     let inst = \<lparr>i_rd_rs2 = 0, i_rs1 = 0,
       i_imm = SystemMiscMem_MRET_IMM, i_func = SystemMiscMem_MISC_FUNC\<rparr>;
     let (result, interpreter) =
       execute_SystemMiscMem (TypeI_from_embive (TypeI_to_embive inst)) interpreter;
     assert (result = Inr Running);
     assert (program_counter interpreter = 0x1234)
   }"

definition system_misc_mem_fencei :: "unit option" where
  "system_misc_mem_fencei = do {
     let memory = \<lparr>code = [], ram = []\<rparr>;
     let interpreter = interpreter_new memory 0;
     let inst = \<lparr>i_rd_rs2 = 0, i_rs1 = 0,
       i_imm = SystemMiscMem_FENCEI_IMM, i_func = SystemMiscMem_MISC_FUNC\<rparr>;
     let (result, interpreter) =
       execute_SystemMiscMem (TypeI_from_embive (TypeI_to_embive inst)) interpreter;
     assert (result = Inr Running);
     assert (program_counter interpreter = op_size (SystemMiscMem inst))
   }"

definition system_misc_mem_csrrw :: "unit option" where
  "system_misc_mem_csrrw = do {
     let memory = \<lparr>code = [], ram = []\<rparr>;
     let interpreter = interpreter_new memory 0;
     interpreter \<leftarrow> poke 1 0x1234 interpreter;
     interpreter \<leftarrow> poke 2 0x1234 interpreter;
     let inst = \<lparr>i_rd_rs2 = 1, i_rs1 = 2,
       i_imm = 0x342, i_func = SystemMiscMem_CSRRW_FUNC\<rparr>;
     let (result, interpreter) =
       execute_SystemMiscMem (TypeI_from_embive (TypeI_to_embive inst)) interpreter;
     assert (result = Inr Running);
     value \<leftarrow> peek 1 interpreter;
     assert (value = 0);
     (value, interpreter) \<leftarrow> csr_unwrap None 0x342 interpreter;
     assert (value = 0x1234)
   }"

definition system_misc_mem_csrrs :: "unit option" where
  "system_misc_mem_csrrs = do {
     let memory = \<lparr>code = [], ram = []\<rparr>;
     let interpreter = interpreter_new memory 0;
     (value, interpreter) \<leftarrow> csr_unwrap (Some (CsWrite 0x1230)) 0x342 interpreter;
     interpreter \<leftarrow> poke 1 0x1234 interpreter;
     interpreter \<leftarrow> poke 2 0x1234 interpreter;
     let inst = \<lparr>i_rd_rs2 = 1, i_rs1 = 2,
       i_imm = 0x342, i_func = SystemMiscMem_CSRRS_FUNC\<rparr>;
     let (result, interpreter) =
       execute_SystemMiscMem (TypeI_from_embive (TypeI_to_embive inst)) interpreter;
     assert (result = Inr Running);
     value \<leftarrow> peek 1 interpreter;
     assert (value = 0x1230);
     (value, interpreter) \<leftarrow> csr_unwrap None 0x342 interpreter;
     assert (value = 0x1234)
   }"

definition system_misc_mem_csrrc :: "unit option" where
  "system_misc_mem_csrrc = do {
     let memory = \<lparr>code = [], ram = []\<rparr>;
     let interpreter = interpreter_new memory 0;
     (value, interpreter) \<leftarrow> csr_unwrap (Some (CsWrite 0x1234)) 0x342 interpreter;
     interpreter \<leftarrow> poke 1 0x1230 interpreter;
     interpreter \<leftarrow> poke 2 0x1230 interpreter;
     let inst = \<lparr>i_rd_rs2 = 1, i_rs1 = 2,
       i_imm = 0x342, i_func = SystemMiscMem_CSRRC_FUNC\<rparr>;
     let (result, interpreter) =
       execute_SystemMiscMem (TypeI_from_embive (TypeI_to_embive inst)) interpreter;
     assert (result = Inr Running);
     value \<leftarrow> peek 1 interpreter;
     assert (value = 0x1234);
     (value, interpreter) \<leftarrow> csr_unwrap None 0x342 interpreter;
     assert (value = 0x4)
   }"

definition system_misc_mem_csrrwi :: "unit option" where
  "system_misc_mem_csrrwi = do {
     let memory = \<lparr>code = [], ram = []\<rparr>;
     let interpreter = interpreter_new memory 0;
     interpreter \<leftarrow> poke 1 0x1234 interpreter;
     let inst = \<lparr>i_rd_rs2 = 1, i_rs1 = 1,
       i_imm = 0x342, i_func = SystemMiscMem_CSRRWI_FUNC\<rparr>;
     let (result, interpreter) =
       execute_SystemMiscMem (TypeI_from_embive (TypeI_to_embive inst)) interpreter;
     assert (result = Inr Running);
     value \<leftarrow> peek 1 interpreter;
     assert (value = 0);
     (value, interpreter) \<leftarrow> csr_unwrap None 0x342 interpreter;
     assert (value = 0x1)
   }"

definition system_misc_mem_csrrsi :: "unit option" where
  "system_misc_mem_csrrsi = do {
     let memory = \<lparr>code = [], ram = []\<rparr>;
     let interpreter = interpreter_new memory 0;
     (value, interpreter) \<leftarrow> csr_unwrap (Some (CsWrite 0x1230)) 0x342 interpreter;
     interpreter \<leftarrow> poke 1 0x1234 interpreter;
     let inst = \<lparr>i_rd_rs2 = 1, i_rs1 = 4,
       i_imm = 0x342, i_func = SystemMiscMem_CSRRSI_FUNC\<rparr>;
     let (result, interpreter) =
       execute_SystemMiscMem (TypeI_from_embive (TypeI_to_embive inst)) interpreter;
     assert (result = Inr Running);
     value \<leftarrow> peek 1 interpreter;
     assert (value = 0x1230);
     (value, interpreter) \<leftarrow> csr_unwrap None 0x342 interpreter;
     assert (value = 0x1234)
   }"

definition system_misc_mem_csrrci :: "unit option" where
  "system_misc_mem_csrrci = do {
     let memory = \<lparr>code = [], ram = []\<rparr>;
     let interpreter = interpreter_new memory 0;
     (value, interpreter) \<leftarrow> csr_unwrap (Some (CsWrite 0x1234)) 0x342 interpreter;
     interpreter \<leftarrow> poke 1 0x1230 interpreter;
     let inst = \<lparr>i_rd_rs2 = 1, i_rs1 = 4,
       i_imm = 0x342, i_func = SystemMiscMem_CSRRCI_FUNC\<rparr>;
     let (result, interpreter) =
       execute_SystemMiscMem (TypeI_from_embive (TypeI_to_embive inst)) interpreter;
     assert (result = Inr Running);
     value \<leftarrow> peek 1 interpreter;
     assert (value = 0x1234);
     (value, interpreter) \<leftarrow> csr_unwrap None 0x342 interpreter;
     assert (value = 0x1230)
   }"

definition auipc_tests :: "unit option list" where
  "auipc_tests = [
    auipc_auipc, auipc_auipc_negative]"

definition branch_tests :: "unit option list" where
  "branch_tests = [
    branch_beq_negative, branch_beq_equal, branch_beq_not_equal, branch_bne_equal,
    branch_bne_not_equal, branch_blt_less_than, branch_blt_greater_than, branch_bge_greater_than,
    branch_bge_equal, branch_bge_less_than, branch_bltu_less_than, branch_bltu_greater_than,
    branch_bgeu_greater_than, branch_bgeu_equal, branch_bgeu_less_than]"

definition jal_tests :: "unit option list" where
  "jal_tests = [
    jal_jal]"

definition jalr_tests :: "unit option list" where
  "jalr_tests = [
    jalr_jlr_negative, jalr_jlr, jalr_jlr_same_reg]"

definition load_store_tests :: "unit option list" where
  "load_store_tests = [
    load_store_lb, load_store_lb_negative, load_store_lh, load_store_lh_negative, load_store_lw,
    load_store_lw_negative, load_store_lbu, load_store_lbu_negative, load_store_lhu,
    load_store_lhu_negative, load_store_sb, load_store_sh, load_store_sw]"

definition lui_tests :: "unit option list" where
  "lui_tests = [
    lui_lui]"

definition op_imm_tests :: "unit option list" where
  "op_imm_tests = [
    op_imm_addi, op_imm_addi_negative, op_imm_xori, op_imm_xori_not, op_imm_ori,
    op_imm_ori_negative, op_imm_andi, op_imm_slli, op_imm_srli, op_imm_srai, op_imm_slti_lower,
    op_imm_slti_greater, op_imm_slti_equal, op_imm_slti_negative, op_imm_sltiu_lower,
    op_imm_sltiu_greater, op_imm_sltiu_equal, op_imm_sltiu_negative]"

definition system_misc_mem_tests :: "unit option list" where
  "system_misc_mem_tests = [
    system_misc_mem_ebreak, system_misc_mem_ecall, system_misc_mem_wfi, system_misc_mem_mret,
    system_misc_mem_fencei, system_misc_mem_csrrw, system_misc_mem_csrrs, system_misc_mem_csrrc,
    system_misc_mem_csrrwi, system_misc_mem_csrrsi, system_misc_mem_csrrci]"

lemma auipc_tests_pass: "list_all passes auipc_tests"
  by code_simp

lemma branch_tests_pass: "list_all passes branch_tests"
  by code_simp

lemma jal_tests_pass: "list_all passes jal_tests"
  by code_simp

lemma jalr_tests_pass: "list_all passes jalr_tests"
  by code_simp

lemma load_store_tests_pass: "list_all passes load_store_tests"
  by code_simp

lemma lui_tests_pass: "list_all passes lui_tests"
  by code_simp

lemma op_imm_tests_pass: "list_all passes op_imm_tests"
  by code_simp

lemma system_misc_mem_tests_pass: "list_all passes system_misc_mem_tests"
  by code_simp

end
