(* ===== verification/OpAmo_Tests.thy ===== *)
theory OpAmo_Tests
  imports Test_Support
begin

text \<open>
  The unit tests of \<open>OpAmo\<close> (\<^verbatim>\<open>interpreter/decode_execute/op_amo.rs\<close>).
\<close>

unbundle bit_operations_syntax

definition op_amo_rd_0 :: "unit option" where
  "op_amo_rd_0 = do {
     let memory = \<lparr>code = [], ram = []\<rparr>;
     let interpreter = interpreter_new memory 0;
     let inst = \<lparr>r_rd = 0, r_rs1 = 2, r_rs2 = 3, r_func = OpAmo_ADD_FUNC\<rparr>;
     interpreter \<leftarrow> poke 2 10 interpreter;
     interpreter \<leftarrow> poke 3 20 interpreter;
     let start_regs = registers interpreter;
     let (result, interpreter) =
       execute_OpAmo (slice_memory_ops 64) (TypeR_from_embive (TypeR_to_embive inst)) interpreter;
     assert (start_regs = registers interpreter);
     assert (result = Inr Running);
     assert (program_counter interpreter = op_size (OpAmo inst))
   }"

definition op_amo_add :: "unit option" where
  "op_amo_add = do {
     let memory = \<lparr>code = [], ram = []\<rparr>;
     let interpreter = interpreter_new memory 0;
     let inst = \<lparr>r_rd = 1, r_rs1 = 2, r_rs2 = 3, r_func = OpAmo_ADD_FUNC\<rparr>;
     interpreter \<leftarrow> poke 2 10 interpreter;
     interpreter \<leftarrow> poke 3 20 interpreter;
     let (result, interpreter) =
       execute_OpAmo (slice_memory_ops 64) (TypeR_from_embive (TypeR_to_embive inst)) interpreter;
     assert (result = Inr Running);
     value \<leftarrow> peek_mut 1 interpreter;
     assert (value = 30);
     assert (program_counter interpreter = op_size (OpAmo inst))
   }"

definition op_amo_add_wrapping :: "unit option" where
  "op_amo_add_wrapping = do {
     let memory = \<lparr>code = [], ram = []\<rparr>;
     let interpreter = interpreter_new memory 0;
     let inst = \<lparr>r_rd = 1, r_rs1 = 2, r_rs2 = 3, r_func = OpAmo_ADD_FUNC\<rparr>;
     interpreter \<leftarrow> poke 2 0x7FFFFFFF interpreter;
     interpreter \<leftarrow> poke 3 1 interpreter;
     let (result, interpreter) =
       execute_OpAmo (slice_memory_ops 64) (TypeR_from_embive (TypeR_to_embive inst)) interpreter;
     assert (result = Inr Running);
     value \<leftarrow> peek_mut 1 interpreter;
     assert (value = 0x80000000);
     assert (program_counter interpreter = op_size (OpAmo inst))
   }"

definition op_amo_sub :: "unit option" where
  "op_amo_sub = do {
     let memory = \<lparr>code = [], ram = []\<rparr>;
     let interpreter = interpreter_new memory 0;
     let inst = \<lparr>r_rd = 1, r_rs1 = 2, r_rs2 = 3, r_func = OpAmo_SUB_FUNC\<rparr>;
     interpreter \<leftarrow> poke 2 20 interpreter;
     interpreter \<leftarrow> poke 3 10 interpreter;
     let (result, interpreter) =
       execute_OpAmo (slice_memory_ops 64) (TypeR_from_embive (TypeR_to_embive inst)) interpreter;
     assert (result = Inr Running);
     value \<leftarrow> peek_mut 1 interpreter;
     assert (value = 10);
     assert (program_counter interpreter = op_size (OpAmo inst))
   }"

definition op_amo_sub_wrapping :: "unit option" where
  "op_amo_sub_wrapping = do {
     let memory = \<lparr>code = [], ram = []\<rparr>;
     let interpreter = interpreter_new memory 0;
     let inst = \<lparr>r_rd = 1, r_rs1 = 2, r_rs2 = 3, r_func = OpAmo_SUB_FUNC\<rparr>;
     interpreter \<leftarrow> poke 2 0x80000000 interpreter;
     interpreter \<leftarrow> poke 3 1 interpreter;
     let (result, interpreter) =
       execute_OpAmo (slice_memory_ops 64) (TypeR_from_embive (TypeR_to_embive inst)) interpreter;
     assert (result = Inr Running);
     value \<leftarrow> peek_mut 1 interpreter;
     assert (value = 0x7FFFFFFF);
     assert (program_counter interpreter = op_size (OpAmo inst))
   }"

definition op_amo_xor :: "unit option" where
  "op_amo_xor = do {
     let memory = \<lparr>code = [], ram = []\<rparr>;
     let interpreter = interpreter_new memory 0;
     let inst = \<lparr>r_rd = 1, r_rs1 = 2, r_rs2 = 3, r_func = OpAmo_XOR_FUNC\<rparr>;
     interpreter \<leftarrow> poke 2 0b1010 interpreter;
     interpreter \<leftarrow> poke 3 0b1100 interpreter;
     let (result, interpreter) =
       execute_OpAmo (slice_memory_ops 64) (TypeR_from_embive (TypeR_to_embive inst)) interpreter;
     assert (result = Inr Running);
     value \<leftarrow> peek_mut 1 interpreter;
     assert (value = 0b0110);
     assert (program_counter interpreter = op_size (OpAmo inst))
   }"

definition op_amo_or :: "unit option" where
  "op_amo_or = do {
     let memory = \<lparr>code = [], ram = []\<rparr>;
     let interpreter = interpreter_new memory 0;
     let inst = \<lparr>r_rd = 1, r_rs1 = 2, r_rs2 = 3, r_func = OpAmo_OR_FUNC\<rparr>;
     interpreter \<leftarrow> poke 2 0b1010 interpreter;
     interpreter \<leftarrow> poke 3 0b1100 interpreter;
     let (result, interpreter) =
       execute_OpAmo (slice_memory_ops 64) (TypeR_from_embive (TypeR_to_embive inst)) interpreter;
     assert (result = Inr Running);
     value \<leftarrow> peek_mut 1 interpreter;
     assert (value = 0b1110);
     assert (program_counter interpreter = op_size (OpAmo inst))
   }"

definition op_amo_and :: "unit option" where
  "op_amo_and = do {
     let memory = \<lparr>code = [], ram = []\<rparr>;
     let interpreter = interpreter_new memory 0;
     let inst = \<lparr>r_rd = 1, r_rs1 = 2, r_rs2 = 3, r_func = OpAmo_AND_FUNC\<rparr>;
     interpreter \<leftarrow> poke 2 0b1010 interpreter;
     interpreter \<leftarrow> poke 3 0b1100 interpreter;
     let (result, interpreter) =
       execute_OpAmo (slice_memory_ops 64) (TypeR_from_embive (TypeR_to_embive inst)) interpreter;
     assert (result = Inr Running);
     value \<leftarrow> peek_mut 1 interpreter;
     assert (value = 0b1000);
     assert (program_counter interpreter = op_size (OpAmo inst))
   }"

definition op_amo_sll :: "unit option" where
  "op_amo_sll = do {
     let memory = \<lparr>code = [], ram = []\<rparr>;
     let interpreter = interpreter_new memory 0;
     let inst = \<lparr>r_rd = 1, r_rs1 = 2, r_rs2 = 3, r_func = OpAmo_SLL_FUNC\<rparr>;
     interpreter \<leftarrow> poke 2 0b1010 interpreter;
     interpreter \<leftarrow> poke 3 2 interpreter;
     let (result, interpreter) =
       execute_OpAmo (slice_memory_ops 64) (TypeR_from_embive (TypeR_to_embive inst)) interpreter;
     assert (result = Inr Running);
     value \<leftarrow> peek_mut 1 interpreter;
     assert (value = 0b101000);
     assert (program_counter interpreter = op_size (OpAmo inst))
   }"

definition op_amo_srl :: "unit option" where
  "op_amo_srl = do {
     let memory = \<lparr>code = [], ram = []\<rparr>;
     let interpreter = interpreter_new memory 0;
     let inst = \<lparr>r_rd = 1, r_rs1 = 2, r_rs2 = 3, r_func = OpAmo_SRL_FUNC\<rparr>;
     interpreter \<leftarrow> poke 2 0b1010 interpreter;
     interpreter \<leftarrow> poke 3 2 interpreter;
     let (result, interpreter) =
       execute_OpAmo (slice_memory_ops 64) (TypeR_from_embive (TypeR_to_embive inst)) interpreter;
     assert (result = Inr Running);
     value \<leftarrow> peek_mut 1 interpreter;
     assert (value = 0b10);
     assert (program_counter interpreter = op_size (OpAmo inst))
   }"

definition op_amo_srl_negative :: "unit option" where
  "op_amo_srl_negative = do {
     let memory = \<lparr>code = [], ram = []\<rparr>;
     let interpreter = interpreter_new memory 0;
     let inst = \<lparr>r_rd = 1, r_rs1 = 2, r_rs2 = 3, r_func = OpAmo_SRL_FUNC\<rparr>;
     interpreter \<leftarrow> poke 2 (0xBA987654 :: i32) interpreter;
     interpreter \<leftarrow> poke 3 28 interpreter;
     let (result, interpreter) =
       execute_OpAmo (slice_memory_ops 64) (TypeR_from_embive (TypeR_to_embive inst)) interpreter;
     assert (result = Inr Running);
     value \<leftarrow> peek_mut 1 interpreter;
     assert (value = 0xB);
     assert (program_counter interpreter = op_size (OpAmo inst))
   }"

definition op_amo_sra :: "unit option" where
  "op_amo_sra = do {
     let memory = \<lparr>code = [], ram = []\<rparr>;
     let interpreter = interpreter_new memory 0;
     let inst = \<lparr>r_rd = 1, r_rs1 = 2, r_rs2 = 3, r_func = OpAmo_SRA_FUNC\<rparr>;
     interpreter \<leftarrow> poke 2 0b1010 interpreter;
     interpreter \<leftarrow> poke 3 2 interpreter;
     let (result, interpreter) =
       execute_OpAmo (slice_memory_ops 64) (TypeR_from_embive (TypeR_to_embive inst)) interpreter;
     assert (result = Inr Running);
     value \<leftarrow> peek_mut 1 interpreter;
     assert (value = 0b10);
     assert (program_counter interpreter = op_size (OpAmo inst))
   }"

definition op_amo_sra_negative :: "unit option" where
  "op_amo_sra_negative = do {
     let memory = \<lparr>code = [], ram = []\<rparr>;
     let interpreter = interpreter_new memory 0;
     let inst = \<lparr>r_rd = 1, r_rs1 = 2, r_rs2 = 3, r_func = OpAmo_SRA_FUNC\<rparr>;
     interpreter \<leftarrow> poke 2 (0xBA987654 :: i32) interpreter;
     interpreter \<leftarrow> poke 3 28 interpreter;
     let (result, interpreter) =
       execute_OpAmo (slice_memory_ops 64) (TypeR_from_embive (TypeR_to_embive inst)) interpreter;
     assert (result = Inr Running);
     value \<leftarrow> peek_mut 1 interpreter;
     assert (value = (0xFFFFFFFB :: i32));
     assert (program_counter interpreter = op_size (OpAmo inst))
   }"

definition op_amo_slt_lower :: "unit option" where
  "op_amo_slt_lower = do {
     let memory = \<lparr>code = [], ram = []\<rparr>;
     let interpreter = interpreter_new memory 0;
     let inst = \<lparr>r_rd = 1, r_rs1 = 2, r_rs2 = 3, r_func = OpAmo_SLT_FUNC\<rparr>;
     interpreter \<leftarrow> poke 2 10 interpreter;
     interpreter \<leftarrow> poke 3 20 interpreter;
     let (result, interpreter) =
       execute_OpAmo (slice_memory_ops 64) (TypeR_from_embive (TypeR_to_embive inst)) interpreter;
     assert (result = Inr Running);
     value \<leftarrow> peek_mut 1 interpreter;
     assert (value = 1);
     assert (program_counter interpreter = op_size (OpAmo inst))
   }"

definition op_amo_slt_greater :: "unit option" where
  "op_amo_slt_greater = do {
     let memory = \<lparr>code = [], ram = []\<rparr>;
     let interpreter = interpreter_new memory 0;
     let inst = \<lparr>r_rd = 1, r_rs1 = 2, r_rs2 = 3, r_func = OpAmo_SLT_FUNC\<rparr>;
     interpreter \<leftarrow> poke 2 20 interpreter;
     interpreter \<leftarrow> poke 3 10 interpreter;
     let (result, interpreter) =
       execute_OpAmo (slice_memory_ops 64) (TypeR_from_embive (TypeR_to_embive inst)) interpreter;
     assert (result = Inr Running);
     value \<leftarrow> peek_mut 1 interpreter;
     assert (value = 0);
     assert (program_counter interpreter = op_size (OpAmo inst))
   }"

definition op_amo_slt_equal :: "unit option" where
  "op_amo_slt_equal = do {
     let memory = \<lparr>code = [], ram = []\<rparr>;
     let interpreter = interpreter_new memory 0;
     let inst = \<lparr>r_rd = 1, r_rs1 = 2, r_rs2 = 3, r_func = OpAmo_SLT_FUNC\<rparr>;
     interpreter \<leftarrow> poke 2 20 interpreter;
     interpreter \<leftarrow> poke 3 20 interpreter;
     let (result, interpreter) =
       execute_OpAmo (slice_memory_ops 64) (TypeR_from_embive (TypeR_to_embive inst)) interpreter;
     assert (result = Inr Running);
     value \<leftarrow> peek_mut 1 interpreter;
     assert (value = 0);
     assert (program_counter interpreter = op_size (OpAmo inst))
   }"

definition op_amo_slt_negative :: "unit option" where
  "op_amo_slt_negative = do {
     let memory = \<lparr>code = [], ram = []\<rparr>;
     let interpreter = interpreter_new memory 0;
     let inst = \<lparr>r_rd = 1, r_rs1 = 2, r_rs2 = 3, r_func = OpAmo_SLT_FUNC\<rparr>;
     interpreter \<leftarrow> poke 2 10 interpreter;
     interpreter \<leftarrow> poke 3 (- 20) interpreter;
     let (result, interpreter) =
       execute_OpAmo (slice_memory_ops 64) (TypeR_from_embive (TypeR_to_embive inst)) interpreter;
     assert (result = Inr Running);
     value \<leftarrow> peek_mut 1 interpreter;
     assert (value = 0);
     assert (program_counter interpreter = op_size (OpAmo inst))
   }"

definition op_amo_sltu_lower :: "unit option" where
  "op_amo_sltu_lower = do {
     let memory = \<lparr>code = [], ram = []\<rparr>;
     let interpreter = interpreter_new memory 0;
     let inst = \<lparr>r_rd = 1, r_rs1 = 2, r_rs2 = 3, r_func = OpAmo_SLTU_FUNC\<rparr>;
     interpreter \<leftarrow> poke 2 10 interpreter;
     interpreter \<leftarrow> poke 3 20 interpreter;
     let (result, interpreter) =
       execute_OpAmo (slice_memory_ops 64) (TypeR_from_embive (TypeR_to_embive inst)) interpreter;
     assert (result = Inr Running);
     value \<leftarrow> peek_mut 1 interpreter;
     assert (value = 1);
     assert (program_counter interpreter = op_size (OpAmo inst))
   }"

definition op_amo_sltu_greater :: "unit option" where
  "op_amo_sltu_greater = do {
     let memory = \<lparr>code = [], ram = []\<rparr>;
     let interpreter = interpreter_new memory 0;
     let inst = \<lparr>r_rd = 1, r_rs1 = 2, r_rs2 = 3, r_func = OpAmo_SLTU_FUNC\<rparr>;
     interpreter \<leftarrow> poke 2 20 interpreter;
     interpreter \<leftarrow> poke 3 10 interpreter;
     let (result, interpreter) =
       execute_OpAmo (slice_memory_ops 64) (TypeR_from_embive (TypeR_to_embive inst)) interpreter;
     assert (result = Inr Running);
     value \<leftarrow> peek_mut 1 interpreter;
     assert (value = 0);
     assert (program_counter interpreter = op_size (OpAmo inst))
   }"

definition op_amo_sltu_equal :: "unit option" where
  "op_amo_sltu_equal = do {
     let memory = \<lparr>code = [], ram = []\<rparr>;
     let interpreter = interpreter_new memory 0;
     let inst = \<lparr>r_rd = 1, r_rs1 = 2, r_rs2 = 3, r_func = OpAmo_SLTU_FUNC\<rparr>;
     interpreter \<leftarrow> poke 2 10 interpreter;
     interpreter \<leftarrow> poke 3 10 interpreter;
     let (result, interpreter) =
       execute_OpAmo (slice_memory_ops 64) (TypeR_from_embive (TypeR_to_embive inst)) interpreter;
     assert (result = Inr Running);
     value \<leftarrow> peek_mut 1 interpreter;
     assert (value = 0);
     assert (program_counter interpreter = op_size (OpAmo inst))
   }"

definition op_amo_sltu_negative :: "unit option" where
  "op_amo_sltu_negative = do {
     let memory = \<lparr>code = [], ram = []\<rparr>;
     let interpreter = interpreter_new memory 0;
     let inst = \<lparr>r_rd = 1, r_rs1 = 2, r_rs2 = 3, r_func = OpAmo_SLTU_FUNC\<rparr>;
     interpreter \<leftarrow> poke 2 10 interpreter;
     interpreter \<leftarrow> poke 3 (- 20) interpreter;
     let (result, interpreter) =
       execute_OpAmo (slice_memory_ops 64) (TypeR_from_embive (TypeR_to_embive inst)) interpreter;
     assert (result = Inr Running);
     value \<leftarrow> peek_mut 1 interpreter;
     assert (value = 1);
     assert (program_counter interpreter = op_size (OpAmo inst))
   }"

definition op_amo_mul :: "unit option" where
  "op_amo_mul = do {
     let memory = \<lparr>code = [], ram = []\<rparr>;
     let interpreter = interpreter_new memory 0;
     let inst = \<lparr>r_rd = 1, r_rs1 = 2, r_rs2 = 3, r_func = OpAmo_MUL_FUNC\<rparr>;
     interpreter \<leftarrow> poke 2 10 interpreter;
     interpreter \<leftarrow> poke 3 20 interpreter;
     let (result, interpreter) =
       execute_OpAmo (slice_memory_ops 64) (TypeR_from_embive (TypeR_to_embive inst)) interpreter;
     assert (result = Inr Running);
     value \<leftarrow> peek_mut 1 interpreter;
     assert (value = 200);
     assert (program_counter interpreter = op_size (OpAmo inst))
   }"

definition op_amo_mul_negative :: "unit option" where
  "op_amo_mul_negative = do {
     let memory = \<lparr>code = [], ram = []\<rparr>;
     let interpreter = interpreter_new memory 0;
     let inst = \<lparr>r_rd = 1, r_rs1 = 2, r_rs2 = 3, r_func = OpAmo_MUL_FUNC\<rparr>;
     interpreter \<leftarrow> poke 2 (- 10) interpreter;
     interpreter \<leftarrow> poke 3 (- 2) interpreter;
     let (result, interpreter) =
       execute_OpAmo (slice_memory_ops 64) (TypeR_from_embive (TypeR_to_embive inst)) interpreter;
     assert (result = Inr Running);
     value \<leftarrow> peek_mut 1 interpreter;
     assert (value = 20);
     assert (program_counter interpreter = op_size (OpAmo inst))
   }"

definition op_amo_mulh :: "unit option" where
  "op_amo_mulh = do {
     let memory = \<lparr>code = [], ram = []\<rparr>;
     let interpreter = interpreter_new memory 0;
     let inst = \<lparr>r_rd = 1, r_rs1 = 2, r_rs2 = 3, r_func = OpAmo_MULH_FUNC\<rparr>;
     interpreter \<leftarrow> poke 2 0x7FFFFFFF interpreter;
     interpreter \<leftarrow> poke 3 2 interpreter;
     let (result, interpreter) =
       execute_OpAmo (slice_memory_ops 64) (TypeR_from_embive (TypeR_to_embive inst)) interpreter;
     assert (result = Inr Running);
     value \<leftarrow> peek_mut 1 interpreter;
     assert (value = (ucast (signed_drop_bit 32 ((scast (0x7FFFFFFF :: i32) :: 64 word) * 2) :: 64 word) :: i32));
     assert (program_counter interpreter = op_size (OpAmo inst))
   }"

definition op_amo_mulhsu :: "unit option" where
  "op_amo_mulhsu = do {
     let memory = \<lparr>code = [], ram = []\<rparr>;
     let interpreter = interpreter_new memory 0;
     let inst = \<lparr>r_rd = 1, r_rs1 = 2, r_rs2 = 3, r_func = OpAmo_MULHSU_FUNC\<rparr>;
     interpreter \<leftarrow> poke 2 0x7FFFFFFF interpreter;
     interpreter \<leftarrow> poke 3 2 interpreter;
     let (result, interpreter) =
       execute_OpAmo (slice_memory_ops 64) (TypeR_from_embive (TypeR_to_embive inst)) interpreter;
     assert (result = Inr Running);
     value \<leftarrow> peek_mut 1 interpreter;
     assert (value = ((ucast (signed_drop_bit 32 ((scast (0x7FFFFFFF :: i32) :: 64 word) * 2) :: 64 word) :: u32)));
     assert (program_counter interpreter = op_size (OpAmo inst))
   }"

definition op_amo_mulhsu_negative :: "unit option" where
  "op_amo_mulhsu_negative = do {
     let memory = \<lparr>code = [], ram = []\<rparr>;
     let interpreter = interpreter_new memory 0;
     let inst = \<lparr>r_rd = 1, r_rs1 = 2, r_rs2 = 3, r_func = OpAmo_MULHSU_FUNC\<rparr>;
     interpreter \<leftarrow> poke 2 (- 2) interpreter;
     interpreter \<leftarrow> poke 3 0xFFFFFFFF interpreter;
     let (result, interpreter) =
       execute_OpAmo (slice_memory_ops 64) (TypeR_from_embive (TypeR_to_embive inst)) interpreter;
     assert (result = Inr Running);
     value \<leftarrow> peek_mut 1 interpreter;
     assert (value = ((ucast (signed_drop_bit 32 ((- 2) * (ucast (0xFFFFFFFF :: u32) :: 64 word)) :: 64 word) :: u32)));
     assert (program_counter interpreter = op_size (OpAmo inst))
   }"

definition op_amo_mulhu :: "unit option" where
  "op_amo_mulhu = do {
     let memory = \<lparr>code = [], ram = []\<rparr>;
     let interpreter = interpreter_new memory 0;
     let inst = \<lparr>r_rd = 1, r_rs1 = 2, r_rs2 = 3, r_func = OpAmo_MULHU_FUNC\<rparr>;
     interpreter \<leftarrow> poke 2 0x7FFFFFFF interpreter;
     interpreter \<leftarrow> poke 3 2 interpreter;
     let (result, interpreter) =
       execute_OpAmo (slice_memory_ops 64) (TypeR_from_embive (TypeR_to_embive inst)) interpreter;
     assert (result = Inr Running);
     value \<leftarrow> peek_mut 1 interpreter;
     assert (value = (ucast (drop_bit 32 ((scast (0x7FFFFFFF :: i32) :: 64 word) * 2) :: 64 word) :: i32));
     assert (program_counter interpreter = op_size (OpAmo inst))
   }"

definition op_amo_div :: "unit option" where
  "op_amo_div = do {
     let memory = \<lparr>code = [], ram = []\<rparr>;
     let interpreter = interpreter_new memory 0;
     let inst = \<lparr>r_rd = 1, r_rs1 = 2, r_rs2 = 3, r_func = OpAmo_DIV_FUNC\<rparr>;
     interpreter \<leftarrow> poke 2 20 interpreter;
     interpreter \<leftarrow> poke 3 10 interpreter;
     let (result, interpreter) =
       execute_OpAmo (slice_memory_ops 64) (TypeR_from_embive (TypeR_to_embive inst)) interpreter;
     assert (result = Inr Running);
     value \<leftarrow> peek_mut 1 interpreter;
     assert (value = 2);
     assert (program_counter interpreter = op_size (OpAmo inst))
   }"

definition op_amo_div_negative :: "unit option" where
  "op_amo_div_negative = do {
     let memory = \<lparr>code = [], ram = []\<rparr>;
     let interpreter = interpreter_new memory 0;
     let inst = \<lparr>r_rd = 1, r_rs1 = 2, r_rs2 = 3, r_func = OpAmo_DIV_FUNC\<rparr>;
     interpreter \<leftarrow> poke 2 (- 20) interpreter;
     interpreter \<leftarrow> poke 3 10 interpreter;
     let (result, interpreter) =
       execute_OpAmo (slice_memory_ops 64) (TypeR_from_embive (TypeR_to_embive inst)) interpreter;
     assert (result = Inr Running);
     value \<leftarrow> peek_mut 1 interpreter;
     assert (value = - 2);
     assert (program_counter interpreter = op_size (OpAmo inst))
   }"

definition op_amo_divu :: "unit option" where
  "op_amo_divu = do {
     let memory = \<lparr>code = [], ram = []\<rparr>;
     let interpreter = interpreter_new memory 0;
     let inst = \<lparr>r_rd = 1, r_rs1 = 2, r_rs2 = 3, r_func = OpAmo_DIVU_FUNC\<rparr>;
     interpreter \<leftarrow> poke 2 0xFFFFFFFF interpreter;
     interpreter \<leftarrow> poke 3 10 interpreter;
     let (result, interpreter) =
       execute_OpAmo (slice_memory_ops 64) (TypeR_from_embive (TypeR_to_embive inst)) interpreter;
     assert (result = Inr Running);
     value \<leftarrow> peek_mut 1 interpreter;
     assert (value = (0xFFFFFFFF div 10 :: i32));
     assert (program_counter interpreter = op_size (OpAmo inst))
   }"

definition op_amo_rem :: "unit option" where
  "op_amo_rem = do {
     let memory = \<lparr>code = [], ram = []\<rparr>;
     let interpreter = interpreter_new memory 0;
     let inst = \<lparr>r_rd = 1, r_rs1 = 2, r_rs2 = 3, r_func = OpAmo_REM_FUNC\<rparr>;
     interpreter \<leftarrow> poke 2 101 interpreter;
     interpreter \<leftarrow> poke 3 10 interpreter;
     let (result, interpreter) =
       execute_OpAmo (slice_memory_ops 64) (TypeR_from_embive (TypeR_to_embive inst)) interpreter;
     assert (result = Inr Running);
     value \<leftarrow> peek_mut 1 interpreter;
     assert (value = 1);
     assert (program_counter interpreter = op_size (OpAmo inst))
   }"

definition op_amo_rem_negative :: "unit option" where
  "op_amo_rem_negative = do {
     let memory = \<lparr>code = [], ram = []\<rparr>;
     let interpreter = interpreter_new memory 0;
     let inst = \<lparr>r_rd = 1, r_rs1 = 2, r_rs2 = 3, r_func = OpAmo_REM_FUNC\<rparr>;
     interpreter \<leftarrow> poke 2 (- 101) interpreter;
     interpreter \<leftarrow> poke 3 10 interpreter;
     let (result, interpreter) =
       execute_OpAmo (slice_memory_ops 64) (TypeR_from_embive (TypeR_to_embive inst)) interpreter;
     assert (result = Inr Running);
     value \<leftarrow> peek_mut 1 interpreter;
     assert (value = - 1);
     assert (program_counter interpreter = op_size (OpAmo inst))
   }"

definition op_amo_remu :: "unit option" where
  "op_amo_remu = do {
     let memory = \<lparr>code = [], ram = []\<rparr>;
     let interpreter = interpreter_new memory 0;
     let inst = \<lparr>r_rd = 1, r_rs1 = 2, r_rs2 = 3, r_func = OpAmo_REMU_FUNC\<rparr>;
     interpreter \<leftarrow> poke 2 0xFFFFFFFF interpreter;
     interpreter \<leftarrow> poke 3 1 interpreter;
     let (result, interpreter) =
       execute_OpAmo (slice_memory_ops 64) (TypeR_from_embive (TypeR_to_embive inst)) interpreter;
     assert (result = Inr Running);
     value \<leftarrow> peek_mut 1 interpreter;
     assert (value = 0);
     assert (program_counter interpreter = op_size (OpAmo inst))
   }"

definition op_amo_amoadd :: "unit option" where
  "op_amo_amoadd = do {
     let ram_bytes = to_le_bytes (14 :: i32);
     let memory = \<lparr>code = [], ram = ram_bytes\<rparr>;
     let interpreter = interpreter_new memory 0;
     let inst = \<lparr>r_rd = 1, r_rs1 = 3, r_rs2 = 2, r_func = OpAmo_AMOADD_FUNC\<rparr>;
     interpreter \<leftarrow> poke 2 2 interpreter;
     interpreter \<leftarrow> poke 3 RAM_OFFSET interpreter;
     let (result, interpreter) =
       execute_OpAmo (slice_memory_ops 64) (TypeR_from_embive (TypeR_to_embive inst)) interpreter;
     assert (result = Inr Running);
     value \<leftarrow> peek_mut 1 interpreter;
     assert (value = 14);
     assert (from_le_bytes (ram (Interpreter.memory interpreter)) = (16 :: i32))
   }"

definition op_amo_amoswap :: "unit option" where
  "op_amo_amoswap = do {
     let ram_bytes = to_le_bytes (14 :: i32);
     let memory = \<lparr>code = [], ram = ram_bytes\<rparr>;
     let interpreter = interpreter_new memory 0;
     let inst = \<lparr>r_rd = 1, r_rs1 = 3, r_rs2 = 2, r_func = OpAmo_AMOSWAP_FUNC\<rparr>;
     interpreter \<leftarrow> poke 2 2 interpreter;
     interpreter \<leftarrow> poke 3 RAM_OFFSET interpreter;
     let (result, interpreter) =
       execute_OpAmo (slice_memory_ops 64) (TypeR_from_embive (TypeR_to_embive inst)) interpreter;
     assert (result = Inr Running);
     value \<leftarrow> peek_mut 1 interpreter;
     assert (value = 14);
     assert (from_le_bytes (ram (Interpreter.memory interpreter)) = (2 :: i32))
   }"

definition op_amo_lr :: "unit option" where
  "op_amo_lr = do {
     let ram_bytes = to_le_bytes (14 :: i32);
     let memory = \<lparr>code = [], ram = ram_bytes\<rparr>;
     let interpreter = interpreter_new memory 0;
     let inst = \<lparr>r_rd = 1, r_rs1 = 3, r_rs2 = 2, r_func = OpAmo_LR_FUNC\<rparr>;
     interpreter \<leftarrow> poke 2 2 interpreter;
     interpreter \<leftarrow> poke 3 RAM_OFFSET interpreter;
     let (result, interpreter) =
       execute_OpAmo (slice_memory_ops 64) (TypeR_from_embive (TypeR_to_embive inst)) interpreter;
     assert (result = Inr Running);
     value \<leftarrow> peek_mut 1 interpreter;
     assert (value = 14);
     assert (memory_reservation interpreter = Some (RAM_OFFSET, 14))
   }"

definition op_amo_sc :: "unit option" where
  "op_amo_sc = do {
     let ram_bytes = to_le_bytes (14 :: i32);
     let memory = \<lparr>code = [], ram = ram_bytes\<rparr>;
     let interpreter = interpreter_new memory 0;
     let inst = \<lparr>r_rd = 1, r_rs1 = 3, r_rs2 = 2, r_func = OpAmo_SC_FUNC\<rparr>;
     interpreter \<leftarrow> poke 2 2 interpreter;
     interpreter \<leftarrow> poke 3 RAM_OFFSET interpreter;
     let interpreter = interpreter\<lparr>memory_reservation := Some (RAM_OFFSET, 14)\<rparr>;
     let (result, interpreter) =
       execute_OpAmo (slice_memory_ops 64) (TypeR_from_embive (TypeR_to_embive inst)) interpreter;
     assert (result = Inr Running);
     value \<leftarrow> peek_mut 1 interpreter;
     assert (value = 0);
     assert (from_le_bytes (ram (Interpreter.memory interpreter)) = (2 :: i32))
   }"

definition op_amo_amoxor :: "unit option" where
  "op_amo_amoxor = do {
     let ram_bytes = to_le_bytes (14 :: i32);
     let memory = \<lparr>code = [], ram = ram_bytes\<rparr>;
     let interpreter = interpreter_new memory 0;
     let inst = \<lparr>r_rd = 1, r_rs1 = 3, r_rs2 = 2, r_func = OpAmo_AMOXOR_FUNC\<rparr>;
     interpreter \<leftarrow> poke 2 2 interpreter;
     interpreter \<leftarrow> poke 3 RAM_OFFSET interpreter;
     let (result, interpreter) =
       execute_OpAmo (slice_memory_ops 64) (TypeR_from_embive (TypeR_to_embive inst)) interpreter;
     assert (result = Inr Running);
     value \<leftarrow> peek_mut 1 interpreter;
     assert (value = 14);
     assert (from_le_bytes (ram (Interpreter.memory interpreter)) = (12 :: i32))
   }"

definition op_amo_amoor :: "unit option" where
  "op_amo_amoor = do {
     let ram_bytes = to_le_bytes (14 :: i32);
     let memory = \<lparr>code = [], ram = ram_bytes\<rparr>;
     let interpreter = interpreter_new memory 0;
     let inst = \<lparr>r_rd = 1, r_rs1 = 3, r_rs2 = 2, r_func = OpAmo_AMOOR_FUNC\<rparr>;
     interpreter \<leftarrow> poke 2 3 interpreter;
     interpreter \<leftarrow> poke 3 RAM_OFFSET interpreter;
     let (result, interpreter) =
       execute_OpAmo (slice_memory_ops 64) (TypeR_from_embive (TypeR_to_embive inst)) interpreter;
     assert (result = Inr Running);
     value \<leftarrow> peek_mut 1 interpreter;
     assert (value = 14);
     assert (from_le_bytes (ram (Interpreter.memory interpreter)) = (15 :: i32))
   }"

definition op_amo_amoand :: "unit option" where
  "op_amo_amoand = do {
     let ram_bytes = to_le_bytes (14 :: i32);
     let memory = \<lparr>code = [], ram = ram_bytes\<rparr>;
     let interpreter = interpreter_new memory 0;
     let inst = \<lparr>r_rd = 1, r_rs1 = 3, r_rs2 = 2, r_func = OpAmo_AMOAND_FUNC\<rparr>;
     interpreter \<leftarrow> poke 2 3 interpreter;
     interpreter \<leftarrow> poke 3 RAM_OFFSET interpreter;
     let (result, interpreter) =
       execute_OpAmo (slice_memory_ops 64) (TypeR_from_embive (TypeR_to_embive inst)) interpreter;
     assert (result = Inr Running);
     value \<leftarrow> peek_mut 1 interpreter;
     assert (value = 14);
     assert (from_le_bytes (ram (Interpreter.memory interpreter)) = (2 :: i32))
   }"

definition op_amo_amomin :: "unit option" where
  "op_amo_amomin = do {
     let ram_bytes = to_le_bytes (- 14 :: i32);
     let memory = \<lparr>code = [], ram = ram_bytes\<rparr>;
     let interpreter = interpreter_new memory 0;
     let inst = \<lparr>r_rd = 1, r_rs1 = 3, r_rs2 = 2, r_func = OpAmo_AMOMIN_FUNC\<rparr>;
     interpreter \<leftarrow> poke 2 3 interpreter;
     interpreter \<leftarrow> poke 3 RAM_OFFSET interpreter;
     let (result, interpreter) =
       execute_OpAmo (slice_memory_ops 64) (TypeR_from_embive (TypeR_to_embive inst)) interpreter;
     assert (result = Inr Running);
     value \<leftarrow> peek_mut 1 interpreter;
     assert (value = - 14);
     assert (from_le_bytes (ram (Interpreter.memory interpreter)) = (- 14 :: i32))
   }"

definition op_amo_amomax :: "unit option" where
  "op_amo_amomax = do {
     let ram_bytes = to_le_bytes (- 14 :: i32);
     let memory = \<lparr>code = [], ram = ram_bytes\<rparr>;
     let interpreter = interpreter_new memory 0;
     let inst = \<lparr>r_rd = 1, r_rs1 = 3, r_rs2 = 2, r_func = OpAmo_AMOMAX_FUNC\<rparr>;
     interpreter \<leftarrow> poke 2 3 interpreter;
     interpreter \<leftarrow> poke 3 RAM_OFFSET interpreter;
     let (result, interpreter) =
       execute_OpAmo (slice_memory_ops 64) (TypeR_from_embive (TypeR_to_embive inst)) interpreter;
     assert (result = Inr Running);
     value \<leftarrow> peek_mut 1 interpreter;
     assert (value = - 14);
     assert (from_le_bytes (ram (Interpreter.memory interpreter)) = (3 :: i32))
   }"

definition op_amo_amominu :: "unit option" where
  "op_amo_amominu = do {
     let ram_bytes = to_le_bytes (- 14 :: i32);
     let memory = \<lparr>code = [], ram = ram_bytes\<rparr>;
     let interpreter = interpreter_new memory 0;
     let inst = \<lparr>r_rd = 1, r_rs1 = 3, r_rs2 = 2, r_func = OpAmo_AMOMINU_FUNC\<rparr>;
     interpreter \<leftarrow> poke 2 3 interpreter;
     interpreter \<leftarrow> poke 3 RAM_OFFSET interpreter;
     let (result, interpreter) =
       execute_OpAmo (slice_memory_ops 64) (TypeR_from_embive (TypeR_to_embive inst)) interpreter;
     assert (result = Inr Running);
     value \<leftarrow> peek_mut 1 interpreter;
     assert (value = - 14);
     assert (from_le_bytes (ram (Interpreter.memory interpreter)) = (3 :: i32))
   }"

definition op_amo_amomaxu :: "unit option" where
  "op_amo_amomaxu = do {
     let ram_bytes = to_le_bytes (- 14 :: i32);
     let memory = \<lparr>code = [], ram = ram_bytes\<rparr>;
     let interpreter = interpreter_new memory 0;
     let inst = \<lparr>r_rd = 1, r_rs1 = 3, r_rs2 = 2, r_func = OpAmo_AMOMAXU_FUNC\<rparr>;
     interpreter \<leftarrow> poke 2 3 interpreter;
     interpreter \<leftarrow> poke 3 RAM_OFFSET interpreter;
     let (result, interpreter) =
       execute_OpAmo (slice_memory_ops 64) (TypeR_from_embive (TypeR_to_embive inst)) interpreter;
     assert (result = Inr Running);
     value \<leftarrow> peek_mut 1 interpreter;
     assert (value = - 14);
     assert (from_le_bytes (ram (Interpreter.memory interpreter)) = (- 14 :: i32))
   }"

definition op_amo_arithmetic_tests :: "unit option list" where
  "op_amo_arithmetic_tests = [
    op_amo_rd_0, op_amo_add, op_amo_add_wrapping, op_amo_sub, op_amo_sub_wrapping, op_amo_xor,
    op_amo_or, op_amo_and, op_amo_sll, op_amo_srl, op_amo_srl_negative, op_amo_sra,
    op_amo_sra_negative, op_amo_slt_lower, op_amo_slt_greater, op_amo_slt_equal,
    op_amo_slt_negative, op_amo_sltu_lower, op_amo_sltu_greater, op_amo_sltu_equal,
    op_amo_sltu_negative]"

definition op_amo_mul_div_tests :: "unit option list" where
  "op_amo_mul_div_tests = [
    op_amo_mul, op_amo_mul_negative, op_amo_mulh, op_amo_mulhsu, op_amo_mulhsu_negative,
    op_amo_mulhu, op_amo_div, op_amo_div_negative, op_amo_divu, op_amo_rem, op_amo_rem_negative,
    op_amo_remu]"

definition op_amo_atomic_tests :: "unit option list" where
  "op_amo_atomic_tests = [
    op_amo_amoadd, op_amo_amoswap, op_amo_lr, op_amo_sc, op_amo_amoxor, op_amo_amoor,
    op_amo_amoand, op_amo_amomin, op_amo_amomax, op_amo_amominu, op_amo_amomaxu]"

lemma op_amo_arithmetic_tests_pass: "list_all passes op_amo_arithmetic_tests"
  by code_simp

lemma op_amo_mul_div_tests_pass: "list_all passes op_amo_mul_div_tests"
  by code_simp

lemma op_amo_atomic_tests_pass: "list_all passes op_amo_atomic_tests"
  by code_simp

end
