(* ===== verification/Compressed_Tests.thy ===== *)
theory Compressed_Tests
  imports Test_Support
begin

text \<open>
  The unit tests of the 16-bit instructions (\<^verbatim>\<open>interpreter/decode_execute/compressed/\<close>).
\<close>

unbundle bit_operations_syntax

definition c_addi_caddi :: "unit option" where
  "c_addi_caddi = do {
     let memory = \<lparr>code = [], ram = []\<rparr>;
     let interpreter = interpreter_new memory 0;
     let inst = \<lparr>ci1_rd_rs1 = 1, ci1_imm = 0x4\<rparr>;
     interpreter \<leftarrow> poke 1 0x1 interpreter;
     let (result, interpreter) =
       execute_CAddi (TypeCI1_from_embive (TypeCI1_to_embive inst)) interpreter;
     assert (result = Inr Running);
     value \<leftarrow> peek_mut 1 interpreter;
     assert (value = 0x5);
     assert (program_counter interpreter = 0x2)
   }"

definition c_addi16sp_caddi16spn :: "unit option" where
  "c_addi16sp_caddi16spn = do {
     let memory = \<lparr>code = [], ram = []\<rparr>;
     let interpreter = interpreter_new memory 0;
     interpreter \<leftarrow> poke (reg_index SP) 0x1 interpreter;
     let inst = \<lparr>ci2_rd_rs1 = 2, ci2_imm = 96\<rparr>;
     let (result, interpreter) =
       execute_CAddi16sp (TypeCI2_from_embive (TypeCI2_to_embive inst)) interpreter;
     assert (result = Inr Running);
     value \<leftarrow> peek (reg_index SP) interpreter;
     assert (value = 97);
     assert (program_counter interpreter = 0x2)
   }"

definition c_addi4spn_caddi4spn :: "unit option" where
  "c_addi4spn_caddi4spn = do {
     let memory = \<lparr>code = [], ram = []\<rparr>;
     let interpreter = interpreter_new memory 0;
     interpreter \<leftarrow> poke (reg_index SP) 0x1 interpreter;
     let inst = \<lparr>ciw_rd = 10, ciw_imm = 0x100\<rparr>;
     let (result, interpreter) =
       execute_CAddi4spn (TypeCIW_from_embive (TypeCIW_to_embive inst)) interpreter;
     assert (result = Inr Running);
     value \<leftarrow> peek 10 interpreter;
     assert (value = 0x101);
     assert (program_counter interpreter = 0x2)
   }"

definition c_addi4spn_illegal :: "unit option" where
  "c_addi4spn_illegal = do {
     let memory = \<lparr>code = [], ram = []\<rparr>;
     let interpreter = interpreter_new memory 0;
     let inst = \<lparr>ciw_rd = 10, ciw_imm = 0x0\<rparr>;
     let (result, interpreter) =
       execute_CAddi4spn (TypeCIW_from_embive (TypeCIW_to_embive inst)) interpreter;
     assert (result = Inl (IllegalInstruction (program_counter interpreter)))
   }"

definition c_and_cand :: "unit option" where
  "c_and_cand = do {
     let memory = \<lparr>code = [], ram = []\<rparr>;
     let interpreter = interpreter_new memory 0;
     let inst = \<lparr>cs_rd_rs1 = 1, cs_rs2 = 2\<rparr>;
     interpreter \<leftarrow> poke 1 3 interpreter;
     interpreter \<leftarrow> poke 2 1 interpreter;
     let (result, interpreter) =
       execute_CAnd (TypeCS_from_embive (TypeCS_to_embive inst)) interpreter;
     assert (result = Inr Running);
     value \<leftarrow> peek_mut 1 interpreter;
     assert (value = 1);
     assert (program_counter interpreter = 0x2)
   }"

definition c_andi_candi :: "unit option" where
  "c_andi_candi = do {
     let memory = \<lparr>code = [], ram = []\<rparr>;
     let interpreter = interpreter_new memory 0;
     let inst = \<lparr>cb2_rd_rs1 = 1, cb2_imm = 0x5\<rparr>;
     interpreter \<leftarrow> poke 1 1 interpreter;
     let (result, interpreter) =
       execute_CAndi (TypeCB2_from_embive (TypeCB2_to_embive inst)) interpreter;
     assert (result = Inr Running);
     value \<leftarrow> peek_mut 1 interpreter;
     assert (value = 1);
     assert (program_counter interpreter = 0x2)
   }"

definition c_beqz_cbeqz :: "unit option" where
  "c_beqz_cbeqz = do {
     let memory = \<lparr>code = [], ram = []\<rparr>;
     let interpreter = interpreter_new memory 0;
     let inst = \<lparr>cb4_rs1 = 8, cb4_imm = 0x4\<rparr>;
     interpreter \<leftarrow> poke 8 0x1 interpreter;
     let (result, interpreter) =
       execute_CBeqz (TypeCB4_from_embive (TypeCB4_to_embive inst)) interpreter;
     assert (result = Inr Running);
     assert (program_counter interpreter = 0x2)
   }"

definition c_beqz_cbeqz_zero :: "unit option" where
  "c_beqz_cbeqz_zero = do {
     let memory = \<lparr>code = [], ram = []\<rparr>;
     let interpreter = interpreter_new memory 0;
     let inst = \<lparr>cb4_rs1 = 8, cb4_imm = 0x4\<rparr>;
     let (result, interpreter) =
       execute_CBeqz (TypeCB4_from_embive (TypeCB4_to_embive inst)) interpreter;
     assert (result = Inr Running);
     assert (program_counter interpreter = 0x4)
   }"

definition c_bnez_cneqz :: "unit option" where
  "c_bnez_cneqz = do {
     let memory = \<lparr>code = [], ram = []\<rparr>;
     let interpreter = interpreter_new memory 0;
     let inst = \<lparr>cb4_rs1 = 8, cb4_imm = 0x4\<rparr>;
     interpreter \<leftarrow> poke 8 0x1 interpreter;
     let (result, interpreter) =
       execute_CBnez (TypeCB4_from_embive (TypeCB4_to_embive inst)) interpreter;
     assert (result = Inr Running);
     assert (program_counter interpreter = 0x4)
   }"

definition c_bnez_cneqz_zero :: "unit option" where
  "c_bnez_cneqz_zero = do {
     let memory = \<lparr>code = [], ram = []\<rparr>;
     let interpreter = interpreter_new memory 0;
     let inst = \<lparr>cb4_rs1 = 8, cb4_imm = 0x4\<rparr>;
     let (result, interpreter) =
       execute_CBnez (TypeCB4_from_embive (TypeCB4_to_embive inst)) interpreter;
     assert (result = Inr Running);
     assert (program_counter interpreter = 0x2)
   }"

definition c_ebreak_jalr_add_cebreak :: "unit option" where
  "c_ebreak_jalr_add_cebreak = do {
     let memory = \<lparr>code = [], ram = []\<rparr>;
     let interpreter = interpreter_new memory 0;
     let inst = \<lparr>cr_rd_rs1 = 0, cr_rs2 = 0\<rparr>;
     let (result, interpreter) =
       execute_CEbreakJalrAdd (TypeCR_from_embive (TypeCR_to_embive inst)) interpreter;
     assert (result = Inr Halted);
     assert (program_counter interpreter = 0x2)
   }"

definition c_ebreak_jalr_add_cjalr :: "unit option" where
  "c_ebreak_jalr_add_cjalr = do {
     let memory = \<lparr>code = [], ram = []\<rparr>;
     let interpreter = interpreter_new memory 0;
     let inst = \<lparr>cr_rd_rs1 = 1, cr_rs2 = 0\<rparr>;
     interpreter \<leftarrow> poke 1 4 interpreter;
     let (result, interpreter) =
       execute_CEbreakJalrAdd (TypeCR_from_embive (TypeCR_to_embive inst)) interpreter;
     assert (result = Inr Running);
     value \<leftarrow> peek (reg_index RA) interpreter;
     assert (value = 0x2);
     assert (program_counter interpreter = 0x4)
   }"

definition c_ebreak_jalr_add_cadd :: "unit option" where
  "c_ebreak_jalr_add_cadd = do {
     let memory = \<lparr>code = [], ram = []\<rparr>;
     let interpreter = interpreter_new memory 0;
     let inst = \<lparr>cr_rd_rs1 = 1, cr_rs2 = 2\<rparr>;
     interpreter \<leftarrow> poke 1 5 interpreter;
     interpreter \<leftarrow> poke 2 3 interpreter;
     let (result, interpreter) =
       execute_CEbreakJalrAdd (TypeCR_from_embive (TypeCR_to_embive inst)) interpreter;
     assert (result = Inr Running);
     value \<leftarrow> peek_mut 1 interpreter;
     assert (value = 8);
     assert (program_counter interpreter = 0x2)
   }"

definition c_j_cj :: "unit option" where
  "c_j_cj = do {
     let memory = \<lparr>code = [], ram = []\<rparr>;
     let interpreter = interpreter_new memory 0;
     let inst = \<lparr>cj_imm = 0xc\<rparr>;
     let (result, interpreter) =
       execute_CJ (TypeCJ_from_embive (TypeCJ_to_embive inst)) interpreter;
     assert (result = Inr Running);
     assert (program_counter interpreter = 0xc)
   }"

definition c_jal_cjal :: "unit option" where
  "c_jal_cjal = do {
     let memory = \<lparr>code = [], ram = []\<rparr>;
     let interpreter = interpreter_new memory 0;
     let inst = \<lparr>cj_imm = 0xc\<rparr>;
     let (result, interpreter) =
       execute_CJal (TypeCJ_from_embive (TypeCJ_to_embive inst)) interpreter;
     assert (result = Inr Running);
     value \<leftarrow> peek (reg_index RA) interpreter;
     assert (value = 0x2);
     assert (program_counter interpreter = 0xc)
   }"

definition c_jr_mv_cjr :: "unit option" where
  "c_jr_mv_cjr = do {
     let memory = \<lparr>code = [], ram = []\<rparr>;
     let interpreter = interpreter_new memory 0;
     let inst = \<lparr>cr_rd_rs1 = 1, cr_rs2 = 0\<rparr>;
     interpreter \<leftarrow> poke 1 4 interpreter;
     let (result, interpreter) =
       execute_CJrMv (TypeCR_from_embive (TypeCR_to_embive inst)) interpreter;
     assert (result = Inr Running);
     assert (program_counter interpreter = 0x4)
   }"

definition c_jr_mv_cmv :: "unit option" where
  "c_jr_mv_cmv = do {
     let memory = \<lparr>code = [], ram = []\<rparr>;
     let interpreter = interpreter_new memory 0;
     let inst = \<lparr>cr_rd_rs1 = 1, cr_rs2 = 2\<rparr>;
     interpreter \<leftarrow> poke 2 4 interpreter;
     let (result, interpreter) =
       execute_CJrMv (TypeCR_from_embive (TypeCR_to_embive inst)) interpreter;
     assert (result = Inr Running);
     value \<leftarrow> peek_mut 1 interpreter;
     assert (value = 4);
     assert (program_counter interpreter = 0x2)
   }"

definition c_li_cli :: "unit option" where
  "c_li_cli = do {
     let memory = \<lparr>code = [], ram = []\<rparr>;
     let interpreter = interpreter_new memory 0;
     let inst = \<lparr>ci1_rd_rs1 = 1, ci1_imm = 0x4\<rparr>;
     let (result, interpreter) =
       execute_CLi (TypeCI1_from_embive (TypeCI1_to_embive inst)) interpreter;
     assert (result = Inr Running);
     value \<leftarrow> peek_mut 1 interpreter;
     assert (value = 0x4);
     assert (program_counter interpreter = 0x2)
   }"

definition c_lui_clui :: "unit option" where
  "c_lui_clui = do {
     let memory = \<lparr>code = [], ram = []\<rparr>;
     let interpreter = interpreter_new memory 0;
     let inst = \<lparr>ci3_rd_rs1 = 1, ci3_imm = push_bit 12 21\<rparr>;
     let (result, interpreter) =
       execute_CLui (TypeCI3_from_embive (TypeCI3_to_embive inst)) interpreter;
     assert (result = Inr Running);
     value \<leftarrow> peek_mut 1 interpreter;
     assert (value = push_bit 12 21);
     assert (program_counter interpreter = 0x2)
   }"

definition c_lw_clw :: "unit option" where
  "c_lw_clw = do {
     let ram_bytes = replicate 8 0x0;
     let ram_bytes = ram_bytes[4 := 0x12];
     let ram_bytes = ram_bytes[5 := 0x34];
     let ram_bytes = ram_bytes[6 := 0x56];
     let ram_bytes = ram_bytes[7 := 0x78];
     let memory = \<lparr>code = [], ram = ram_bytes\<rparr>;
     let interpreter = interpreter_new memory 0;
     let inst = \<lparr>cl_rd_rs2 = 8, cl_rs1 = 9, cl_imm = 0x4\<rparr>;
     interpreter \<leftarrow> poke 9 RAM_OFFSET interpreter;
     let (result, interpreter) =
       execute_CLw (slice_memory_ops 64) (TypeCL_from_embive (TypeCL_to_embive inst)) interpreter;
     assert (result = Inr Running);
     value \<leftarrow> peek_mut 8 interpreter;
     assert (value = 0x78563412);
     assert (program_counter interpreter = 0x2)
   }"

definition c_lwsp_clw :: "unit option" where
  "c_lwsp_clw = do {
     let ram_bytes = replicate 8 0x0;
     let ram_bytes = ram_bytes[4 := 0x12];
     let ram_bytes = ram_bytes[5 := 0x34];
     let ram_bytes = ram_bytes[6 := 0x56];
     let ram_bytes = ram_bytes[7 := 0x78];
     let memory = \<lparr>code = [], ram = ram_bytes\<rparr>;
     let interpreter = interpreter_new memory 0;
     let inst = \<lparr>ci5_rd_rs1 = 1, ci5_imm = 0x4\<rparr>;
     interpreter \<leftarrow> poke (reg_index SP) RAM_OFFSET interpreter;
     let (result, interpreter) =
       execute_CLwsp (slice_memory_ops 64) (TypeCI5_from_embive (TypeCI5_to_embive inst)) interpreter;
     assert (result = Inr Running);
     value \<leftarrow> peek_mut 1 interpreter;
     assert (value = 0x78563412);
     assert (program_counter interpreter = 0x2)
   }"

definition c_or_cor :: "unit option" where
  "c_or_cor = do {
     let memory = \<lparr>code = [], ram = []\<rparr>;
     let interpreter = interpreter_new memory 0;
     let inst = \<lparr>cs_rd_rs1 = 1, cs_rs2 = 2\<rparr>;
     interpreter \<leftarrow> poke 1 2 interpreter;
     interpreter \<leftarrow> poke 2 1 interpreter;
     let (result, interpreter) =
       execute_COr (TypeCS_from_embive (TypeCS_to_embive inst)) interpreter;
     assert (result = Inr Running);
     value \<leftarrow> peek_mut 1 interpreter;
     assert (value = 3);
     assert (program_counter interpreter = 0x2)
   }"

definition c_slli_cslli :: "unit option" where
  "c_slli_cslli = do {
     let memory = \<lparr>code = [], ram = []\<rparr>;
     let interpreter = interpreter_new memory 0;
     let inst = \<lparr>ci4_rd_rs1 = 1, ci4_imm = 3\<rparr>;
     interpreter \<leftarrow> poke 1 10 interpreter;
     let (result, interpreter) =
       execute_CSlli (TypeCI4_from_embive (TypeCI4_to_embive inst)) interpreter;
     assert (result = Inr Running);
     value \<leftarrow> peek_mut 1 interpreter;
     assert (value = push_bit 3 10);
     assert (program_counter interpreter = 0x2)
   }"

definition c_srai_csrai :: "unit option" where
  "c_srai_csrai = do {
     let memory = \<lparr>code = [], ram = []\<rparr>;
     let interpreter = interpreter_new memory 0;
     let inst = \<lparr>cb1_rd_rs1 = 1, cb1_imm = 3\<rparr>;
     interpreter \<leftarrow> poke 1 (- 1) interpreter;
     let (result, interpreter) =
       execute_CSrai (TypeCB1_from_embive (TypeCB1_to_embive inst)) interpreter;
     assert (result = Inr Running);
     value \<leftarrow> peek_mut 1 interpreter;
     assert (value = signed_drop_bit 3 (- 1));
     assert (program_counter interpreter = 0x2)
   }"

definition c_srli_csrli :: "unit option" where
  "c_srli_csrli = do {
     let memory = \<lparr>code = [], ram = []\<rparr>;
     let interpreter = interpreter_new memory 0;
     let inst = \<lparr>cb1_rd_rs1 = 1, cb1_imm = 3\<rparr>;
     interpreter \<leftarrow> poke 1 (- 1) interpreter;
     let (result, interpreter) =
       execute_CSrli (TypeCB1_from_embive (TypeCB1_to_embive inst)) interpreter;
     assert (result = Inr Running);
     value \<leftarrow> peek_mut 1 interpreter;
     assert (value = (drop_bit 3 ((- 1) :: u32) :: i32));
     assert (program_counter interpreter = 0x2)
   }"

definition c_sub_csub :: "unit option" where
  "c_sub_csub = do {
     let memory = \<lparr>code = [], ram = []\<rparr>;
     let interpreter = interpreter_new memory 0;
     let inst = \<lparr>cs_rd_rs1 = 1, cs_rs2 = 2\<rparr>;
     interpreter \<leftarrow> poke 1 2 interpreter;
     interpreter \<leftarrow> poke 2 1 interpreter;
     let (result, interpreter) =
       execute_CSub (TypeCS_from_embive (TypeCS_to_embive inst)) interpreter;
     assert (result = Inr Running);
     value \<leftarrow> peek_mut 1 interpreter;
     assert (value = 1);
     assert (program_counter interpreter = 0x2)
   }"

definition c_sw_csw :: "unit option" where
  "c_sw_csw = do {
     let ram_bytes = replicate 8 0x0;
     let memory = \<lparr>code = [], ram = ram_bytes\<rparr>;
     let interpreter = interpreter_new memory 0;
     let inst = \<lparr>cl_rd_rs2 = 8, cl_rs1 = 9, cl_imm = 0x4\<rparr>;
     interpreter \<leftarrow> poke 9 RAM_OFFSET interpreter;
     interpreter \<leftarrow> poke 8 0x78563412 interpreter;
     let (result, interpreter) =
       execute_CSw (slice_memory_ops 64) (TypeCL_from_embive (TypeCL_to_embive inst)) interpreter;
     assert (result = Inr Running);
     assert (program_counter interpreter = 0x2);
     assert (drop 4 (ram (Interpreter.memory interpreter)) = [0x12, 0x34, 0x56, 0x78])
   }"

definition c_swsp_csw :: "unit option" where
  "c_swsp_csw = do {
     let ram_bytes = replicate 8 0x0;
     let memory = \<lparr>code = [], ram = ram_bytes\<rparr>;
     let interpreter = interpreter_new memory 0;
     let inst = \<lparr>css_rs2 = 1, css_imm = 0x4\<rparr>;
     interpreter \<leftarrow> poke (reg_index SP) RAM_OFFSET interpreter;
     interpreter \<leftarrow> poke 1 0x78563412 interpreter;
     let (result, interpreter) =
       execute_CSwsp (slice_memory_ops 64) (TypeCSS_from_embive (TypeCSS_to_embive inst)) interpreter;
     assert (result = Inr Running);
     assert (program_counter interpreter = 0x2);
     assert (drop 4 (ram (Interpreter.memory interpreter)) = [0x12, 0x34, 0x56, 0x78])
   }"

definition c_xor_cxor :: "unit option" where
  "c_xor_cxor = do {
     let memory = \<lparr>code = [], ram = []\<rparr>;
     let interpreter = interpreter_new memory 0;
     let inst = \<lparr>cs_rd_rs1 = 1, cs_rs2 = 2\<rparr>;
     interpreter \<leftarrow> poke 1 5 interpreter;
     interpreter \<leftarrow> poke 2 3 interpreter;
     let (result, interpreter) =
       execute_CXor (TypeCS_from_embive (TypeCS_to_embive inst)) interpreter;
     assert (result = Inr Running);
     value \<leftarrow> peek_mut 1 interpreter;
     assert (value = 6);
     assert (program_counter interpreter = 0x2)
   }"

definition compressed_tests :: "unit option list" where
  "compressed_tests = [
    c_addi_caddi, c_addi16sp_caddi16spn, c_addi4spn_caddi4spn, c_addi4spn_illegal, c_and_cand,
    c_andi_candi, c_beqz_cbeqz, c_beqz_cbeqz_zero, c_bnez_cneqz, c_bnez_cneqz_zero,
    c_ebreak_jalr_add_cebreak, c_ebreak_jalr_add_cjalr, c_ebreak_jalr_add_cadd, c_j_cj,
    c_jal_cjal, c_jr_mv_cjr, c_jr_mv_cmv, c_li_cli, c_lui_clui, c_lw_clw, c_lwsp_clw, c_or_cor,
    c_slli_cslli, c_srai_csrai, c_srli_csrli, c_sub_csub, c_sw_csw, c_swsp_csw, c_xor_cxor]"

lemma compressed_tests_pass: "list_all passes compressed_tests"
  by code_simp

end
