(* ===== verification/Interpreter_Tests.thy ===== *)
theory Interpreter_Tests
  imports Test_Support
begin

text \<open>
  The unit tests of the interpreter with the transpiler (\<^verbatim>\<open>interpreter.rs\<close>).
\<close>

unbundle bit_operations_syntax

definition interpreter_test_syscall :: "unit option" where
  "interpreter_test_syscall = do {
     let code_bytes = [0x93, 0x08, 0x00, 0x00, 0x73, 0x00, 0x00, 0x00, 0x73, 0x00, 0x10, 0x00];
     code_bytes \<leftarrow> transpiled_code code_bytes;
     let memory = \<lparr>code = code_bytes, ram = []\<rparr>;
     let interpreter = interpreter_new memory 0;
     (state, interpreter) \<leftarrow> run_unwrap interpreter;
     assert (state = Called);
     interpreter \<leftarrow> syscall_unwrap interpreter;
     value \<leftarrow> peek (reg_index A0) interpreter;
     assert (value = 0);
     value \<leftarrow> peek (reg_index A1) interpreter;
     assert (value = 0)
   }"

definition interpreter_test_syscall_error :: "unit option" where
  "interpreter_test_syscall_error = do {
     let code_bytes = [0x93, 0x08, 0x20, 0x00, 0x73, 0x00, 0x00, 0x00, 0x73, 0x00, 0x10, 0x00];
     code_bytes \<leftarrow> transpiled_code code_bytes;
     let memory = \<lparr>code = code_bytes, ram = []\<rparr>;
     let interpreter = interpreter_new memory 0;
     (state, interpreter) \<leftarrow> run_unwrap interpreter;
     assert (state = Called);
     interpreter \<leftarrow> syscall_unwrap interpreter;
     value \<leftarrow> peek (reg_index A0) interpreter;
     assert (value = 1);
     value \<leftarrow> peek (reg_index A1) interpreter;
     assert (value = 0)
   }"

definition interpreter_test_syscall_args :: "unit option" where
  "interpreter_test_syscall_args = do {
     let code_bytes = [
       0x93, 0x08, 0x10, 0x00, 0x13, 0x05, 0x10, 0x00,
       0x93, 0x05, 0x20, 0x00, 0x13, 0x06, 0x30, 0x00,
       0x93, 0x06, 0x40, 0x00, 0x13, 0x07, 0xb0, 0xff,
       0x93, 0x07, 0xa0, 0xff, 0x13, 0x08, 0x90, 0xff,
       0x73, 0x00, 0x00, 0x00, 0x73, 0x00, 0x10, 0x00];
     code_bytes \<leftarrow> transpiled_code code_bytes;
     let memory = \<lparr>code = code_bytes, ram = []\<rparr>;
     let interpreter = interpreter_new memory 0;
     (state, interpreter) \<leftarrow> run_unwrap interpreter;
     assert (state = Called);
     interpreter \<leftarrow> syscall_unwrap interpreter;
     value \<leftarrow> peek (reg_index A0) interpreter;
     assert (value = 0);
     value \<leftarrow> peek (reg_index A1) interpreter;
     assert (value = - 1)
   }"

definition interpreter_test_syscall_args_error :: "unit option" where
  "interpreter_test_syscall_args_error = do {
     let code_bytes = [
       0x93, 0x08, 0x10, 0x00, 0x13, 0x05, 0xf0, 0xff,
       0x93, 0x05, 0xe0, 0xff, 0x13, 0x06, 0xd0, 0xff,
       0x93, 0x06, 0xc0, 0xff, 0x13, 0x07, 0x50, 0x00,
       0x93, 0x07, 0x60, 0x00, 0x13, 0x08, 0x70, 0x00,
       0x0f, 0x10, 0x00, 0x00, 0x73, 0x00, 0x00, 0x00,
       0x73, 0x00, 0x10, 0x00];
     code_bytes \<leftarrow> transpiled_code code_bytes;
     let memory = \<lparr>code = code_bytes, ram = []\<rparr>;
     let interpreter = interpreter_new memory 0;
     (state, interpreter) \<leftarrow> run_unwrap interpreter;
     assert (state = Called);
     interpreter \<leftarrow> syscall_unwrap interpreter;
     value \<leftarrow> peek (reg_index A0) interpreter;
     assert (value = - 1);
     value \<leftarrow> peek (reg_index A1) interpreter;
     assert (value = 0)
   }"

definition interpreter_test_reset :: "unit option" where
  "interpreter_test_reset = do {
     let memory = \<lparr>code = [], ram = []\<rparr>;
     let interpreter = interpreter_new memory 0;
     let interpreter = interpreter_reset interpreter;
     assert (program_counter interpreter = 0)
   }"

definition interpreter_test_instruction_limit :: "unit option" where
  "interpreter_test_instruction_limit = do {
     let code_bytes = [
       0x93, 0x08, 0x20, 0x00, 0x13, 0x05, 0x10, 0x00,
       0x13, 0x15, 0xf5, 0x01, 0x73, 0x00, 0x10, 0x00];
     code_bytes \<leftarrow> transpiled_code code_bytes;
     let memory = \<lparr>code = code_bytes, ram = []\<rparr>;
     let interpreter = interpreter_new memory 2;
     (result, interpreter) \<leftarrow> run (slice_memory_ops 64) interpreter;
     assert (result = Inr Running);
     assert (program_counter interpreter = 4 * 2);
     (result, interpreter) \<leftarrow> run (slice_memory_ops 64) interpreter;
     assert (result = Inr Halted);
     assert (program_counter interpreter = 4 * 4)
   }"

definition interpreter_test_instruction_limit_zero :: "unit option" where
  "interpreter_test_instruction_limit_zero = do {
     let code_bytes = [
       0x93, 0x08, 0x20, 0x00, 0x13, 0x05, 0x10, 0x00,
       0x13, 0x15, 0xf5, 0x01, 0x73, 0x00, 0x10, 0x00];
     code_bytes \<leftarrow> transpiled_code code_bytes;
     let memory = \<lparr>code = code_bytes, ram = []\<rparr>;
     let interpreter = interpreter_new memory 0;
     (result, interpreter) \<leftarrow> run (slice_memory_ops 64) interpreter;
     assert (result = Inr Halted);
     assert (program_counter interpreter = 4 * 4)
   }"

definition interpreter_test_interrupt :: "unit option" where
  "interpreter_test_interrupt = do {
     let code_bytes = [
       0x93, 0x00, 0x80, 0x00, 0xf3, 0x90, 0x00, 0x30,
       0x93, 0x00, 0x00, 0x80, 0xf3, 0x90, 0x40, 0x30,
       0x93, 0x00, 0x80, 0x02, 0xf3, 0x90, 0x50, 0x30,
       0x13, 0x01, 0x70, 0x03, 0x73, 0x00, 0x50, 0x10,
       0x93, 0x01, 0x70, 0x03, 0x73, 0x00, 0x10, 0x00,
       0x13, 0x01, 0x60, 0x01, 0x73, 0x00, 0x20, 0x30];
     code_bytes \<leftarrow> transpiled_code code_bytes;
     let memory = \<lparr>code = code_bytes, ram = []\<rparr>;
     let interpreter = interpreter_new memory 0;
     (result, interpreter) \<leftarrow> run (slice_memory_ops 64) interpreter;
     assert (result = Inr Waiting);
     value \<leftarrow> peek (reg_index SP) interpreter;
     assert (value = 55);
     let (result, interpreter) = interrupt 1024 interpreter;
     assert (result = Inr ());
     assert (program_counter interpreter = 40);
     (value, interpreter) \<leftarrow> csr_unwrap None 0x344 interpreter;
     assert (value AND push_bit EMBIVE_INTERRUPT_CODE 1 \<noteq> 0);
     (value, interpreter) \<leftarrow> csr_unwrap None 0x343 interpreter;
     assert (value = 1024);
     (result, interpreter) \<leftarrow> run (slice_memory_ops 64) interpreter;
     assert (result = Inr Halted);
     value \<leftarrow> peek (reg_index SP) interpreter;
     assert (value = 22);
     value \<leftarrow> peek (reg_index GP) interpreter;
     assert (value = 55)
   }"

definition interpreter_test_interrupt_disabled :: "unit option" where
  "interpreter_test_interrupt_disabled = do {
     let memory = \<lparr>code = [], ram = []\<rparr>;
     let interpreter = interpreter_new memory 0;
     let (result, interpreter) = interrupt 0 interpreter;
     assert (result = Inl InterruptNotEnabled)
   }"

definition interpreter_tests :: "unit option list" where
  "interpreter_tests = [
    interpreter_test_syscall, interpreter_test_syscall_error, interpreter_test_syscall_args,
    interpreter_test_syscall_args_error, interpreter_test_reset,
    interpreter_test_instruction_limit, interpreter_test_instruction_limit_zero,
    interpreter_test_interrupt, interpreter_test_interrupt_disabled]"

lemma interpreter_test_syscall_passes: "passes interpreter_test_syscall"
  by code_simp

lemma interpreter_test_syscall_error_passes: "passes interpreter_test_syscall_error"
  by code_simp

lemma interpreter_test_syscall_args_passes: "passes interpreter_test_syscall_args"
  by code_simp

lemma interpreter_test_syscall_args_error_passes: "passes interpreter_test_syscall_args_error"
  by code_simp

lemma interpreter_test_reset_passes: "passes interpreter_test_reset"
  by code_simp

lemma interpreter_test_instruction_limit_passes: "passes interpreter_test_instruction_limit"
  by code_simp

lemma interpreter_test_instruction_limit_zero_passes: "passes interpreter_test_instruction_limit_zero"
  by code_simp

lemma interpreter_test_interrupt_passes: "passes interpreter_test_interrupt"
  by code_simp

lemma interpreter_test_interrupt_disabled_passes: "passes interpreter_test_interrupt_disabled"
  by code_simp

lemma interpreter_tests_pass: "list_all passes interpreter_tests"
  by (simp add: interpreter_tests_def
      interpreter_test_syscall_passes interpreter_test_syscall_error_passes
      interpreter_test_syscall_args_passes interpreter_test_syscall_args_error_passes
      interpreter_test_reset_passes interpreter_test_instruction_limit_passes
      interpreter_test_instruction_limit_zero_passes interpreter_test_interrupt_passes
      interpreter_test_interrupt_disabled_passes)

end
