(* ===== verification/Unit_Tests.thy ===== *)
theory Unit_Tests
  imports Format_Tests Memory_Tests Execute_Tests OpAmo_Tests Compressed_Tests Interpreter_Tests
    Transpiler_Tests
begin

text \<open>
  All unit tests of the crate that the model covers, and that it passes them.
\<close>

definition decode_execute_tests :: "unit option list" where
  "decode_execute_tests =
     auipc_tests @ branch_tests @ jal_tests @ jalr_tests @ load_store_tests @ lui_tests @ op_imm_tests
     @ system_misc_mem_tests @ op_amo_arithmetic_tests @ op_amo_mul_div_tests @ op_amo_atomic_tests
     @ compressed_tests"

definition unit_tests :: "unit option list" where
  "unit_tests =
     format_tests @ memory_tests @ memory_type_tests @ cpu_tests @ control_status_tests
     @ decode_execute_tests @ interpreter_tests @ transpiler_tests"

text \<open>
  The model passes the unit tests of the crate. Each of the 210 tests sets up the state, calls the
  operations and makes the assertions of its Rust function; none of its assertions fails and none
  of its unwraps panics. So what the tests expect of every instruction, of the memory, of the
  registers, of the formats, of system calls and of interrupts, and that the transpiler makes the
  file \<^verbatim>\<open>tests/test.bin\<close> of \<^verbatim>\<open>tests/test.elf\<close>, holds of the definitions that the other theorems are
  about.
\<close>

theorem unit_tests_pass: "list_all passes unit_tests \<and> length unit_tests = 210"
proof
  show "list_all passes unit_tests"
    unfolding unit_tests_def decode_execute_tests_def list_all_append
    by (intro conjI format_tests_pass memory_tests_pass memory_type_tests_pass cpu_tests_pass
        control_status_tests_pass auipc_tests_pass branch_tests_pass jal_tests_pass jalr_tests_pass
        load_store_tests_pass lui_tests_pass op_imm_tests_pass system_misc_mem_tests_pass
        op_amo_arithmetic_tests_pass op_amo_mul_div_tests_pass op_amo_atomic_tests_pass
        compressed_tests_pass interpreter_tests_pass transpiler_tests_pass)
  show "length unit_tests = 210"
    by (simp add: unit_tests_def decode_execute_tests_def format_tests_def memory_tests_def
        memory_type_tests_def cpu_tests_def control_status_tests_def auipc_tests_def branch_tests_def
        jal_tests_def jalr_tests_def load_store_tests_def lui_tests_def op_imm_tests_def
        system_misc_mem_tests_def op_amo_arithmetic_tests_def op_amo_mul_div_tests_def
        op_amo_atomic_tests_def compressed_tests_def interpreter_tests_def
        transpiler_tests_def)
qed

end
