(* ===== verification/Binary_Tests.thy ===== *)
theory Binary_Tests
  imports Host Transpiler
begin

text \<open>
  The tests of \<^verbatim>\<open>lib.rs\<close>, which transpile each ELF file of a directory of the RISC-V test suite into
  the RAM and run it from there. A file is its contents, \<open>None\<close> if it cannot be read. A test may not
  return (the outer \<open>None\<close>), panic (\<open>Some None\<close>) or pass. The counter of system calls is a variable of
  the thread, threaded through the tests.
\<close>

type_synonym bin_result = "i32 option option"

definition BIN_RAM_SIZE :: nat where "BIN_RAM_SIZE = 32 * 1024"
definition RV32UI_TESTS :: nat where "RV32UI_TESTS = 39"
definition RV32UM_TESTS :: nat where "RV32UM_TESTS = 8"
definition RV32UA_TESTS :: nat where "RV32UA_TESTS = 10"
definition RV32UC_TESTS :: nat where "RV32UC_TESTS = 1"

text \<open>\<open>Inl ()\<close> is a panic of the handler; it returns no error.\<close>

definition bin_syscall :: "(SliceMemory, i32, unit) syscall_fn" where
  "bin_syscall nr args m counter =
     (if nr = 93 then
        if args ! 0 = 0 then (Inr (Inr 0), m, counter + 1) else (Inl (), m, counter)
      else (Inl (), m, counter))"

partial_function (option) bin_loop :: "SliceMemory Interpreter \<Rightarrow> i32 \<Rightarrow> bin_result" where
  "bin_loop interpreter counter =
     Option.bind (run (slice_memory_ops 64) interpreter) (\<lambda>(r, interpreter).
       case r of
         Inl e \<Rightarrow> Some None
       | Inr Running \<Rightarrow> bin_loop interpreter counter
       | Inr Called \<Rightarrow>
           (case syscall bin_syscall interpreter counter of
              (Inl _, interpreter, counter) \<Rightarrow> Some None
            | (Inr _, interpreter, counter) \<Rightarrow> bin_loop interpreter counter)
       | Inr Waiting \<Rightarrow> bin_loop interpreter counter
       | Inr Halted \<Rightarrow> Some (Some counter))"

definition bin_start :: "u8 list \<Rightarrow> SliceMemory Interpreter" where
  "bin_start ram_bytes =
     (interpreter_new \<lparr>code = [], ram = ram_bytes\<rparr> 0)\<lparr>program_counter := RAM_OFFSET\<rparr>"

definition execute_bin_test ::
  "(u8 list \<Rightarrow> 'p + ('p, 'c) ElfBytes) \<Rightarrow> u8 list option \<Rightarrow> i32 \<Rightarrow> bin_result" where
  "execute_bin_test minimal_parse contents counter =
     (case contents of
        None \<Rightarrow> Some None
      | Some test_elf \<Rightarrow>
          (case transpile_elf minimal_parse test_elf (replicate BIN_RAM_SIZE 0) of
             (Inl e, ram_bytes) \<Rightarrow> Some None
           | (Inr n, ram_bytes) \<Rightarrow>
               Option.bind (bin_loop (bin_start ram_bytes) counter) (\<lambda>r.
                 case r of
                   None \<Rightarrow> Some None
                 | Some new_counter \<Rightarrow>
                     if new_counter \<le>s counter then Some None else Some (Some new_counter))))"

text \<open>The loop over the entries of a directory; it counts them and compares with what is expected.\<close>

primrec bin_tests_loop ::
  "(u8 list \<Rightarrow> 'p + ('p, 'c) ElfBytes) \<Rightarrow> u8 list option list \<Rightarrow> i32 \<Rightarrow> bin_result" where
  "bin_tests_loop minimal_parse [] counter = Some (Some counter)"
| "bin_tests_loop minimal_parse (test # tests) counter =
     Option.bind (execute_bin_test minimal_parse test counter) (\<lambda>r.
       case r of
         None \<Rightarrow> Some None
       | Some counter \<Rightarrow> bin_tests_loop minimal_parse tests counter)"

definition bin_tests ::
  "nat \<Rightarrow> (u8 list \<Rightarrow> 'p + ('p, 'c) ElfBytes) \<Rightarrow> u8 list option list option \<Rightarrow> i32 \<Rightarrow> bin_result" where
  "bin_tests expected minimal_parse dir counter =
     (case dir of
        None \<Rightarrow> Some None
      | Some tests \<Rightarrow>
          Option.bind (bin_tests_loop minimal_parse tests counter) (\<lambda>r.
            case r of
              None \<Rightarrow> Some None
            | Some counter \<Rightarrow> if length tests = expected then Some (Some counter) else Some None))"

definition rv32ui_bin_tests ::
  "(u8 list \<Rightarrow> 'p + ('p, 'c) ElfBytes) \<Rightarrow> u8 list option list option \<Rightarrow> i32 \<Rightarrow> bin_result" where
  "rv32ui_bin_tests = bin_tests RV32UI_TESTS"

definition rv32um_bin_tests ::
  "(u8 list \<Rightarrow> 'p + ('p, 'c) ElfBytes) \<Rightarrow> u8 list option list option \<Rightarrow> i32 \<Rightarrow> bin_result" where
  "rv32um_bin_tests = bin_tests RV32UM_TESTS"

definition rv32ua_bin_tests ::
  "(u8 list \<Rightarrow> 'p + ('p, 'c) ElfBytes) \<Rightarrow> u8 list option list option \<Rightarrow> i32 \<Rightarrow> bin_result" where
  "rv32ua_bin_tests = bin_tests RV32UA_TESTS"

definition rv32uc_bin_tests ::
  "(u8 list \<Rightarrow> 'p + ('p, 'c) ElfBytes) \<Rightarrow> u8 list option list option \<Rightarrow> i32 \<Rightarrow> bin_result" where
  "rv32uc_bin_tests = bin_tests RV32UC_TESTS"

section \<open>What a test that passes has shown\<close>

text \<open>
  \<open>reports s n t\<close>: the guest runs from \<open>s\<close> and halts in \<open>t\<close>; in between it has made \<open>n\<close> system calls,
  each of which reported success (number 93 with the argument 0).
\<close>

inductive reports :: "SliceMemory Interpreter \<Rightarrow> nat \<Rightarrow> SliceMemory Interpreter \<Rightarrow> bool" where
  halts: "run (slice_memory_ops 64) s = Some (Inr Halted, t) \<Longrightarrow> reports s 0 t"
| goes_on: "run (slice_memory_ops 64) s = Some (Inr r, t) \<Longrightarrow> r = Running \<or> r = Waiting \<Longrightarrow>
    reports t n u \<Longrightarrow> reports s n u"
| succeeds: "run (slice_memory_ops 64) s = Some (Inr Called, t) \<Longrightarrow>
    syscall_arguments t = (93, args, m) \<Longrightarrow> args ! 0 = 0 \<Longrightarrow>
    reports (syscall_result (Inr 0) t) n u \<Longrightarrow> reports s (Suc n) u"

lemma bin_syscall_ok:
  "syscall bin_syscall s counter = (Inr x, s', counter') \<longleftrightarrow>
     (\<exists>args m. syscall_arguments s = (93, args, m) \<and> args ! 0 = 0)
     \<and> s' = syscall_result (Inr 0) s \<and> counter' = counter + 1"
  by (auto simp: syscall_def syscall_arguments_def bin_syscall_def Let_def split: if_splits)

lemma bin_loop_reports:
  assumes "bin_loop s counter = Some (Some counter')"
  shows "\<exists>n t. reports s n t \<and> counter' = counter + of_nat n"
proof -
  have "\<forall>c. r = Some c \<longrightarrow> (\<exists>n t. reports s n t \<and> c = counter + of_nat n)"
    if "bin_loop s counter = Some r" for r
  proof (rule bin_loop.raw_induct [where P = "\<lambda>s counter r.
      \<forall>c. r = Some c \<longrightarrow> (\<exists>n t. reports s n t \<and> c = counter + of_nat n)", OF _ that], intro allI impI)
    fix loop s counter r c
    assume IH: "\<And>s counter r. loop s counter = Some r \<Longrightarrow>
        \<forall>c. r = Some c \<longrightarrow> (\<exists>n t. reports s n t \<and> c = counter + of_nat n)"
      and r: "r = Some (c :: i32)"
      and body: "Option.bind (run (slice_memory_ops 64) s) (\<lambda>(r, interpreter).
       case r of
         Inl e \<Rightarrow> Some None
       | Inr Running \<Rightarrow> loop interpreter counter
       | Inr Called \<Rightarrow>
           (case syscall bin_syscall interpreter counter of
              (Inl _, interpreter, counter) \<Rightarrow> Some None
            | (Inr _, interpreter, counter) \<Rightarrow> loop interpreter counter)
       | Inr Waiting \<Rightarrow> loop interpreter counter
       | Inr Halted \<Rightarrow> Some (Some counter)) = Some r"
    obtain y t where y: "run (slice_memory_ops 64) s = Some (y, t)"
      using body by (auto simp: bind_eq_Some_conv)
    with body r obtain x where "y = Inr x" by (cases y) auto
    with y have run: "run (slice_memory_ops 64) s = Some (Inr x, t)" by simp
    show "\<exists>n t. reports s n t \<and> c = counter + of_nat n"
    proof (cases x)
      case Halted
      with body r run have "reports s 0 t" "c = counter + of_nat 0" by (auto intro: halts)
      then show ?thesis by blast
    next
      case Called
      with body r run obtain y s' counter' where call:
        "syscall bin_syscall t counter = (Inr y, s', counter')" "loop s' counter' = Some (Some c)"
        by (auto split: prod.splits sum.splits)
      with IH obtain n u where "reports s' n u" "c = counter' + of_nat n" by blast
      with call Called run have "reports s (Suc n) u" "c = counter + of_nat (Suc n)"
        by (auto simp: bin_syscall_ok intro: succeeds)
      then show ?thesis by blast
    qed (use body r run IH goes_on in fastforce)+
  qed
  with assms show ?thesis by blast
qed

text \<open>
  A binary test passes only if the guest halts after it has reported success at least once, and
  never a failure.
\<close>

theorem bin_test_reports_success:
  assumes "execute_bin_test minimal_parse contents counter = Some (Some counter')"
  shows "\<exists>elf size ram_bytes n t. contents = Some elf
    \<and> transpile_elf minimal_parse elf (replicate BIN_RAM_SIZE 0) = (Inr size, ram_bytes)
    \<and> reports (bin_start ram_bytes) n t \<and> 0 < n \<and> counter' = counter + of_nat n"
proof -
  from assms obtain elf size ram_bytes where elf: "contents = Some elf"
      "transpile_elf minimal_parse elf (replicate BIN_RAM_SIZE 0) = (Inr size, ram_bytes)"
    and loop: "bin_loop (bin_start ram_bytes) counter = Some (Some counter')"
    and new: "\<not> counter' \<le>s counter"
    by (auto simp: execute_bin_test_def bind_eq_Some_conv
        split: option.splits prod.splits sum.splits if_splits)
  from bin_loop_reports [OF loop] obtain n t where
    "reports (bin_start ram_bytes) n t" "counter' = counter + of_nat n" by blast
  moreover with new have "0 < n" by (cases n) auto
  ultimately show ?thesis using elf by blast
qed

end
