(* ===== verification/Spec2Isabelle.thy ===== *)
theory Spec2Isabelle
  imports Machine_Theorems Transpiler_Theorems Elf_Theorems Debugger_Theorems Host_Theorems Fuzz
    Guest_Examples Gdb_Tcp Unit_Tests Binary_Tests Embassy_Example
begin

text \<open>
  A verification development for Embive, a RISC-V (RV32IMAC) sandbox written in Rust. Paths below
  are relative to \<^verbatim>\<open>src/\<close> of the crate.

  The program. A RISC-V program is first transpiled: \<^verbatim>\<open>transpiler.rs\<close> walks over the code
  sections of an ELF file and replaces, in place, every RISC-V instruction by an Embive instruction of
  the same size (\<^verbatim>\<open>transpiler/convert/\<close>); the Embive encoding has the opcode in its low five bits
  (\<^verbatim>\<open>instruction.rs\<close>) and its own layout of the operands (\<^verbatim>\<open>format.rs\<close>). The interpreter
  (\<^verbatim>\<open>interpreter.rs\<close>) then fetches, decodes and executes these instructions on 32 CPU registers, the
  machine-mode control and status registers and a memory that the host supplies. The host drives it:
  it runs the guest, answers its system calls, raises interrupts; or a debugger does
  (\<^verbatim>\<open>interpreter/debugger.rs\<close>), which steps the guest and reports to GDB why it stopped.

  The model, by theory:
  \<^item> \<open>Embive_Prelude\<close>: machine integers, little-endian bytes, slices, the operator \<open>?\<close> of Rust
    (\<open>question\<close>), and the lemmas on them that everything shares.
  \<^item> \<open>Format\<close>, \<open>Format_Compressed\<close> (\<^verbatim>\<open>format.rs\<close>): one record per format, with \<open>T_from_riscv\<close>,
    \<open>T_from_embive\<close>, \<open>T_to_embive\<close> and the operands \<open>T_wf\<close> that fit into the encoding. The locale
    \<open>instruction_format\<close> is the trait \<open>Format\<close> with its laws; every format interprets it.
  \<^item> \<open>Instruction\<close> (\<^verbatim>\<open>instruction.rs\<close>): the datatype of the 32 instructions, encoder, decoder.
  \<^item> \<open>Memory\<close> (\<^verbatim>\<open>interpreter/memory.rs\<close>, \<^verbatim>\<open>memory_type.rs\<close>, \<^verbatim>\<open>error.rs\<close>): the trait \<open>Memory\<close> as a
    record of operations, a parameter of the interpreter; \<open>SliceMemory\<close> as \<open>slice_memory_ops W\<close>, where
    \<open>W\<close> is the width of \<open>usize\<close>. The locale \<open>memory_trait\<close> has the laws the guest relies on.
  \<^item> \<open>Registers\<close> (\<^verbatim>\<open>interpreter/registers/\<close>), \<open>Interpreter_State\<close> (the state, \<^verbatim>\<open>interpreter.rs\<close>).
  \<^item> \<open>Execute_Base\<close>, \<open>Execute_Compressed\<close>, \<open>Decode_Execute\<close> (\<^verbatim>\<open>interpreter/decode_execute/\<close>): one
    definition per implementation of the trait \<open>Execute\<close>. An operation returns \<open>Inl\<close> an error or \<open>Inr\<close>
    a result, and the state after it. The locale \<open>register_relation\<close> lifts a relation that register
    and memory updates respect to whole instructions; its interpretations give the frame of an
    instruction, the sandbox and the register invariant.
  \<^item> \<open>Interpreter\<close>: fetch, step, run, interrupts, system calls, and the states that a host can reach.
  \<^item> \<open>Execution_Facts\<close>: how instructions fail.
  \<^item> \<open>Riscv_Spec\<close>: the abstract specification, the meaning of the RISC-V instructions written from the
    RISC-V manual. \<open>Riscv_Word\<close>, \<open>Riscv_Compressed\<close>: executing the instruction that a word is
    converted to has that meaning, for the 32-bit and for the 16-bit instructions. \<open>Program\<close>: the same
    for code that was transpiled and loaded at some offset, and for runs of a RISC-V program.
  \<^item> \<open>Convert\<close> (\<^verbatim>\<open>transpiler/convert/\<close>), \<open>Transpiler\<close> (\<^verbatim>\<open>transpiler.rs\<close>): a panic is the failure
    \<open>Panicked\<close>; \<open>Transpiled_Code\<close> and \<open>Elf_Layout\<close> have the lemmas on buffers and on sections.
  \<^item> \<open>Elf_Image\<close>: the abstract specification of an ELF transpilation, the layout of the binary, and that
    the section loop writes it.
  \<^item> \<open>Debugger\<close> (\<^verbatim>\<open>interpreter/debugger.rs\<close>, \<^verbatim>\<open>debugger/gdb.rs\<close>); the locale \<open>bounded_table\<close> is the
    contract of its breakpoints with GDB.
  \<^item> \<open>Host\<close>: \<open>syscall_async\<close> as a future that is polled, and from \<^verbatim>\<open>examples/\<close> the loop of a host
    and the handlers of system calls. The locale \<open>blocking_handler\<close> relates an asynchronous handler to a
    blocking one. \<open>Gdb_Tcp\<close>: the example \<^verbatim>\<open>gdb_tcp.rs\<close>, its connection over TCP and its program.
  \<^item> \<open>Riscv_Guest\<close>: the abstract specification of a whole guest, the RISC-V code of all executable
    sections of an ELF file with the reactions of the host, ending or not; \<open>Guest_Check\<close>: deciding by
    evaluation that a guest is one of the specification, up to its end; \<open>Guest_Examples\<close>: two guests.
  \<^item> \<open>Memory_Simulation\<close>: the locale \<open>memory_simulation\<close> relates two implementations of the trait \<open>Memory\<close>
    and lifts the relation from loads and stores to instructions, runs and the loop of the host; its
    interpretation by the identity shows that no instruction reads the instruction limit.
    \<open>Journal_Memory\<close>: a memory of the bytes written so far, which simulates \<open>SliceMemory\<close>, for evaluating
    whole programs in the logic. \<open>Embassy_Example\<close>: the program \<^verbatim>\<open>examples/embassy.rs\<close>, evaluated with it
    on \<^verbatim>\<open>tests/app.elf\<close>.
  \<^item> \<open>Fuzz\<close>: the two targets of \<^verbatim>\<open>fuzz/fuzz_targets/\<close>.
  \<^item> \<open>Test_Support\<close>, \<open>Format_Tests\<close>, \<open>Memory_Tests\<close>, \<open>Execute_Tests\<close>, \<open>OpAmo_Tests\<close>,
    \<open>Compressed_Tests\<close>, \<open>Interpreter_Tests\<close>, \<open>Transpiler_Tests\<close>, \<open>Unit_Tests\<close>: the unit tests in the modules of the crate,
    each a definition that follows its Rust function statement by statement, in the option monad, where
    \<open>None\<close> is a failed assertion or a panic. The code equations of \<open>Test_Support\<close> let them be evaluated
    in the logic. \<open>Binary_Tests\<close>: the tests of \<^verbatim>\<open>lib.rs\<close> on the RISC-V test suite, as functions of the
    files, and what a test that passes has shown.
  \<^item> \<open>Machine_Theorems\<close>, \<open>Transpiler_Theorems\<close>, \<open>Elf_Theorems\<close>, \<open>Debugger_Theorems\<close>, \<open>Host_Theorems\<close> and
    this theory: the properties.

  What the properties show. This theory: transpiling and then interpreting is executing RISC-V, for a
  step, for a run, and for a whole guest that a host drives, from the ELF file on.
  \<open>Machine_Theorems\<close>: decoding inverts encoding; the memory contract and its bounds; the control and
  status registers as a masked map; interrupts, system calls, atomics; the guest cannot leave its
  sandbox, a failed instruction has no effect, and runs are iterated steps. \<open>Transpiler_Theorems\<close>:
  what is accepted is decodable and stays in place, when the transpiler panics, and that it stays in
  the buffer. \<open>Elf_Theorems\<close>: the binary is the layout, in a buffer or in a vector, and when its
  sections are lost, or their padding. \<open>Debugger_Theorems\<close>: breakpoints, the reported stop reasons, that GDB can always
  interrupt the guest, access to registers and memory.
  \<open>Host_Theorems\<close>: an awaited system call is a system call, debugging is transparent, the guest
  reaches its end under every instruction limit. \<open>Embassy_Example\<close>: the example succeeds. \<open>Fuzz\<close>: an
  input on which the fuzz target hangs. That the model passes the unit tests (\<open>Unit_Tests\<close>) is not
  counted as a property; it ties the definitions to the expectations of the authors of the crate.

  Loops. \<open>run\<close> with an instruction limit and the loops of the transpiler are total functions (the
  latter by the distance to the end of the code). \<open>run\<close> without a limit, the event loop of the
  debugger, the loops of the host and of the fuzz target and the polling of a future are partial
  functions into \<open>option\<close>, where \<open>None\<close> is a loop that does not return; \<open>run_is_iterated_step\<close> says
  when \<open>run\<close> returns, \<open>debugger_is_transparent\<close> that the event loop and the loop of the host return
  together, \<open>every_limit_ends\<close> that the limit does not matter for that, \<open>elf_guest_executes_riscv\<close> and
  \<open>elf_guest_runs_forever\<close> that the loop of the host returns when the RISC-V guest ends and does not when
  it goes on for ever, \<open>gdb_interrupts_guest\<close> after how many instructions the event loop returns. No fuel
  is used, except that \<open>host_steps\<close> and \<open>wait_iterations\<close> bound the number of instructions in statements
  about the loops.

  Parameters and hypotheses. The ELF parser is the crate \<^verbatim>\<open>elf\<close>: \<open>minimal_parse\<close> and the function
  \<open>section_data\<close> of its result are parameters. The properties of ELF files assume three things.
  \<open>section_data_sized\<close>: the parser returns as many bytes for a section that is loaded as its header says,
  which it documents; the data of other sections, like \<^verbatim>\<open>.bss\<close>, is empty. \<open>skip_test_exact\<close>: the test by
  which the code skips sections holds of the empty loadable sections of the file and of no other. It
  does if the entry point is 0 and the sections are aligned; otherwise code may be missing in the binary,
  which \<open>section_skip_test\<close> states. \<open>in_order\<close>, where padding matters: the sections in the binary are in
  ascending order, do not overlap, and have two bytes or more. The files of the repository, \<^verbatim>\<open>tests/test.elf\<close>
  and \<^verbatim>\<open>tests/app.elf\<close>, meet all three (\<open>test_elf_sized\<close>, \<open>test_elf_exact\<close>, \<open>test_elf_in_order\<close> and
  \<open>app_elf_conditions\<close>).

  The properties that compare with RISC-V assume that x0 holds zero at the start, and that every
  instruction of the RISC-V program conforms (\<open>conforms\<close>, \<open>Riscv_Spec\<close>): the code violates RISC-V in the
  cases this excludes. They are a load, \<open>c.mv\<close> or \<open>c.add\<close> with destination x0, an indirect jump to an
  odd address, an atomic instruction on an address that is not a multiple of four, a write to a read-only
  control and status register, an access to these registers when they hold values that no write
  can give them, and \<open>mret\<close> when MPIE is not set or \<open>mepc\<close> is odd. The findings list them.

  The connection to GDB and the handler of system calls are parameters
  as well, and so is how often the \<open>yield_now\<close> of \<^verbatim>\<open>embassy_futures\<close> is pending, and in \<open>Gdb_Tcp\<close> the
  TCP stream, the file system and the server of \<^verbatim>\<open>gdbstub\<close>. A handler that drives a guest from an ELF
  file must leave the code region alone, as a handler of \<open>SliceMemory\<close> does, which borrows it immutably.
  Arithmetic that Rust checks only in debug builds wraps around, as in release builds; \<open>usize\<close> has 64
  bits in the transpiler and \<open>W\<close> bits in the memory, at least 32 in the properties.

  Not modelled: \<open>Debug\<close> and \<open>Display\<close>, the messages that the examples log or print, the executor of the
  asynchronous example with its second task, and the arithmetic of \<^verbatim>\<open>f32\<close> and \<^verbatim>\<open>f64\<close>, which only two tests use.
  The tests of \<^verbatim>\<open>lib.rs\<close> are modelled but not evaluated: their binaries run thousands of instructions.
\<close>

section \<open>From the ELF file to the whole guest\<close>

text \<open>
  C1: The composition of everything: transpiling an ELF file, loading the binary and letting a host
  drive the interpreter is executing the RISC-V program in the file. Take the loop of the host, with
  an asynchronous handler of system calls that answers as \<open>f\<close> does and leaves the code region alone,
  with any instruction limit and any interrupt value. If the RISC-V code, executed after the
  specification across the executable sections of the file, every instruction followed by what the
  host does for a system call, a wait, a breakpoint or an error, comes to its end, then the loop
  returns, with that result, that interpreter and what the handler has captured.

  The conditions. Of the file: the transpiler accepts it; the parser returns as many bytes for a
  loadable section as its header says; the test by which the transpiler skips sections holds of the empty
  loadable sections and of no other, so no code is missing; the sections in the binary are in
  ascending order, each at least two bytes long. Of the state: the code region begins with the binary and has at
  most \<open>2 ^ 31\<close> bytes, and x0 holds zero. Of every instruction of the RISC-V program: it
  begins at an instruction of an executable section, the specification gives it a meaning, and it
  \<open>conforms\<close>: it is no load, \<open>c.mv\<close> or \<open>c.add\<close> with destination x0, no indirect jump to an odd address,
  no atomic instruction on a misaligned address, no write to a read-only control and status register
  nor an access to these registers when they hold illegal values, and no \<open>mret\<close> with MPIE clear or an
  odd \<open>mepc\<close>.
\<close>

theorem elf_guest_executes_riscv:
  fixes minimal_parse :: "u8 list \<Rightarrow> 'p + ('p, 'k) ElfBytes"
  assumes W: "32 \<le> W"
    and elf: "minimal_parse elf = Inr elf_bytes" "section_data_sized elf_bytes"
      "skip_test_exact elf_bytes" "in_order (elf_layout elf_bytes)"
    and t: "transpile_elf minimal_parse elf output = (Inr n, output')"
    and s: "take (unat n) (code (memory s)) = take (unat n) output'" "length (code (memory s)) \<le> 2 ^ 31"
      "read_x s 0 = 0"
    and f: "\<And>nr args m c fut m' c'. async_call A nr args m c = (fut, m', c') \<Longrightarrow>
      await_handler A fut m' c' = Some (f nr args m c)" "keeps_code f"
    and "riscv_guest_ends (slice_memory_ops W) f v (elf_layout elf_bytes) s c y"
  shows "host_loop (slice_memory_ops W) A v s c = Some y"
proof -
  have "blocking_handler A f" using f(1) by (rule blocking_handler.intro)
  with guest_ends [OF assms(12) W f(2) elf_guest_loaded [OF elf(1-3) t elf(4) s]] show ?thesis
    by (simp add: blocking_handler.host_loop_iff)
qed

text \<open>
  The guest of the example \<^verbatim>\<open>embassy.rs\<close> in \<^verbatim>\<open>tests/app.elf\<close>, a file with data and \<^verbatim>\<open>.bss\<close> sections, meets
  the conditions, and so does every instruction that it executes.
\<close>

theorem elf_guest_executes_riscv_witness:
  "host_loop (slice_memory_ops 64)
     (example_syscall_async (slice_memory_ops 64) 1 :: (SliceMemory, unit, unit, ExampleFuture) async_fn)
     10 app_guest () = Some (None, interpreter_map app_memory id app_end, ())"
  by (rule elf_guest_executes_riscv [OF _ refl app_elf_conditions app_transpiled app_guest_start(2-4)
        example.await_call keeps_code_example app_guest_ends]) simp_all

text \<open>
  C2: The same for a guest that does not end: under the conditions of the previous property on the
  file, the state, the handler and every instruction that is executed, if the RISC-V code goes on for
  ever, through whatever system calls and interrupts, then the loop of the host does not return: no
  limit, no lost padding and no mistranslated instruction stops the guest.
\<close>

theorem elf_guest_runs_forever:
  fixes minimal_parse :: "u8 list \<Rightarrow> 'p + ('p, 'k) ElfBytes"
  assumes W: "32 \<le> W"
    and elf: "minimal_parse elf = Inr elf_bytes" "section_data_sized elf_bytes"
      "skip_test_exact elf_bytes" "in_order (elf_layout elf_bytes)"
    and t: "transpile_elf minimal_parse elf output = (Inr n, output')"
    and s: "take (unat n) (code (memory s)) = take (unat n) output'" "length (code (memory s)) \<le> 2 ^ 31"
      "read_x s 0 = 0"
    and f: "\<And>nr args m c fut m' c'. async_call A nr args m c = (fut, m', c') \<Longrightarrow>
      await_handler A fut m' c' = Some (f nr args m c)" "keeps_code f"
    and "riscv_guest_forever (slice_memory_ops W) f v (elf_layout elf_bytes) s c"
  shows "host_loop (slice_memory_ops W) A v s c = None"
proof (cases "host_loop (slice_memory_ops W) A v s c")
  case (Some y)
  have "blocking_handler A f" using f(1) by (rule blocking_handler.intro)
  with Some obtain k where "host_steps (slice_memory_ops W) f v k s c = Some y"
    by (auto simp: blocking_handler.host_loop_iff)
  with guest_forever [OF assms(12) W f(2) elf_guest_loaded [OF elf(1-3) t elf(4) s]] show ?thesis
    by simp
qed

theorem elf_guest_runs_forever_witness:
  "host_loop (slice_memory_ops 64) (example_syscall_async (slice_memory_ops 64) 1) 10
     (elf_machine (calling_embive @ [0, 0]) 0) () = None"
proof -
  let ?s = "elf_machine (calling_embive @ [0, 0]) 0"
  have "code (memory ?s) = calling_embive @ [0, 0]" "length (calling_embive @ [0, 0]) \<le> 2 ^ 31"
    "read_x ?s 0 = 0" "program_counter ?s = 0"
    by (simp_all add: elf_machine_def interpreter_new_def calling_embive_def read_x_def
        registers_default_def cpu_default_def)
  moreover have "in_order (elf_layout (call_elf calling_riscv))"
    by (simp add: calling_transpiled(2) call_layout_in_order calling_embive_def)
  ultimately show ?thesis
    by (intro elf_guest_runs_forever [OF _ refl call_elf_sized call_elf_exact _ calling_transpiled(1) _ _ _
          example.await_call keeps_code_example])
       (simp_all add: calling_transpiled(2) calling_guest_forever [OF example_syscall_answers])
qed

section \<open>From the ELF file to its execution\<close>

text \<open>
  Transpiling an ELF file and running the binary is executing the RISC-V program in it: take a
  file under the conditions above, the binary that \<open>transpile_elf\<close> makes of it as the code
  region of an interpreter, and one of its executable sections. If the RISC-V code of that section,
  executed after the specification at the offset of the section, from the state of the interpreter
  on, comes to an instruction that stops it, be it a system call, a breakpoint, a wait or an error,
  then \<open>run\<close> without an instruction limit returns, with that result and in that state. The padding
  that the transpiler adds, or the section that follows, makes the last instruction fetchable.
\<close>

theorem elf_program_executes_riscv:
  fixes minimal_parse :: "u8 list \<Rightarrow> 'p + ('p, 'c) ElfBytes"
  assumes "32 \<le> W"
    and elf: "minimal_parse elf = Inr elf_bytes" "section_data_sized elf_bytes"
      "skip_test_exact elf_bytes"
    and t: "transpile_elf minimal_parse elf output = (Inr n, output')"
    and layout: "in_order (elf_layout elf_bytes)" "q \<in> set (elf_layout elf_bytes)" "executable q"
    and s: "take (unat n) (code (memory s)) = take (unat n) output'" "length (code (memory s)) \<le> 2 ^ 31"
    and "instruction_limit s = 0" "read_x s 0 = 0"
    and "riscv_stops (slice_memory_ops W) (placed_at q) (original q) s r u"
  shows "run (slice_memory_ops W) s = Some (r, u)"
proof -
  have sized: "\<And>e. minimal_parse elf = Inr e \<Longrightarrow> section_data_sized e"
    and exact: "\<And>e. minimal_parse elf = Inr e \<Longrightarrow> skip_test_exact e"
    using elf by simp_all
  obtain e where e: "minimal_parse elf = Inr e" "elf_image e output = (unat n, output')"
      "unat n \<le> length output" "\<forall>q\<in>set (elf_layout e). placed_end q \<le> length output"
    by (rule transpile_elf_image [OF sized exact t])
  then have e_eq: "e = elf_bytes" using elf by simp
  have len: "length output = length output'" using transpile_elf_bounds [OF sized t] by simp
  have "loaded (asks_padding q) (placed_at q) (transpiled q) s"
    using elf_loaded [OF e(2)] e(3,4) len layout s by (simp add: e_eq)
  from transpiled_riscv_stops [OF assms(1) layout_transpiled [OF layout(2,3)] this assms(12,13)]
  show ?thesis using assms(11) by (simp add: run_def)
qed

section \<open>Transpiler and interpreter together\<close>

text \<open>
  C4: Step by step: if \<open>transpile_raw\<close> accepts the code, and the interpreter stands at an instruction
  boundary of it with the result in its code region, with two bytes after it if padding was asked for,
  then a step has the meaning that the RISC-V specification gives to the instruction word at that place
  of the original code: the whole effect on registers, memory and program counter, the memory errors,
  and the state reported to the host. It covers RV32IMAC with Zicsr and \<open>mret\<close>.

  The conditions: x0 holds zero, the specification gives the word a meaning, and the instruction
  \<open>conforms\<close>: it is no load, \<open>c.mv\<close> or \<open>c.add\<close> with destination x0, no indirect jump to an odd address,
  no atomic instruction on a misaligned address, no write to a read-only control and status register
  nor an access to these registers when they hold illegal values, and no \<open>mret\<close> with MPIE clear or an
  odd \<open>mepc\<close>. In these cases the code does something else than RISC-V.
\<close>

theorem transpiled_program_executes_riscv:
  fixes prog :: "u8 list" and s :: "SliceMemory Interpreter"
  assumes "32 \<le> W"
    and "(transpile_raw prog :: (('p, 'c) Failure, bool, u8 list) outcome) = (Inr p, prog')"
    and "loaded p base prog' s"
    and "boundary prog i" "i + 2 \<le> length prog"
    and "program_counter s = of_nat (base + i)"
    and "rv_exec (slice_memory_ops W) (riscv_word (drop i prog)) s = Some r"
      "conforms (riscv_word (drop i prog)) s"
    and "read_x s 0 = 0"
  shows "step (slice_memory_ops W) s = r"
  using assms by (rule transpiled_step)

text \<open>Two programs: \<open>small_riscv\<close>, and \<open>text_riscv\<close> with \<open>c.addi x1, 1\<close> and \<open>c.ebreak\<close>.\<close>

definition small_program :: "SliceMemory Interpreter" where
  "small_program = (interpreter_new \<lparr>code = small_embive, ram = []\<rparr> 0)\<lparr>program_counter := 2\<rparr>"

lemma small_loaded: "loaded False 0 small_embive small_program"
  by (simp add: loaded_def Let_def small_program_def interpreter_new_def slice_get_def small_embive_def)

lemma small_addi:
  "riscv_word (drop 2 small_riscv) = 0x00108093"
  "rv_instruction 0x00108093 = Some (RvOpImm 0 0 1 1 1)" "rv_length 0x00108093 = 4"
  by code_simp+

lemma small_reads: "read_x small_program 0 = 0" "rv_read small_program 1 = 0"
  by (simp_all add: rv_read_def read_x_def small_program_def interpreter_new_def
      registers_default_def cpu_default_def)

theorem transpiled_program_executes_riscv_witness:
  "step (slice_memory_ops 64) small_program = goto 6 (write_x 1 1 small_program)"
proof -
  have pc: "program_counter small_program = 2" by (simp add: small_program_def)
  have "rv_exec (slice_memory_ops 64) (riscv_word (drop 2 small_riscv)) small_program =
      Some (goto 6 (write_x 1 1 small_program))"
    by (simp add: small_addi rv_exec_def expansion_alu small_reads pc)
  moreover have "conforms (riscv_word (drop 2 small_riscv)) small_program"
    by (simp add: small_addi conforms_def)
  ultimately show ?thesis
    using small_reads(1) pc
    by (intro transpiled_program_executes_riscv [OF _ small_transpiled small_loaded small_boundary])
       (simp_all add: small_riscv_def)
qed

text \<open>
  C30: For every instruction of an accepted program, also those the specification leaves out or
  \<open>conforms\<close> excludes, a step of the interpreter at its place executes the well-formed instruction that
  its word was converted to, with no interference from the bytes around it: the fetch succeeds, also
  for a 16-bit instruction at the end of padded code.
\<close>

theorem transpiled_instruction_runs:
  fixes prog :: "u8 list" and s :: "SliceMemory Interpreter"
  assumes "32 \<le> W"
    and "(transpile_raw prog :: (('p, 'c) Failure, bool, u8 list) outcome) = (Inr p, prog')"
    and "loaded p base prog' s"
    and "boundary prog i" "i + 2 \<le> length prog"
    and "program_counter s = of_nat (base + i)"
  shows "\<exists>inst. inst_wf inst
    \<and> (convert (riscv_word (drop i prog)) :: ('p, 'c) converted) = Inr (embive_raw inst)
    \<and> step (slice_memory_ops W) s = execute (slice_memory_ops W) inst s"
proof -
  obtain inst where "inst_wf inst"
      "(convert (riscv_word (drop i prog)) :: ('p, 'c) converted) = Inr (embive_raw inst)"
      "step (slice_memory_ops W) s = execute (slice_memory_ops W) inst s"
    using assms by (rule transpiled_fetch)
  then show ?thesis by blast
qed

theorem transpiled_instruction_runs_witness:
  "\<exists>inst. step (slice_memory_ops 64) small_program = execute (slice_memory_ops 64) inst small_program"
  using transpiled_instruction_runs [OF _ small_transpiled small_loaded small_boundary, of 64]
  by (auto simp: small_riscv_def small_program_def)

text \<open>
  C3: Transpiling a code buffer and running it is executing its RISC-V code: if the RISC-V program,
  executed after the specification from the state of the interpreter on, stops, then \<open>run\<close> without an
  instruction limit returns with that result and in that state. The transpiled code is at the offset
  \<open>base\<close> of the code region, with two more bytes after it if \<open>transpile_raw\<close> asks for padding.

  The conditions: x0 holds zero at the start, and every instruction on the way begins at an instruction of
  the code, has a meaning in the specification and \<open>conforms\<close>: it is no load, \<open>c.mv\<close> or \<open>c.add\<close> with
  destination x0, no indirect jump to an odd address, no atomic instruction on a misaligned address, no
  write to a read-only control and status register nor an access to these registers when they hold
  illegal values, and no \<open>mret\<close> with MPIE clear or an odd \<open>mepc\<close>.
\<close>

theorem transpiled_run_executes_riscv:
  assumes "32 \<le> W"
    and "(transpile_raw prog :: (('p, 'c) Failure, bool, u8 list) outcome) = (Inr p, prog')"
    and "loaded p base prog' s" "instruction_limit s = 0" "read_x s 0 = 0"
    and "riscv_stops (slice_memory_ops W) base prog s r u"
  shows "run (slice_memory_ops W) s = Some (r, u)"
  using transpiled_riscv_stops [OF assms(1-3,5,6)] assms(4) by (simp add: run_def)

text \<open>A program that runs to its end, at the start of the code region.\<close>

definition ending_program :: "SliceMemory Interpreter" where
  "ending_program = elf_machine (text_embive @ [1, 2]) 0"

lemma text_words:
  "riscv_word text_riscv = 0x90020085" "riscv_word (drop 2 text_riscv) = 0x9002"
  "rv_instruction 0x90020085 = Some (RvOpImm 0 0 1 1 1)" "rv_instruction 0x9002 = Some RvEbreak"
  "rv_length 0x90020085 = 2" "rv_length 0x9002 = 2"
  by code_simp+

lemma ending_program_start:
  "loaded True 0 text_embive ending_program" "instruction_limit ending_program = 0"
  "read_x ending_program 0 = 0"
  by (simp_all add: loaded_def Let_def ending_program_def elf_machine_def interpreter_new_def
      slice_get_def text_embive_def registers_default_def cpu_default_def read_x_def)

lemma ending_program_stops:
  "riscv_stops (slice_memory_ops 64) 0 text_riscv ending_program
     (Inr Halted) ((write_x 1 1 ending_program)\<lparr>program_counter := 4\<rparr>)"
proof -
  define t where "t = (write_x 1 1 ending_program)\<lparr>program_counter := 2\<rparr>"
  have s: "program_counter ending_program = 0" "rv_read ending_program 1 = 0"
    "program_counter t = 2" "t\<lparr>program_counter := 4\<rparr> = (write_x 1 1 ending_program)\<lparr>program_counter := 4\<rparr>"
    by (simp_all add: t_def ending_program_def elf_machine_def interpreter_new_def registers_default_def
        cpu_default_def rv_read_def read_x_def write_x_def)
  have b: "boundary text_riscv 0" "boundary text_riscv 2"
    using boundary_start boundary_next [OF boundary_start, of text_riscv]
    by (simp_all add: text_riscv_def riscv_length_def numeral_2_eq_2)
  have len: "length text_riscv = 4" by (simp add: text_riscv_def)
  have at: "at_instruction 0 text_riscv ending_program" "at_instruction 0 text_riscv t"
    by (simp_all add: at_instruction_def s b len text_words conforms_def)
  have "riscv_step (slice_memory_ops 64) 0 text_riscv ending_program = Some (Inr Running, t)"
    by (simp add: riscv_step_def rv_exec_def s text_words expansion_alu goto_def t_def)
  then have "riscv_run (slice_memory_ops 64) 0 text_riscv ending_program t"
    using at(1) by (blast intro: riscv_run.intros)
  moreover have "riscv_step (slice_memory_ops 64) 0 text_riscv t = Some (Inr Halted, t\<lparr>program_counter := 4\<rparr>)"
    by (simp add: riscv_step_def rv_exec_def s(3) text_words)
  ultimately show ?thesis using at(2) by (auto simp: riscv_stops_def s(4))
qed

theorem transpiled_run_executes_riscv_witness:
  "run (slice_memory_ops 64) ending_program =
     Some (Inr Halted, (write_x 1 1 ending_program)\<lparr>program_counter := 4\<rparr>)"
  using transpiled_run_executes_riscv [OF _ text_transpiled ending_program_start ending_program_stops]
  by simp

text \<open>The same program in an ELF file.\<close>

theorem elf_program_executes_riscv_witness:
  "run (slice_memory_ops 64) ending_program =
     Some (Inr Halted, (write_x 1 1 ending_program)\<lparr>program_counter := 4\<rparr>)"
proof -
  define q where "q = hd small_layout"
  have q: "q \<in> set small_layout" "executable q" "placed_at q = 0" "original q = text_riscv"
    by (simp_all add: q_def small_layout_def)
  have "take (unat (6 :: usize)) (code (memory ending_program)) =
      take (unat (6 :: usize)) (text_embive @ [1, 2, 0, 0])"
    "length (code (memory ending_program)) \<le> 2 ^ 31"
    by (simp_all add: ending_program_def elf_machine_def interpreter_new_def text_embive_def)
  with elf_program_executes_riscv [OF _ refl small_elf_sized small_elf_exact small_elf_transpiled(1),
      of 64 q ending_program "Inr Halted" "(write_x 1 1 ending_program)\<lparr>program_counter := 4\<rparr>"]
    ending_program_start(2,3) ending_program_stops q small_layout_in_order(1)
  show ?thesis by (simp add: small_elf_layout)
qed

end
